(* ===== verification/Prelude.thy ===== *)
theory Prelude
  imports
    Main
    "HOL-Library.Word"
    "HOL-Library.AList"
    "HOL-Library.Char_ord"
    "HOL-Library.List_Lexorder"
    "HOL-Library.Product_Lexorder"
    "HOL-Library.Multiset"
begin

text \<open>
  Shared vocabulary of the development: the basic types of the Go code, Go maps as
  association lists, the entropy source, and the hint collections the component theories
  fill. Times are counted in nanoseconds from Go's zero time (so \<open>t.IsZero()\<close> is
  \<open>t = 0\<close>), durations in nanoseconds, bytes are 8-bit words and Go strings are byte
  strings (a character is a byte).
\<close>

unbundle bit_operations_syntax

named_theorems go_string_simps
named_theorems store_simps
named_theorems policy_simps
named_theorems acme_simps

section \<open>Basic types\<close>

type_synonym byte = "8 word"
type_synonym go_time = int
type_synonym duration = int

abbreviation second :: duration where
  "second \<equiv> 1000000000"

abbreviation minute :: duration where
  "minute \<equiv> 60000000000"

abbreviation hour :: duration where
  "hour \<equiv> 3600000000000"

text \<open>The encodings that keep whole seconds only (ASN.1 times, most database columns).\<close>

definition trunc_second :: "go_time \<Rightarrow> go_time" where
  "trunc_second t = t - t mod second"

lemma trunc_second_bounds: "trunc_second t \<le> t \<and> t < trunc_second t + second"
  using pos_mod_bound [of second t] pos_mod_sign [of second t] by (simp add: trunc_second_def)

lemma trunc_second_mono: "s \<le> t \<Longrightarrow> trunc_second s \<le> trunc_second t"
proof -
  assume "s \<le> t"
  then have "s div second \<le> t div second" by (rule zdiv_mono1) simp
  then show ?thesis by (simp add: trunc_second_def minus_mod_eq_mult_div)
qed

text \<open>How a call ends that may panic: it returns, an error value included, or it unwinds the stack.\<close>

datatype 'a go_call = Returns 'a | Panics

text \<open>
  A \<open>context.Context\<close> is read through \<open>ctx.Err()\<close> only: None is the nil error of a
  live context.
\<close>

datatype ctx_error = Canceled | DeadlineExceeded

type_synonym ctx = "ctx_error option"

text \<open>\<open>t.UnixNano()\<close> and \<open>t.UnixMilli()\<close>: from 1970 on, Go's zero time being the year 1.\<close>

definition unix_nano :: "go_time \<Rightarrow> int" where
  "unix_nano t = t - 62135596800 * second"

definition unix_milli :: "go_time \<Rightarrow> int" where
  "unix_milli t = unix_nano t div 1000000"

section \<open>Go maps\<close>

text \<open>
  A Go map is an association list with distinct keys: lookup is \<^const>\<open>map_of\<close>,
  assignment replaces the entry or adds one, and a \<open>range\<close> loop visits the entries in
  an order the language leaves open (theorems about such loops quantify over the order).
\<close>

type_synonym ('k, 'v) gomap = "('k \<times> 'v) list"

definition gm_set :: "'k \<Rightarrow> 'v \<Rightarrow> ('k, 'v) gomap \<Rightarrow> ('k, 'v) gomap" where
  "gm_set k v m = AList.update k v m"

definition gm_del :: "'k \<Rightarrow> ('k, 'v) gomap \<Rightarrow> ('k, 'v) gomap" where
  "gm_del k m = AList.delete k m"

definition gm_wf :: "('k, 'v) gomap \<Rightarrow> bool" where
  "gm_wf m = distinct (map fst m)"

lemma map_of_gm_set [simp]: "map_of (gm_set k v m) = (map_of m)(k \<mapsto> v)"
  by (simp add: gm_set_def AList.update_conv')

lemma map_of_gm_del [simp]: "map_of (gm_del k m) = (map_of m)(k := None)"
  by (simp add: gm_del_def AList.delete_conv')

lemma gm_wf_Nil [simp]: "gm_wf []"
  by (simp add: gm_wf_def)

lemma gm_wf_set [simp, intro]: "gm_wf m \<Longrightarrow> gm_wf (gm_set k v m)"
  by (simp add: gm_wf_def gm_set_def AList.distinct_update)

lemma gm_wf_del [simp, intro]: "gm_wf m \<Longrightarrow> gm_wf (gm_del k m)"
  by (simp add: gm_wf_def gm_del_def AList.distinct_delete)

lemma gm_wf_mem_iff: "gm_wf m \<Longrightarrow> (k, v) \<in> set m \<longleftrightarrow> map_of m k = Some v"
  by (simp add: gm_wf_def)

lemma gm_wf_ran: "gm_wf m \<Longrightarrow> v \<in> snd ` set m \<longleftrightarrow> (\<exists>k. map_of m k = Some v)"
  by (force simp: gm_wf_def)

lemma gm_keys_set [simp]: "fst ` set (gm_set k v m) = insert k (fst ` set m)"
  by (metis dom_map_of_conv_image_fst dom_fun_upd map_of_gm_set option.distinct(1))

section \<open>The entropy source\<close>

text \<open>
  \<open>crypto/rand\<close> is a byte source: a read of \<open>n\<close> bytes takes the next \<open>n\<close> bytes or,
  where the source has fewer, fails as a read error does. A model function that draws
  random bytes takes the source and returns what is left of it.
\<close>

type_synonym entropy = "byte list"

definition rand_read :: "nat \<Rightarrow> entropy \<Rightarrow> (byte list \<times> entropy) option" where
  "rand_read n e = (if length e < n then None else Some (take n e, drop n e))"

lemma rand_read_length: "rand_read n e = Some (bs, e') \<Longrightarrow> length bs = n \<and> length e = n + length e'"
  by (auto simp: rand_read_def split: if_splits)

lemma rand_read_append: "length bs = n \<Longrightarrow> rand_read n (bs @ e) = Some (bs, e)"
  by (simp add: rand_read_def)

section \<open>Lists\<close>

lemma nth_index_unique:
  assumes "distinct xs" and "i < length xs" and "j < length xs" and "xs ! i = xs ! j"
  shows "i = j"
  using assms by (simp add: nth_eq_iff_index_eq)

lemma nth_update_if: "j < length xs \<Longrightarrow> xs[i := x] ! j = (if i = j then x else xs ! j)"
  by (cases "i = j") simp_all

text \<open>A loop that returns the first error of a check, and nil when every element passes.\<close>

fun first_err :: "('a \<Rightarrow> 'e option) \<Rightarrow> 'a list \<Rightarrow> 'e option" where
  "first_err chk [] = None"
| "first_err chk (x # xs) = (case chk x of Some e \<Rightarrow> Some e | None \<Rightarrow> first_err chk xs)"

lemma first_err_None [simp]: "first_err chk xs = None \<longleftrightarrow> (\<forall>x \<in> set xs. chk x = None)"
  by (induction xs) (auto split: option.splits)

lemma first_err_Some: "first_err chk xs = Some e \<Longrightarrow> \<exists>x \<in> set xs. chk x = Some e"
  by (induction xs) (auto split: option.splits)

lemma list_all_take: "list_all P xs \<Longrightarrow> list_all P (take n xs)"
  by (auto simp: list_all_iff dest: in_set_takeD)

end
