(* ===== verification/Go_Strings.thy ===== *)
theory Go_Strings
  imports Prelude
begin

text \<open>
  The operations of Go's \<open>strings\<close> package that the code uses, on strings as the byte sequences they
  are in Go: prefix and suffix tests, trimming (of Unicode white space in its UTF-8 encoding),
  lower-casing (of ASCII letters), substring search and splitting at a character. The lemmas say
  what trimming removes and how trimming and lower-casing act on the lower-case hexadecimal
  strings that serial numbers are.
\<close>

definition bytes_of :: "string \<Rightarrow> byte list" where
  "bytes_of s = map (\<lambda>c. word_of_nat (of_char c)) s"

definition string_of :: "byte list \<Rightarrow> string" where
  "string_of bs = map (\<lambda>b. char_of (unat b)) bs"

definition has_prefix :: "string \<Rightarrow> string \<Rightarrow> bool" where
  "has_prefix s p = (take (length p) s = p)"

definition has_suffix :: "string \<Rightarrow> string \<Rightarrow> bool" where
  "has_suffix s p = has_prefix (rev s) (rev p)"

definition trim_prefix :: "string \<Rightarrow> string \<Rightarrow> string" where
  "trim_prefix s p = (if has_prefix s p then drop (length p) s else s)"

definition trim_suffix :: "string \<Rightarrow> string \<Rightarrow> string" where
  "trim_suffix s p = (if has_suffix s p then take (length s - length p) s else s)"

fun contains_str :: "string \<Rightarrow> string \<Rightarrow> bool" where
  "contains_str [] p = (p = [])"
| "contains_str (c # cs) p = (has_prefix (c # cs) p \<or> contains_str cs p)"

text \<open>
  \<open>strings.TrimSpace\<close> removes from both ends the characters of \<open>unicode.IsSpace\<close>: tab, newline, vertical
  tab, form feed, carriage return, space, U+0085, U+00A0 and the property \<open>White_Space\<close> (U+1680, U+2000 to
  U+200A, U+2028, U+2029, U+202F, U+205F, U+3000), here in UTF-8. A byte sequence begins (ends) with one
  of them exactly when its first (last) decoded rune is one: decoding a valid encoding is unambiguous, and
  an invalid byte decodes to U+FFFD, which is no space.
\<close>

definition space_runes :: "string list" where
  "space_runes =
     [[CHR 0x09], [CHR 0x0A], [CHR 0x0B], [CHR 0x0C], [CHR 0x0D], [CHR 0x20],
      [CHR 0xC2, CHR 0x85], [CHR 0xC2, CHR 0xA0], [CHR 0xE1, CHR 0x9A, CHR 0x80],
      [CHR 0xE2, CHR 0x80, CHR 0x80], [CHR 0xE2, CHR 0x80, CHR 0x81], [CHR 0xE2, CHR 0x80, CHR 0x82],
      [CHR 0xE2, CHR 0x80, CHR 0x83], [CHR 0xE2, CHR 0x80, CHR 0x84], [CHR 0xE2, CHR 0x80, CHR 0x85],
      [CHR 0xE2, CHR 0x80, CHR 0x86], [CHR 0xE2, CHR 0x80, CHR 0x87], [CHR 0xE2, CHR 0x80, CHR 0x88],
      [CHR 0xE2, CHR 0x80, CHR 0x89], [CHR 0xE2, CHR 0x80, CHR 0x8A], [CHR 0xE2, CHR 0x80, CHR 0xA8],
      [CHR 0xE2, CHR 0x80, CHR 0xA9], [CHR 0xE2, CHR 0x80, CHR 0xAF], [CHR 0xE2, CHR 0x81, CHR 0x9F],
      [CHR 0xE3, CHR 0x80, CHR 0x80]]"

text \<open>A byte that occurs in one of them.\<close>

definition space_byte :: "char \<Rightarrow> bool" where
  "space_byte c = (c \<in> set (concat space_runes))"

text \<open>Dropping the words of a list from the front of a string, as long as one of them is there.\<close>

lemma has_prefix_drop: "w \<noteq> [] \<Longrightarrow> has_prefix s w \<Longrightarrow> length (drop (length w) s) < length s"
  by (cases s; cases w) (simp_all add: has_prefix_def less_Suc_eq_le)

function trim_front :: "string list \<Rightarrow> string \<Rightarrow> string" where
  "trim_front ws s =
     (case List.find (\<lambda>w. w \<noteq> [] \<and> has_prefix s w) ws of
        None \<Rightarrow> s
      | Some w \<Rightarrow> trim_front ws (drop (length w) s))"
  by pat_completeness auto

termination
  by (relation "measure (\<lambda>(_, s). length s)") (auto simp: find_Some_iff simp del: length_drop intro!: has_prefix_drop)

declare trim_front.simps [simp del]

definition trim_space :: "string \<Rightarrow> string" where
  "trim_space s = rev (trim_front (map rev space_runes) (rev (trim_front space_runes s)))"

definition lower_char :: "char \<Rightarrow> char" where
  "lower_char c =
     (let n = (of_char c :: nat) in if 65 \<le> n \<and> n \<le> 90 then char_of (n + 32) else c)"

definition to_lower :: "string \<Rightarrow> string" where
  "to_lower s = map lower_char s"

text \<open>\<open>strings.LastIndex(s, "/")\<close> followed by the cut \<open>s[idx+1:]\<close>.\<close>

definition after_last :: "char \<Rightarrow> string \<Rightarrow> string" where
  "after_last c s = rev (takeWhile (\<lambda>x. x \<noteq> c) (rev s))"

fun join_with :: "string \<Rightarrow> string list \<Rightarrow> string" where
  "join_with sep [] = []"
| "join_with sep [x] = x"
| "join_with sep (x # y # ys) = x @ sep @ join_with sep (y # ys)"

text \<open>Decimal text of integers (\<open>%d\<close>, \<open>strconv.Itoa\<close>) and of booleans (\<open>%t\<close>).\<close>

fun dec_nat :: "nat \<Rightarrow> string" where
  "dec_nat n = (if n < 10 then [char_of (48 + n)] else dec_nat (n div 10) @ [char_of (48 + n mod 10)])"

declare dec_nat.simps [simp del]

definition dec_int :: "int \<Rightarrow> string" where
  "dec_int n = (if n < 0 then CHR ''-'' # dec_nat (nat (- n)) else dec_nat (nat n))"

definition bool_text :: "bool \<Rightarrow> string" where
  "bool_text b = (if b then ''true'' else ''false'')"

section \<open>Prefixes and suffixes\<close>

lemma has_prefix_append [simp, go_string_simps]: "has_prefix (p @ s) p"
  by (simp add: has_prefix_def)

lemma has_prefix_iff: "has_prefix s p \<longleftrightarrow> (\<exists>r. s = p @ r)"
  unfolding has_prefix_def by (metis append_eq_conv_conj append_take_drop_id)

lemma has_prefix_append_cases:
  assumes "has_prefix (s @ t) w"
  shows "has_prefix s w \<or> (\<exists>c u. w = s @ c # u \<and> has_prefix t (c # u))"
proof (cases "length w \<le> length s")
  case True
  then show ?thesis using assms by (simp add: has_prefix_def)
next
  case False
  then have w: "w = s @ take (length w - length s) t" using assms by (simp add: has_prefix_def)
  moreover have "drop (length s) w \<noteq> []" using False by simp
  moreover have "drop (length s) w = take (length w - length s) t" using w by (metis append_eq_conv_conj)
  moreover have "has_prefix t (take (length w - length s) t)" by (simp add: has_prefix_def min_def)
  ultimately show ?thesis by (metis neq_Nil_conv)
qed

lemma has_suffix_iff: "has_suffix s p \<longleftrightarrow> (\<exists>r. s = r @ p)"
  unfolding has_suffix_def has_prefix_iff
  by (metis rev_append rev_rev_ident)

lemma has_suffix_append [simp, go_string_simps]: "has_suffix (s @ p) p"
  by (auto simp: has_suffix_iff)

lemma has_prefix_set: "has_prefix s p \<Longrightarrow> set p \<subseteq> set s"
  by (auto simp: has_prefix_iff)

lemma trim_prefix_append [simp, go_string_simps]: "trim_prefix (p @ s) p = s"
  by (simp add: trim_prefix_def)

lemma trim_suffix_append [simp, go_string_simps]: "trim_suffix (s @ p) p = s"
  by (simp add: trim_suffix_def)

lemma trim_prefix_Nil [simp]: "trim_prefix [] p = []"
  by (simp add: trim_prefix_def)

lemma has_prefix_Cons: "has_prefix (c # cs) (d # ds) \<longleftrightarrow> c = d \<and> has_prefix cs ds"
  by (simp add: has_prefix_def)

lemma contains_str_iff: "contains_str s p \<longleftrightarrow> (\<exists>a b. s = a @ p @ b)"
proof (induction s)
  case Nil
  show ?case by auto
next
  case (Cons c cs)
  show ?case
  proof
    assume "contains_str (c # cs) p"
    then consider "has_prefix (c # cs) p" | "contains_str cs p" by auto
    then show "\<exists>a b. c # cs = a @ p @ b"
    proof cases
      case 1
      then obtain r where "c # cs = p @ r" by (auto simp: has_prefix_iff)
      then have "c # cs = [] @ p @ r" by simp
      then show ?thesis by blast
    next
      case 2
      then obtain a b where "cs = a @ p @ b" using Cons.IH by auto
      then have "c # cs = (c # a) @ p @ b" by simp
      then show ?thesis by blast
    qed
  next
    assume "\<exists>a b. c # cs = a @ p @ b"
    then obtain a b where ab: "c # cs = a @ p @ b" by blast
    show "contains_str (c # cs) p"
    proof (cases a)
      case Nil
      with ab have "has_prefix (c # cs) p" by (simp add: has_prefix_iff)
      then show ?thesis by simp
    next
      case (Cons d ds)
      with ab have "cs = ds @ p @ b" by simp
      then show ?thesis using Cons.IH by auto
    qed
  qed
qed

lemma contains_char_iff: "contains_str s [c] \<longleftrightarrow> c \<in> set s"
  by (force simp: contains_str_iff in_set_conv_decomp)

section \<open>Trimming and lower-casing\<close>

text \<open>The words of a list none of which begins another: at most one of them is a prefix of a string.\<close>

definition prefix_free :: "string list \<Rightarrow> bool" where
  "prefix_free ws = (list_all (\<lambda>w. w \<noteq> [] \<and> list_all (\<lambda>v. has_prefix v w \<longrightarrow> v = w) ws) ws)"

lemma space_runes_prefix_free: "prefix_free space_runes" "prefix_free (map rev space_runes)"
  by code_simp+

text \<open>No byte inside a white-space sequence begins one.\<close>

lemma space_runes_inner: "list_all (\<lambda>w. list_all (\<lambda>c. c \<notin> set (map hd space_runes)) (tl w)) space_runes"
  by code_simp

lemma trim_front_stop: "(\<And>w. w \<in> set ws \<Longrightarrow> w \<noteq> [] \<Longrightarrow> \<not> has_prefix s w) \<Longrightarrow> trim_front ws s = s"
  by (subst trim_front.simps) (auto split: option.splits simp: find_Some_iff)

lemma trim_front_word:
  assumes "prefix_free ws" and "w \<in> set ws"
  shows "trim_front ws (w @ s) = trim_front ws s"
proof -
  let ?P = "\<lambda>v. v \<noteq> [] \<and> has_prefix (w @ s) v"
  have w: "?P w" using assms by (auto simp: prefix_free_def list_all_iff)
  then obtain v where v: "List.find ?P ws = Some v"
    using assms(2) by (cases "List.find ?P ws") (auto simp: find_None_iff)
  then have "v \<in> set ws" "has_prefix (w @ s) v" by (auto simp: find_Some_iff)
  then have "has_prefix w v \<or> has_prefix v w"
    unfolding has_prefix_iff by (metis append_eq_append_conv2)
  then have "v = w" using assms \<open>v \<in> set ws\<close> by (auto simp: prefix_free_def list_all_iff)
  then show ?thesis using v by (subst trim_front.simps) simp
qed

lemma trim_front_words:
  "prefix_free ws \<Longrightarrow> set ps \<subseteq> set ws \<Longrightarrow> trim_front ws (concat ps @ s) = trim_front ws s"
  by (induction ps) (simp_all add: trim_front_word)

lemma trim_front_split: "\<exists>ps. set ps \<subseteq> set ws \<and> s = concat ps @ trim_front ws s"
proof (induction ws s rule: trim_front.induct)
  case (1 ws s)
  show ?case
  proof (cases "List.find (\<lambda>w. w \<noteq> [] \<and> has_prefix s w) ws")
    case None
    then have "s = concat [] @ trim_front ws s" by (subst trim_front.simps) simp
    then show ?thesis by (metis empty_iff list.set(1) subsetI)
  next
    case (Some w)
    then have w: "w \<in> set ws" "s = w @ drop (length w) s"
      by (auto simp: find_Some_iff has_prefix_def) (metis append_take_drop_id)
    obtain ps where ps: "set ps \<subseteq> set ws" "drop (length w) s = concat ps @ trim_front ws (drop (length w) s)"
      using 1 [OF Some] by blast
    have "trim_front ws s = trim_front ws (drop (length w) s)"
      using Some by (subst trim_front.simps) simp
    then have "s = concat (w # ps) @ trim_front ws s" using w(2) ps(2) by simp
    moreover have "set (w # ps) \<subseteq> set ws" using w(1) ps(1) by simp
    ultimately show ?thesis by blast
  qed
qed

lemma trim_front_length: "length (trim_front ws s) \<le> length s"
  using trim_front_split [of ws s] by (metis add_diff_cancel_right' diff_le_self le_add2 length_append)

lemma trim_front_fixed:
  assumes "trim_front ws s = s" and "w \<in> set ws" and "w \<noteq> []"
  shows "\<not> has_prefix s w"
proof
  assume "has_prefix s w"
  then obtain v where v: "List.find (\<lambda>w. w \<noteq> [] \<and> has_prefix s w) ws = Some v"
    using assms(2,3) by (cases "List.find (\<lambda>w. w \<noteq> [] \<and> has_prefix s w) ws") (auto simp: find_None_iff)
  then have "v \<noteq> []" "has_prefix s v" by (auto simp: find_Some_iff)
  then have "length (drop (length v) s) < length s" by (rule has_prefix_drop)
  moreover have "trim_front ws s = trim_front ws (drop (length v) s)"
    using v by (subst trim_front.simps) simp
  ultimately show False
    using assms(1) trim_front_length [of ws "drop (length v) s"] by simp
qed

lemma trim_space_no_space:
  assumes "\<forall>c \<in> set s. \<not> space_byte c"
  shows "trim_space s = s"
proof -
  have a: "\<not> has_prefix s w" if "w \<in> set space_runes" "w \<noteq> []" for w
  proof
    assume "has_prefix s w"
    then have "hd w \<in> set s" using has_prefix_set that(2) by fastforce
    moreover have "space_byte (hd w)" using that by (auto simp: space_byte_def intro!: bexI [of _ w])
    ultimately show False using assms by blast
  qed
  have b: "\<not> has_prefix (rev s) w" if "w \<in> set (map rev space_runes)" "w \<noteq> []" for w
  proof
    assume "has_prefix (rev s) w"
    then have "hd w \<in> set s" using has_prefix_set [of "rev s" w] hd_in_set [OF that(2)] by auto
    moreover have "rev w \<in> set space_runes" using that(1) by auto
    then have "space_byte (hd w)" using hd_in_set [OF that(2)] by (auto simp: space_byte_def intro!: bexI [of _ "rev w"])
    ultimately show False using assms by blast
  qed
  have "trim_front space_runes s = s" by (rule trim_front_stop) (rule a)
  moreover have "trim_front (map rev space_runes) (rev s) = rev s" by (rule trim_front_stop) (rule b)
  ultimately show ?thesis by (simp add: trim_space_def)
qed

text \<open>What \<open>TrimSpace\<close> removes is white space, and it removes all of it.\<close>

lemma concat_rev_runes:
  assumes "set qs \<subseteq> set (map rev ws)"
  shows "set (rev (map rev qs)) \<subseteq> set ws" and "rev (concat qs) = concat (rev (map rev qs))"
  using assms by (auto simp: rev_concat rev_map)

lemma trim_space_split:
  "\<exists>pre suf. set pre \<subseteq> set space_runes \<and> set suf \<subseteq> set space_runes \<and>
     s = concat pre @ trim_space s @ concat suf"
proof -
  let ?t = "trim_front space_runes s"
  obtain pre where pre: "set pre \<subseteq> set space_runes" "s = concat pre @ ?t"
    using trim_front_split by blast
  obtain qs where qs: "set qs \<subseteq> set (map rev space_runes)" "rev ?t = concat qs @ rev (trim_space s)"
    using trim_front_split [of "map rev space_runes" "rev ?t"] by (auto simp: trim_space_def)
  have "?t = trim_space s @ concat (rev (map rev qs))"
    using arg_cong [OF qs(2), of rev] concat_rev_runes(2) [OF qs(1)] by simp
  then show ?thesis using pre concat_rev_runes(1) [OF qs(1)] by metis
qed

lemma trim_space_fixed:
  assumes "trim_space s = s"
  shows "trim_front space_runes s = s" and "trim_front (map rev space_runes) (rev s) = rev s"
proof -
  have "length (trim_space s) \<le> length (trim_front space_runes s)"
    using trim_front_length by (metis length_rev trim_space_def)
  moreover obtain ps where "s = concat ps @ trim_front space_runes s"
    using trim_front_split by blast
  ultimately show f: "trim_front space_runes s = s"
    using assms by (metis append_eq_conv_conj append_self_conv2 le_antisym length_append le_add2 length_0_conv
        add_cancel_left_left)
  show "trim_front (map rev space_runes) (rev s) = rev s"
    using assms f by (metis rev_rev_ident trim_space_def)
qed

lemma trim_space_pad:
  assumes pre: "set pre \<subseteq> set space_runes" and suf: "set suf \<subseteq> set space_runes" and k: "trim_space k = k"
  shows "trim_space (concat pre @ k @ concat suf) = k"
proof -
  have r: "rev (concat suf) = concat (rev (map rev suf))" "set (rev (map rev suf)) \<subseteq> set (map rev space_runes)"
    using suf by (auto simp: rev_concat rev_map)
  have rest: "trim_front (map rev space_runes) (rev (k @ concat suf)) = rev k"
    using trim_front_words [OF space_runes_prefix_free(2) r(2)] trim_space_fixed(2) [OF k] by (simp add: r(1))
  show ?thesis
  proof (cases "k = []")
    case True
    have "trim_front space_runes [] = []" using trim_front_length [of space_runes "[]"] by simp
    then have "trim_front space_runes (concat suf) = []"
      using trim_front_words [OF space_runes_prefix_free(1) suf, of "[]"] by simp
    moreover have "trim_front (map rev space_runes) [] = []"
      using trim_front_length [of "map rev space_runes" "[]"] by simp
    ultimately show ?thesis
      using True trim_front_words [OF space_runes_prefix_free(1) pre] by (simp add: trim_space_def)
  next
    case False
    have "\<not> has_prefix (k @ concat suf) w" if w: "w \<in> set space_runes" "w \<noteq> []" for w
    proof
      assume "has_prefix (k @ concat suf) w"
      then have "has_prefix k w \<or> (\<exists>c u. w = k @ c # u \<and> has_prefix (concat suf) (c # u))"
        by (rule has_prefix_append_cases)
      then obtain c u where c: "w = k @ c # u" "has_prefix (concat suf) (c # u)"
        using trim_front_fixed [OF trim_space_fixed(1) [OF k] w] by blast
      then obtain v vs where v: "concat suf = concat (v # vs)" "v \<in> set space_runes"
        using suf by (cases suf) (auto simp: has_prefix_def)
      moreover have "v \<noteq> []" using v(2) space_runes_prefix_free(1) by (auto simp: prefix_free_def list_all_iff)
      ultimately have "c = hd v" using c(2) by (cases v) (auto simp: has_prefix_def)
      moreover have "c \<in> set (tl w)" using c(1) False by (cases k) auto
      ultimately show False using space_runes_inner w(1) v(2) by (auto simp: list_all_iff)
    qed
    then have "trim_front space_runes (k @ concat suf) = k @ concat suf" by (rule trim_front_stop)
    then show ?thesis
      using trim_front_words [OF space_runes_prefix_free(1) pre] rest by (simp add: trim_space_def)
  qed
qed

lemma lower_char_idem [simp]: "lower_char (lower_char c) = lower_char c"
  by (auto simp: lower_char_def Let_def)

lemma to_lower_idem [simp]: "to_lower (to_lower s) = to_lower s"
  by (simp add: to_lower_def)

lemma to_lower_append [simp]: "to_lower (s @ t) = to_lower s @ to_lower t"
  by (simp add: to_lower_def)

lemma length_to_lower [simp]: "length (to_lower s) = length s"
  by (simp add: to_lower_def)

lemma to_lower_id: "\<forall>c \<in> set s. lower_char c = c \<Longrightarrow> to_lower s = s"
  by (simp add: to_lower_def map_idI)

section \<open>Strings and bytes\<close>

lemma string_of_bytes_of [simp]: "string_of (bytes_of s) = s"
proof -
  have "char_of (unat (word_of_nat (of_char c) :: byte)) = c" for c :: char
    by (simp add: unat_of_nat)
  then show ?thesis
    by (simp add: string_of_def bytes_of_def comp_def map_idI)
qed

lemma bytes_of_inj: "bytes_of s = bytes_of t \<longleftrightarrow> s = t"
  by (metis string_of_bytes_of)

lemma bytes_of_append [simp]: "bytes_of (s @ t) = bytes_of s @ bytes_of t"
  by (simp add: bytes_of_def)

lemma length_bytes_of [simp]: "length (bytes_of s) = length s"
  by (simp add: bytes_of_def)

lemma length_string_of [simp]: "length (string_of s) = length s"
  by (simp add: string_of_def)

lemma join_with_Cons: "xs \<noteq> [] \<Longrightarrow> join_with sep (x # xs) = x @ sep @ join_with sep xs"
  by (cases xs) simp_all

end
