(* ===== verification/Go_Encoding.thy ===== *)
theory Go_Encoding
  imports Go_Strings
begin

text \<open>
  The encodings of Go's standard library the code relies on, as executable functions: the
  base-16 text of \<open>math/big\<close>, big-endian byte strings (\<open>SetBytes\<close>, \<open>Bytes\<close>,
  \<open>encoding/binary\<close>), \<open>encoding/hex\<close> and the four alphabets of \<open>encoding/base64\<close>. Each
  comes with its round trip, so that the component theories never assume one.
\<close>

section \<open>Positions in a table\<close>

fun index_of :: "'a list \<Rightarrow> 'a \<Rightarrow> nat option" where
  "index_of [] x = None"
| "index_of (y # ys) x = (if x = y then Some 0 else map_option Suc (index_of ys x))"

lemma index_of_nth: "distinct xs \<Longrightarrow> i < length xs \<Longrightarrow> index_of xs (xs ! i) = Some i"
  by (induction xs arbitrary: i) (auto simp: nth_Cons split: nat.splits)

lemma index_of_Some: "index_of xs x = Some i \<Longrightarrow> i < length xs \<and> xs ! i = x"
  by (induction xs arbitrary: i) (auto split: if_splits)

section \<open>Base-16 text of integers\<close>

definition hex_digits :: string where
  "hex_digits = ''0123456789abcdef''"

definition hex_digit :: "nat \<Rightarrow> char" where
  "hex_digit n = hex_digits ! n"

definition hex_digit_val :: "char \<Rightarrow> nat option" where
  "hex_digit_val c = index_of hex_digits (lower_char c)"

fun nat_to_hex :: "nat \<Rightarrow> string" where
  "nat_to_hex n = (if n < 16 then [hex_digit n] else nat_to_hex (n div 16) @ [hex_digit (n mod 16)])"

declare nat_to_hex.simps [simp del]

fun hex_acc :: "nat \<Rightarrow> string \<Rightarrow> nat option" where
  "hex_acc a [] = Some a"
| "hex_acc a (c # cs) =
     (case hex_digit_val c of None \<Rightarrow> None | Some d \<Rightarrow> hex_acc (16 * a + d) cs)"

definition hex_val :: "string \<Rightarrow> nat option" where
  "hex_val s = (if s = [] then None else hex_acc 0 s)"

text \<open>\<open>big.Int.Text(16)\<close> and \<open>big.Int.SetString(s, 16)\<close>: an optional sign, then digits.\<close>

definition int_text16 :: "int \<Rightarrow> string" where
  "int_text16 n = (if n < 0 then CHR ''-'' # nat_to_hex (nat (- n)) else nat_to_hex (nat n))"

definition int_set_string16 :: "string \<Rightarrow> int option" where
  "int_set_string16 s =
     (case s of
        [] \<Rightarrow> None
      | c # cs \<Rightarrow>
          if c = CHR ''-'' then map_option (\<lambda>n. - int n) (hex_val cs)
          else if c = CHR ''+'' then map_option int (hex_val cs)
          else map_option int (hex_val s))"

text \<open>The \<open>%q\<close> verb on ASCII: a double-quoted Go string literal.\<close>

definition quote_char :: "char \<Rightarrow> string" where
  "quote_char c =
     (let n = (of_char c :: nat) in
      if c = CHR 0x22 then [CHR 0x5C, CHR 0x22]
      else if c = CHR 0x5C then [CHR 0x5C, CHR 0x5C]
      else if n = 7 then [CHR 0x5C, CHR ''a'']
      else if n = 8 then [CHR 0x5C, CHR ''b'']
      else if n = 12 then [CHR 0x5C, CHR ''f'']
      else if n = 10 then [CHR 0x5C, CHR ''n'']
      else if n = 13 then [CHR 0x5C, CHR ''r'']
      else if n = 9 then [CHR 0x5C, CHR ''t'']
      else if n = 11 then [CHR 0x5C, CHR ''v'']
      else if n < 32 \<or> n = 127 then [CHR 0x5C, CHR ''x'', hex_digit (n div 16), hex_digit (n mod 16)]
      else [c])"

definition go_quote :: "string \<Rightarrow> string" where
  "go_quote s = [CHR 0x22] @ concat (map quote_char s) @ [CHR 0x22]"

text \<open>\<open>big.Int.BitLen()\<close>, the length of the absolute value.\<close>

fun nat_bit_len :: "nat \<Rightarrow> nat" where
  "nat_bit_len n = (if n = 0 then 0 else Suc (nat_bit_len (n div 2)))"

declare nat_bit_len.simps [simp del]

definition bit_len :: "int \<Rightarrow> nat" where
  "bit_len n = nat_bit_len (nat \<bar>n\<bar>)"

lemma length_hex_digits [simp]: "length hex_digits = 16"
  by (simp add: hex_digits_def)

lemma distinct_hex_digits: "distinct hex_digits"
  by (simp add: hex_digits_def)

lemma hex_digit_in: "n < 16 \<Longrightarrow> hex_digit n \<in> set hex_digits"
  by (simp add: hex_digit_def)

lemma hex_digits_props:
  "c \<in> set hex_digits \<Longrightarrow> lower_char c = c \<and> \<not> space_byte c \<and> c \<noteq> CHR ''x'' \<and> c \<noteq> CHR ''X''
     \<and> c \<noteq> CHR ''-'' \<and> c \<noteq> CHR ''+'' \<and> c \<noteq> CHR ''/'' \<and> c \<noteq> CHR ''|''"
  by (auto simp: hex_digits_def lower_char_def space_byte_def space_runes_def)

lemma not_hex_digits:
  "CHR ''x'' \<notin> set hex_digits" "CHR ''X'' \<notin> set hex_digits" "CHR ''-'' \<notin> set hex_digits"
  "CHR ''+'' \<notin> set hex_digits" "CHR ''/'' \<notin> set hex_digits" "CHR ''|'' \<notin> set hex_digits"
  by (simp_all add: hex_digits_def)

lemma hex_digit_val_digit: "n < 16 \<Longrightarrow> hex_digit_val (hex_digit n) = Some n"
  using hex_digits_props [OF hex_digit_in, of n]
  by (simp add: hex_digit_val_def hex_digit_def index_of_nth distinct_hex_digits)

lemma nat_to_hex_nonempty [simp]: "nat_to_hex n \<noteq> []"
  by (subst nat_to_hex.simps) simp

lemma set_nat_to_hex: "set (nat_to_hex n) \<subseteq> set hex_digits"
proof (induction n rule: nat_to_hex.induct)
  case (1 n)
  then show ?case
    by (cases "n < 16") (auto simp: nat_to_hex.simps [of n] hex_digit_in)
qed

lemma hex_acc_append: "hex_acc a (xs @ ys) = Option.bind (hex_acc a xs) (\<lambda>b. hex_acc b ys)"
  by (induction xs arbitrary: a) (auto split: option.splits)

lemma hex_acc_nat_to_hex: "hex_acc 0 (nat_to_hex n) = Some n"
proof (induction n rule: nat_to_hex.induct)
  case (1 n)
  then show ?case
    by (cases "n < 16") (simp_all add: nat_to_hex.simps [of n] hex_acc_append hex_digit_val_digit)
qed

lemma hex_val_nat_to_hex [simp]: "hex_val (nat_to_hex n) = Some n"
  by (simp add: hex_val_def hex_acc_nat_to_hex)

lemma nat_to_hex_inj: "nat_to_hex m = nat_to_hex n \<longleftrightarrow> m = n"
  by (metis hex_val_nat_to_hex option.inject)

lemma int_text16_roundtrip [simp]: "int_set_string16 (int_text16 n) = Some n"
proof (cases "n < 0")
  case True
  then show ?thesis by (simp add: int_text16_def int_set_string16_def)
next
  case False
  obtain c cs where cs: "nat_to_hex (nat n) = c # cs"
    by (cases "nat_to_hex (nat n)") auto
  then have "c \<in> set hex_digits" using set_nat_to_hex [of "nat n"] by auto
  then have "c \<noteq> CHR ''-'' \<and> c \<noteq> CHR ''+''" using hex_digits_props by blast
  moreover have "hex_val (c # cs) = Some (nat n)" by (metis cs hex_val_nat_to_hex)
  ultimately show ?thesis
    using False by (simp add: int_text16_def int_set_string16_def cs)
qed

lemma nat_bit_len_0 [simp]: "nat_bit_len 0 = 0"
  by (simp add: nat_bit_len.simps)

lemma nat_bit_len_le: "nat_bit_len n \<le> k \<longleftrightarrow> n < 2 ^ k"
proof (induction n arbitrary: k rule: nat_bit_len.induct)
  case (1 n)
  show ?case
  proof (cases "n = 0")
    case True
    then show ?thesis by simp
  next
    case False
    show ?thesis
    proof (cases k)
      case 0
      with False show ?thesis by (simp add: nat_bit_len.simps [of n])
    next
      case (Suc j)
      have "nat_bit_len (n div 2) \<le> j \<longleftrightarrow> n div 2 < 2 ^ j" using "1.IH" [OF False] .
      also have "\<dots> \<longleftrightarrow> n < 2 ^ k" by (auto simp: Suc)
      finally show ?thesis using False Suc by (simp add: nat_bit_len.simps [of n])
    qed
  qed
qed

lemma bit_len_le: "0 \<le> n \<Longrightarrow> bit_len n \<le> k \<longleftrightarrow> n < 2 ^ k"
  by (simp add: bit_len_def nat_bit_len_le nat_less_iff)

section \<open>Big-endian byte strings\<close>

definition be_val :: "byte list \<Rightarrow> nat" where
  "be_val bs = foldl (\<lambda>a b. 256 * a + unat b) 0 bs"

fun put_be :: "nat \<Rightarrow> nat \<Rightarrow> byte list" where
  "put_be 0 n = []"
| "put_be (Suc k) n = put_be k (n div 256) @ [word_of_nat n]"

definition put_uint16 :: "16 word \<Rightarrow> byte list" where
  "put_uint16 w = put_be 2 (unat w)"

definition put_uint64 :: "64 word \<Rightarrow> byte list" where
  "put_uint64 w = put_be 8 (unat w)"

text \<open>\<open>big.Int.Bytes()\<close>: no leading zero byte.\<close>

fun nat_bytes :: "nat \<Rightarrow> byte list" where
  "nat_bytes n = (if n = 0 then [] else nat_bytes (n div 256) @ [word_of_nat n])"

declare nat_bytes.simps [simp del]

lemma unat_byte_less [simp]: "unat (b :: byte) < 256"
  using unsigned_less [of b] by simp

lemma unat_u16_less: "unat (w :: 16 word) < 65536"
  using unsigned_less [of w] by simp

lemma unat_u64_less: "unat (w :: 64 word) < 18446744073709551616"
  using unsigned_less [of w] by simp

lemma be_val_Nil [simp]: "be_val [] = 0"
  by (simp add: be_val_def)

lemma be_val_snoc [simp]: "be_val (xs @ [b]) = 256 * be_val xs + unat b"
  by (simp add: be_val_def)

lemma be_val_bound: "be_val xs < 256 ^ length xs"
proof (induction xs rule: rev_induct)
  case (snoc b xs)
  then have "be_val xs + 1 \<le> 256 ^ length xs" by simp
  then have "256 * be_val xs + 256 \<le> 256 * 256 ^ length xs" by simp
  with unat_byte_less [of b] have "256 * be_val xs + unat b < 256 * 256 ^ length xs"
    by linarith
  then show ?case by simp
qed simp

lemma length_put_be [simp]: "length (put_be k n) = k"
  by (induction k arbitrary: n) auto

lemma be_val_put_be: "be_val (put_be k n) = n mod 256 ^ k"
proof (induction k arbitrary: n)
  case (Suc k)
  have "n mod (256 * 256 ^ k) = 256 * (n div 256 mod 256 ^ k) + n mod 256"
    by (rule mod_mult2_eq)
  then show ?case using Suc by (simp add: unat_of_nat)
qed simp

lemma be_val_append: "be_val (xs @ ys) = be_val xs * 256 ^ length ys + be_val ys"
proof (induction ys rule: rev_induct)
  case (snoc b ys)
  have "be_val (xs @ ys @ [b]) = 256 * be_val (xs @ ys) + unat b"
    using be_val_snoc [of "xs @ ys" b] by simp
  then show ?case using snoc by (simp add: algebra_simps)
qed simp

lemma be_val_inj: "length xs = length ys \<Longrightarrow> be_val xs = be_val ys \<Longrightarrow> xs = ys"
proof (induction xs arbitrary: ys rule: rev_induct)
  case (snoc b xs)
  then obtain zs c where ys: "ys = zs @ [c]" by (cases ys rule: rev_cases) auto
  with snoc.prems have eq: "256 * be_val xs + unat b = 256 * be_val zs + unat c" by simp
  then have "unat b = unat c"
    by (metis mod_less mod_mult_self4 unat_byte_less)
  with eq snoc ys show ?case by (simp add: word_unat_eq_iff)
qed simp

lemma put_be_inj: "n < 256 ^ k \<Longrightarrow> m < 256 ^ k \<Longrightarrow> put_be k n = put_be k m \<longleftrightarrow> n = m"
  by (metis be_val_put_be mod_less)

lemma put_be_be_val: "put_be (length xs) (be_val xs) = xs"
  by (rule be_val_inj) (simp_all add: be_val_put_be be_val_bound)

lemma length_put_uint16 [simp]: "length (put_uint16 w) = 2"
  by (simp add: put_uint16_def)

lemma length_put_uint64 [simp]: "length (put_uint64 w) = 8"
  by (simp add: put_uint64_def)

lemma be_val_put_uint16 [simp]: "be_val (put_uint16 w) = unat w"
  using unat_u16_less [of w] by (simp add: put_uint16_def be_val_put_be)

lemma be_val_put_uint64 [simp]: "be_val (put_uint64 w) = unat w"
  using unat_u64_less [of w] by (simp add: put_uint64_def be_val_put_be)

lemma nat_bytes_0 [simp]: "nat_bytes 0 = []"
  by (simp add: nat_bytes.simps)

lemma be_val_nat_bytes [simp]: "be_val (nat_bytes n) = n"
proof (induction n rule: nat_bytes.induct)
  case (1 n)
  then show ?case
    by (cases "n = 0") (simp, simp add: nat_bytes.simps [of n] unat_of_nat)
qed

lemma length_nat_bytes_le: "length (nat_bytes n) \<le> k \<longleftrightarrow> n < 256 ^ k"
proof (induction n arbitrary: k rule: nat_bytes.induct)
  case (1 n)
  show ?case
  proof (cases "n = 0 \<or> k = 0")
    case True
    then show ?thesis by (auto simp: nat_bytes.simps [of n])
  next
    case False
    then obtain j where j: "k = Suc j" by (cases k) auto
    from False have "length (nat_bytes (n div 256)) \<le> j \<longleftrightarrow> n div 256 < 256 ^ j"
      using "1.IH" by simp
    also have "\<dots> \<longleftrightarrow> n < 256 ^ k" by (auto simp: j less_mult_imp_div_less div_less_iff_less_mult mult.commute)
    finally show ?thesis using False j by (simp add: nat_bytes.simps [of n])
  qed
qed

lemma be_val_replicate0 [simp]: "be_val (replicate k 0 @ xs) = be_val xs"
  by (induction k) (simp_all add: be_val_def)

lemma pad_nat_bytes:
  assumes "n < 256 ^ k"
  shows "replicate (k - length (nat_bytes n)) 0 @ nat_bytes n = put_be k n"
proof (rule be_val_inj)
  show "length (replicate (k - length (nat_bytes n)) 0 @ nat_bytes n) = length (put_be k n)"
    using assms length_nat_bytes_le [of n k] by simp
qed (use assms in \<open>simp add: be_val_put_be\<close>)

end
