(* ===== verification/Storage_Model.thy ===== *)
theory Storage_Model
  imports Go_Encoding
begin

text \<open>
  The storage package's shared part (\<open>pkg/storage/storage.go\<close>, \<open>models.go\<close>): the records,
  the sentinel errors, \<open>NormalizeSerial\<close> and the \<open>Storage\<close> interface as a record of methods.
  An abstract store with one specification per method says what an implementation promises;
  the locale \<open>storage_contract\<close> is that promise, and the lemmas its clients need are proved
  once inside it.
\<close>

section \<open>Records and errors\<close>

definition crl_reason_codes :: "int list" where
  "crl_reason_codes = [0, 1, 2, 3, 4, 5, 6, 8, 9, 10]"

record certificate_record =
  cr_serial :: string
  cr_subject :: string
  cr_issuer :: string
  cr_not_before :: go_time
  cr_not_after :: go_time
  cr_raw_der :: "byte list option"
  cr_pem :: "byte list option"
  cr_revoked :: bool

record revocation_record =
  rr_serial :: string
  rr_revoked_at :: go_time
  rr_reason :: int

record serial_record =
  sr_serial :: string
  sr_issued_at :: go_time

lemma cr_serial_same: "cr_serial c = k \<Longrightarrow> c\<lparr>cr_serial := k\<rparr> = c"
  by (cases c) simp

text \<open>
  The error classes \<open>errors.Is\<close> distinguishes. The last two are the errors that come from
  below: the context's own error and the database driver's.
\<close>

datatype storage_error =
    ErrNotFound
  | ErrAlreadyExists
  | ErrAlreadyRevoked
  | ErrInvalidInput
  | CtxErr ctx_error
  | DriverErr string

definition infra :: "storage_error \<Rightarrow> bool" where
  "infra e = (case e of CtxErr _ \<Rightarrow> True | DriverErr _ \<Rightarrow> True | _ \<Rightarrow> False)"

lemma infra_simps [simp]:
  "\<not> infra ErrNotFound" "\<not> infra ErrAlreadyExists" "\<not> infra ErrAlreadyRevoked"
  "\<not> infra ErrInvalidInput" "infra (CtxErr c)" "infra (DriverErr m)"
  by (simp_all add: infra_def)

definition normalize_serial :: "string \<Rightarrow> string" where
  "normalize_serial serial =
     (let s = trim_space serial;
          s = trim_prefix s ''0x'';
          s = trim_prefix s ''0X''
      in to_lower s)"

text \<open>
  A canonical serial: lower-case hexadecimal digits, what the program itself writes.
\<close>

definition canonical_serial :: "string \<Rightarrow> bool" where
  "canonical_serial s = (s \<noteq> [] \<and> list_all (\<lambda>c. c \<in> set hex_digits) s)"

lemma normalize_serial_lower: "to_lower (normalize_serial s) = normalize_serial s"
  by (simp add: normalize_serial_def Let_def)

lemma canonical_serial_facts:
  assumes "canonical_serial s"
  shows "s \<noteq> []" and "set s \<subseteq> set hex_digits" and "\<forall>c \<in> set s. \<not> space_byte c"
    and "to_lower s = s" and "\<not> has_prefix s ''0X''" and "\<not> has_prefix s ''0x''"
proof -
  show "s \<noteq> []" and sub: "set s \<subseteq> set hex_digits"
    using assms by (auto simp: canonical_serial_def list_all_iff)
  show "\<forall>c \<in> set s. \<not> space_byte c" using sub hex_digits_props by blast
  show "to_lower s = s" using sub hex_digits_props by (intro to_lower_id) blast
  show "\<not> has_prefix s ''0X''" using has_prefix_set [of s "''0X''"] sub not_hex_digits by auto
  show "\<not> has_prefix s ''0x''" using has_prefix_set [of s "''0x''"] sub not_hex_digits by auto
qed

lemma normalize_canonical [simp]: "canonical_serial s \<Longrightarrow> normalize_serial s = s"
  by (simp add: normalize_serial_def Let_def trim_space_no_space trim_prefix_def canonical_serial_facts)

lemma normalize_prefixed [simp]:
  assumes "canonical_serial s"
  shows "normalize_serial (''0x'' @ s) = s"
proof -
  have "\<forall>c \<in> set (''0x'' @ s). \<not> space_byte c"
    using canonical_serial_facts(3) [OF assms] by (simp add: space_byte_def space_runes_def)
  then have "trim_space (''0x'' @ s) = ''0x'' @ s" by (rule trim_space_no_space)
  then show ?thesis
    by (simp only: normalize_serial_def Let_def trim_prefix_append)
      (simp add: trim_prefix_def canonical_serial_facts [OF assms])
qed

section \<open>The Storage interface\<close>

text \<open>
  A \<open>storage.Storage\<close> value: its methods over a state \<open>'s\<close>. Each call takes its
  environment \<open>'e\<close> (the context, and for a database the driver's failures), a writing call
  also the clock reading it may need.
\<close>

record ('s, 'e) storage_iface =
  save_certificate :: "'s \<Rightarrow> 'e \<Rightarrow> go_time \<Rightarrow> certificate_record option \<Rightarrow> storage_error option \<times> 's"
  get_certificate :: "'s \<Rightarrow> 'e \<Rightarrow> string \<Rightarrow> storage_error + certificate_record"
  revoke_certificate :: "'s \<Rightarrow> 'e \<Rightarrow> go_time \<Rightarrow> string \<Rightarrow> int \<Rightarrow> go_time \<Rightarrow> storage_error option \<times> 's"
  get_revocation :: "'s \<Rightarrow> 'e \<Rightarrow> string \<Rightarrow> storage_error + revocation_record"
  list_revoked :: "'s \<Rightarrow> 'e \<Rightarrow> storage_error + revocation_record list"
  reserve_serial :: "'s \<Rightarrow> 'e \<Rightarrow> go_time \<Rightarrow> string \<Rightarrow> storage_error option \<times> 's"

section \<open>The abstract store\<close>

record store =
  st_certs :: "string \<Rightarrow> certificate_record option"
  st_revs :: "string \<Rightarrow> revocation_record option"
  st_serials :: "string set"

definition empty_store :: store where
  "empty_store = \<lparr>st_certs = Map.empty, st_revs = Map.empty, st_serials = {}\<rparr>"

definition spec_save :: "store \<Rightarrow> certificate_record option \<Rightarrow> storage_error option \<times> store" where
  "spec_save a cert =
     (case cert of
        None \<Rightarrow> (Some ErrInvalidInput, a)
      | Some c \<Rightarrow>
          let k = normalize_serial (cr_serial c) in
          if k = [] then (Some ErrInvalidInput, a)
          else if st_certs a k \<noteq> None then (Some ErrAlreadyExists, a)
          else (None, a\<lparr>st_certs := (st_certs a)(k \<mapsto> c\<lparr>cr_serial := k\<rparr>),
                        st_serials := insert k (st_serials a)\<rparr>))"

definition spec_revoke :: "store \<Rightarrow> go_time \<Rightarrow> string \<Rightarrow> int \<Rightarrow> go_time \<Rightarrow> storage_error option \<times> store" where
  "spec_revoke a now serial reason at =
     (let k = normalize_serial serial; t = (if at = 0 then now else at) in
      if k = [] then (Some ErrInvalidInput, a)
      else case st_certs a k of
             None \<Rightarrow> (Some ErrNotFound, a)
           | Some c \<Rightarrow>
               if cr_revoked c then (Some ErrAlreadyRevoked, a)
               else (None, a\<lparr>st_certs := (st_certs a)(k \<mapsto> c\<lparr>cr_revoked := True\<rparr>),
                             st_revs := (st_revs a)
                               (k \<mapsto> \<lparr>rr_serial = k, rr_revoked_at = t, rr_reason = reason\<rparr>)\<rparr>))"

definition spec_reserve :: "store \<Rightarrow> string \<Rightarrow> storage_error option \<times> store" where
  "spec_reserve a serial =
     (let k = normalize_serial serial in
      if k = [] then (Some ErrInvalidInput, a)
      else if k \<in> st_serials a then (Some ErrAlreadyExists, a)
      else (None, a\<lparr>st_serials := insert k (st_serials a)\<rparr>))"

definition spec_lookup :: "(string \<Rightarrow> 'v option) \<Rightarrow> string \<Rightarrow> storage_error + 'v" where
  "spec_lookup m serial =
     (let k = normalize_serial serial in
      if k = [] then Inl ErrInvalidInput
      else case m k of None \<Rightarrow> Inl ErrNotFound | Some v \<Rightarrow> Inr v)"

definition spec_list :: "store \<Rightarrow> revocation_record list \<Rightarrow> bool" where
  "spec_list a rs = (distinct (map rr_serial rs) \<and> set rs = ran (st_revs a)
     \<and> sorted (map rr_revoked_at rs))"

text \<open>What holds of every store: entries sit under their own serial, every certificate's
  serial is recorded, and a revocation record belongs to a certificate marked revoked.\<close>

definition store_wf :: "store \<Rightarrow> bool" where
  "store_wf a =
     ((\<forall>k c. st_certs a k = Some c \<longrightarrow> cr_serial c = k \<and> k \<in> st_serials a) \<and>
      (\<forall>k r. st_revs a k = Some r \<longrightarrow> rr_serial r = k \<and>
         (\<exists>c. st_certs a k = Some c \<and> cr_revoked c)) \<and>
      [] \<notin> st_serials a)"

lemma store_wf_empty [simp]: "store_wf empty_store"
  by (simp add: store_wf_def empty_store_def)

lemma store_wf_save: "store_wf a \<Longrightarrow> spec_save a c = (r, a') \<Longrightarrow> store_wf a'"
  unfolding spec_save_def
  by (auto simp: store_wf_def Let_def split: option.splits if_splits) fastforce

lemma store_wf_revoke: "store_wf a \<Longrightarrow> spec_revoke a now s n t = (r, a') \<Longrightarrow> store_wf a'"
  unfolding spec_revoke_def
  by (auto simp: store_wf_def Let_def split: option.splits if_splits)

lemma store_wf_reserve: "store_wf a \<Longrightarrow> spec_reserve a s = (r, a') \<Longrightarrow> store_wf a'"
  unfolding spec_reserve_def
  by (auto simp: store_wf_def Let_def split: option.splits if_splits)

text \<open>What a successful write tells.\<close>

lemma spec_save_success:
  assumes "spec_save a (Some c) = (None, a')"
  shows "normalize_serial (cr_serial c) \<noteq> []"
    and "st_certs a (normalize_serial (cr_serial c)) = None"
    and "a' = a\<lparr>st_certs := (st_certs a)(normalize_serial (cr_serial c) \<mapsto>
             c\<lparr>cr_serial := normalize_serial (cr_serial c)\<rparr>),
           st_serials := insert (normalize_serial (cr_serial c)) (st_serials a)\<rparr>"
  using assms by (simp_all add: spec_save_def Let_def split: if_splits)

lemma spec_reserve_success:
  assumes "spec_reserve a s = (None, a')"
  shows "normalize_serial s \<noteq> []" and "normalize_serial s \<notin> st_serials a"
    and "a' = a\<lparr>st_serials := insert (normalize_serial s) (st_serials a)\<rparr>"
  using assms by (simp_all add: spec_reserve_def Let_def split: if_splits)

lemma spec_revoke_success:
  assumes "spec_revoke a now s n t = (None, a')"
  shows "normalize_serial s \<noteq> []"
    and "st_revs a' (normalize_serial s) =
           Some \<lparr>rr_serial = normalize_serial s, rr_revoked_at = (if t = 0 then now else t),
                 rr_reason = n\<rparr>"
    and "\<exists>c. st_certs a' (normalize_serial s) = Some c \<and> cr_revoked c"
  using assms by (auto simp: spec_revoke_def Let_def split: if_splits option.splits)

text \<open>An implementation's write either fails below (and changes nothing) or does what the
  specification does; its read fails below or returns the specified result.\<close>

definition write_ok :: "store \<Rightarrow> storage_error option \<times> store \<Rightarrow> storage_error option \<times> store \<Rightarrow> bool" where
  "write_ok a spec res = (res = spec \<or> (\<exists>e. res = (Some e, a) \<and> infra e))"

definition read_ok :: "storage_error + 'v \<Rightarrow> storage_error + 'v \<Rightarrow> bool" where
  "read_ok spec res = (res = spec \<or> (\<exists>e. res = Inl e \<and> infra e))"

lemma write_ok_refl [simp]: "write_ok a spec spec"
  by (simp add: write_ok_def)

lemma write_ok_infra [simp]: "infra e \<Longrightarrow> write_ok a spec (Some e, a)"
  by (simp add: write_ok_def)

lemma write_ok_None: "write_ok a spec (None, a') \<Longrightarrow> spec = (None, a')"
  by (auto simp: write_ok_def)

lemma write_ok_spec:
  "write_ok a spec (r, a') \<Longrightarrow> \<forall>e. r = Some e \<longrightarrow> \<not> infra e \<Longrightarrow> (r, a') = spec"
  by (auto simp: write_ok_def)

lemma read_ok_simps [simp]: "read_ok spec spec" "infra e \<Longrightarrow> read_ok spec (Inl e)"
  by (auto simp: read_ok_def)

lemma read_ok_Inr: "read_ok spec (Inr v) \<Longrightarrow> spec = Inr v"
  by (auto simp: read_ok_def)

end
