(* ===== verification/Storage_Contract.thy ===== *)
theory Storage_Contract
  imports Storage_Model
begin

text \<open>
  The contract between the storage backends and their clients (the serial reservation, the
  OCSP responder, the CRL generator, the revocation API and the enrolment handlers): the
  locale \<open>storage_contract\<close> states what each method promises over the abstract store, and the
  facts the clients use follow from it once, for every backend. \<open>storage_pair\<close> compares two
  backends run side by side.
\<close>

section \<open>How a store may evolve\<close>

text \<open>Serials stay recorded, revocations stay as they are, and a certificate changes only by
  being marked revoked.\<close>

definition cert_grows :: "certificate_record \<Rightarrow> certificate_record \<Rightarrow> bool" where
  "cert_grows c d = (d = c \<or> (\<not> cr_revoked c \<and> d = c\<lparr>cr_revoked := True\<rparr>))"

definition store_le :: "store \<Rightarrow> store \<Rightarrow> bool" where
  "store_le a b =
     (st_serials a \<subseteq> st_serials b \<and> st_revs a \<subseteq>\<^sub>m st_revs b \<and>
      (\<forall>k c. st_certs a k = Some c \<longrightarrow> (\<exists>d. st_certs b k = Some d \<and> cert_grows c d)))"

lemma cert_grows_refl [simp]: "cert_grows c c"
  by (simp add: cert_grows_def)

lemma cert_grows_trans: "cert_grows c d \<Longrightarrow> cert_grows d e \<Longrightarrow> cert_grows c e"
  by (auto simp: cert_grows_def)

lemma cert_grows_revoked: "cert_grows c d \<Longrightarrow> cr_revoked c \<Longrightarrow> d = c"
  by (auto simp: cert_grows_def)

lemma cert_grows_der: "cert_grows c d \<Longrightarrow> cr_raw_der d = cr_raw_der c \<and> cr_serial d = cr_serial c"
  by (auto simp: cert_grows_def)

lemma store_le_refl [simp]: "store_le a a"
  by (auto simp: store_le_def)

lemma store_le_trans: "store_le a b \<Longrightarrow> store_le b c \<Longrightarrow> store_le a c"
  unfolding store_le_def by (blast intro: cert_grows_trans map_le_trans)

lemma store_le_save: "store_wf a \<Longrightarrow> spec_save a c = (r, a') \<Longrightarrow> store_le a a'"
  by (auto simp: spec_save_def store_le_def Let_def map_le_def split: option.splits if_splits)

lemma store_le_reserve: "spec_reserve a s = (r, a') \<Longrightarrow> store_le a a'"
  by (auto simp: spec_reserve_def store_le_def Let_def split: if_splits)

lemma store_le_revoke:
  assumes wf: "store_wf a" and r: "spec_revoke a now s n t = (r, a')"
  shows "store_le a a'"
proof -
  let ?k = "normalize_serial s"
  have "st_revs a ?k = None" if "st_certs a ?k = Some c" "\<not> cr_revoked c" for c
    using wf that unfolding store_wf_def by (metis not_None_eq option.inject)
  then show ?thesis
    using r by (auto simp: spec_revoke_def store_le_def Let_def map_le_def cert_grows_def
        split: option.splits if_splits)
qed

lemma write_ok_le:
  assumes "write_ok a spec (r, a')" and "\<And>r b. spec = (r, b) \<Longrightarrow> store_le a b"
  shows "store_le a a'"
  using assms by (auto simp: write_ok_def)

section \<open>Sequences of writes\<close>

inductive storage_step :: "('s, 'e) storage_iface \<Rightarrow> ('e \<Rightarrow> bool) \<Rightarrow> 's \<Rightarrow> 's \<Rightarrow> bool"
  for ops ok where
  step_save: "ok e \<Longrightarrow> save_certificate ops s e now c = (r, s') \<Longrightarrow> storage_step ops ok s s'"
| step_revoke: "ok e \<Longrightarrow> revoke_certificate ops s e now k n t = (r, s') \<Longrightarrow> storage_step ops ok s s'"
| step_reserve: "ok e \<Longrightarrow> reserve_serial ops s e now k = (r, s') \<Longrightarrow> storage_step ops ok s s'"

inductive storage_run :: "('s, 'e) storage_iface \<Rightarrow> ('e \<Rightarrow> bool) \<Rightarrow> 's \<Rightarrow> 's \<Rightarrow> bool"
  for ops ok where
  run_refl: "storage_run ops ok s s"
| run_step: "storage_run ops ok s t \<Longrightarrow> storage_step ops ok t u \<Longrightarrow> storage_run ops ok s u"

lemma storage_run_trans:
  "storage_run ops ok t u \<Longrightarrow> storage_run ops ok s t \<Longrightarrow> storage_run ops ok s u"
  by (induction rule: storage_run.induct) (auto intro: run_step)

text \<open>The same writes and reads as data, with what each call returns to its caller.\<close>

datatype storage_call =
    CallSave "certificate_record option"
  | CallGet string
  | CallRevoke string int go_time
  | CallGetRevocation string
  | CallListRevoked
  | CallReserve string

datatype storage_reply =
    ReplyErr "storage_error option"
  | ReplyCert "storage_error + certificate_record"
  | ReplyRev "storage_error + revocation_record"
  | ReplyList "storage_error + revocation_record list"

fun storage_call_run ::
  "('s, 'e) storage_iface \<Rightarrow> 's \<Rightarrow> 'e \<Rightarrow> go_time \<Rightarrow> storage_call \<Rightarrow> storage_reply \<times> 's" where
  "storage_call_run ops s e now (CallSave c) =
     (let (r, s') = save_certificate ops s e now c in (ReplyErr r, s'))"
| "storage_call_run ops s e now (CallGet k) = (ReplyCert (get_certificate ops s e k), s)"
| "storage_call_run ops s e now (CallRevoke k n t) =
     (let (r, s') = revoke_certificate ops s e now k n t in (ReplyErr r, s'))"
| "storage_call_run ops s e now (CallGetRevocation k) = (ReplyRev (get_revocation ops s e k), s)"
| "storage_call_run ops s e now CallListRevoked = (ReplyList (list_revoked ops s e), s)"
| "storage_call_run ops s e now (CallReserve k) =
     (let (r, s') = reserve_serial ops s e now k in (ReplyErr r, s'))"

fun storage_calls_run ::
  "('s, 'e) storage_iface \<Rightarrow> 'e \<Rightarrow> 's \<Rightarrow> (go_time \<times> storage_call) list \<Rightarrow> storage_reply list" where
  "storage_calls_run ops e s [] = []"
| "storage_calls_run ops e s ((now, c) # cs) =
     (let (r, s') = storage_call_run ops s e now c in r # storage_calls_run ops e s' cs)"

fun infra_reply :: "storage_reply \<Rightarrow> bool" where
  "infra_reply (ReplyErr r) = (case r of None \<Rightarrow> False | Some e \<Rightarrow> infra e)"
| "infra_reply (ReplyCert r) = (case r of Inl e \<Rightarrow> infra e | Inr _ \<Rightarrow> False)"
| "infra_reply (ReplyRev r) = (case r of Inl e \<Rightarrow> infra e | Inr _ \<Rightarrow> False)"
| "infra_reply (ReplyList r) = (case r of Inl e \<Rightarrow> infra e | Inr _ \<Rightarrow> False)"

text \<open>Two answers a caller takes for the same: equal, but that a list of revocations may have the records
  of one instant in another order (the interface promises none).\<close>

fun same_reply :: "storage_reply \<Rightarrow> storage_reply \<Rightarrow> bool" where
  "same_reply (ReplyList (Inr xs)) (ReplyList (Inr ys)) =
     (mset xs = mset ys \<and> map rr_revoked_at xs = map rr_revoked_at ys)"
| "same_reply a b = (a = b)"

lemma same_reply_refl [simp]: "same_reply a a"
proof (cases a)
  case (ReplyList r)
  then show ?thesis by (cases r) simp_all
qed simp_all

lemma spec_list_same:
  assumes "spec_list a xs" and "spec_list a ys"
  shows "mset xs = mset ys \<and> map rr_revoked_at xs = map rr_revoked_at ys"
proof -
  have "distinct xs" "distinct ys" "set xs = set ys"
    using assms by (simp_all add: spec_list_def distinct_map)
  then have m: "mset xs = mset ys" by (simp add: set_eq_iff_mset_eq_distinct)
  then have "mset (map rr_revoked_at xs) = mset (map rr_revoked_at ys)" by simp
  moreover have "sorted (map rr_revoked_at xs)" "sorted (map rr_revoked_at ys)"
    using assms by (simp_all add: spec_list_def)
  ultimately have "map rr_revoked_at xs = map rr_revoked_at ys"
    by (metis properties_for_sort)
  with m show ?thesis by blast
qed

section \<open>The contract\<close>

locale storage_contract =
  fixes ops :: "('s, 'e) storage_iface"
    and view :: "'s \<Rightarrow> store"
    and inv :: "'s \<Rightarrow> bool"
    and env_ok :: "'e \<Rightarrow> bool"
  assumes inv_wf: "inv s \<Longrightarrow> store_wf (view s)"
    and save_law: "inv s \<Longrightarrow> env_ok e \<Longrightarrow> save_certificate ops s e now c = (r, s') \<Longrightarrow>
      inv s' \<and> write_ok (view s) (spec_save (view s) c) (r, view s')"
    and revoke_law: "inv s \<Longrightarrow> env_ok e \<Longrightarrow> revoke_certificate ops s e now k n t = (r, s') \<Longrightarrow>
      inv s' \<and> write_ok (view s) (spec_revoke (view s) now k n t) (r, view s')"
    and reserve_law: "inv s \<Longrightarrow> env_ok e \<Longrightarrow> reserve_serial ops s e now k = (r, s') \<Longrightarrow>
      inv s' \<and> write_ok (view s) (spec_reserve (view s) k) (r, view s')"
    and get_law: "inv s \<Longrightarrow> env_ok e \<Longrightarrow>
      read_ok (spec_lookup (st_certs (view s)) k) (get_certificate ops s e k)"
    and get_revocation_law: "inv s \<Longrightarrow> env_ok e \<Longrightarrow>
      read_ok (spec_lookup (st_revs (view s)) k) (get_revocation ops s e k)"
    and list_law: "inv s \<Longrightarrow> env_ok e \<Longrightarrow> list_revoked ops s e = Inr rs \<Longrightarrow> spec_list (view s) rs"
    and list_err: "inv s \<Longrightarrow> env_ok e \<Longrightarrow> list_revoked ops s e = Inl x \<Longrightarrow> infra x"
begin

lemma step_preserves:
  assumes "storage_step ops env_ok s s'" and "inv s"
  shows "inv s' \<and> store_le (view s) (view s')"
  using assms
proof (cases rule: storage_step.cases)
  case (step_save e now c r)
  then have "write_ok (view s) (spec_save (view s) c) (r, view s')" and i: "inv s'"
    using save_law assms(2) by blast+
  then have "store_le (view s) (view s')"
    using write_ok_le store_le_save [OF inv_wf [OF assms(2)]] by blast
  with i show ?thesis by blast
next
  case (step_revoke e now k n t r)
  then have "write_ok (view s) (spec_revoke (view s) now k n t) (r, view s')" and i: "inv s'"
    using revoke_law assms(2) by blast+
  then have "store_le (view s) (view s')"
    using write_ok_le store_le_revoke [OF inv_wf [OF assms(2)]] by blast
  with i show ?thesis by blast
next
  case (step_reserve e now k r)
  then have "write_ok (view s) (spec_reserve (view s) k) (r, view s')" and i: "inv s'"
    using reserve_law assms(2) by blast+
  then have "store_le (view s) (view s')"
    using write_ok_le store_le_reserve by blast
  with i show ?thesis by blast
qed

lemma run_preserves:
  "storage_run ops env_ok s s' \<Longrightarrow> inv s \<Longrightarrow> inv s' \<and> store_le (view s) (view s')"
proof (induction rule: storage_run.induct)
  case (run_step s t u)
  then have "inv t" "store_le (view s) (view t)" by simp_all
  with step_preserves [OF run_step.hyps(2)] show ?case by (blast intro: store_le_trans)
qed simp

text \<open>A saved certificate is found again, unless the lookup fails below.\<close>

lemma save_get:
  assumes "inv s" "env_ok e" "env_ok e'" and "save_certificate ops s e now (Some c) = (None, s')"
    and "normalize_serial k = normalize_serial (cr_serial c)"
  shows "read_ok (Inr (c\<lparr>cr_serial := normalize_serial k\<rparr>)) (get_certificate ops s' e' k)"
proof -
  have i: "inv s'" using save_law [OF assms(1,2,4)] by blast
  have w: "spec_save (view s) (Some c) = (None, view s')"
    using save_law [OF assms(1,2,4)] write_ok_None by blast
  have "spec_lookup (st_certs (view s')) k = Inr (c\<lparr>cr_serial := normalize_serial k\<rparr>)"
    using spec_save_success [OF w] by (simp add: spec_lookup_def assms(5))
  then show ?thesis using get_law [OF i assms(3), of k] by simp
qed

text \<open>A reservation is exclusive for good: in no later state can the serial be reserved again.\<close>

lemma reserve_exclusive:
  assumes "inv s" "env_ok e" "env_ok e'" and "reserve_serial ops s e now k = (None, s')"
    and "storage_run ops env_ok s' s''" and "normalize_serial k' = normalize_serial k"
  shows "fst (reserve_serial ops s'' e' now' k') \<noteq> None"
proof -
  have i: "inv s'" using reserve_law [OF assms(1,2,4)] by blast
  have w: "spec_reserve (view s) k = (None, view s')"
    using reserve_law [OF assms(1,2,4)] write_ok_None by blast
  have "normalize_serial k \<in> st_serials (view s')" and ne: "normalize_serial k \<noteq> []"
    using spec_reserve_success [OF w] by simp_all
  moreover have i2: "inv s''" and "store_le (view s') (view s'')"
    using run_preserves [OF assms(5) i] by simp_all
  ultimately have m: "normalize_serial k' \<in> st_serials (view s'')"
    by (auto simp: store_le_def assms(6))
  obtain r t where rt: "reserve_serial ops s'' e' now' k' = (r, t)" by fastforce
  with reserve_law [OF i2 assms(3)]
  have "write_ok (view s'') (spec_reserve (view s'') k') (r, view t)" by blast
  with m ne assms(6) show ?thesis by (auto simp: rt write_ok_def spec_reserve_def Let_def)
qed

text \<open>A revocation is permanent: every later lookup returns the same record (or fails below),
  the certificate reads as revoked, and a second revocation does not succeed.\<close>

lemma revoked_forever:
  assumes "inv s" "env_ok e" "env_ok e'" and "revoke_certificate ops s e now k n t = (None, s')"
    and "storage_run ops env_ok s' s''" and "normalize_serial k' = normalize_serial k"
  shows "read_ok (Inr \<lparr>rr_serial = normalize_serial k, rr_revoked_at = (if t = 0 then now else t),
             rr_reason = n\<rparr>) (get_revocation ops s'' e' k')"
    and "fst (revoke_certificate ops s'' e' now' k' n' t') \<noteq> None"
    and "\<exists>c. cr_revoked c \<and> read_ok (Inr c) (get_certificate ops s'' e' k')"
    and "list_revoked ops s'' e' = Inr rs \<Longrightarrow> \<exists>r \<in> set rs. rr_serial r = normalize_serial k \<and> rr_reason r = n"
proof -
  let ?k = "normalize_serial k"
  let ?rec = "\<lparr>rr_serial = ?k, rr_revoked_at = (if t = 0 then now else t), rr_reason = n\<rparr>"
  have i: "inv s'" using revoke_law [OF assms(1,2,4)] by blast
  have w: "spec_revoke (view s) now k n t = (None, view s')"
    using revoke_law [OF assms(1,2,4)] write_ok_None by blast
  obtain c where ne: "?k \<noteq> []" and rev: "st_revs (view s') ?k = Some ?rec"
    and c: "st_certs (view s') ?k = Some c" "cr_revoked c"
    using spec_revoke_success [OF w] by blast
  have i2: "inv s''" and le: "store_le (view s') (view s'')"
    using run_preserves [OF assms(5) i] by simp_all
  have rev2: "st_revs (view s'') ?k = Some ?rec"
    using le rev unfolding store_le_def map_le_def by (metis domI)
  obtain d where "st_certs (view s'') ?k = Some d" "cert_grows c d"
    using le c unfolding store_le_def by blast
  then have c2: "st_certs (view s'') ?k = Some c" using c cert_grows_revoked by simp
  show "read_ok (Inr ?rec) (get_revocation ops s'' e' k')"
    using get_revocation_law [OF i2 assms(3), of k'] rev2 ne by (simp add: spec_lookup_def assms(6))
  show "\<exists>c. cr_revoked c \<and> read_ok (Inr c) (get_certificate ops s'' e' k')"
    using get_law [OF i2 assms(3), of k'] c2 c(2) ne by (auto simp: spec_lookup_def assms(6))
  obtain r u where ru: "revoke_certificate ops s'' e' now' k' n' t' = (r, u)" by fastforce
  with revoke_law [OF i2 assms(3)]
  have "write_ok (view s'') (spec_revoke (view s'') now' k' n' t') (r, view u)" by blast
  with c2 c(2) ne assms(6) show "fst (revoke_certificate ops s'' e' now' k' n' t') \<noteq> None"
    by (auto simp: ru write_ok_def spec_revoke_def Let_def)
  show "\<exists>r \<in> set rs. rr_serial r = ?k \<and> rr_reason r = n" if "list_revoked ops s'' e' = Inr rs"
  proof -
    have "set rs = ran (st_revs (view s''))"
      using list_law [OF i2 assms(3) that] by (simp add: spec_list_def)
    then have "?rec \<in> set rs" using rev2 by (auto simp: ran_def)
    then show ?thesis by force
  qed
qed

text \<open>What a listed revocation means.\<close>

lemma listed_revoked:
  assumes "inv s" "env_ok e" "list_revoked ops s e = Inr rs" and "r \<in> set rs"
  shows "\<exists>c. st_certs (view s) (rr_serial r) = Some c \<and> cr_revoked c"
proof -
  have "r \<in> ran (st_revs (view s))"
    using list_law [OF assms(1-3)] assms(4) by (simp add: spec_list_def)
  then obtain k where "st_revs (view s) k = Some r" by (auto simp: ran_def)
  then show ?thesis using inv_wf [OF assms(1)] unfolding store_wf_def by metis
qed

end

section \<open>Two backends side by side\<close>

locale storage_pair =
  A: storage_contract opsA viewA invA okA + B: storage_contract opsB viewB invB okB
  for opsA :: "('s, 'e) storage_iface" and viewA invA okA
    and opsB :: "('t, 'f) storage_iface" and viewB invB okB
begin

lemma call_lockstep:
  assumes "invA s" "invB t" "okA e" "okB f" and eq: "viewA s = viewB t"
    and a: "storage_call_run opsA s e now c = (ra, s')"
    and b: "storage_call_run opsB t f now c = (rb, t')"
    and n: "\<not> infra_reply ra" "\<not> infra_reply rb"
  shows "same_reply ra rb \<and> viewA s' = viewB t' \<and> invA s' \<and> invB t'"
proof (cases c)
  case (CallSave x)
  with a b obtain ua ub where u: "save_certificate opsA s e now x = (ua, s')" "ra = ReplyErr ua"
    "save_certificate opsB t f now x = (ub, t')" "rb = ReplyErr ub"
    by (auto split: prod.splits)
  then have nu: "\<forall>e. ua = Some e \<longrightarrow> \<not> infra e" "\<forall>e. ub = Some e \<longrightarrow> \<not> infra e"
    using n by auto
  have "(ua, viewA s') = spec_save (viewA s) x" "(ub, viewB t') = spec_save (viewB t) x"
    using A.save_law [OF assms(1,3) u(1)] B.save_law [OF assms(2,4) u(3)] nu write_ok_spec by blast+
  then have "ua = ub" and v: "viewA s' = viewB t'" using eq by (metis prod.inject)+
  then have "same_reply ra rb" using u by simp
  with v A.save_law [OF assms(1,3) u(1)] B.save_law [OF assms(2,4) u(3)] show ?thesis by blast
next
  case (CallGet k)
  with a b n eq A.get_law [OF assms(1,3), of k] B.get_law [OF assms(2,4), of k] assms(1,2)
  show ?thesis by (auto simp: read_ok_def)
next
  case (CallRevoke k i x)
  with a b obtain ua ub where u: "revoke_certificate opsA s e now k i x = (ua, s')" "ra = ReplyErr ua"
    "revoke_certificate opsB t f now k i x = (ub, t')" "rb = ReplyErr ub"
    by (auto split: prod.splits)
  then have nu: "\<forall>e. ua = Some e \<longrightarrow> \<not> infra e" "\<forall>e. ub = Some e \<longrightarrow> \<not> infra e"
    using n by auto
  have "(ua, viewA s') = spec_revoke (viewA s) now k i x" "(ub, viewB t') = spec_revoke (viewB t) now k i x"
    using A.revoke_law [OF assms(1,3) u(1)] B.revoke_law [OF assms(2,4) u(3)] nu write_ok_spec by blast+
  then have "ua = ub" and v: "viewA s' = viewB t'" using eq by (metis prod.inject)+
  then have "same_reply ra rb" using u by simp
  with v A.revoke_law [OF assms(1,3) u(1)] B.revoke_law [OF assms(2,4) u(3)] show ?thesis by blast
next
  case (CallGetRevocation k)
  with a b n eq A.get_revocation_law [OF assms(1,3), of k]
    B.get_revocation_law [OF assms(2,4), of k] assms(1,2)
  show ?thesis by (auto simp: read_ok_def)
next
  case CallListRevoked
  with a b have r: "ra = ReplyList (list_revoked opsA s e)" "rb = ReplyList (list_revoked opsB t f)"
    "s' = s" "t' = t" by auto
  obtain xs where xs: "list_revoked opsA s e = Inr xs"
    using n(1) A.list_err [OF assms(1,3)] by (cases "list_revoked opsA s e") (simp_all add: r)
  obtain ys where ys: "list_revoked opsB t f = Inr ys"
    using n(2) B.list_err [OF assms(2,4)] by (cases "list_revoked opsB t f") (simp_all add: r)
  have "spec_list (viewA s) xs" "spec_list (viewA s) ys"
    using A.list_law [OF assms(1,3) xs] B.list_law [OF assms(2,4) ys] eq by simp_all
  then have "mset xs = mset ys \<and> map rr_revoked_at xs = map rr_revoked_at ys"
    by (rule spec_list_same)
  then show ?thesis by (simp add: r xs ys eq assms(1,2))
next
  case (CallReserve k)
  with a b obtain ua ub where u: "reserve_serial opsA s e now k = (ua, s')" "ra = ReplyErr ua"
    "reserve_serial opsB t f now k = (ub, t')" "rb = ReplyErr ub"
    by (auto split: prod.splits)
  then have nu: "\<forall>e. ua = Some e \<longrightarrow> \<not> infra e" "\<forall>e. ub = Some e \<longrightarrow> \<not> infra e"
    using n by auto
  have "(ua, viewA s') = spec_reserve (viewA s) k" "(ub, viewB t') = spec_reserve (viewB t) k"
    using A.reserve_law [OF assms(1,3) u(1)] B.reserve_law [OF assms(2,4) u(3)] nu write_ok_spec by blast+
  then have "ua = ub" and v: "viewA s' = viewB t'" using eq by (metis prod.inject)+
  then have "same_reply ra rb" using u by simp
  with v A.reserve_law [OF assms(1,3) u(1)] B.reserve_law [OF assms(2,4) u(3)] show ?thesis by blast
qed

lemma calls_agree:
  assumes "invA s" "invB t" "okA e" "okB f" and "viewA s = viewB t"
    and "list_all (\<lambda>r. \<not> infra_reply r) (storage_calls_run opsA e s cs)"
    and "list_all (\<lambda>r. \<not> infra_reply r) (storage_calls_run opsB f t cs)"
  shows "list_all2 same_reply (storage_calls_run opsA e s cs) (storage_calls_run opsB f t cs)"
  using assms(1,2,5-)
proof (induction cs arbitrary: s t)
  case (Cons nc cs)
  obtain now c where nc: "nc = (now, c)" by fastforce
  obtain ra s' where a: "storage_call_run opsA s e now c = (ra, s')" by fastforce
  obtain rb t' where b: "storage_call_run opsB t f now c = (rb, t')" by fastforce
  have n: "\<not> infra_reply ra" "\<not> infra_reply rb"
    using Cons.prems(4,5) by (simp_all add: nc a b)
  from call_lockstep [OF Cons.prems(1,2) assms(3,4) Cons.prems(3) a b n] Cons.IH [of s' t']
    Cons.prems(4,5)
  show ?case by (simp add: nc a b)
qed simp

end

end
