(* ===== verification/Memory_Storage.thy ===== *)
theory Memory_Storage
  imports Storage_Contract
begin

text \<open>
  \<open>pkg/storage/memory.go\<close>: the in-memory backend, its three maps and its methods, as an
  interpretation of the storage contract. Every method takes the lock for its whole body and
  copies what it stores and returns, so a method is one atomic step on values.
\<close>

record memory_storage =
  ms_certificates :: "(string, certificate_record) gomap"
  ms_revocations :: "(string, revocation_record) gomap"
  ms_serials :: "(string, serial_record) gomap"

definition new_memory_storage :: memory_storage where
  "new_memory_storage = \<lparr>ms_certificates = [], ms_revocations = [], ms_serials = []\<rparr>"

definition clone_certificate :: "certificate_record \<Rightarrow> string \<Rightarrow> certificate_record" where
  "clone_certificate src norm_serial = src\<lparr>cr_serial := norm_serial\<rparr>"

definition clone_revocation :: "revocation_record \<Rightarrow> revocation_record" where
  "clone_revocation src = src"

definition mem_save_certificate ::
  "memory_storage \<Rightarrow> ctx \<Rightarrow> go_time \<Rightarrow> certificate_record option \<Rightarrow> storage_error option \<times> memory_storage" where
  "mem_save_certificate m ctx now cert =
     (case ctx of
        Some err \<Rightarrow> (Some (CtxErr err), m)
      | None \<Rightarrow>
     (case cert of
        None \<Rightarrow> (Some ErrInvalidInput, m)
      | Some c \<Rightarrow>
          let norm_serial = normalize_serial (cr_serial c) in
          if norm_serial = [] then (Some ErrInvalidInput, m)
          else if map_of (ms_certificates m) norm_serial \<noteq> None then (Some ErrAlreadyExists, m)
          else
            let m1 = (if map_of (ms_serials m) norm_serial = None
                      then m\<lparr>ms_serials := gm_set norm_serial
                             \<lparr>sr_serial = norm_serial, sr_issued_at = now\<rparr> (ms_serials m)\<rparr>
                      else m)
            in (None, m1\<lparr>ms_certificates :=
                  gm_set norm_serial (clone_certificate c norm_serial) (ms_certificates m1)\<rparr>)))"

definition mem_get_certificate ::
  "memory_storage \<Rightarrow> ctx \<Rightarrow> string \<Rightarrow> storage_error + certificate_record" where
  "mem_get_certificate m ctx serial =
     (case ctx of
        Some err \<Rightarrow> Inl (CtxErr err)
      | None \<Rightarrow>
          let norm_serial = normalize_serial serial in
          if norm_serial = [] then Inl ErrInvalidInput
          else case map_of (ms_certificates m) norm_serial of
                 None \<Rightarrow> Inl ErrNotFound
               | Some cert \<Rightarrow> Inr (clone_certificate cert norm_serial))"

definition mem_revoke_certificate ::
  "memory_storage \<Rightarrow> ctx \<Rightarrow> go_time \<Rightarrow> string \<Rightarrow> int \<Rightarrow> go_time \<Rightarrow> storage_error option \<times> memory_storage" where
  "mem_revoke_certificate m ctx now serial reason revoked_at =
     (case ctx of
        Some err \<Rightarrow> (Some (CtxErr err), m)
      | None \<Rightarrow>
          let norm_serial = normalize_serial serial in
          if norm_serial = [] then (Some ErrInvalidInput, m)
          else case map_of (ms_certificates m) norm_serial of
                 None \<Rightarrow> (Some ErrNotFound, m)
               | Some cert \<Rightarrow>
                   if cr_revoked cert then (Some ErrAlreadyRevoked, m)
                   else if map_of (ms_revocations m) norm_serial \<noteq> None
                        then (Some ErrAlreadyRevoked, m)
                   else
                     let at = (if revoked_at = 0 then now else revoked_at) in
                     (None, m\<lparr>ms_certificates :=
                                gm_set norm_serial (cert\<lparr>cr_revoked := True\<rparr>) (ms_certificates m),
                              ms_revocations := gm_set norm_serial
                                \<lparr>rr_serial = norm_serial, rr_revoked_at = at, rr_reason = reason\<rparr>
                                (ms_revocations m)\<rparr>))"

definition mem_get_revocation ::
  "memory_storage \<Rightarrow> ctx \<Rightarrow> string \<Rightarrow> storage_error + revocation_record" where
  "mem_get_revocation m ctx serial =
     (case ctx of
        Some err \<Rightarrow> Inl (CtxErr err)
      | None \<Rightarrow>
          let norm_serial = normalize_serial serial in
          if norm_serial = [] then Inl ErrInvalidInput
          else case map_of (ms_revocations m) norm_serial of
                 None \<Rightarrow> Inl ErrNotFound
               | Some rv \<Rightarrow> Inr (clone_revocation rv))"

text \<open>The comparison handed to \<open>sort.Slice\<close>, and the sort by it. The map is visited in the
  order of \<open>visited\<close>, any arrangement of its entries.\<close>

definition revoked_less :: "revocation_record \<Rightarrow> revocation_record \<Rightarrow> bool" where
  "revoked_less a b =
     (if rr_revoked_at a = rr_revoked_at b then rr_serial a < rr_serial b
      else rr_revoked_at a < rr_revoked_at b)"

definition sort_revocations :: "revocation_record list \<Rightarrow> revocation_record list" where
  "sort_revocations rs = sort_key (\<lambda>r. (rr_revoked_at r, rr_serial r)) rs"

definition mem_list_revoked_from ::
  "(string \<times> revocation_record) list \<Rightarrow> ctx \<Rightarrow> storage_error + revocation_record list" where
  "mem_list_revoked_from visited ctx =
     (case ctx of
        Some err \<Rightarrow> Inl (CtxErr err)
      | None \<Rightarrow> Inr (sort_revocations (map (\<lambda>(_, rv). clone_revocation rv) visited)))"

definition mem_list_revoked ::
  "memory_storage \<Rightarrow> ctx \<Rightarrow> storage_error + revocation_record list" where
  "mem_list_revoked m ctx = mem_list_revoked_from (ms_revocations m) ctx"

definition mem_reserve_serial ::
  "memory_storage \<Rightarrow> ctx \<Rightarrow> go_time \<Rightarrow> string \<Rightarrow> storage_error option \<times> memory_storage" where
  "mem_reserve_serial m ctx now serial =
     (case ctx of
        Some err \<Rightarrow> (Some (CtxErr err), m)
      | None \<Rightarrow>
          let norm_serial = normalize_serial serial in
          if norm_serial = [] then (Some ErrInvalidInput, m)
          else if map_of (ms_serials m) norm_serial \<noteq> None then (Some ErrAlreadyExists, m)
          else if map_of (ms_certificates m) norm_serial \<noteq> None then (Some ErrAlreadyExists, m)
          else (None, m\<lparr>ms_serials := gm_set norm_serial
                 \<lparr>sr_serial = norm_serial, sr_issued_at = now\<rparr> (ms_serials m)\<rparr>))"

definition mem_ops :: "(memory_storage, ctx) storage_iface" where
  "mem_ops =
     \<lparr>save_certificate = mem_save_certificate,
      get_certificate = mem_get_certificate,
      revoke_certificate = mem_revoke_certificate,
      get_revocation = mem_get_revocation,
      list_revoked = mem_list_revoked,
      reserve_serial = mem_reserve_serial\<rparr>"

lemma mem_ops_simps [simp, store_simps]:
  "save_certificate mem_ops = mem_save_certificate"
  "get_certificate mem_ops = mem_get_certificate"
  "revoke_certificate mem_ops = mem_revoke_certificate"
  "get_revocation mem_ops = mem_get_revocation"
  "list_revoked mem_ops = mem_list_revoked"
  "reserve_serial mem_ops = mem_reserve_serial"
  by (simp_all add: mem_ops_def)

section \<open>The view of the abstract store\<close>

definition mem_view :: "memory_storage \<Rightarrow> store" where
  "mem_view m = \<lparr>st_certs = map_of (ms_certificates m), st_revs = map_of (ms_revocations m),
                 st_serials = dom (map_of (ms_serials m))\<rparr>"

definition mem_inv :: "memory_storage \<Rightarrow> bool" where
  "mem_inv m = (gm_wf (ms_certificates m) \<and> gm_wf (ms_revocations m) \<and> gm_wf (ms_serials m)
     \<and> store_wf (mem_view m))"

lemma mem_view_simps [simp]:
  "st_certs (mem_view m) = map_of (ms_certificates m)"
  "st_revs (mem_view m) = map_of (ms_revocations m)"
  "st_serials (mem_view m) = dom (map_of (ms_serials m))"
  by (simp_all add: mem_view_def)

lemma mem_inv_new [simp]: "mem_inv new_memory_storage"
  by (simp add: mem_inv_def new_memory_storage_def mem_view_def store_wf_def)

lemma mem_view_new: "mem_view new_memory_storage = empty_store"
  by (simp add: mem_view_def new_memory_storage_def empty_store_def)

lemma mem_invD:
  assumes "mem_inv m"
  shows "map_of (ms_certificates m) k = Some c \<Longrightarrow> cr_serial c = k"
    and "map_of (ms_certificates m) k = Some c \<Longrightarrow> \<exists>sr. map_of (ms_serials m) k = Some sr"
    and "map_of (ms_revocations m) k = Some r \<Longrightarrow> rr_serial r = k"
    and "map_of (ms_revocations m) k = Some r \<Longrightarrow>
      \<exists>c. map_of (ms_certificates m) k = Some c \<and> cr_revoked c"
  using assms by (auto simp: mem_inv_def store_wf_def)

lemma mem_save_law:
  assumes "mem_inv m" and "mem_save_certificate m ctx now cert = (r, m')"
  shows "mem_inv m' \<and> write_ok (mem_view m) (spec_save (mem_view m) cert) (r, mem_view m')"
proof -
  have eq: "(r, mem_view m') = spec_save (mem_view m) cert \<or> (\<exists>e. r = Some e \<and> infra e \<and> m' = m)"
    and wf: "gm_wf (ms_certificates m')" "gm_wf (ms_revocations m')" "gm_wf (ms_serials m')"
    using assms mem_invD [OF assms(1)]
    by (auto simp: mem_save_certificate_def spec_save_def mem_view_def mem_inv_def Let_def
        clone_certificate_def insert_absorb split: option.splits if_splits)
  from eq have "write_ok (mem_view m) (spec_save (mem_view m) cert) (r, mem_view m')"
    by (auto simp: write_ok_def)
  moreover have "store_wf (mem_view m')"
    using eq assms(1) store_wf_save [of "mem_view m" cert r "mem_view m'"] by (auto simp: mem_inv_def)
  ultimately show ?thesis using wf by (simp add: mem_inv_def)
qed

lemma mem_revoke_law:
  assumes "mem_inv m" and "mem_revoke_certificate m ctx now serial reason at = (r, m')"
  shows "mem_inv m' \<and> write_ok (mem_view m) (spec_revoke (mem_view m) now serial reason at) (r, mem_view m')"
proof -
  have eq: "(r, mem_view m') = spec_revoke (mem_view m) now serial reason at
      \<or> (\<exists>e. r = Some e \<and> infra e \<and> m' = m)"
    and wf: "gm_wf (ms_certificates m')" "gm_wf (ms_revocations m')" "gm_wf (ms_serials m')"
    using assms mem_invD(4) [OF assms(1), of "normalize_serial serial"]
    by (auto simp: mem_revoke_certificate_def spec_revoke_def mem_view_def mem_inv_def Let_def
        split: option.splits if_splits)
  from eq have "write_ok (mem_view m) (spec_revoke (mem_view m) now serial reason at) (r, mem_view m')"
    by (auto simp: write_ok_def)
  moreover have "store_wf (mem_view m')"
    using eq assms(1) store_wf_revoke [of "mem_view m" now serial reason at r "mem_view m'"]
    by (auto simp: mem_inv_def)
  ultimately show ?thesis using wf by (simp add: mem_inv_def)
qed

lemma mem_reserve_law:
  assumes "mem_inv m" and "mem_reserve_serial m ctx now serial = (r, m')"
  shows "mem_inv m' \<and> write_ok (mem_view m) (spec_reserve (mem_view m) serial) (r, mem_view m')"
proof -
  have eq: "(r, mem_view m') = spec_reserve (mem_view m) serial \<or> (\<exists>e. r = Some e \<and> infra e \<and> m' = m)"
    and wf: "gm_wf (ms_certificates m')" "gm_wf (ms_revocations m')" "gm_wf (ms_serials m')"
    using assms mem_invD(2) [OF assms(1), of "normalize_serial serial"]
    by (auto simp: mem_reserve_serial_def spec_reserve_def mem_view_def mem_inv_def Let_def
        split: option.splits if_splits)
  from eq have "write_ok (mem_view m) (spec_reserve (mem_view m) serial) (r, mem_view m')"
    by (auto simp: write_ok_def)
  moreover have "store_wf (mem_view m')"
    using eq assms(1) store_wf_reserve [of "mem_view m" serial r "mem_view m'"]
    by (auto simp: mem_inv_def)
  ultimately show ?thesis using wf by (simp add: mem_inv_def)
qed

lemma mem_get_law:
  assumes "mem_inv m"
  shows "read_ok (spec_lookup (st_certs (mem_view m)) k) (mem_get_certificate m ctx k)"
  using mem_invD(1) [OF assms, of "normalize_serial k"]
  by (auto simp: mem_get_certificate_def spec_lookup_def clone_certificate_def Let_def
      cr_serial_same split: option.splits)

lemma mem_get_revocation_law:
  "read_ok (spec_lookup (st_revs (mem_view m)) k) (mem_get_revocation m ctx k)"
  by (auto simp: mem_get_revocation_def spec_lookup_def clone_revocation_def Let_def
      split: option.splits)

section \<open>The revocation list\<close>

lemma revoked_less_key:
  "revoked_less a b \<longleftrightarrow> (rr_revoked_at a, rr_serial a) < (rr_revoked_at b, rr_serial b)"
  by (auto simp: revoked_less_def less_prod_def)

lemma sort_revocations_sorted:
  "sorted (map (\<lambda>r. (rr_revoked_at r, rr_serial r)) (sort_revocations rs))"
  by (simp add: sort_revocations_def)

lemma sort_revocations_mset [simp]: "mset (sort_revocations rs) = mset rs"
  by (simp add: sort_revocations_def)

lemma sort_revocations_set [simp]: "set (sort_revocations rs) = set rs"
  by (simp add: sort_revocations_def)

lemma sorted_fst: "sorted (map (\<lambda>x. (f x, g x)) xs) \<Longrightarrow> sorted (map f xs)"
  by (induction xs) (auto simp: less_eq_prod_def)

lemma listed_serials:
  assumes "mem_inv m"
  shows "map rr_serial (map (\<lambda>(_, rv). clone_revocation rv) (ms_revocations m))
    = map fst (ms_revocations m)"
proof -
  have wf: "gm_wf (ms_revocations m)" using assms by (simp add: mem_inv_def)
  have "rr_serial rv = k" if "(k, rv) \<in> set (ms_revocations m)" for k rv
    using that mem_invD(3) [OF assms] by (simp add: gm_wf_mem_iff [OF wf])
  then show ?thesis by (auto simp: clone_revocation_def)
qed

lemma mem_list_law:
  assumes "mem_inv m" and "mem_list_revoked m ctx = Inr rs"
  shows "spec_list (mem_view m) rs"
proof -
  let ?all = "map (\<lambda>(_, rv). clone_revocation rv) (ms_revocations m)"
  have rs: "rs = sort_revocations ?all"
    using assms(2) by (simp add: mem_list_revoked_def mem_list_revoked_from_def split: option.splits)
  have wf: "gm_wf (ms_revocations m)" using assms(1) by (simp add: mem_inv_def)
  have "distinct (map rr_serial ?all)"
    using wf by (simp only: listed_serials [OF assms(1)] gm_wf_def)
  then have d: "distinct (map rr_serial rs)"
    by (metis rs sort_revocations_mset mset_map mset_eq_imp_distinct_iff)
  have "sorted (map rr_revoked_at rs)"
    using sort_revocations_sorted [of ?all] by (auto simp: rs intro: sorted_fst)
  moreover have "set rs = ran (map_of (ms_revocations m))"
    using wf by (auto simp: rs clone_revocation_def ran_distinct gm_wf_def case_prod_unfold image_image)
  ultimately show ?thesis using d by (simp add: spec_list_def)
qed

interpretation mem: storage_contract mem_ops mem_view mem_inv "\<lambda>_. True"
proof (unfold_locales, unfold mem_ops_simps)
  show "mem_inv m \<Longrightarrow> store_wf (mem_view m)" for m
    by (simp add: mem_inv_def)
  show "mem_list_revoked m e = Inl x \<Longrightarrow> infra x" for m e x
    by (auto simp: mem_list_revoked_def mem_list_revoked_from_def split: option.splits)
qed (rule mem_save_law mem_revoke_law mem_reserve_law mem_get_law mem_get_revocation_law
    mem_list_law; assumption)+

end
