(* ===== verification/Sqlite_Storage.thy ===== *)
theory Sqlite_Storage
  imports Memory_Storage
begin

text \<open>
  \<open>pkg/storage/sqlite.go\<close>: the database backend. The three tables of \<open>initSchema\<close> are lists
  of rows, each SQL statement of the file is an operation on them with its primary-key check,
  a transaction works on a copy of the database that only \<open>Commit\<close> installs (the deferred
  \<open>Rollback\<close> drops it), and the driver may fail any statement: \<open>se_fault\<close> says which and
  with what message. \<open>se_row_order\<close> is the order in which the engine scans the revocations
  table, since \<open>ORDER BY revoked_at\<close> leaves the order of equal times open.
\<close>

record cert_row =
  cw_serial :: string
  cw_subject :: string
  cw_issuer :: string
  cw_not_before :: go_time
  cw_not_after :: go_time
  cw_raw_der :: "byte list option"
  cw_pem :: "byte list option"
  cw_revoked :: int

record sqlite_db =
  db_certificates :: "cert_row list"
  db_revocations :: "revocation_record list"
  db_serials :: "serial_record list"

datatype sql_stmt =
    BeginTx
  | CountCertificates string
  | InsertCertificate cert_row
  | InsertIgnoreSerial serial_record
  | Commit
  | SelectCertificate string
  | SelectRevoked string
  | UpdateRevoked string
  | InsertRevocation revocation_record
  | SelectRevocation string
  | SelectRevocations
  | CountSerials string
  | InsertSerial serial_record

record sql_env =
  se_fault :: "sql_stmt \<Rightarrow> string option"
  se_row_order :: "revocation_record list \<Rightarrow> revocation_record list"

definition init_schema :: sqlite_db where
  "init_schema = \<lparr>db_certificates = [], db_revocations = [], db_serials = []\<rparr>"

text \<open>\<open>NewSQLiteStorage\<close> on a file with the given database, if it has one: the tables are created if
  they do not exist. Opening the file and executing the schema may fail.\<close>

definition new_sqlite_storage :: "string option \<Rightarrow> string option \<Rightarrow> sqlite_db option \<Rightarrow> string + sqlite_db" where
  "new_sqlite_storage open_failed exec_failed file =
     (case open_failed of
        Some e \<Rightarrow> Inl (''failed opening sqlite database: '' @ e)
      | None \<Rightarrow>
          (case exec_failed of
             Some e \<Rightarrow> Inl (''failed initializing sqlite schema: '' @ e)
           | None \<Rightarrow> Inr (case file of None \<Rightarrow> init_schema | Some db \<Rightarrow> db)))"

section \<open>The statements\<close>

definition sql_count_certificates :: "string \<Rightarrow> sqlite_db \<Rightarrow> nat" where
  "sql_count_certificates serial db =
     length (filter (\<lambda>w. cw_serial w = serial) (db_certificates db))"

definition sql_count_serials :: "string \<Rightarrow> sqlite_db \<Rightarrow> nat" where
  "sql_count_serials serial db = length (filter (\<lambda>w. sr_serial w = serial) (db_serials db))"

text \<open>The columns \<open>raw_der\<close> and \<open>pem\<close> are declared \<open>NOT NULL\<close>, and the driver binds a nil slice as
  \<open>NULL\<close>. The other columns of the tables are never \<open>NULL\<close>: strings, times and integers are not pointers.\<close>

definition sql_insert_certificate :: "cert_row \<Rightarrow> sqlite_db \<Rightarrow> storage_error + sqlite_db" where
  "sql_insert_certificate w db =
     (if cw_raw_der w = None then Inl (DriverErr ''NOT NULL constraint failed: certificates.raw_der'')
      else if cw_pem w = None then Inl (DriverErr ''NOT NULL constraint failed: certificates.pem'')
      else if cw_serial w \<in> set (map cw_serial (db_certificates db))
      then Inl (DriverErr ''UNIQUE constraint failed: certificates.serial'')
      else Inr (db\<lparr>db_certificates := db_certificates db @ [w]\<rparr>))"

definition sql_insert_ignore_serial :: "serial_record \<Rightarrow> sqlite_db \<Rightarrow> sqlite_db" where
  "sql_insert_ignore_serial w db =
     (if sr_serial w \<in> set (map sr_serial (db_serials db)) then db
      else db\<lparr>db_serials := db_serials db @ [w]\<rparr>)"

definition sql_insert_serial :: "serial_record \<Rightarrow> sqlite_db \<Rightarrow> storage_error + sqlite_db" where
  "sql_insert_serial w db =
     (if sr_serial w \<in> set (map sr_serial (db_serials db))
      then Inl (DriverErr ''UNIQUE constraint failed: serials.serial'')
      else Inr (db\<lparr>db_serials := db_serials db @ [w]\<rparr>))"

definition sql_insert_revocation :: "revocation_record \<Rightarrow> sqlite_db \<Rightarrow> storage_error + sqlite_db" where
  "sql_insert_revocation w db =
     (if rr_serial w \<in> set (map rr_serial (db_revocations db))
      then Inl (DriverErr ''UNIQUE constraint failed: revocations.serial'')
      else Inr (db\<lparr>db_revocations := db_revocations db @ [w]\<rparr>))"

definition sql_update_revoked :: "string \<Rightarrow> sqlite_db \<Rightarrow> sqlite_db" where
  "sql_update_revoked serial db =
     db\<lparr>db_certificates := map (\<lambda>w. if cw_serial w = serial then w\<lparr>cw_revoked := 1\<rparr> else w)
          (db_certificates db)\<rparr>"

definition sql_select_certificate :: "string \<Rightarrow> sqlite_db \<Rightarrow> cert_row option" where
  "sql_select_certificate serial db = List.find (\<lambda>w. cw_serial w = serial) (db_certificates db)"

definition sql_select_revocation :: "string \<Rightarrow> sqlite_db \<Rightarrow> revocation_record option" where
  "sql_select_revocation serial db = List.find (\<lambda>w. rr_serial w = serial) (db_revocations db)"

section \<open>The methods\<close>

definition row_of_cert :: "certificate_record \<Rightarrow> string \<Rightarrow> cert_row" where
  "row_of_cert cert serial =
     \<lparr>cw_serial = serial, cw_subject = cr_subject cert, cw_issuer = cr_issuer cert,
      cw_not_before = cr_not_before cert, cw_not_after = cr_not_after cert,
      cw_raw_der = cr_raw_der cert, cw_pem = cr_pem cert,
      cw_revoked = (if cr_revoked cert then 1 else 0)\<rparr>"

definition cert_of_row :: "cert_row \<Rightarrow> certificate_record" where
  "cert_of_row w =
     \<lparr>cr_serial = cw_serial w, cr_subject = cw_subject w, cr_issuer = cw_issuer w,
      cr_not_before = cw_not_before w, cr_not_after = cw_not_after w,
      cr_raw_der = cw_raw_der w, cr_pem = cw_pem w, cr_revoked = (cw_revoked w = 1)\<rparr>"

definition sqlite_save_certificate ::
  "sqlite_db \<Rightarrow> sql_env \<Rightarrow> go_time \<Rightarrow> certificate_record option \<Rightarrow> storage_error option \<times> sqlite_db" where
  "sqlite_save_certificate db env now cert =
     (case cert of
        None \<Rightarrow> (Some ErrInvalidInput, db)
      | Some c \<Rightarrow>
          let serial = normalize_serial (cr_serial c) in
          if serial = [] then (Some ErrInvalidInput, db)
          else (case se_fault env BeginTx of Some e \<Rightarrow> (Some (DriverErr e), db) | None \<Rightarrow>
          let tx = db in
          (case se_fault env (CountCertificates serial) of Some e \<Rightarrow> (Some (DriverErr e), db) | None \<Rightarrow>
          if sql_count_certificates serial tx > 0 then (Some ErrAlreadyExists, db)
          else
            let row = row_of_cert c serial in
          (case se_fault env (InsertCertificate row) of Some e \<Rightarrow> (Some (DriverErr e), db) | None \<Rightarrow>
          (case sql_insert_certificate row tx of Inl e \<Rightarrow> (Some e, db) | Inr tx \<Rightarrow>
          let sr = \<lparr>sr_serial = serial, sr_issued_at = now\<rparr>;
              tx = (case se_fault env (InsertIgnoreSerial sr) of
                      Some _ \<Rightarrow> tx
                    | None \<Rightarrow> sql_insert_ignore_serial sr tx)
          in (case se_fault env Commit of Some e \<Rightarrow> (Some (DriverErr e), db) | None \<Rightarrow> (None, tx)))))))"

definition sqlite_get_certificate ::
  "sqlite_db \<Rightarrow> sql_env \<Rightarrow> string \<Rightarrow> storage_error + certificate_record" where
  "sqlite_get_certificate db env serial =
     (let norm_serial = normalize_serial serial in
      if norm_serial = [] then Inl ErrInvalidInput
      else case se_fault env (SelectCertificate norm_serial) of
             Some e \<Rightarrow> Inl (DriverErr e)
           | None \<Rightarrow> (case sql_select_certificate norm_serial db of
                        None \<Rightarrow> Inl ErrNotFound
                      | Some w \<Rightarrow> Inr (cert_of_row w)))"

definition sqlite_revoke_certificate ::
  "sqlite_db \<Rightarrow> sql_env \<Rightarrow> go_time \<Rightarrow> string \<Rightarrow> int \<Rightarrow> go_time \<Rightarrow> storage_error option \<times> sqlite_db" where
  "sqlite_revoke_certificate db env now serial reason revoked_at =
     (let norm_serial = normalize_serial serial in
      if norm_serial = [] then (Some ErrInvalidInput, db)
      else
        let at = (if revoked_at = 0 then now else revoked_at) in
      (case se_fault env BeginTx of Some e \<Rightarrow> (Some (DriverErr e), db) | None \<Rightarrow>
        let tx = db in
      (case se_fault env (SelectRevoked norm_serial) of Some e \<Rightarrow> (Some (DriverErr e), db) | None \<Rightarrow>
      (case sql_select_certificate norm_serial tx of
         None \<Rightarrow> (Some ErrNotFound, db)
       | Some w \<Rightarrow>
           if cw_revoked w = 1 then (Some ErrAlreadyRevoked, db)
           else
      (case se_fault env (UpdateRevoked norm_serial) of Some e \<Rightarrow> (Some (DriverErr e), db) | None \<Rightarrow>
        let tx = sql_update_revoked norm_serial tx;
            rec = \<lparr>rr_serial = norm_serial, rr_revoked_at = at, rr_reason = reason\<rparr> in
      (case se_fault env (InsertRevocation rec) of Some e \<Rightarrow> (Some (DriverErr e), db) | None \<Rightarrow>
      (case sql_insert_revocation rec tx of Inl e \<Rightarrow> (Some e, db) | Inr tx \<Rightarrow>
      (case se_fault env Commit of Some e \<Rightarrow> (Some (DriverErr e), db) | None \<Rightarrow> (None, tx)))))))))"

definition sqlite_get_revocation ::
  "sqlite_db \<Rightarrow> sql_env \<Rightarrow> string \<Rightarrow> storage_error + revocation_record" where
  "sqlite_get_revocation db env serial =
     (let norm_serial = normalize_serial serial in
      if norm_serial = [] then Inl ErrInvalidInput
      else case se_fault env (SelectRevocation norm_serial) of
             Some e \<Rightarrow> Inl (DriverErr e)
           | None \<Rightarrow> (case sql_select_revocation norm_serial db of
                        None \<Rightarrow> Inl ErrNotFound
                      | Some r \<Rightarrow> Inr r))"

definition sqlite_list_revoked ::
  "sqlite_db \<Rightarrow> sql_env \<Rightarrow> storage_error + revocation_record list" where
  "sqlite_list_revoked db env =
     (case se_fault env SelectRevocations of
        Some e \<Rightarrow> Inl (DriverErr e)
      | None \<Rightarrow> Inr (sort_key rr_revoked_at (se_row_order env (db_revocations db))))"

text \<open>\<open>ReserveSerial\<close> is two statements outside a transaction; \<open>sqlite_reserve_insert\<close> is the
  second one, which another caller's statement may precede.\<close>

definition sqlite_reserve_insert ::
  "sqlite_db \<Rightarrow> sql_env \<Rightarrow> go_time \<Rightarrow> string \<Rightarrow> storage_error option \<times> sqlite_db" where
  "sqlite_reserve_insert db env now norm_serial =
     (let sr = \<lparr>sr_serial = norm_serial, sr_issued_at = now\<rparr> in
      case se_fault env (InsertSerial sr) of
        Some e \<Rightarrow> (Some (DriverErr e), db)
      | None \<Rightarrow> (case sql_insert_serial sr db of Inl e \<Rightarrow> (Some e, db) | Inr db' \<Rightarrow> (None, db')))"

definition sqlite_reserve_check ::
  "sqlite_db \<Rightarrow> sql_env \<Rightarrow> string \<Rightarrow> storage_error option" where
  "sqlite_reserve_check db env norm_serial =
     (if norm_serial = [] then Some ErrInvalidInput
      else case se_fault env (CountSerials norm_serial) of
             Some e \<Rightarrow> Some (DriverErr e)
           | None \<Rightarrow> if sql_count_serials norm_serial db > 0 then Some ErrAlreadyExists else None)"

definition sqlite_reserve_serial ::
  "sqlite_db \<Rightarrow> sql_env \<Rightarrow> go_time \<Rightarrow> string \<Rightarrow> storage_error option \<times> sqlite_db" where
  "sqlite_reserve_serial db env now serial =
     (let norm_serial = normalize_serial serial in
      case sqlite_reserve_check db env norm_serial of
        Some e \<Rightarrow> (Some e, db)
      | None \<Rightarrow> sqlite_reserve_insert db env now norm_serial)"

definition sqlite_ops :: "(sqlite_db, sql_env) storage_iface" where
  "sqlite_ops =
     \<lparr>save_certificate = sqlite_save_certificate,
      get_certificate = sqlite_get_certificate,
      revoke_certificate = sqlite_revoke_certificate,
      get_revocation = sqlite_get_revocation,
      list_revoked = sqlite_list_revoked,
      reserve_serial = sqlite_reserve_serial\<rparr>"

lemma sqlite_ops_simps [simp, store_simps]:
  "save_certificate sqlite_ops = sqlite_save_certificate"
  "get_certificate sqlite_ops = sqlite_get_certificate"
  "revoke_certificate sqlite_ops = sqlite_revoke_certificate"
  "get_revocation sqlite_ops = sqlite_get_revocation"
  "list_revoked sqlite_ops = sqlite_list_revoked"
  "reserve_serial sqlite_ops = sqlite_reserve_serial"
  by (simp_all add: sqlite_ops_def)

section \<open>The view of the abstract store\<close>

definition sqlite_view :: "sqlite_db \<Rightarrow> store" where
  "sqlite_view db =
     \<lparr>st_certs = (\<lambda>k. map_option cert_of_row (sql_select_certificate k db)),
      st_revs = (\<lambda>k. sql_select_revocation k db),
      st_serials = set (map sr_serial (db_serials db))\<rparr>"

definition sqlite_inv :: "sqlite_db \<Rightarrow> bool" where
  "sqlite_inv db =
     (distinct (map cw_serial (db_certificates db)) \<and> distinct (map rr_serial (db_revocations db)) \<and>
      distinct (map sr_serial (db_serials db)) \<and> store_wf (sqlite_view db))"

text \<open>The one failure the code ignores is that of \<open>INSERT OR IGNORE INTO serials\<close>, and a scan
  visits every row once.\<close>

definition sql_env_ok :: "sql_env \<Rightarrow> bool" where
  "sql_env_ok env =
     ((\<forall>sr. se_fault env (InsertIgnoreSerial sr) = None) \<and>
      (\<forall>rows. mset (se_row_order env rows) = mset rows))"

lemma find_key_append:
  "List.find (\<lambda>w. f w = k) (xs @ [w]) =
     (case List.find (\<lambda>w. f w = k) xs of None \<Rightarrow> if f w = k then Some w else None | Some v \<Rightarrow> Some v)"
  by (induction xs) auto

lemma find_key_map:
  "(\<And>w. f (g w) = f w) \<Longrightarrow>
     List.find (\<lambda>w. f w = k) (map g xs) = map_option g (List.find (\<lambda>w. f w = k) xs)"
  by (induction xs) auto

lemma find_key_None: "List.find (\<lambda>w. f w = k) xs = None \<longleftrightarrow> k \<notin> set (map f xs)"
  by (auto simp: find_None_iff)

lemma find_key_Some: "List.find (\<lambda>w. f w = k) xs = Some w \<Longrightarrow> w \<in> set xs \<and> f w = k"
  by (auto simp: find_Some_iff)

lemma find_key_mem:
  "distinct (map f xs) \<Longrightarrow> w \<in> set xs \<Longrightarrow> List.find (\<lambda>v. f v = f w) xs = Some w"
  by (induction xs) (auto simp: image_iff)

lemma filter_key_pos: "length (filter (\<lambda>w. f w = k) xs) > 0 \<longleftrightarrow> k \<in> set (map f xs)"
  by (auto simp: filter_empty_conv)

lemma ran_find_key: "distinct (map f xs) \<Longrightarrow> ran (\<lambda>k. List.find (\<lambda>w. f w = k) xs) = set xs"
  by (auto simp: ran_def dest: find_key_Some find_key_mem)

lemma cert_of_row_of_cert [simp]: "cert_of_row (row_of_cert c k) = c\<lparr>cr_serial := k\<rparr>"
  by (cases c) (simp add: cert_of_row_def row_of_cert_def)

lemma row_of_cert_columns [simp]:
  "cw_serial (row_of_cert c k) = k" "cw_raw_der (row_of_cert c k) = cr_raw_der c"
  "cw_pem (row_of_cert c k) = cr_pem c"
  by (simp_all add: row_of_cert_def)

lemma sqlite_view_simps [simp]:
  "st_certs (sqlite_view db) k = map_option cert_of_row (sql_select_certificate k db)"
  "st_revs (sqlite_view db) k = sql_select_revocation k db"
  "st_serials (sqlite_view db) = set (map sr_serial (db_serials db))"
  by (simp_all add: sqlite_view_def)

lemma sqlite_inv_init [simp]: "sqlite_inv init_schema"
  by (simp add: sqlite_inv_def init_schema_def sqlite_view_def store_wf_def
      sql_select_certificate_def sql_select_revocation_def)

lemma sqlite_view_init: "sqlite_view init_schema = empty_store"
  by (simp add: sqlite_view_def init_schema_def empty_store_def
      sql_select_certificate_def sql_select_revocation_def)

lemma sqlite_inv_serial:
  assumes "sqlite_inv db" and "sql_select_certificate k db = Some w"
  shows "k \<in> set (map sr_serial (db_serials db))"
proof -
  have "st_certs (sqlite_view db) k = Some (cert_of_row w)" using assms(2) by simp
  moreover have "store_wf (sqlite_view db)" using assms(1) by (simp add: sqlite_inv_def)
  ultimately have "k \<in> st_serials (sqlite_view db)" unfolding store_wf_def by blast
  then show ?thesis by simp
qed

lemma sqlite_inv_revoked:
  assumes "sqlite_inv db" and "sql_select_revocation k db = Some r"
  shows "\<exists>w. sql_select_certificate k db = Some w \<and> cw_revoked w = 1"
proof -
  have "st_revs (sqlite_view db) k = Some r" using assms(2) by simp
  moreover have "store_wf (sqlite_view db)" using assms(1) by (simp add: sqlite_inv_def)
  ultimately obtain c where "st_certs (sqlite_view db) k = Some c" "cr_revoked c"
    unfolding store_wf_def by blast
  then show ?thesis by (auto simp: cert_of_row_def)
qed

section \<open>The statements on the view\<close>

lemma view_insert_certificate:
  assumes "sql_select_certificate (cw_serial w) db = None"
  shows "cw_raw_der w \<noteq> None \<Longrightarrow> cw_pem w \<noteq> None \<Longrightarrow>
      sql_insert_certificate w db = Inr (db\<lparr>db_certificates := db_certificates db @ [w]\<rparr>)"
    and "sqlite_view (db\<lparr>db_certificates := db_certificates db @ [w]\<rparr>) =
      (sqlite_view db)\<lparr>st_certs := (st_certs (sqlite_view db))(cw_serial w \<mapsto> cert_of_row w)\<rparr>"
proof -
  show "sql_insert_certificate w db = Inr (db\<lparr>db_certificates := db_certificates db @ [w]\<rparr>)"
    if "cw_raw_der w \<noteq> None" "cw_pem w \<noteq> None"
    using that assms find_key_None [of cw_serial "cw_serial w" "db_certificates db"]
    by (simp add: sql_insert_certificate_def sql_select_certificate_def)
  have "map_option cert_of_row (sql_select_certificate k (db\<lparr>db_certificates := db_certificates db @ [w]\<rparr>)) =
      ((\<lambda>k. map_option cert_of_row (sql_select_certificate k db))(cw_serial w \<mapsto> cert_of_row w)) k" for k
    using assms by (cases "k = cw_serial w")
      (auto simp: sql_select_certificate_def find_key_append split: option.splits)
  then show "sqlite_view (db\<lparr>db_certificates := db_certificates db @ [w]\<rparr>) =
      (sqlite_view db)\<lparr>st_certs := (st_certs (sqlite_view db))(cw_serial w \<mapsto> cert_of_row w)\<rparr>"
    by (simp add: sqlite_view_def sql_select_revocation_def fun_eq_iff)
qed

lemma view_insert_ignore_serial:
  "sqlite_view (sql_insert_ignore_serial sr db) =
     (sqlite_view db)\<lparr>st_serials := insert (sr_serial sr) (st_serials (sqlite_view db))\<rparr>"
  by (auto simp: sql_insert_ignore_serial_def sqlite_view_def sql_select_certificate_def
      sql_select_revocation_def insert_absorb)

lemma view_update_revoked:
  assumes "sql_select_certificate k db = Some w"
  shows "sqlite_view (sql_update_revoked k db) = (sqlite_view db)\<lparr>st_certs :=
      (st_certs (sqlite_view db))(k \<mapsto> (cert_of_row w)\<lparr>cr_revoked := True\<rparr>)\<rparr>"
proof -
  let ?g = "\<lambda>w. if cw_serial w = k then w\<lparr>cw_revoked := 1\<rparr> else w"
  have g: "List.find (\<lambda>w. cw_serial w = j) (map ?g (db_certificates db))
      = map_option ?g (List.find (\<lambda>w. cw_serial w = j) (db_certificates db))" for j
    by (rule find_key_map) simp
  have c: "cert_of_row (w\<lparr>cw_revoked := 1\<rparr>) = (cert_of_row w)\<lparr>cr_revoked := True\<rparr>" for w
    by (simp add: cert_of_row_def)
  have "map_option cert_of_row (sql_select_certificate j (sql_update_revoked k db)) =
      ((\<lambda>j. map_option cert_of_row (sql_select_certificate j db))
         (k \<mapsto> (cert_of_row w)\<lparr>cr_revoked := True\<rparr>)) j" for j
  proof (cases "List.find (\<lambda>w. cw_serial w = j) (db_certificates db)")
    case None
    then show ?thesis using assms
      by (auto simp: sql_select_certificate_def sql_update_revoked_def g)
  next
    case (Some v)
    then have "cw_serial v = j" using find_key_Some [of cw_serial] by blast
    then show ?thesis using assms Some
      by (cases "j = k") (auto simp: sql_select_certificate_def sql_update_revoked_def g c)
  qed
  then show ?thesis
    by (simp add: sqlite_view_def sql_select_revocation_def sql_update_revoked_def fun_eq_iff)
qed

lemma view_insert_revocation:
  assumes "sql_select_revocation (rr_serial r) db = None"
  shows "sql_insert_revocation r db = Inr (db\<lparr>db_revocations := db_revocations db @ [r]\<rparr>)"
    and "sqlite_view (db\<lparr>db_revocations := db_revocations db @ [r]\<rparr>) =
      (sqlite_view db)\<lparr>st_revs := (st_revs (sqlite_view db))(rr_serial r \<mapsto> r)\<rparr>"
proof -
  show "sql_insert_revocation r db = Inr (db\<lparr>db_revocations := db_revocations db @ [r]\<rparr>)"
    using assms find_key_None [of rr_serial "rr_serial r" "db_revocations db"]
    by (simp add: sql_insert_revocation_def sql_select_revocation_def)
  have "sql_select_revocation k (db\<lparr>db_revocations := db_revocations db @ [r]\<rparr>) =
      ((\<lambda>k. sql_select_revocation k db)(rr_serial r \<mapsto> r)) k" for k
    using assms by (cases "k = rr_serial r")
      (auto simp: sql_select_revocation_def find_key_append split: option.splits)
  then show "sqlite_view (db\<lparr>db_revocations := db_revocations db @ [r]\<rparr>) =
      (sqlite_view db)\<lparr>st_revs := (st_revs (sqlite_view db))(rr_serial r \<mapsto> r)\<rparr>"
    by (simp add: sqlite_view_def sql_select_certificate_def fun_eq_iff)
qed

lemma count_certificates_pos:
  "0 < sql_count_certificates k db \<longleftrightarrow> sql_select_certificate k db \<noteq> None"
  using filter_key_pos [of cw_serial k "db_certificates db"]
    find_key_None [of cw_serial k "db_certificates db"]
  by (simp add: sql_count_certificates_def sql_select_certificate_def)

lemma count_serials_pos: "0 < sql_count_serials k db \<longleftrightarrow> k \<in> set (map sr_serial (db_serials db))"
  using filter_key_pos [of sr_serial k "db_serials db"] by (simp add: sql_count_serials_def)

section \<open>The laws\<close>

lemma view_save:
  assumes "sql_select_certificate k db = None"
  shows "sqlite_view (sql_insert_ignore_serial \<lparr>sr_serial = k, sr_issued_at = now\<rparr>
      (db\<lparr>db_certificates := db_certificates db @ [row_of_cert c k]\<rparr>)) =
    (sqlite_view db)\<lparr>st_certs := (st_certs (sqlite_view db))(k \<mapsto> c\<lparr>cr_serial := k\<rparr>),
      st_serials := insert k (st_serials (sqlite_view db))\<rparr>"
  using assms view_insert_certificate(2) [of "row_of_cert c k" db]
  by (simp add: view_insert_ignore_serial)

lemma distinct_insert_ignore:
  "distinct (map sr_serial (db_serials db)) \<Longrightarrow>
     distinct (map sr_serial (db_serials (sql_insert_ignore_serial sr db)))"
  by (simp add: sql_insert_ignore_serial_def)

lemma insert_ignore_other [simp]:
  "db_certificates (sql_insert_ignore_serial sr db) = db_certificates db"
  "db_revocations (sql_insert_ignore_serial sr db) = db_revocations db"
  by (simp_all add: sql_insert_ignore_serial_def)

lemma insert_certificate_result:
  "sql_insert_certificate w db = Inr (db\<lparr>db_certificates := db_certificates db @ [w]\<rparr>) \<or>
   (\<exists>m. sql_insert_certificate w db = Inl (DriverErr m))"
  by (simp add: sql_insert_certificate_def)

lemma sqlite_save_law:
  assumes inv: "sqlite_inv db" and ok: "sql_env_ok env"
    and r: "sqlite_save_certificate db env now cert = (r, db')"
  shows "sqlite_inv db' \<and> write_ok (sqlite_view db) (spec_save (sqlite_view db) cert) (r, sqlite_view db')"
proof -
  have eq: "(r, sqlite_view db') = spec_save (sqlite_view db) cert \<or> (\<exists>e. r = Some e \<and> infra e \<and> db' = db)"
    and d: "distinct (map cw_serial (db_certificates db'))"
      "distinct (map rr_serial (db_revocations db'))" "distinct (map sr_serial (db_serials db'))"
  proof -
    show "distinct (map rr_serial (db_revocations db'))"
      using r inv by (auto simp: sqlite_save_certificate_def sqlite_inv_def Let_def sql_insert_certificate_def
          split: option.splits if_splits sum.splits)
    show "distinct (map cw_serial (db_certificates db'))"
      using r inv by (auto simp: sqlite_save_certificate_def sqlite_inv_def Let_def sql_insert_certificate_def
          split: option.splits if_splits sum.splits)
    show "distinct (map sr_serial (db_serials db'))"
      using r inv by (auto simp: sqlite_save_certificate_def sqlite_inv_def Let_def sql_insert_certificate_def
          sql_insert_ignore_serial_def
          split: option.splits if_splits sum.splits)
    show "(r, sqlite_view db') = spec_save (sqlite_view db) cert \<or> (\<exists>e. r = Some e \<and> infra e \<and> db' = db)"
    proof (cases cert)
      case None
      then show ?thesis using r by (simp add: sqlite_save_certificate_def spec_save_def)
    next
      case (Some c)
      let ?k = "normalize_serial (cr_serial c)"
      show ?thesis
      proof (cases "sql_select_certificate ?k db")
        case None
        consider "sql_insert_certificate (row_of_cert c ?k) db =
              Inr (db\<lparr>db_certificates := db_certificates db @ [row_of_cert c ?k]\<rparr>)"
          | m where "sql_insert_certificate (row_of_cert c ?k) db = Inl (DriverErr m)"
          using insert_certificate_result [of "row_of_cert c ?k" db] by blast
        then show ?thesis
        proof cases
          case 1
          then show ?thesis using r ok None view_save [OF None, of now c]
            by (auto simp: Some sqlite_save_certificate_def spec_save_def Let_def sql_env_ok_def
                count_certificates_pos split: option.splits if_splits)
        next
          case 2
          then show ?thesis using r None
            by (auto simp: Some sqlite_save_certificate_def spec_save_def Let_def
                count_certificates_pos split: option.splits if_splits)
        qed
      next
        case Some': (Some w)
        then show ?thesis using r
          by (auto simp: Some sqlite_save_certificate_def spec_save_def Let_def
              count_certificates_pos split: option.splits if_splits)
      qed
    qed
  qed
  have "store_wf (sqlite_view db')"
    using eq inv store_wf_save [of "sqlite_view db" cert r "sqlite_view db'"]
    by (auto simp: sqlite_inv_def)
  with eq d show ?thesis by (auto simp: sqlite_inv_def write_ok_def)
qed

lemma update_revoked_other [simp]:
  "db_revocations (sql_update_revoked k db) = db_revocations db"
  "db_serials (sql_update_revoked k db) = db_serials db"
  "map cw_serial (db_certificates (sql_update_revoked k db)) = map cw_serial (db_certificates db)"
  by (simp_all add: sql_update_revoked_def)

lemma select_revocation_update [simp]:
  "sql_select_revocation k (sql_update_revoked j db) = sql_select_revocation k db"
  by (simp add: sql_select_revocation_def)

lemma view_revoke:
  assumes "sql_select_certificate k db = Some w" and "sql_select_revocation k db = None"
    and "rr_serial r = k"
  shows "sql_insert_revocation r (sql_update_revoked k db) =
      Inr ((sql_update_revoked k db)\<lparr>db_revocations := db_revocations db @ [r]\<rparr>)"
    and "sqlite_view ((sql_update_revoked k db)\<lparr>db_revocations := db_revocations db @ [r]\<rparr>) =
      (sqlite_view db)\<lparr>st_certs := (st_certs (sqlite_view db))(k \<mapsto> (cert_of_row w)\<lparr>cr_revoked := True\<rparr>),
        st_revs := (st_revs (sqlite_view db))(k \<mapsto> r)\<rparr>"
  using view_insert_revocation [of r "sql_update_revoked k db"] view_update_revoked [OF assms(1)] assms
  by simp_all

lemma sqlite_revoke_law:
  assumes inv: "sqlite_inv db"
    and r: "sqlite_revoke_certificate db env now serial reason at = (r, db')"
  shows "sqlite_inv db' \<and>
    write_ok (sqlite_view db) (spec_revoke (sqlite_view db) now serial reason at) (r, sqlite_view db')"
proof -
  let ?k = "normalize_serial serial"
  let ?rec = "\<lparr>rr_serial = ?k, rr_revoked_at = (if at = 0 then now else at), rr_reason = reason\<rparr>"
  have eq: "(r, sqlite_view db') = spec_revoke (sqlite_view db) now serial reason at
      \<or> (\<exists>e. r = Some e \<and> infra e \<and> db' = db)"
    and d: "distinct (map cw_serial (db_certificates db'))"
      "distinct (map rr_serial (db_revocations db'))" "distinct (map sr_serial (db_serials db'))"
  proof -
    have d0: "distinct (map cw_serial (db_certificates db))"
      "distinct (map rr_serial (db_revocations db))" "distinct (map sr_serial (db_serials db))"
      using inv by (simp_all add: sqlite_inv_def)
    consider "sql_select_certificate ?k db = None"
      | w where "sql_select_certificate ?k db = Some w" "cw_revoked w = 1"
      | w where "sql_select_certificate ?k db = Some w" "cw_revoked w \<noteq> 1"
      by (cases "sql_select_certificate ?k db") auto
    then have "((r, sqlite_view db') = spec_revoke (sqlite_view db) now serial reason at
        \<or> (\<exists>e. r = Some e \<and> infra e \<and> db' = db)) \<and>
      distinct (map cw_serial (db_certificates db')) \<and> distinct (map rr_serial (db_revocations db')) \<and>
      distinct (map sr_serial (db_serials db'))"
    proof cases
      case 1
      then show ?thesis using r d0
        by (auto simp: sqlite_revoke_certificate_def spec_revoke_def Let_def
            split: option.splits if_splits)
    next
      case 2
      then show ?thesis using r d0
        by (auto simp: sqlite_revoke_certificate_def spec_revoke_def Let_def cert_of_row_def
            split: option.splits if_splits)
    next
      case (3 w)
      then have n: "sql_select_revocation ?k db = None"
        using sqlite_inv_revoked [OF inv, of ?k] by fastforce
      then have nk: "?k \<notin> set (map rr_serial (db_revocations db))"
        using find_key_None [of rr_serial ?k "db_revocations db"]
        by (simp add: sql_select_revocation_def)
      show ?thesis using r d0 3 nk view_revoke [OF 3(1) n, of ?rec]
        by (auto simp: sqlite_revoke_certificate_def spec_revoke_def Let_def cert_of_row_def
            split: option.splits if_splits)
    qed
    then show "(r, sqlite_view db') = spec_revoke (sqlite_view db) now serial reason at
      \<or> (\<exists>e. r = Some e \<and> infra e \<and> db' = db)"
      and "distinct (map cw_serial (db_certificates db'))"
      "distinct (map rr_serial (db_revocations db'))" "distinct (map sr_serial (db_serials db'))"
      by simp_all
  qed
  have "store_wf (sqlite_view db')"
    using eq inv store_wf_revoke [of "sqlite_view db" now serial reason at r "sqlite_view db'"]
    by (auto simp: sqlite_inv_def)
  with eq d show ?thesis by (auto simp: sqlite_inv_def write_ok_def)
qed

lemma sqlite_reserve_law:
  assumes inv: "sqlite_inv db" and r: "sqlite_reserve_serial db env now serial = (r, db')"
  shows "sqlite_inv db' \<and>
    write_ok (sqlite_view db) (spec_reserve (sqlite_view db) serial) (r, sqlite_view db')"
proof -
  have eq: "(r, sqlite_view db') = spec_reserve (sqlite_view db) serial
      \<or> (\<exists>e. r = Some e \<and> infra e \<and> db' = db)"
    using r by (auto simp: sqlite_reserve_serial_def sqlite_reserve_check_def sqlite_reserve_insert_def
        spec_reserve_def Let_def count_serials_pos sql_insert_serial_def sqlite_view_def
        sql_select_certificate_def sql_select_revocation_def split: option.splits if_splits)
  have d: "distinct (map cw_serial (db_certificates db'))"
      "distinct (map rr_serial (db_revocations db'))" "distinct (map sr_serial (db_serials db'))"
    using r inv by (auto simp: sqlite_reserve_serial_def sqlite_reserve_check_def
        sqlite_reserve_insert_def Let_def sql_insert_serial_def sqlite_inv_def
        split: option.splits if_splits)
  have "store_wf (sqlite_view db')"
    using eq inv store_wf_reserve [of "sqlite_view db" serial r "sqlite_view db'"]
    by (auto simp: sqlite_inv_def)
  with eq d show ?thesis by (auto simp: sqlite_inv_def write_ok_def)
qed

lemma sqlite_get_law:
  "read_ok (spec_lookup (st_certs (sqlite_view db)) k) (sqlite_get_certificate db env k)"
  by (auto simp: sqlite_get_certificate_def spec_lookup_def Let_def split: option.splits)

lemma sqlite_get_revocation_law:
  "read_ok (spec_lookup (st_revs (sqlite_view db)) k) (sqlite_get_revocation db env k)"
  by (auto simp: sqlite_get_revocation_def spec_lookup_def Let_def split: option.splits)

lemma sqlite_list_law:
  assumes inv: "sqlite_inv db" and ok: "sql_env_ok env" and r: "sqlite_list_revoked db env = Inr rs"
  shows "spec_list (sqlite_view db) rs"
proof -
  have rs: "rs = sort_key rr_revoked_at (se_row_order env (db_revocations db))"
    using r by (simp add: sqlite_list_revoked_def split: option.splits)
  have m: "mset rs = mset (db_revocations db)"
    using ok by (simp add: rs sql_env_ok_def)
  have "distinct (map rr_serial (db_revocations db))" using inv by (simp add: sqlite_inv_def)
  then have d: "distinct (map rr_serial rs)"
    by (metis m mset_map mset_eq_imp_distinct_iff)
  have "ran (st_revs (sqlite_view db)) = set (db_revocations db)"
    using inv ran_find_key [of rr_serial "db_revocations db"]
    by (simp add: sqlite_inv_def sqlite_view_def sql_select_revocation_def)
  moreover have "set rs = set (db_revocations db)" using m by (metis set_mset_mset)
  ultimately show ?thesis using d by (simp add: spec_list_def rs)
qed

interpretation sq: storage_contract sqlite_ops sqlite_view sqlite_inv sql_env_ok
proof (unfold_locales, unfold sqlite_ops_simps)
  show "sqlite_inv m \<Longrightarrow> store_wf (sqlite_view m)" for m
    by (simp add: sqlite_inv_def)
  show "sqlite_list_revoked m e = Inl x \<Longrightarrow> infra x" for m e x
    by (auto simp: sqlite_list_revoked_def split: option.splits)
qed (rule sqlite_save_law sqlite_revoke_law sqlite_reserve_law sqlite_get_law
    sqlite_get_revocation_law sqlite_list_law; assumption)+

interpretation backends: storage_pair mem_ops mem_view mem_inv "\<lambda>_. True"
    sqlite_ops sqlite_view sqlite_inv sql_env_ok
  by unfold_locales

end
