(* ===== verification/Sqlite_Race.thy ===== *)
theory Sqlite_Race
  imports Sqlite_Storage
begin

text \<open>
  \<open>SQLiteStorage.ReserveSerial\<close> run by several callers at once. The method is two statements
  outside a transaction, so between one caller's \<open>SELECT COUNT\<close> and its \<open>INSERT\<close> another
  caller's statement may run. A schedule is the order in which the callers take their steps.
\<close>

datatype reserve_pc = AtCheck | AtInsert | Returned "storage_error option"

fun reserve_pc_step ::
  "string \<Rightarrow> sql_env \<Rightarrow> go_time \<Rightarrow> sqlite_db \<times> reserve_pc \<Rightarrow> sqlite_db \<times> reserve_pc" where
  "reserve_pc_step k env now (db, AtCheck) =
     (case sqlite_reserve_check db env k of
        Some e \<Rightarrow> (db, Returned (Some e))
      | None \<Rightarrow> (db, AtInsert))"
| "reserve_pc_step k env now (db, AtInsert) =
     (let (r, db') = sqlite_reserve_insert db env now k in (db', Returned r))"
| "reserve_pc_step k env now (db, Returned r) = (db, Returned r)"

text \<open>All callers reserve the same normalised serial; a schedule entry names the caller, the
  driver's behaviour for its statement and its clock reading.\<close>

fun reserve_schedule ::
  "string \<Rightarrow> (nat \<times> sql_env \<times> go_time) list \<Rightarrow> sqlite_db \<Rightarrow> reserve_pc list \<Rightarrow> sqlite_db \<times> reserve_pc list" where
  "reserve_schedule k [] db pcs = (db, pcs)"
| "reserve_schedule k ((i, env, now) # steps) db pcs =
     (if i < length pcs
      then let (db', pc) = reserve_pc_step k env now (db, pcs ! i)
           in reserve_schedule k steps db' (pcs[i := pc])
      else reserve_schedule k steps db pcs)"

definition recorded :: "string \<Rightarrow> sqlite_db \<Rightarrow> bool" where
  "recorded k db = (k \<in> set (map sr_serial (db_serials db)))"

definition winners :: "reserve_pc list \<Rightarrow> nat set" where
  "winners pcs = {i. i < length pcs \<and> pcs ! i = Returned None}"

definition race_inv :: "string \<Rightarrow> sqlite_db \<Rightarrow> reserve_pc list \<Rightarrow> bool" where
  "race_inv k db pcs =
     ((\<forall>i \<in> winners pcs. \<forall>j \<in> winners pcs. i = j) \<and> (winners pcs \<noteq> {} \<longrightarrow> recorded k db))"

lemma winners_other: "pc \<noteq> Returned None \<Longrightarrow> winners (pcs[i := pc]) \<subseteq> winners pcs"
  by (auto simp: winners_def nth_update_if split: if_splits)

lemma winners_same: "i < length pcs \<Longrightarrow> pcs ! i = pc \<Longrightarrow> pcs[i := pc] = pcs"
  by auto

lemma race_inv_mono:
  "race_inv k db pcs \<Longrightarrow> winners pcs' \<subseteq> winners pcs \<Longrightarrow> (recorded k db \<Longrightarrow> recorded k db') \<Longrightarrow>
     race_inv k db' pcs'"
  unfolding race_inv_def by blast

lemma insert_cases:
  assumes "sqlite_reserve_insert db env now k = (r, db')"
  shows "(r = None \<and> \<not> recorded k db \<and> recorded k db') \<or> (r \<noteq> None \<and> db' = db)"
  using assms by (auto simp: sqlite_reserve_insert_def sql_insert_serial_def recorded_def Let_def
      split: option.splits if_splits)

lemma race_inv_step:
  assumes inv: "race_inv k db pcs" and i: "i < length pcs"
    and step: "reserve_pc_step k env now (db, pcs ! i) = (db', pc)"
  shows "race_inv k db' (pcs[i := pc])"
proof (cases "pcs ! i")
  case AtCheck
  then have "db' = db" "pc \<noteq> Returned None"
    using step by (auto split: option.splits)
  then show ?thesis using inv winners_other race_inv_mono by metis
next
  case AtInsert
  then obtain r where r: "sqlite_reserve_insert db env now k = (r, db')" "pc = Returned r"
    using step by (auto split: prod.splits)
  from insert_cases [OF r(1)] show ?thesis
  proof
    assume "r = None \<and> \<not> recorded k db \<and> recorded k db'"
    moreover from this have "winners pcs = {}" using inv unfolding race_inv_def by blast
    ultimately show ?thesis
      by (auto simp: race_inv_def winners_def nth_update_if split: if_splits)
  next
    assume "r \<noteq> None \<and> db' = db"
    with r(2) have "pc \<noteq> Returned None" "db' = db" by auto
    then show ?thesis using inv winners_other race_inv_mono by metis
  qed
next
  case (Returned r)
  then have "db' = db" "pcs[i := pc] = pcs" using step i by (auto simp: list_update_id)
  then show ?thesis using inv by simp
qed

lemma race_inv_schedule:
  "race_inv k db pcs \<Longrightarrow> reserve_schedule k steps db pcs = (db', pcs') \<Longrightarrow> race_inv k db' pcs'"
proof (induction steps arbitrary: db pcs)
  case (Cons s steps)
  obtain i env now where s: "s = (i, env, now)" by (cases s) auto
  show ?case
  proof (cases "i < length pcs")
    case True
    obtain db1 pc where st: "reserve_pc_step k env now (db, pcs ! i) = (db1, pc)" by fastforce
    with True Cons.prems(2) have "reserve_schedule k steps db1 (pcs[i := pc]) = (db', pcs')"
      by (simp add: s)
    then show ?thesis using Cons.IH race_inv_step [OF Cons.prems(1) True st] by blast
  next
    case False
    then show ?thesis using Cons by (simp add: s)
  qed
qed simp

lemma winners_start: "winners (replicate n AtCheck) = {}"
  by (auto simp: winners_def)

lemma race_inv_start: "race_inv k db (replicate n AtCheck)"
  by (simp add: race_inv_def winners_start)

text \<open>
  C27. However the statements of concurrent \<open>ReserveSerial\<close> calls for one serial interleave and
  whatever the driver does to each of them, at most one of the calls reports success: the
  non-atomic check is backed by the primary key of the \<open>serials\<close> table.
\<close>

theorem reserve_race_one_winner:
  "card (winners (snd (reserve_schedule k steps db (replicate n AtCheck)))) \<le> 1"
proof -
  obtain db' pcs where r: "reserve_schedule k steps db (replicate n AtCheck) = (db', pcs)" by fastforce
  have "race_inv k db' pcs" using race_inv_schedule [OF race_inv_start r] .
  then have "\<exists>i. winners pcs \<subseteq> {i}" unfolding race_inv_def by blast
  then show ?thesis using card_mono [of "{_}" "winners pcs"] by (auto simp: r)
qed

text \<open>
  The loser of such a race does not get the retryable \<open>ErrAlreadyExists\<close> of the sequential
  case but the driver's constraint error, which \<open>GenerateAndReserveSerialWithBits\<close> does not retry:
  two callers that both pass the check before either inserts end with one success and one driver error.
\<close>

theorem reserve_race_driver_error:
  "snd (reserve_schedule ''ab'' (map (\<lambda>i. (i, \<lparr>se_fault = \<lambda>_. None, se_row_order = id\<rparr>, 5)) [0, 1, 0, 1])
     init_schema (replicate 2 AtCheck)) =
   [Returned None, Returned (Some (DriverErr ''UNIQUE constraint failed: serials.serial''))]"
  by (simp add: init_schema_def sqlite_reserve_check_def sqlite_reserve_insert_def numeral_2_eq_2
      sql_count_serials_def sql_insert_serial_def Let_def)

end
