(* ===== verification/Storage_Properties.thy ===== *)
theory Storage_Properties
  imports Sqlite_Race
begin

text \<open>
  What the two storage backends guarantee their callers, stated over the methods themselves:
  the facts of the contract carried over to \<open>MemoryStorage\<close> and \<open>SQLiteStorage\<close> through the
  interpretations \<open>mem\<close>, \<open>sq\<close> and \<open>backends\<close>. The environment \<open>calm\<close> is a database whose driver
  never fails, the setting of the witnesses.
\<close>

definition calm :: sql_env where
  "calm = \<lparr>se_fault = \<lambda>_. None, se_row_order = \<lambda>rows. rows\<rparr>"

definition sample_cert :: "string \<Rightarrow> certificate_record" where
  "sample_cert s =
     \<lparr>cr_serial = s, cr_subject = ''CN=a'', cr_issuer = ''CN=ca'', cr_not_before = 1,
      cr_not_after = 2, cr_raw_der = Some [48], cr_pem = Some [45], cr_revoked = False\<rparr>"

lemma calm_ok [simp]: "sql_env_ok calm"
  by (simp add: calm_def sql_env_ok_def)

lemma calm_faults [simp]: "se_fault calm s = None" "se_row_order calm rows = rows"
  by (simp_all add: calm_def)

lemma normalize_samples [simp]:
  "normalize_serial ''1f'' = ''1f''" "normalize_serial ''0x1F'' = ''1f''" "normalize_serial ''2a'' = ''2a''"
  by code_simp+

lemma sample_serial [simp]: "cr_serial (sample_cert s) = s" "\<not> cr_revoked (sample_cert s)"
  "cr_raw_der (sample_cert s) = Some [48]" "cr_pem (sample_cert s) = Some [45]"
  by (simp_all add: sample_cert_def)

section \<open>No failure from below\<close>

text \<open>With a live context, respectively a driver that does not fail, no call returns an error of
  the infrastructure: the violations of the key constraints cannot happen in a database that
  satisfies its invariant, and those of \<open>NOT NULL\<close> not for a record that has its DER and PEM bytes.\<close>

fun binds_no_null :: "storage_call \<Rightarrow> bool" where
  "binds_no_null (CallSave (Some c)) = (cr_raw_der c \<noteq> None \<and> cr_pem c \<noteq> None)"
| "binds_no_null _ = True"

text \<open>The records both backends keep as they are: the bytes are there. (What a driver gives back for a
  blob of length 0, nil or an empty slice, is left to it.)\<close>

fun saves_bytes :: "storage_call \<Rightarrow> bool" where
  "saves_bytes (CallSave (Some c)) =
     (cr_raw_der c \<notin> {None, Some []} \<and> cr_pem c \<notin> {None, Some []})"
| "saves_bytes _ = True"

lemma saves_bytes_bind: "saves_bytes c \<Longrightarrow> binds_no_null c"
  by (cases c rule: saves_bytes.cases) auto

lemma mem_no_infra: "storage_call_run mem_ops m None now c = (r, m') \<Longrightarrow> \<not> infra_reply r"
  by (cases c) (auto simp: mem_save_certificate_def mem_get_certificate_def
      mem_revoke_certificate_def mem_get_revocation_def mem_reserve_serial_def mem_list_revoked_def
      mem_list_revoked_from_def Let_def
      split: prod.splits option.splits if_splits)

lemma sqlite_revoke_no_infra:
  assumes "sqlite_inv db" and "\<And>s. se_fault env s = None"
    and "sqlite_revoke_certificate db env now serial reason at = (Some e, db')"
  shows "\<not> infra e"
proof -
  let ?k = "normalize_serial serial"
  have "sql_select_revocation ?k db = None"
    if "sql_select_certificate ?k db = Some w" "cw_revoked w \<noteq> 1" for w
    using sqlite_inv_revoked [OF assms(1), of ?k] that by fastforce
  then have "?k \<notin> set (map rr_serial (db_revocations db))"
    if "sql_select_certificate ?k db = Some w" "cw_revoked w \<noteq> 1" for w
    using that find_key_None [of rr_serial ?k "db_revocations db"] by (simp add: sql_select_revocation_def)
  then show ?thesis using assms(2,3)
    by (auto simp: sqlite_revoke_certificate_def sql_insert_revocation_def sql_update_revoked_def Let_def
        split: option.splits if_splits)
qed

lemma sqlite_no_infra:
  assumes "sqlite_inv db" and "\<And>s. se_fault env s = None" and "binds_no_null c"
    and "storage_call_run sqlite_ops db env now c = (r, db')"
  shows "\<not> infra_reply r"
  using assms sqlite_revoke_no_infra [OF assms(1,2)]
  by (cases c) (auto simp: sqlite_save_certificate_def sqlite_get_certificate_def
      sqlite_get_revocation_def sqlite_list_revoked_def sqlite_reserve_serial_def sqlite_reserve_check_def
      sqlite_reserve_insert_def sql_insert_certificate_def sql_insert_serial_def
      sql_count_certificates_def sql_count_serials_def filter_empty_conv Let_def
      split: prod.splits option.splits if_splits)

lemma mem_calls_no_infra: "list_all (\<lambda>r. \<not> infra_reply r) (storage_calls_run mem_ops None m cs)"
  by (induction cs arbitrary: m) (auto split: prod.splits dest: mem_no_infra)

lemma sqlite_call_inv:
  "sqlite_inv db \<Longrightarrow> sql_env_ok env \<Longrightarrow> storage_call_run sqlite_ops db env now c = (r, db') \<Longrightarrow> sqlite_inv db'"
  by (cases c) (auto split: prod.splits dest: sqlite_save_law sqlite_revoke_law sqlite_reserve_law)

lemma sqlite_calls_no_infra:
  assumes "\<And>s. se_fault env s = None" and "sql_env_ok env"
  shows "sqlite_inv db \<Longrightarrow> list_all (\<lambda>(_, c). binds_no_null c) cs \<Longrightarrow>
    list_all (\<lambda>r. \<not> infra_reply r) (storage_calls_run sqlite_ops env db cs)"
proof (induction cs arbitrary: db)
  case (Cons nc cs)
  obtain now c where nc: "nc = (now, c)" by fastforce
  obtain r db' where r: "storage_call_run sqlite_ops db env now c = (r, db')" by fastforce
  have b: "binds_no_null c" using Cons.prems(2) by (simp add: nc)
  have "sqlite_inv db'" using sqlite_call_inv [OF Cons.prems(1) assms(2) r] .
  then show ?case
    using Cons.IH Cons.prems(2) sqlite_no_infra [OF Cons.prems(1) assms(1) b r] by (simp add: nc r)
qed simp

section \<open>The two backends are interchangeable\<close>

text \<open>A record without its bytes is the one thing they treat differently: memory keeps it, the database
  refuses it by the \<open>NOT NULL\<close> of its columns. No caller in the program saves such a record.\<close>

lemma nil_bytes_differ:
  assumes "normalize_serial (cr_serial c) \<noteq> []" and "cr_raw_der c = None \<or> cr_pem c = None"
    and "\<forall>s. se_fault env s = None"
  shows "fst (mem_save_certificate new_memory_storage None now (Some c)) = None \<and>
    (\<exists>m. sqlite_save_certificate init_schema env now (Some c) = (Some (DriverErr m), init_schema))"
  using assms by (auto simp: mem_save_certificate_def new_memory_storage_def sqlite_save_certificate_def
      init_schema_def sql_count_certificates_def sql_insert_certificate_def Let_def)

text \<open>
  C7. The in-memory and the SQLite storage give their callers the same answers: started empty and
  driven by the same sequence of calls of the interface, all six methods in any order (with arbitrary
  serial spellings and clock readings, and records that carry their DER and PEM bytes), every call
  returns the same result or error class on both, as long as the context is live and the database
  driver does not fail. The lists of \<open>ListRevoked\<close> have the same records under the same times in the
  same order of time; records of one instant, which memory orders by serial and the database in no
  particular way, may be permuted among themselves.
\<close>

theorem backends_agree:
  assumes "\<forall>s. se_fault env s = None" and "\<forall>rows. mset (se_row_order env rows) = mset rows"
    and "list_all (\<lambda>(_, c). saves_bytes c) cs"
  shows "list_all2 same_reply (storage_calls_run mem_ops None new_memory_storage cs)
    (storage_calls_run sqlite_ops env init_schema cs)"
proof -
  have ok: "sql_env_ok env" using assms by (simp add: sql_env_ok_def)
  have b: "list_all (\<lambda>(_, c). binds_no_null c) cs"
    using assms(3) by (auto simp: list_all_iff intro: saves_bytes_bind)
  have "mem_view new_memory_storage = sqlite_view init_schema" by (simp add: mem_view_new sqlite_view_init)
  then show ?thesis
    using backends.calls_agree [OF _ _ _ ok] mem_calls_no_infra sqlite_calls_no_infra [OF _ ok _ b] assms(1)
    by simp
qed

definition sample_storage_calls :: "(go_time \<times> storage_call) list" where
  "sample_storage_calls =
     [(7, CallSave (Some (sample_cert ''0x1F''))), (7, CallSave (Some (sample_cert ''2a''))),
      (8, CallRevoke ''2a'' 4 0), (8, CallRevoke ''1f'' 1 0), (9, CallGet ''1F''), (9, CallGetRevocation ''1f''),
      (9, CallListRevoked), (9, CallReserve ''1f'')]"

theorem backends_agree_witness:
  "list_all2 same_reply (storage_calls_run mem_ops None new_memory_storage sample_storage_calls)
     (storage_calls_run sqlite_ops calm init_schema sample_storage_calls)"
  by (rule backends_agree) (simp_all add: sample_storage_calls_def)

text \<open>
  C26. From the empty schema, whatever calls succeed or fail (driver errors at any statement
  included, but for the one the code ignores), the database keeps its primary keys unique, every
  certificate row has its serial in the \<open>serials\<close> table, and every revocation row belongs to a
  certificate flagged revoked.
\<close>

lemma stored_serial:
  assumes "sqlite_inv db" and "sql_select_certificate k db = Some w"
  shows "k \<in> sr_serial ` set (db_serials db)"
proof -
  have "store_wf (sqlite_view db)" using assms(1) by (simp add: sqlite_inv_def)
  moreover have "st_certs (sqlite_view db) k = Some (cert_of_row w)" using assms(2) by simp
  ultimately have "k \<in> st_serials (sqlite_view db)" unfolding store_wf_def by blast
  then show ?thesis by simp
qed

theorem sqlite_consistent:
  assumes "storage_run sqlite_ops sql_env_ok init_schema db"
  shows "distinct (map cw_serial (db_certificates db)) \<and> distinct (map rr_serial (db_revocations db)) \<and>
    distinct (map sr_serial (db_serials db)) \<and>
    (\<forall>w \<in> set (db_certificates db). cw_serial w \<in> sr_serial ` set (db_serials db)) \<and>
    (\<forall>r \<in> set (db_revocations db). \<exists>w \<in> set (db_certificates db). cw_serial w = rr_serial r \<and> cw_revoked w = 1)"
proof (intro conjI ballI)
  have inv: "sqlite_inv db" using sq.run_preserves [OF assms] by simp
  then show d: "distinct (map cw_serial (db_certificates db))" "distinct (map rr_serial (db_revocations db))"
    "distinct (map sr_serial (db_serials db))" by (simp_all add: sqlite_inv_def)
  show "cw_serial w \<in> sr_serial ` set (db_serials db)" if "w \<in> set (db_certificates db)" for w
    using stored_serial [OF inv] find_key_mem [OF d(1) that] by (simp add: sql_select_certificate_def)
  show "\<exists>w \<in> set (db_certificates db). cw_serial w = rr_serial r \<and> cw_revoked w = 1"
    if "r \<in> set (db_revocations db)" for r
    using sqlite_inv_revoked [OF inv, of "rr_serial r" r] find_key_mem [OF d(2) that]
    by (auto simp: sql_select_revocation_def sql_select_certificate_def dest: find_key_Some)
qed

text \<open>The states the witnesses use: one certificate saved, then revoked, and a serial reserved.\<close>

definition saved_db :: sqlite_db where
  "saved_db = \<lparr>db_certificates = [row_of_cert (sample_cert ''1f'') ''1f''], db_revocations = [],
     db_serials = [\<lparr>sr_serial = ''1f'', sr_issued_at = 7\<rparr>]\<rparr>"

definition revoked_db :: sqlite_db where
  "revoked_db = (sql_update_revoked ''1f'' saved_db)
     \<lparr>db_revocations := [\<lparr>rr_serial = ''1f'', rr_revoked_at = 8, rr_reason = 1\<rparr>]\<rparr>"

lemma saved_db_step: "sqlite_save_certificate init_schema calm 7 (Some (sample_cert ''1f'')) = (None, saved_db)"
  by (simp add: sqlite_save_certificate_def Let_def init_schema_def saved_db_def
      sql_count_certificates_def sql_insert_certificate_def sql_insert_ignore_serial_def)

lemma revoked_db_step: "sqlite_revoke_certificate saved_db calm 8 ''1f'' 1 0 = (None, revoked_db)"
  by (simp add: sqlite_revoke_certificate_def Let_def saved_db_def revoked_db_def row_of_cert_def
      sql_select_certificate_def sql_update_revoked_def sql_insert_revocation_def)

lemma reserved_step:
  "sqlite_reserve_serial init_schema calm 7 ''2a'' =
     (None, init_schema\<lparr>db_serials := [\<lparr>sr_serial = ''2a'', sr_issued_at = 7\<rparr>]\<rparr>)"
  by (simp add: sqlite_reserve_serial_def sqlite_reserve_check_def sqlite_reserve_insert_def Let_def
      init_schema_def sql_count_serials_def sql_insert_serial_def)

lemma saved_run: "storage_run sqlite_ops sql_env_ok init_schema saved_db"
proof (rule run_step [OF run_refl])
  show "storage_step sqlite_ops sql_env_ok init_schema saved_db"
    by (rule step_save [where e = calm and ok = sql_env_ok]) (simp, simp, rule saved_db_step)
qed

lemma revoked_step: "storage_step sqlite_ops sql_env_ok saved_db revoked_db"
  by (rule step_revoke [where e = calm and ok = sql_env_ok]) (simp, simp, rule revoked_db_step)

lemma revoked_run: "storage_run sqlite_ops sql_env_ok init_schema revoked_db"
  by (rule run_step [OF saved_run revoked_step])

theorem sqlite_consistent_witness:
  "storage_run sqlite_ops sql_env_ok init_schema revoked_db \<and>
   (\<exists>w \<in> set (db_certificates revoked_db). cw_serial w = ''1f'' \<and> cw_revoked w = 1)"
  using sqlite_consistent [OF revoked_run] revoked_run by (simp add: revoked_db_def)

section \<open>What lasts\<close>

lemma sqlite_reads_exact:
  assumes "\<And>s. se_fault env s = None" and "sqlite_inv db"
  shows "read_ok (Inr c) (sqlite_get_certificate db env k) \<Longrightarrow> sqlite_get_certificate db env k = Inr c"
    and "read_ok (Inr r) (sqlite_get_revocation db env k) \<Longrightarrow> sqlite_get_revocation db env k = Inr r"
  using sqlite_no_infra [OF assms(2,1), of "CallGet k"] sqlite_no_infra [OF assms(2,1), of "CallGetRevocation k"]
  by (auto simp: read_ok_def)

text \<open>
  C19. A revocation recorded by \<open>RevokeCertificate\<close> is permanent: after any further calls, under any
  spelling of the serial, \<open>GetRevocation\<close> returns that record (the clock's reading where the caller
  gave no time), \<open>ListRevoked\<close> contains it, the certificate reads as revoked, and revoking it again fails.
\<close>

theorem revocation_permanent:
  assumes "storage_run sqlite_ops sql_env_ok init_schema db" and "sql_env_ok env" and "sql_env_ok env'"
    and "\<forall>s. se_fault env' s = None"
    and "sqlite_revoke_certificate db env now k n t = (None, db1)"
    and "storage_run sqlite_ops sql_env_ok db1 db2" and "normalize_serial k' = normalize_serial k"
  shows "sqlite_get_revocation db2 env' k' =
      Inr \<lparr>rr_serial = normalize_serial k, rr_revoked_at = (if t = 0 then now else t), rr_reason = n\<rparr> \<and>
    (\<exists>rs. sqlite_list_revoked db2 env' = Inr rs \<and>
       (\<exists>r \<in> set rs. rr_serial r = normalize_serial k \<and> rr_reason r = n)) \<and>
    (\<exists>c. sqlite_get_certificate db2 env' k' = Inr c \<and> cr_revoked c) \<and>
    fst (sqlite_revoke_certificate db2 env' now' k' n' t') \<noteq> None"
proof -
  have inv: "sqlite_inv db" using sq.run_preserves [OF assms(1)] by simp
  then have "sqlite_inv db1" using sqlite_revoke_law [OF inv assms(5)] by simp
  then have inv2: "sqlite_inv db2" using sq.run_preserves [OF assms(6)] by blast
  note forever = sq.revoked_forever [OF inv assms(2,3), unfolded sqlite_ops_simps, OF assms(5,6,7)]
  have f: "\<And>s. se_fault env' s = None" using assms(4) by simp
  obtain rs where "sqlite_list_revoked db2 env' = Inr rs" by (simp add: sqlite_list_revoked_def f)
  with forever(4) show ?thesis
    using forever(1-3) sqlite_reads_exact [OF f inv2] by blast
qed

theorem revocation_permanent_witness:
  "sqlite_get_revocation revoked_db calm ''0x1F'' = Inr \<lparr>rr_serial = ''1f'', rr_revoked_at = 8, rr_reason = 1\<rparr> \<and>
   fst (sqlite_revoke_certificate revoked_db calm 9 ''1f'' 4 0) \<noteq> None"
  using revocation_permanent [OF saved_run calm_ok calm_ok _ revoked_db_step run_refl, of "''0x1F''" 9 4 0]
    revocation_permanent [OF saved_run calm_ok calm_ok _ revoked_db_step run_refl, of "''1f''" 9 4 0]
  by simp

text \<open>
  A serial number that \<open>ReserveSerial\<close> hands out on the SQLite backend is never handed out again:
  after any further calls a second reservation, under any spelling of the serial, is an error.
\<close>

theorem reservation_exclusive:
  assumes "storage_run sqlite_ops sql_env_ok init_schema db" and "sql_env_ok env" and "sql_env_ok env'"
    and "sqlite_reserve_serial db env now k = (None, db1)"
    and "storage_run sqlite_ops sql_env_ok db1 db2" and "normalize_serial k' = normalize_serial k"
  shows "fst (sqlite_reserve_serial db2 env' now' k') \<noteq> None"
proof -
  have inv: "sqlite_inv db" using sq.run_preserves [OF assms(1)] by simp
  show ?thesis
    using sq.reserve_exclusive [OF inv assms(2,3), unfolded sqlite_ops_simps, OF assms(4-6)] .
qed

theorem reservation_exclusive_witness:
  "fst (sqlite_reserve_serial (snd (sqlite_reserve_serial init_schema calm 7 ''2a'')) calm 9 ''2a'') \<noteq> None"
  using reservation_exclusive [OF run_refl calm_ok calm_ok reserved_step run_refl refl]
  by (simp add: reserved_step)

text \<open>
  A certificate that \<open>SaveCertificate\<close> accepted stays retrievable: after any further calls
  \<open>GetCertificate\<close>, under any spelling of its serial, returns the same record with the serial in
  normal form, changed at most by the revoked flag, and no other certificate can take its serial.
\<close>

theorem certificate_stays:
  assumes "storage_run sqlite_ops sql_env_ok init_schema db" and "sql_env_ok env" and "sql_env_ok env'"
    and "\<forall>s. se_fault env' s = None"
    and "sqlite_save_certificate db env now (Some c) = (None, db1)"
    and "storage_run sqlite_ops sql_env_ok db1 db2"
    and "normalize_serial k' = normalize_serial (cr_serial c)" and "normalize_serial (cr_serial d) = normalize_serial k'"
  shows "(\<exists>b. sqlite_get_certificate db2 env' k' =
            Inr (c\<lparr>cr_serial := normalize_serial (cr_serial c), cr_revoked := b\<rparr>) \<and> (cr_revoked c \<longrightarrow> b)) \<and>
         fst (sqlite_save_certificate db2 env' now' (Some d)) \<noteq> None"
proof -
  let ?k = "normalize_serial (cr_serial c)"
  have inv: "sqlite_inv db" using sq.run_preserves [OF assms(1)] by simp
  have law: "sqlite_inv db1" and w: "spec_save (sqlite_view db) (Some c) = (None, sqlite_view db1)"
    using sq.save_law [OF inv assms(2), unfolded sqlite_ops_simps, OF assms(5)] write_ok_None by blast+
  have inv2: "sqlite_inv db2" and le: "store_le (sqlite_view db1) (sqlite_view db2)"
    using sq.run_preserves [OF assms(6) law] by simp_all
  have "st_certs (sqlite_view db1) ?k = Some (c\<lparr>cr_serial := ?k\<rparr>)" and ne: "?k \<noteq> []"
    using spec_save_success [OF w] by simp_all
  then obtain e where e: "st_certs (sqlite_view db2) ?k = Some e" and g: "cert_grows (c\<lparr>cr_serial := ?k\<rparr>) e"
    using le unfolding store_le_def by blast
  have "e = c\<lparr>cr_serial := ?k, cr_revoked := cr_revoked e\<rparr> \<and> (cr_revoked c \<longrightarrow> cr_revoked e)"
    using g by (auto simp: cert_grows_def)
  moreover have "sqlite_get_certificate db2 env' k' = Inr e"
  proof (rule sqlite_reads_exact(1) [OF _ inv2])
    have "spec_lookup (st_certs (sqlite_view db2)) k' = Inr e"
      using e ne assms(7) unfolding spec_lookup_def Let_def by (simp del: sqlite_view_simps)
    then show "read_ok (Inr e) (sqlite_get_certificate db2 env' k')" by (metis sqlite_get_law)
  qed (use assms(4) in simp)
  moreover have "fst (sqlite_save_certificate db2 env' now' (Some d)) \<noteq> None"
  proof -
    obtain r u where ru: "sqlite_save_certificate db2 env' now' (Some d) = (r, u)" by fastforce
    have "write_ok (sqlite_view db2) (spec_save (sqlite_view db2) (Some d)) (r, sqlite_view u)"
      using sq.save_law [OF inv2 assms(3), unfolded sqlite_ops_simps, OF ru] by blast
    then show ?thesis using e ne assms(7,8) by (auto simp: ru write_ok_def spec_save_def Let_def)
  qed
  ultimately show ?thesis by metis
qed

theorem certificate_stays_witness:
  "\<exists>b. sqlite_get_certificate revoked_db calm ''0x1F'' = Inr ((sample_cert ''1f'')\<lparr>cr_revoked := b\<rparr>)"
  using certificate_stays [OF run_refl calm_ok calm_ok _ saved_db_step run_step [OF run_refl revoked_step],
      of "''0x1F''" "sample_cert ''1f''" 9]
  by (auto simp: sample_cert_def)

text \<open>
  C34. A write that reports an error has not changed the database: whichever statement of the
  transaction fails (the commit included), \<open>SaveCertificate\<close>, \<open>RevokeCertificate\<close> and
  \<open>ReserveSerial\<close> leave every table as it was.
\<close>

theorem failed_write_no_effect:
  "(fst (sqlite_save_certificate db env now c) \<noteq> None \<longrightarrow> snd (sqlite_save_certificate db env now c) = db) \<and>
   (fst (sqlite_revoke_certificate db env now k n t) \<noteq> None \<longrightarrow> snd (sqlite_revoke_certificate db env now k n t) = db) \<and>
   (fst (sqlite_reserve_serial db env now k) \<noteq> None \<longrightarrow> snd (sqlite_reserve_serial db env now k) = db)"
proof -
  have "snd (sqlite_save_certificate db env now c) = db"
    if "sqlite_save_certificate db env now c = (Some e, db')" for e db'
    using that by (auto simp: sqlite_save_certificate_def Let_def split: option.splits if_splits sum.splits)
  moreover have "snd (sqlite_revoke_certificate db env now k n t) = db"
    if "sqlite_revoke_certificate db env now k n t = (Some e, db')" for e db'
    using that by (auto simp: sqlite_revoke_certificate_def Let_def split: option.splits if_splits sum.splits)
  moreover have "snd (sqlite_reserve_serial db env now k) = db"
    if "sqlite_reserve_serial db env now k = (Some e, db')" for e db'
    using that by (auto simp: sqlite_reserve_serial_def sqlite_reserve_insert_def Let_def
        split: option.splits if_splits sum.splits)
  ultimately show ?thesis by (metis not_None_eq prod.collapse)
qed

theorem failed_write_no_effect_witness:
  "snd (sqlite_revoke_certificate saved_db (calm\<lparr>se_fault := (\<lambda>s. if s = Commit then Some ''disk'' else None)\<rparr>)
     8 ''1f'' 1 0) = saved_db"
proof -
  let ?env = "calm\<lparr>se_fault := (\<lambda>s. if s = Commit then Some ''disk'' else None)\<rparr>"
  have "fst (sqlite_revoke_certificate saved_db ?env 8 ''1f'' 1 0) = Some (DriverErr ''disk'')"
    by (simp add: sqlite_revoke_certificate_def Let_def saved_db_def row_of_cert_def
        sql_select_certificate_def sql_update_revoked_def sql_insert_revocation_def)
  then show ?thesis using failed_write_no_effect [of saved_db ?env] by auto
qed

section \<open>Listing\<close>

text \<open>
  \<open>ListRevoked\<close> of the memory storage does not depend on the order in which Go happens to visit
  the map: whatever the visiting order, the same records come back, one per revoked serial, sorted by
  revocation time and then by serial.
\<close>

theorem mem_list_deterministic:
  assumes "storage_run mem_ops (\<lambda>_. True) new_memory_storage m" and "mset visited = mset (ms_revocations m)"
  shows "\<exists>rs. mem_list_revoked_from visited None = Inr rs \<and> mem_list_revoked m None = Inr rs \<and>
    set rs = ran (map_of (ms_revocations m)) \<and> distinct (map rr_serial rs) \<and>
    sorted (map (\<lambda>r. (rr_revoked_at r, rr_serial r)) rs)"
proof -
  have inv: "mem_inv m" using mem.run_preserves [OF assms(1)] by simp
  let ?all = "map (\<lambda>(_, rv). clone_revocation rv)"
  have d: "distinct (map rr_serial (?all (ms_revocations m)))"
    using inv by (simp only: listed_serials [OF inv] mem_inv_def gm_wf_def)
  have m: "mset (?all visited) = mset (?all (ms_revocations m))" using assms(2) by (metis mset_map)
  then have "set (?all visited) = set (?all (ms_revocations m))" by (rule mset_eq_setD)
  moreover have "inj_on rr_serial (set (?all (ms_revocations m)))" using d by (simp only: distinct_map)
  ultimately have "inj_on (\<lambda>r. (rr_revoked_at r, rr_serial r)) (set (?all visited))"
    unfolding inj_on_def by (metis prod.inject)
  with m have "sort_revocations (?all visited) = sort_revocations (?all (ms_revocations m))"
    unfolding sort_revocations_def by (rule sort_key_eq_sort_key)
  moreover have l: "mem_list_revoked m None = Inr (sort_revocations (?all (ms_revocations m)))"
    by (simp add: mem_list_revoked_def mem_list_revoked_from_def)
  ultimately show ?thesis
    using mem_list_law [OF inv l] sort_revocations_sorted by (simp add: mem_list_revoked_from_def spec_list_def)
qed

theorem mem_list_deterministic_witness:
  "\<exists>rs. mem_list_revoked_from (rev (ms_revocations
      (snd (mem_revoke_certificate (snd (mem_save_certificate new_memory_storage None 7 (Some (sample_cert ''1f''))))
         None 8 ''1f'' 1 0)))) None = Inr rs \<and> map rr_serial rs = [''1f'']"
proof -
  let ?a = "snd (mem_save_certificate new_memory_storage None 7 (Some (sample_cert ''1f'')))"
  let ?m = "snd (mem_revoke_certificate ?a None 8 ''1f'' 1 0)"
  have "storage_step mem_ops (\<lambda>_. True) new_memory_storage ?a"
    by (rule step_save [where e = None and now = 7 and c = "Some (sample_cert ''1f'')"
          and r = "fst (mem_save_certificate new_memory_storage None 7 (Some (sample_cert ''1f'')))"]) simp_all
  moreover have "storage_step mem_ops (\<lambda>_. True) ?a ?m"
    by (rule step_revoke [where e = None and now = 8 and k = "''1f''" and n = 1 and t = 0
          and r = "fst (mem_revoke_certificate ?a None 8 ''1f'' 1 0)"]) simp_all
  ultimately have run: "storage_run mem_ops (\<lambda>_. True) new_memory_storage ?m"
    by (meson run_refl run_step)
  have m: "ms_revocations ?m = [(''1f'', \<lparr>rr_serial = ''1f'', rr_revoked_at = 8, rr_reason = 1\<rparr>)]"
    by (simp add: mem_save_certificate_def mem_revoke_certificate_def new_memory_storage_def Let_def
        clone_certificate_def gm_set_def)
  show ?thesis
    using mem_list_deterministic [OF run, of "rev (ms_revocations ?m)"]
    unfolding m by (auto simp: mem_list_revoked_from_def sort_revocations_def clone_revocation_def)
qed

end
