(* ===== verification/Serial.thy ===== *)
theory Serial
  imports Sqlite_Storage
begin

text \<open>
  \<open>pkg/ca/serial.go\<close>: serial numbers. \<open>crypto/rand.Int\<close> is modelled on the entropy source
  as the standard library has it (rejection sampling on a byte string whose surplus top bits
  are cleared), \<open>GenerateAndReserveSerialWithBits\<close> over any storage: the facts about it that
  hold for every backend are proved inside \<open>storage_contract\<close>.
\<close>

section \<open>Generating\<close>

definition min_serial_bits :: int where
  "min_serial_bits = 64"

definition max_serial_bits :: int where
  "max_serial_bits = 159"

definition default_serial_bits :: int where
  "default_serial_bits = 128"

definition max_reservation_retries :: nat where
  "max_reservation_retries = 5"

datatype serial_error =
    ErrInvalidSerialBits int
  | EntropyError
  | ErrSerialExhaustion
  | NilStorage
  | SerialCtx ctx_error
  | ReserveFailed string storage_error
  | EmptySerial
  | InvalidHexSerial string
  | NonPositiveSerial

text \<open>
  \<open>rand.Int(rand.Reader, 1 << bits)\<close>: it reads \<open>k = (bits + 7) div 8\<close> bytes and clears the
  top bits of the first, so that the value is below \<open>2 ^ bits\<close> and no draw is rejected.
\<close>

definition rand_int_pow2 :: "nat \<Rightarrow> entropy \<Rightarrow> (int \<times> entropy) option" where
  "rand_int_pow2 bits ent =
     (let k = (bits + 7) div 8; b = (if bits mod 8 = 0 then 8 else bits mod 8) in
      case rand_read k ent of
        None \<Rightarrow> None
      | Some (bs, ent') \<Rightarrow> Some (int (be_val ((hd bs AND mask b) # tl bs)), ent'))"

lemma rand_int_pow2_decreases:
  "rand_int_pow2 bits ent = Some (n, ent') \<Longrightarrow> 0 < bits \<Longrightarrow> length ent' < length ent"
  by (auto simp: rand_int_pow2_def Let_def dest!: rand_read_length split: option.splits)

text \<open>The loop of \<open>GenerateSerialWithBits\<close> after its guard: draw until positive.\<close>

function draw_positive :: "nat \<Rightarrow> entropy \<Rightarrow> (serial_error + int) \<times> entropy" where
  "draw_positive bits ent =
     (if bits = 0 then (Inl EntropyError, ent)
      else case rand_int_pow2 bits ent of
             None \<Rightarrow> (Inl EntropyError, ent)
           | Some (serial, ent') \<Rightarrow>
               if serial > 0 then (Inr serial, ent') else draw_positive bits ent')"
  by auto
termination
  by (relation "measure (\<lambda>(_, ent). length ent)") (auto dest: rand_int_pow2_decreases)

declare draw_positive.simps [simp del]

definition generate_serial_with_bits :: "int \<Rightarrow> entropy \<Rightarrow> (serial_error + int) \<times> entropy" where
  "generate_serial_with_bits bits ent =
     (if bits < min_serial_bits \<or> bits > max_serial_bits then (Inl (ErrInvalidSerialBits bits), ent)
      else draw_positive (nat bits) ent)"

definition generate_serial :: "entropy \<Rightarrow> (serial_error + int) \<times> entropy" where
  "generate_serial ent = generate_serial_with_bits default_serial_bits ent"

definition format_serial :: "int option \<Rightarrow> string" where
  "format_serial serial = (case serial of None \<Rightarrow> [] | Some n \<Rightarrow> to_lower (int_text16 n))"

definition parse_serial :: "string \<Rightarrow> serial_error + int" where
  "parse_serial hex_str =
     (let cleaned = normalize_serial hex_str in
      if cleaned = [] then Inl EmptySerial
      else case int_set_string16 cleaned of
             None \<Rightarrow> Inl (InvalidHexSerial hex_str)
           | Some serial \<Rightarrow> if serial \<le> 0 then Inl NonPositiveSerial else Inr serial)"

section \<open>Reserving\<close>

text \<open>
  The reservation loop. Each attempt meets the storage in an environment of its own: \<open>envs\<close>
  gives, per attempt, the context's error (if any), the call's environment and its clock.
\<close>

fun reserve_attempts ::
  "('s, 'e) storage_iface \<Rightarrow> int \<Rightarrow> (ctx \<times> 'e \<times> go_time) list \<Rightarrow> 's \<Rightarrow> entropy \<Rightarrow>
     (serial_error + int) \<times> 's \<times> entropy" where
  "reserve_attempts ops bits [] s ent = (Inl ErrSerialExhaustion, s, ent)"
| "reserve_attempts ops bits ((c, env, now) # envs) s ent =
     (case c of
        Some e \<Rightarrow> (Inl (SerialCtx e), s, ent)
      | None \<Rightarrow>
          (case generate_serial_with_bits bits ent of
             (Inl e, ent') \<Rightarrow> (Inl e, s, ent')
           | (Inr serial, ent') \<Rightarrow>
               let serial_hex = format_serial (Some serial);
                   (r, s') = reserve_serial ops s env now serial_hex
               in (case r of
                     None \<Rightarrow> (Inr serial, s', ent')
                   | Some ErrAlreadyExists \<Rightarrow> reserve_attempts ops bits envs s' ent'
                   | Some e \<Rightarrow> (Inl (ReserveFailed serial_hex e), s', ent'))))"

definition generate_and_reserve_serial_with_bits ::
  "('s, 'e) storage_iface option \<Rightarrow> int \<Rightarrow> (nat \<Rightarrow> ctx \<times> 'e \<times> go_time) \<Rightarrow> 's \<Rightarrow> entropy \<Rightarrow>
     (serial_error + int) \<times> 's \<times> entropy" where
  "generate_and_reserve_serial_with_bits store bits envs s ent =
     (case store of
        None \<Rightarrow> (Inl NilStorage, s, ent)
      | Some ops \<Rightarrow> reserve_attempts ops bits (map envs [0..<max_reservation_retries]) s ent)"

definition generate_and_reserve_serial ::
  "('s, 'e) storage_iface option \<Rightarrow> (nat \<Rightarrow> ctx \<times> 'e \<times> go_time) \<Rightarrow> 's \<Rightarrow> entropy \<Rightarrow>
     (serial_error + int) \<times> 's \<times> entropy" where
  "generate_and_reserve_serial store envs s ent =
     generate_and_reserve_serial_with_bits store default_serial_bits envs s ent"

section \<open>Bounds\<close>

lemma byte_split:
  assumes "0 < (bits :: nat)"
  shows "bits = (if bits mod 8 = 0 then 8 else bits mod 8) + 8 * ((bits + 7) div 8 - 1)"
proof (cases "bits mod 8 = 0")
  case True
  then obtain q where q: "bits = 8 * q" by (auto simp: mod_eq_0_iff_dvd elim: dvdE)
  then have "(bits + 7) div 8 = q" by simp
  then show ?thesis using q assms by simp
next
  case False
  obtain r where r: "bits mod 8 = Suc r" using False by (cases "bits mod 8") auto
  have "bits = 8 * (bits div 8) + Suc r" using r by (metis mult_div_mod_eq)
  moreover have "Suc r < 8" using r by (metis mod_less_divisor zero_less_numeral)
  ultimately have "(bits + 7) div 8 = Suc (bits div 8)" by linarith
  then show ?thesis using False by simp
qed

lemma rand_int_pow2_bounds:
  assumes "rand_int_pow2 bits ent = Some (n, ent')" and "0 < bits"
  shows "0 \<le> n \<and> n < 2 ^ bits"
proof -
  let ?k = "(bits + 7) div 8" and ?b = "if bits mod 8 = 0 then 8 else bits mod 8"
  obtain bs where r: "rand_read ?k ent = Some (bs, ent')"
    and n: "n = int (be_val ((hd bs AND mask ?b) # tl bs))"
    using assms(1) by (auto simp: rand_int_pow2_def Let_def split: option.splits)
  have kb: "bits = ?b + 8 * (?k - 1)" using byte_split [OF assms(2)] .
  have "length bs = ?k" using rand_read_length [OF r] by simp
  then have len: "length (tl bs) = ?k - 1" by simp
  have "hd bs AND mask ?b < 2 ^ ?b \<or> ?b = 8"
    by (cases "bits mod 8 = 0") (auto simp: and_mask_less')
  then have hd: "unat (hd bs AND mask ?b) < 2 ^ ?b"
  proof
    assume "hd bs AND mask ?b < 2 ^ ?b"
    then have "unat (hd bs AND mask ?b) < unat (2 ^ ?b :: byte)" by (rule unat_mono)
    also have "\<dots> \<le> 2 ^ ?b"
      using unat_of_nat [of "2 ^ ?b", where 'a = 8] by (simp del: unat_of_nat)
    finally show ?thesis .
  next
    assume "?b = 8"
    then show ?thesis using unat_byte_less [of "hd bs AND mask ?b"] by simp
  qed
  have "be_val ((hd bs AND mask ?b) # tl bs) =
      unat (hd bs AND mask ?b) * 256 ^ (?k - 1) + be_val (tl bs)"
    using be_val_append [of "[hd bs AND mask ?b]" "tl bs"] len be_val_snoc [of "[]"] by simp
  also have "\<dots> < unat (hd bs AND mask ?b) * 256 ^ (?k - 1) + 256 ^ (?k - 1)"
    using be_val_bound [of "tl bs"] len by simp
  also have "\<dots> = (unat (hd bs AND mask ?b) + 1) * 256 ^ (?k - 1)" by simp
  also have "\<dots> \<le> 2 ^ ?b * 256 ^ (?k - 1)" using hd by (intro mult_le_mono1) simp
  also have "\<dots> = 2 ^ bits" by (subst (3) kb) (simp add: power_add power_mult)
  finally show ?thesis by (simp add: n)
qed

lemma draw_positive_bounds:
  "draw_positive bits ent = (Inr n, ent') \<Longrightarrow> 0 < n \<and> n < 2 ^ bits"
proof (induction bits ent arbitrary: ent' rule: draw_positive.induct)
  case (1 bits ent)
  from "1.prems" have "bits \<noteq> 0" by (auto simp: draw_positive.simps [of bits ent] split: if_splits)
  with "1.prems" obtain m e1 where m: "rand_int_pow2 bits ent = Some (m, e1)"
    and c: "(if m > 0 then (Inr m, e1) else draw_positive bits e1) = (Inr n, ent')"
    by (auto simp: draw_positive.simps [of bits ent] split: option.splits)
  show ?case
  proof (cases "m > 0")
    case True
    then show ?thesis using c rand_int_pow2_bounds [OF m] \<open>bits \<noteq> 0\<close> by simp
  next
    case False
    then show ?thesis using c "1.IH" [OF \<open>bits \<noteq> 0\<close> m] by simp
  qed
qed

lemma generate_serial_Inr:
  assumes "generate_serial_with_bits bits ent = (Inr n, ent')"
  shows "64 \<le> bits" and "bits \<le> 159" and "0 < n" and "n < 2 ^ nat bits" and "bit_len n \<le> 159"
proof -
  show b: "64 \<le> bits" "bits \<le> 159"
    using assms by (auto simp: generate_serial_with_bits_def min_serial_bits_def max_serial_bits_def
        split: if_splits)
  have "draw_positive (nat bits) ent = (Inr n, ent')"
    using assms by (auto simp: generate_serial_with_bits_def split: if_splits)
  from draw_positive_bounds [OF this] show n: "0 < n" "n < 2 ^ nat bits" by simp_all
  have "(2::int) ^ nat bits \<le> 2 ^ 159" using b by (intro power_increasing) auto
  then show "bit_len n \<le> 159" using n by (subst bit_len_le) linarith+
qed

lemma canonical_text16: "0 \<le> n \<Longrightarrow> canonical_serial (int_text16 n)"
  using set_nat_to_hex [of "nat n"]
  by (auto simp: canonical_serial_def int_text16_def list_all_iff)

lemma format_serial_canonical:
  "0 \<le> n \<Longrightarrow> canonical_serial (format_serial (Some n)) \<and> format_serial (Some n) = int_text16 n"
  using canonical_text16 canonical_serial_facts(4) by (simp add: format_serial_def)

lemma format_serial_inj: "0 \<le> m \<Longrightarrow> 0 \<le> n \<Longrightarrow> format_serial (Some m) = format_serial (Some n) \<longleftrightarrow> m = n"
  by (metis format_serial_canonical int_text16_roundtrip option.inject)

lemma normalize_format [simp]: "0 \<le> n \<Longrightarrow> normalize_serial (format_serial (Some n)) = format_serial (Some n)"
  using format_serial_canonical normalize_canonical by blast

lemma parse_format: "0 < n \<Longrightarrow> parse_serial (format_serial (Some n)) = Inr n"
  and parse_prefixed_format: "0 < n \<Longrightarrow> parse_serial (''0x'' @ format_serial (Some n)) = Inr n"
proof -
  assume n: "0 < n"
  have f: "format_serial (Some n) = int_text16 n" and c: "canonical_serial (int_text16 n)"
    using n format_serial_canonical [of n] canonical_text16 [of n] by simp_all
  show "parse_serial (format_serial (Some n)) = Inr n"
    using n canonical_serial_facts(1) [OF c] by (simp add: f parse_serial_def normalize_canonical [OF c])
  show "parse_serial (''0x'' @ format_serial (Some n)) = Inr n"
    using n canonical_serial_facts(1) [OF c]
    by (simp only: f parse_serial_def normalize_prefixed [OF c]) simp
qed

lemma parse_serial_positive: "parse_serial s = Inr n \<Longrightarrow> 0 < n"
  by (auto simp: parse_serial_def Let_def split: if_splits option.splits)

section \<open>Reservation over any storage\<close>

context storage_contract
begin

text \<open>A serial the loop returns is within bounds, was not recorded before and is recorded now;
  every other outcome leaves the store as it was.\<close>

lemma reserve_attempts_ok:
  assumes "reserve_attempts ops bits envs s ent = (r, s', ent')"
    and "inv s" and "list_all (\<lambda>(_, e, _). env_ok e) envs"
  shows "inv s' \<and>
    (case r of
       Inl _ \<Rightarrow> view s' = view s
     | Inr n \<Rightarrow> 0 < n \<and> n < 2 ^ nat bits \<and> bit_len n \<le> 159 \<and>
         format_serial (Some n) \<notin> st_serials (view s) \<and>
         view s' = (view s)\<lparr>st_serials := insert (format_serial (Some n)) (st_serials (view s))\<rparr>)"
  using assms
proof (induction envs arbitrary: s ent)
  case (Cons x envs)
  obtain c env now where x: "x = (c, env, now)" by (cases x) auto
  obtain g ent1 where g: "generate_serial_with_bits bits ent = (g, ent1)" by fastforce
  show ?case
  proof (cases "c = None \<and> (\<exists>n. g = Inr n)")
    case False
    then show ?thesis using Cons.prems g by (auto simp: x split: option.splits sum.splits)
  next
    case True
    then obtain n where n: "c = None" "g = Inr n" by blast
    note n_ok = generate_serial_Inr [OF g [unfolded n]]
    let ?h = "format_serial (Some n)"
    obtain q s1 where q: "reserve_serial ops s env now ?h = (q, s1)" by fastforce
    have ok: "env_ok env" "list_all (\<lambda>(_, e, _). env_ok e) envs" using Cons.prems(3) by (auto simp: x)
    have law: "inv s1" "write_ok (view s) (spec_reserve (view s) ?h) (q, view s1)"
      using reserve_law [OF Cons.prems(2) ok(1) q] by simp_all
    have err: "view s1 = view s" if "q \<noteq> None"
      using law(2) that by (auto simp: write_ok_def spec_reserve_def Let_def split: if_splits)
    consider "q = None" | "q = Some ErrAlreadyExists" | e where "q = Some e" "e \<noteq> ErrAlreadyExists"
      by (cases q) auto
    then show ?thesis
    proof cases
      case 1
      then have "spec_reserve (view s) ?h = (None, view s1)" using law(2) write_ok_None by blast
      from spec_reserve_success [OF this] show ?thesis
        using Cons.prems(1) 1 law(1) n n_ok g q by (auto simp: x)
    next
      case 2
      then have "reserve_attempts ops bits envs s1 ent1 = (r, s', ent')"
        using Cons.prems(1) n g q by (simp add: x)
      moreover have v: "view s1 = view s" using err 2 by simp
      ultimately show ?thesis using Cons.IH [OF _ law(1) ok(2), of ent1] by (simp only: v)
    next
      case (3 e)
      then have "r = Inl (ReserveFailed ?h e) \<and> s' = s1"
        using Cons.prems(1) n g q by (cases e) (auto simp: x)
      then show ?thesis using law(1) err 3 by simp
    qed
  qed
qed auto

end

end
