(* ===== verification/X509_Model.thy ===== *)
theory X509_Model
  imports Serial
begin

text \<open>
  The part of Go's \<open>crypto/x509\<close> vocabulary the code works on: public keys (with the NIST
  curves and \<open>IsOnCurve\<close> written out), key usages as the bit set they are, extensions, names,
  certificates and certificate requests. What turns these into bytes and back (ASN.1, hashing,
  signing) is not code of the repository: it is the record \<open>crypto_env\<close>, an argument of every
  operation that needs it.
\<close>

section \<open>Keys\<close>

datatype curve = P224 | P256 | P384 | P521

record curve_params =
  cp_name :: string
  cp_p :: int
  cp_b :: int

fun params :: "curve \<Rightarrow> curve_params" where
  "params P224 = \<lparr>cp_name = ''P-224'', cp_p = 2 ^ 224 - 2 ^ 96 + 1,
     cp_b = 0xb4050a850c04b3abf54132565044b0b7d7bfd8ba270b39432355ffb4\<rparr>"
| "params P256 = \<lparr>cp_name = ''P-256'', cp_p = 2 ^ 256 - 2 ^ 224 + 2 ^ 192 + 2 ^ 96 - 1,
     cp_b = 0x5ac635d8aa3a93e7b3ebbd55769886bc651d06b0cc53b0f63bce3c3e27d2604b\<rparr>"
| "params P384 = \<lparr>cp_name = ''P-384'', cp_p = 2 ^ 384 - 2 ^ 128 - 2 ^ 96 + 2 ^ 32 - 1,
     cp_b = 0xb3312fa7e23ee7e4988e056be3f82d19181d9c6efe8141120314088f5013875ac656398d8a2ed19d2a85c8edd3ec2aef\<rparr>"
| "params P521 = \<lparr>cp_name = ''P-521'', cp_p = 2 ^ 521 - 1,
     cp_b = 0x51953eb9618e1c9a1f929a21a0b68540eea2da725b99b315f3b8b489918ef109e156193951ec7e937b1652c0bd3bb1bf073573df883d2c34f1ef451fd46b503f00\<rparr>"

text \<open>The curves are \<open>y\<^sup>2 = x\<^sup>3 - 3x + b\<close> over the prime field, coordinates reduced.\<close>

definition is_on_curve :: "curve \<Rightarrow> int \<Rightarrow> int \<Rightarrow> bool" where
  "is_on_curve c x y =
     (let p = cp_p (params c) in
      0 \<le> x \<and> x < p \<and> 0 \<le> y \<and> y < p \<and>
      (y * y - (x * x * x - 3 * x + cp_b (params c))) mod p = 0)"

lemma params_name_inj: "cp_name (params c) = cp_name (params d) \<longleftrightarrow> c = d"
  by (cases c; cases d) simp_all

datatype public_key =
    RSAKey (rsa_n: int) (rsa_e: int)
  | ECDSAKey curve int int
  | Ed25519Key "byte list"
  | OtherKey string

fun is_ec_or_ed :: "public_key \<Rightarrow> bool" where
  "is_ec_or_ed (ECDSAKey c x y) = True"
| "is_ec_or_ed (Ed25519Key k) = True"
| "is_ec_or_ed _ = False"

section \<open>Key usages\<close>

type_synonym key_usage = "64 word"

definition KeyUsageDigitalSignature :: key_usage where
  "KeyUsageDigitalSignature = 1"

definition KeyUsageKeyEncipherment :: key_usage where
  "KeyUsageKeyEncipherment = 4"

definition KeyUsageCertSign :: key_usage where
  "KeyUsageCertSign = 32"

definition KeyUsageCRLSign :: key_usage where
  "KeyUsageCRLSign = 64"

lemmas key_usage_defs = KeyUsageDigitalSignature_def KeyUsageKeyEncipherment_def
  KeyUsageCertSign_def KeyUsageCRLSign_def

datatype ext_key_usage =
    EkuAny | EkuServerAuth | EkuClientAuth | EkuCodeSigning | EkuEmailProtection
  | EkuTimeStamping | EkuOCSPSigning | EkuUnknown nat

section \<open>Names, extensions, certificates\<close>

type_synonym oid = "nat list"
type_synonym ip = "byte list"

record pkix_name =
  nm_organization :: "string list"
  nm_common_name :: string

record extension =
  ext_id :: oid
  ext_critical :: bool
  ext_value :: "byte list"

record certificate =
  c_serial_number :: "int option"
  c_subject :: pkix_name
  c_issuer :: pkix_name
  c_public_key :: public_key
  c_dns_names :: "string list"
  c_ip_addresses :: "ip list"
  c_email_addresses :: "string list"
  c_uris :: "string list"
  c_not_before :: go_time
  c_not_after :: go_time
  c_key_usage :: key_usage
  c_ext_key_usage :: "ext_key_usage list"
  c_basic_constraints_valid :: bool
  c_is_ca :: bool
  c_max_path_len :: int
  c_max_path_len_zero :: bool
  c_subject_key_id :: "byte list"
  c_authority_key_id :: "byte list"
  c_ocsp_server :: "string list"
  c_issuing_certificate_url :: "string list"
  c_crl_distribution_points :: "string list"
  c_extra_extensions :: "extension list"
  c_raw :: "byte list"

record certificate_request =
  csr_subject :: pkix_name
  csr_public_key :: public_key
  csr_dns_names :: "string list"
  csr_ip_addresses :: "ip list"
  csr_email_addresses :: "string list"
  csr_uris :: "string list"
  csr_signature :: "byte list"

text \<open>The zero value of \<open>x509.Certificate\<close>: what a composite literal leaves out.\<close>

definition zero_certificate :: certificate where
  "zero_certificate =
     \<lparr>c_serial_number = None, c_subject = \<lparr>nm_organization = [], nm_common_name = []\<rparr>,
      c_issuer = \<lparr>nm_organization = [], nm_common_name = []\<rparr>, c_public_key = OtherKey [],
      c_dns_names = [], c_ip_addresses = [], c_email_addresses = [], c_uris = [],
      c_not_before = 0, c_not_after = 0, c_key_usage = 0, c_ext_key_usage = [],
      c_basic_constraints_valid = False, c_is_ca = False, c_max_path_len = 0,
      c_max_path_len_zero = False, c_subject_key_id = [], c_authority_key_id = [],
      c_ocsp_server = [], c_issuing_certificate_url = [], c_crl_distribution_points = [],
      c_extra_extensions = [], c_raw = []\<rparr>"

section \<open>The cryptographic environment\<close>

text \<open>
  What the code takes from the cryptographic libraries, over an abstract private key \<open>'k\<close>.
  Errors are the library's messages. Operations that draw randomness take the drawn bytes as
  an argument, so two uses with different bytes may give different results.
\<close>

record 'k crypto_env =
  ce_parse_csr :: "byte list \<Rightarrow> string + certificate_request"
  ce_check_csr_signature :: "certificate_request \<Rightarrow> string option"
  ce_marshal_pkix :: "public_key \<Rightarrow> string + byte list"
  ce_spki_bits :: "byte list \<Rightarrow> string + byte list"
  ce_sha1 :: "byte list \<Rightarrow> byte list"
  ce_sha256 :: "byte list \<Rightarrow> byte list"
  ce_public :: "'k \<Rightarrow> public_key"
  ce_generate_rsa :: "nat \<Rightarrow> byte list \<Rightarrow> string + 'k"
  ce_create_certificate ::
    "byte list \<Rightarrow> certificate \<Rightarrow> certificate \<Rightarrow> public_key \<Rightarrow> 'k \<Rightarrow> string + byte list"
  ce_parse_certificate :: "byte list \<Rightarrow> string + certificate"

text \<open>
  The documented behaviour of \<open>x509.CreateCertificate\<close> and \<open>ParseCertificate\<close> that the code
  relies on: what is created parses back with the template's fields (times cut to whole
  seconds, as ASN.1 has them), the parent's subject as issuer and the given public key. An
  extra extension under the arc \<open>id-ce\<close> (2.5.29) would replace the one made from a field, so
  templates that have one are left out.
\<close>

definition same_tbs :: "certificate \<Rightarrow> certificate \<Rightarrow> bool" where
  "same_tbs t c =
     (c_serial_number c = c_serial_number t \<and> c_subject c = c_subject t \<and>
      c_dns_names c = c_dns_names t \<and>
      c_not_before c = trunc_second (c_not_before t) \<and>
      c_not_after c = trunc_second (c_not_after t) \<and>
      (c_subject_key_id t \<noteq> [] \<longrightarrow> c_subject_key_id c = c_subject_key_id t) \<and>
      (c_basic_constraints_valid t \<longrightarrow> c_is_ca c = c_is_ca t))"

definition plain_extras :: "certificate \<Rightarrow> bool" where
  "plain_extras t = (\<forall>x \<in> set (c_extra_extensions t). take 3 (ext_id x) \<noteq> [2, 5, 29])"

definition create_parse_ok :: "'k crypto_env \<Rightarrow> bool" where
  "create_parse_ok env =
     (\<forall>rnd t p pub k der. plain_extras t \<longrightarrow> ce_create_certificate env rnd t p pub k = Inr der \<longrightarrow>
        (\<exists>c. ce_parse_certificate env der = Inr c \<and> same_tbs t c \<and> c_issuer c = c_subject p \<and>
             c_public_key c = pub \<and> c_raw c = der))"

text \<open>
  What else is documented of \<open>CreateCertificate\<close>: the certificate is signed with the given private key,
  so that its signature verifies under that key's public half (\<open>verifies\<close> is the library's check of a
  signature), and its authority key identifier is the subject key identifier of the parent, if it has
  one and the certificate is not self-issued, else that of the template.
\<close>

definition signed_akid :: "certificate \<Rightarrow> certificate \<Rightarrow> byte list" where
  "signed_akid t p =
     (if c_subject t \<noteq> c_subject p \<and> c_subject_key_id p \<noteq> [] then c_subject_key_id p else c_authority_key_id t)"

definition create_signed_ok :: "'k crypto_env \<Rightarrow> (public_key \<Rightarrow> certificate \<Rightarrow> bool) \<Rightarrow> bool" where
  "create_signed_ok env verifies =
     (\<forall>rnd t p pub k der c. plain_extras t \<longrightarrow> ce_create_certificate env rnd t p pub k = Inr der \<longrightarrow>
        ce_parse_certificate env der = Inr c \<longrightarrow>
        verifies (ce_public env k) c \<and>
        c_authority_key_id c = signed_akid t p)"

end
