(* ===== verification/Go_Http.thy ===== *)
theory Go_Http
  imports Go_Strings
begin

text \<open>
  The part of \<open>net/http\<close> the handlers use: a request as they read it (method, path, query,
  headers, body) and the response they write. Headers are maps under their canonical names,
  with the single value \<open>Header().Set\<close> leaves. A JSON body is kept as the value that is
  encoded (\<open>'j\<close> is the type of such values in the handler's model).
\<close>

record request =
  rq_method :: string
  rq_path :: string
  rq_escaped_path :: string
  rq_raw_query :: string
  rq_query :: "(string, string) gomap"
  rq_headers :: "(string, string) gomap"
  rq_body :: "byte list option"
  rq_ctx :: ctx

text \<open>\<open>rq_body\<close> None is a body whose reading fails.\<close>

type_synonym headers = "(string, string) gomap"

datatype 'j body = NoBody | Raw "byte list" | Text string | Json 'j

record 'j response =
  rs_status :: nat
  rs_headers :: headers
  rs_body :: "'j body"

abbreviation respond :: "nat \<Rightarrow> headers \<Rightarrow> 'j body \<Rightarrow> 'j response" where
  "respond code hs b \<equiv> \<lparr>rs_status = code, rs_headers = hs, rs_body = b\<rparr>"

definition get_header :: "string \<Rightarrow> headers \<Rightarrow> string" where
  "get_header k hs = (case map_of hs k of Some v \<Rightarrow> v | None \<Rightarrow> [])"

definition http_error :: "headers \<Rightarrow> string \<Rightarrow> nat \<Rightarrow> 'j response" where
  "http_error hs msg code =
     respond code (gm_set ''X-Content-Type-Options'' ''nosniff''
       (gm_set ''Content-Type'' ''text/plain; charset=utf-8'' (gm_del ''Content-Length'' hs)))
       (Text (msg @ [CHR 0x0A]))"

definition not_found :: "headers \<Rightarrow> 'j response" where
  "not_found hs = http_error hs ''404 page not found'' 404"

definition method_not_allowed :: "string \<Rightarrow> 'j response" where
  "method_not_allowed allow = http_error (gm_set ''Allow'' allow []) ''Method Not Allowed'' 405"

lemma http_error_status [simp]: "rs_status (http_error hs msg code) = code"
  by (simp add: http_error_def)

lemma method_not_allowed_status [simp]: "rs_status (method_not_allowed a) = 405"
  by (simp add: method_not_allowed_def)

lemma not_found_status [simp]: "rs_status (not_found hs) = 404"
  by (simp add: not_found_def)

end
