(* ===== verification/Crl.thy ===== *)
theory Crl
  imports X509_Model Go_Http
begin

text \<open>
  \<open>pkg/protocols/crl\<close>: the CRL generator, the service that caches and refreshes the CRL in the
  background, and the HTTP handler. The generator's mutex is part of the state, since the
  background loop takes it and never gives it back; an operation that finds it taken does not
  return, which is None.
\<close>

section \<open>The generator\<close>

record revocation_entry =
  re_serial_number :: int
  re_revocation_time :: go_time
  re_reason_code :: int

record revocation_list =
  rl_number :: int
  rl_this_update :: go_time
  rl_next_update :: go_time
  rl_entries :: "revocation_entry list"

datatype crl_error =
    ErrNilIssuerCert
  | ErrNilSigner
  | ErrNilStorage
  | FetchFailed storage_error
  | InvalidSerial string
  | CreateFailed string
  | InitialFailed crl_error

text \<open>\<open>x509.CreateRevocationList\<close> is \<open>create\<close>, an argument: template, issuer, key.\<close>

type_synonym 'k create_crl = "revocation_list \<Rightarrow> certificate \<Rightarrow> 'k \<Rightarrow> string + byte list"

record ('k, 's, 'e) crl_generator =
  cg_issuer_cert :: certificate
  cg_signer :: 'k
  cg_storage :: "('s, 'e) storage_iface"
  cg_validity :: duration
  cg_crl_number :: int
  cg_locked :: bool

definition new_crl_generator ::
  "certificate option \<Rightarrow> 'k option \<Rightarrow> ('s, 'e) storage_iface option \<Rightarrow> duration \<Rightarrow>
     crl_error + ('k, 's, 'e) crl_generator" where
  "new_crl_generator issuer_cert signer store validity =
     (case issuer_cert of
        None \<Rightarrow> Inl ErrNilIssuerCert
      | Some ic \<Rightarrow>
     (case signer of
        None \<Rightarrow> Inl ErrNilSigner
      | Some k \<Rightarrow>
     (case store of
        None \<Rightarrow> Inl ErrNilStorage
      | Some st \<Rightarrow>
          Inr \<lparr>cg_issuer_cert = ic, cg_signer = k, cg_storage = st,
               cg_validity = (if validity \<le> 0 then 24 * hour else validity),
               cg_crl_number = 0, cg_locked = False\<rparr>)))"

text \<open>The conversion loop.\<close>

fun convert_records :: "revocation_record list \<Rightarrow> crl_error + revocation_entry list" where
  "convert_records [] = Inr []"
| "convert_records (rec # recs) =
     (case int_set_string16 (normalize_serial (rr_serial rec)) of
        None \<Rightarrow> Inl (InvalidSerial (rr_serial rec))
      | Some serial \<Rightarrow>
          (case convert_records recs of
             Inl e \<Rightarrow> Inl e
           | Inr es \<Rightarrow> Inr (\<lparr>re_serial_number = serial, re_revocation_time = rr_revoked_at rec,
                             re_reason_code = rr_reason rec\<rparr> # es)))"

text \<open>The body of \<open>GenerateCRL\<close> between \<open>Lock\<close> and the deferred \<open>Unlock\<close>.\<close>

definition generate_crl_locked ::
  "'k create_crl \<Rightarrow> ('k, 's, 'e) crl_generator \<Rightarrow> 's \<Rightarrow> 'e \<Rightarrow> go_time \<Rightarrow>
     (crl_error + byte list) \<times> ('k, 's, 'e) crl_generator" where
  "generate_crl_locked create g s env now =
     (case list_revoked (cg_storage g) s env of
        Inl e \<Rightarrow> (Inl (FetchFailed e), g)
      | Inr records \<Rightarrow>
     (case convert_records records of
        Inl e \<Rightarrow> (Inl e, g)
      | Inr entries \<Rightarrow>
          let g = g\<lparr>cg_crl_number := cg_crl_number g + 1\<rparr>;
              template = \<lparr>rl_number = cg_crl_number g, rl_this_update = now - minute,
                          rl_next_update = now + cg_validity g, rl_entries = entries\<rparr>
          in (case create template (cg_issuer_cert g) (cg_signer g) of
                Inl e \<Rightarrow> (Inl (CreateFailed e), g)
              | Inr der \<Rightarrow> (Inr der, g))))"

definition generate_crl ::
  "'k create_crl \<Rightarrow> ('k, 's, 'e) crl_generator \<Rightarrow> 's \<Rightarrow> 'e \<Rightarrow> go_time \<Rightarrow>
     ((crl_error + byte list) \<times> ('k, 's, 'e) crl_generator) option" where
  "generate_crl create g s env now =
     (if cg_locked g then None
      else let (r, g') = generate_crl_locked create (g\<lparr>cg_locked := True\<rparr>) s env now
           in Some (r, g'\<lparr>cg_locked := False\<rparr>))"

section \<open>The service\<close>

text \<open>Where the background goroutine is: not started, waiting in its \<open>select\<close>, inside
  \<open>Regenerate\<close> waiting for the generator's mutex, or returned.\<close>

datatype ticker_pc = NotStarted | Waiting | BlockedOnMutex | Returned

record ('k, 's, 'e) crl_service =
  cs_generator :: "('k, 's, 'e) crl_generator"
  cs_interval :: duration
  cs_cached_crl :: "byte list"
  cs_last_generated :: go_time
  cs_running :: bool
  cs_stopped :: bool
  cs_ticker :: ticker_pc

definition new_crl_service :: "('k, 's, 'e) crl_generator \<Rightarrow> duration \<Rightarrow> ('k, 's, 'e) crl_service" where
  "new_crl_service g interval =
     \<lparr>cs_generator = g, cs_interval = (if interval \<le> 0 then 6 * hour else interval),
      cs_cached_crl = [], cs_last_generated = 0, cs_running = False, cs_stopped = False,
      cs_ticker = NotStarted\<rparr>"

text \<open>\<open>now2\<close> is the second clock reading, for \<open>lastGenerated\<close>.\<close>

definition regenerate ::
  "'k create_crl \<Rightarrow> ('k, 's, 'e) crl_service \<Rightarrow> 's \<Rightarrow> 'e \<Rightarrow> go_time \<Rightarrow> go_time \<Rightarrow>
     ((crl_error + byte list) \<times> ('k, 's, 'e) crl_service) option" where
  "regenerate create sv s env now now2 =
     (case generate_crl create (cs_generator sv) s env now of
        None \<Rightarrow> None
      | Some (Inl e, g) \<Rightarrow> Some (Inl e, sv\<lparr>cs_generator := g\<rparr>)
      | Some (Inr der, g) \<Rightarrow>
          Some (Inr der, sv\<lparr>cs_generator := g, cs_cached_crl := der, cs_last_generated := now2\<rparr>))"

text \<open>None is \<open>ErrCRLNotReady\<close>.\<close>

definition latest_crl :: "('k, 's, 'e) crl_service \<Rightarrow> (byte list \<times> go_time) option" where
  "latest_crl sv =
     (if length (cs_cached_crl sv) = 0 then None else Some (cs_cached_crl sv, cs_last_generated sv))"

definition start_service ::
  "'k create_crl \<Rightarrow> ('k, 's, 'e) crl_service \<Rightarrow> 's \<Rightarrow> 'e \<Rightarrow> go_time \<Rightarrow> go_time \<Rightarrow>
     (crl_error option \<times> ('k, 's, 'e) crl_service) option" where
  "start_service create sv s env now now2 =
     (if cs_running sv then Some (None, sv)
      else
        let sv = sv\<lparr>cs_running := True, cs_stopped := False\<rparr> in
        (case regenerate create sv s env now now2 of
           None \<Rightarrow> None
         | Some (Inl e, sv) \<Rightarrow> Some (Some (InitialFailed e), sv)
         | Some (Inr _, sv) \<Rightarrow> Some (None, sv\<lparr>cs_ticker := Waiting\<rparr>)))"

definition stop_service :: "('k, 's, 'e) crl_service \<Rightarrow> ('k, 's, 'e) crl_service" where
  "stop_service sv = (if \<not> cs_running sv then sv else sv\<lparr>cs_running := False, cs_stopped := True\<rparr>)"

text \<open>
  One round of the background loop on a tick: \<open>TryLock\<close>, whose result is dropped, takes the
  generator's mutex if it is free; then \<open>Regenerate\<close> runs, and where it does not return the
  goroutine stays inside it.
\<close>

definition ticker_round ::
  "'k create_crl \<Rightarrow> ('k, 's, 'e) crl_service \<Rightarrow> 's \<Rightarrow> 'e \<Rightarrow> go_time \<Rightarrow> go_time \<Rightarrow> ('k, 's, 'e) crl_service" where
  "ticker_round create sv s env now now2 =
     (if cs_ticker sv \<noteq> Waiting then sv
      else
        let sv = sv\<lparr>cs_generator := (cs_generator sv)\<lparr>cg_locked := True\<rparr>\<rparr> in
        (case regenerate create sv s env now now2 of
           None \<Rightarrow> sv\<lparr>cs_ticker := BlockedOnMutex\<rparr>
         | Some (_, sv') \<Rightarrow> sv'))"

text \<open>The other two branches of the \<open>select\<close>.\<close>

definition ticker_stop :: "('k, 's, 'e) crl_service \<Rightarrow> ('k, 's, 'e) crl_service" where
  "ticker_stop sv = (if cs_ticker sv = Waiting then sv\<lparr>cs_ticker := Returned\<rparr> else sv)"

text \<open>What may happen to a service: ticks, calls of \<open>Regenerate\<close> (a call that does not return
  leaves the service as it is), \<open>Stop\<close>, and the goroutine seeing the stop or the
  cancellation; a \<open>Start\<close> of a running service does nothing.\<close>

datatype ('s, 'e) service_event =
    Tick 's 'e go_time go_time
  | CallRegenerate 's 'e go_time go_time
  | CallStop
  | SeeStop

fun service_step ::
  "'k create_crl \<Rightarrow> ('k, 's, 'e) crl_service \<Rightarrow> ('s, 'e) service_event \<Rightarrow> ('k, 's, 'e) crl_service" where
  "service_step create sv (Tick s env now now2) = ticker_round create sv s env now now2"
| "service_step create sv (CallRegenerate s env now now2) =
     (case regenerate create sv s env now now2 of None \<Rightarrow> sv | Some (_, sv') \<Rightarrow> sv')"
| "service_step create sv CallStop = stop_service sv"
| "service_step create sv SeeStop = ticker_stop sv"

definition service_run ::
  "'k create_crl \<Rightarrow> ('k, 's, 'e) crl_service \<Rightarrow> ('s, 'e) service_event list \<Rightarrow> ('k, 's, 'e) crl_service" where
  "service_run create sv evs = foldl (service_step create) sv evs"

section \<open>The handler\<close>

definition with_cache_max_age :: "int \<Rightarrow> int \<Rightarrow> int" where
  "with_cache_max_age seconds current = (if seconds > 0 then seconds else current)"

definition new_crl_handler :: "int list \<Rightarrow> int" where
  "new_crl_handler opts = foldl (\<lambda>age seconds. with_cache_max_age seconds age) 3600 opts"

definition crl_serve_http ::
  "(go_time \<Rightarrow> string) \<Rightarrow> int \<Rightarrow> (byte list \<times> go_time) option \<Rightarrow> request \<Rightarrow> unit response" where
  "crl_serve_http fmt cache_max_age latest r =
     (if rq_method r \<noteq> ''GET'' \<and> rq_method r \<noteq> ''HEAD'' then method_not_allowed ''GET, HEAD''
      else case latest of
        None \<Rightarrow> http_error [] ''CRL Not Ready'' 503
      | Some (crl_der, last_gen) \<Rightarrow>
          let hs = gm_set ''Content-Type'' ''application/pkix-crl'' [];
              hs = gm_set ''Cache-Control''
                     (''public, max-age='' @ dec_int cache_max_age @ '', must-revalidate'') hs;
              hs = (if last_gen \<noteq> 0 then gm_set ''Last-Modified'' (fmt last_gen) hs else hs);
              hs = gm_set ''Content-Length'' (dec_nat (length crl_der)) hs
          in if rq_method r = ''HEAD'' then respond 200 hs NoBody
             else respond 200 hs (Raw crl_der))"

section \<open>What a CRL lists\<close>

lemma convert_records_ok:
  assumes "\<forall>r \<in> set recs. 0 < (n r :: int) \<and> rr_serial r = format_serial (Some (n r))"
  shows "convert_records recs = Inr (map (\<lambda>r. \<lparr>re_serial_number = n r,
    re_revocation_time = rr_revoked_at r, re_reason_code = rr_reason r\<rparr>) recs)"
  using assms
proof (induction recs)
  case (Cons r recs)
  then have "rr_serial r = format_serial (Some (n r))" "0 < n r" by simp_all
  then have "int_set_string16 (normalize_serial (rr_serial r)) = Some (n r)"
    using format_serial_canonical [of "n r"] canonical_text16 [of "n r"]
    by (simp add: normalize_canonical)
  then show ?case using Cons by simp
qed simp

context storage_contract
begin

text \<open>Every certificate serial of the store being one the program formats, the template lists
  each revoked certificate exactly once, with its time and reason, in order of time.\<close>

lemma generated_entries:
  assumes "inv s" "env_ok env" and "list_revoked ops s env = Inr recs"
    and "\<forall>k r. st_revs (view s) k = Some r \<longrightarrow> (\<exists>n > 0. k = format_serial (Some n))"
  shows "\<exists>es. convert_records recs = Inr es \<and>
    (\<forall>n > 0. \<forall>t c. \<lparr>re_serial_number = n, re_revocation_time = t, re_reason_code = c\<rparr> \<in> set es \<longleftrightarrow>
       st_revs (view s) (format_serial (Some n)) =
         Some \<lparr>rr_serial = format_serial (Some n), rr_revoked_at = t, rr_reason = c\<rparr>) \<and>
    distinct (map re_serial_number es) \<and> sorted (map re_revocation_time es)"
proof -
  have sp: "spec_list (view s) recs" using list_law [OF assms(1-3)] .
  have rr: "st_revs (view s) (rr_serial r) = Some r" if "r \<in> set recs" for r
  proof -
    have "r \<in> ran (st_revs (view s))" using sp that by (simp add: spec_list_def)
    then obtain k where "st_revs (view s) k = Some r" by (auto simp: ran_def)
    then show ?thesis using inv_wf [OF assms(1)] unfolding store_wf_def by metis
  qed
  have "\<exists>m. 0 < m \<and> rr_serial r = format_serial (Some m)" if "r \<in> set recs" for r
    using assms(4) rr [OF that] by blast
  then obtain n where n: "\<forall>r \<in> set recs. 0 < n r \<and> rr_serial r = format_serial (Some (n r))"
    by metis
  let ?es = "map (\<lambda>r. \<lparr>re_serial_number = n r, re_revocation_time = rr_revoked_at r,
    re_reason_code = rr_reason r\<rparr>) recs"
  have "distinct (map rr_serial recs)" using sp by (simp add: spec_list_def)
  then have "distinct (map n recs)"
    using n by (auto simp: distinct_map inj_on_def)
  moreover have "sorted (map rr_revoked_at recs)" using sp by (simp add: spec_list_def)
  moreover have "\<lparr>re_serial_number = m, re_revocation_time = t, re_reason_code = c\<rparr> \<in> set ?es \<longleftrightarrow>
      st_revs (view s) (format_serial (Some m)) =
        Some \<lparr>rr_serial = format_serial (Some m), rr_revoked_at = t, rr_reason = c\<rparr>" (is "?l \<longleftrightarrow> ?r")
    if m: "0 < m" for m t c
  proof
    assume ?l
    then obtain r where r: "r \<in> set recs" "n r = m" "rr_revoked_at r = t" "rr_reason r = c" by auto
    with n rr [OF r(1)] show ?r by (cases r) auto
  next
    assume ?r
    let ?q = "\<lparr>rr_serial = format_serial (Some m), rr_revoked_at = t, rr_reason = c\<rparr>"
    have q: "?q \<in> set recs"
      using sp \<open>?r\<close> by (auto simp: spec_list_def ran_def)
    with n have "0 < n ?q" "format_serial (Some m) = format_serial (Some (n ?q))" by fastforce+
    then have "n ?q = m" using format_serial_inj [of m "n ?q"] m by simp
    then show ?l using q by force
  qed
  ultimately show ?thesis
    using convert_records_ok [OF n] by (intro exI [of _ ?es]) (simp add: o_def)
qed

end

section \<open>The mutex that stays taken\<close>

lemma ticker_round_first:
  assumes "cs_ticker sv = Waiting"
  shows "ticker_round create sv s env now now2 =
    sv\<lparr>cs_generator := (cs_generator sv)\<lparr>cg_locked := True\<rparr>, cs_ticker := BlockedOnMutex\<rparr>"
  using assms by (simp add: ticker_round_def regenerate_def generate_crl_def Let_def)

lemma regenerate_locked: "cg_locked (cs_generator sv) \<Longrightarrow> regenerate create sv s env now now2 = None"
  by (simp add: regenerate_def generate_crl_def)

lemma stuck_step:
  assumes "cg_locked (cs_generator sv)" and "cs_ticker sv = BlockedOnMutex"
  shows "cg_locked (cs_generator (service_step create sv ev)) \<and>
    cs_ticker (service_step create sv ev) = BlockedOnMutex \<and>
    cs_cached_crl (service_step create sv ev) = cs_cached_crl sv \<and>
    cs_last_generated (service_step create sv ev) = cs_last_generated sv"
  using assms
  by (cases ev) (auto simp: ticker_round_def stop_service_def ticker_stop_def regenerate_locked)

lemma stuck_run:
  assumes "cg_locked (cs_generator sv)" and "cs_ticker sv = BlockedOnMutex"
  shows "latest_crl (service_run create sv evs) = latest_crl sv \<and>
    cs_ticker (service_run create sv evs) = BlockedOnMutex \<and>
    cg_locked (cs_generator (service_run create sv evs))"
  using assms
proof (induction evs arbitrary: sv)
  case (Cons ev evs)
  from stuck_step [OF Cons.prems, of create ev] Cons.IH [of "service_step create sv ev"]
  show ?case by (simp add: service_run_def latest_crl_def)
qed (simp add: service_run_def)

end
