(* ===== verification/Go_Base64.thy ===== *)
theory Go_Base64
  imports Go_Encoding
begin

text \<open>
  \<open>encoding/base64\<close> and \<open>encoding/hex\<close>. Encoding splits the bytes into groups of six bits;
  decoding skips carriage returns and line feeds, as Go's decoder does, looks each character
  up in the alphabet and ignores the unused low bits of a last partial group (Go's non-strict
  mode). \<open>raw\<close> is the form without padding, \<open>padded\<close> the form with it.
\<close>

definition b64_std :: string where
  "b64_std = ''ABCDEFGHIJKLMNOPQRSTUVWXYZabcdefghijklmnopqrstuvwxyz0123456789+/''"

definition b64_url :: string where
  "b64_url = ''ABCDEFGHIJKLMNOPQRSTUVWXYZabcdefghijklmnopqrstuvwxyz0123456789-_''"

fun sextets :: "byte list \<Rightarrow> nat list" where
  "sextets [] = []"
| "sextets [a] = [unat a div 4, unat a mod 4 * 16]"
| "sextets [a, b] = [unat a div 4, unat a mod 4 * 16 + unat b div 16, unat b mod 16 * 4]"
| "sextets (a # b # c # r) =
     unat a div 4 # (unat a mod 4 * 16 + unat b div 16)
       # (unat b mod 16 * 4 + unat c div 64) # unat c mod 64 # sextets r"

fun unsextets :: "nat list \<Rightarrow> byte list option" where
  "unsextets [] = Some []"
| "unsextets [w] = None"
| "unsextets [w, x] = Some [word_of_nat (w * 4 + x div 16)]"
| "unsextets [w, x, y] =
     Some [word_of_nat (w * 4 + x div 16), word_of_nat (x mod 16 * 16 + y div 4)]"
| "unsextets (w # x # y # z # r) =
     map_option (\<lambda>bs. word_of_nat (w * 4 + x div 16) # word_of_nat (x mod 16 * 16 + y div 4)
       # word_of_nat (y mod 4 * 64 + z) # bs) (unsextets r)"

definition b64_raw_encode :: "string \<Rightarrow> byte list \<Rightarrow> string" where
  "b64_raw_encode alpha bs = map (\<lambda>i. alpha ! i) (sextets bs)"

definition b64_padded_encode :: "string \<Rightarrow> byte list \<Rightarrow> string" where
  "b64_padded_encode alpha bs =
     b64_raw_encode alpha bs @ replicate ((3 - length bs mod 3) mod 3) CHR ''=''"

definition skip_newlines :: "string \<Rightarrow> string" where
  "skip_newlines s = filter (\<lambda>c. c \<noteq> CHR 0x0A \<and> c \<noteq> CHR 0x0D) s"

definition b64_raw_decode :: "string \<Rightarrow> string \<Rightarrow> byte list option" where
  "b64_raw_decode alpha s =
     Option.bind (those (map (index_of alpha) (skip_newlines s))) unsextets"

definition b64_padded_decode :: "string \<Rightarrow> string \<Rightarrow> byte list option" where
  "b64_padded_decode alpha s =
     (let t = skip_newlines s in
      if length t mod 4 \<noteq> 0 then None
      else if has_suffix t ''=='' then b64_raw_decode alpha (take (length t - 2) t)
      else if has_suffix t ''='' then b64_raw_decode alpha (take (length t - 1) t)
      else b64_raw_decode alpha t)"

definition hex_encode :: "byte list \<Rightarrow> string" where
  "hex_encode bs = concat (map (\<lambda>b. [hex_digit (unat b div 16), hex_digit (unat b mod 16)]) bs)"

section \<open>Round trips\<close>

lemma byte_parts_less [simp]:
  "unat (a :: byte) div 4 < 64" "unat (a :: byte) div 16 < 16" "unat (a :: byte) div 64 < 4"
  by (simp_all add: less_mult_imp_div_less)

lemma sextet_parts_less [simp]:
  "unat (a :: byte) mod 4 * 16 + unat (b :: byte) div 16 < 64"
  "unat (b :: byte) mod 16 * 4 + unat (c :: byte) div 64 < 64"
proof -
  have "unat a mod 4 < 4" "unat b mod 16 < 16" by simp_all
  with byte_parts_less(2) [of b] byte_parts_less(3) [of c]
  show "unat a mod 4 * 16 + unat b div 16 < 64" "unat b mod 16 * 4 + unat c div 64 < 64"
    by linarith+
qed

lemma sextets_less: "i \<in> set (sextets bs) \<Longrightarrow> i < 64"
proof (induction bs rule: sextets.induct)
  case (2 a)
  have "unat a mod 4 < 4" by simp
  then have "unat a mod 4 * 16 < 64" by linarith
  with 2 show ?case by auto
next
  case (3 a b)
  have "unat b mod 16 < 16" by simp
  then have "unat b mod 16 * 4 < 64" by linarith
  with 3 show ?case by auto
qed auto

lemma sextet_join1: "(a::nat) div 4 * 4 + (a mod 4 * 16 + b) div 16 = a + b div 16"
  by simp

lemma sextet_join2:
  assumes "b < 256"
  shows "((a::nat) mod 4 * 16 + b div 16) mod 16 * 16 + (b mod 16 * 4 + d) div 4 = b + d div 4"
proof -
  have "b div 16 < 16" using assms by (simp add: less_mult_imp_div_less)
  then have "(a mod 4 * 16 + b div 16) mod 16 = b div 16" by simp
  moreover have "(b mod 16 * 4 + d) div 4 = b mod 16 + d div 4" by simp
  ultimately show ?thesis by simp
qed

lemma sextet_join3:
  assumes "c < 256"
  shows "((b::nat) mod 16 * 4 + c div 64) mod 4 * 64 + c mod 64 = c"
proof -
  have "c div 64 < 4" using assms by (simp add: less_mult_imp_div_less)
  then have "(b mod 16 * 4 + c div 64) mod 4 = c div 64" by simp
  then show ?thesis by simp
qed

lemma unat_div_zero [simp]: "unat (b :: byte) div 16 div 16 = 0" "unat (c :: byte) div 64 div 4 = 0"
  by (simp_all only: div_eq_0_iff byte_parts_less) simp_all

lemma unsextets_sextets [simp]: "unsextets (sextets bs) = Some bs"
proof (induction bs rule: sextets.induct)
  case (2 a)
  show ?case using sextet_join1 [of "unat a" 0] by simp
next
  case (3 a b)
  show ?case
    using sextet_join1 [of "unat a" "unat b div 16"] sextet_join2 [of "unat b" "unat a" 0] by simp
next
  case (4 a b c r)
  then show ?case
    using sextet_join1 [of "unat a" "unat b div 16"]
      sextet_join2 [of "unat b" "unat a" "unat c div 64"] sextet_join3 [of "unat c" "unat b"]
    by simp
qed simp

lemma those_index_of:
  assumes "distinct alpha" and "\<forall>i \<in> set is. i < length alpha"
  shows "those (map (index_of alpha) (map (\<lambda>i. alpha ! i) is)) = Some is"
  using assms(2) by (induction "is") (simp_all add: index_of_nth assms(1))

lemma b64_alphabets:
  "distinct b64_std" "length b64_std = 64" "distinct b64_url" "length b64_url = 64"
  "CHR ''='' \<notin> set b64_std" "CHR 0x0A \<notin> set b64_std" "CHR 0x0D \<notin> set b64_std"
  "CHR ''='' \<notin> set b64_url" "CHR 0x0A \<notin> set b64_url" "CHR 0x0D \<notin> set b64_url"
  "CHR ''.'' \<notin> set b64_url"
  by (simp_all add: b64_std_def b64_url_def)

lemma set_b64_raw_encode:
  "length alpha = 64 \<Longrightarrow> set (b64_raw_encode alpha bs) \<subseteq> set alpha"
  by (auto simp: b64_raw_encode_def dest: sextets_less)

lemma skip_newlines_id:
  "CHR 0x0A \<notin> set s \<Longrightarrow> CHR 0x0D \<notin> set s \<Longrightarrow> skip_newlines s = s"
  by (auto simp: skip_newlines_def filter_id_conv)

lemma b64_raw_roundtrip_gen:
  assumes "distinct alpha" "length alpha = 64" "CHR 0x0A \<notin> set alpha" "CHR 0x0D \<notin> set alpha"
  shows "b64_raw_decode alpha (b64_raw_encode alpha bs) = Some bs"
proof -
  have "skip_newlines (b64_raw_encode alpha bs) = b64_raw_encode alpha bs"
    using set_b64_raw_encode [OF assms(2), of bs] assms(3,4) by (intro skip_newlines_id) auto
  moreover have "\<forall>i \<in> set (sextets bs). i < length alpha"
    using assms(2) by (simp add: sextets_less)
  ultimately show ?thesis
    by (simp only: b64_raw_decode_def) (simp add: b64_raw_encode_def those_index_of [OF assms(1)] del: map_map)
qed

lemma b64_raw_roundtrip [simp]:
  "b64_raw_decode b64_std (b64_raw_encode b64_std bs) = Some bs"
  "b64_raw_decode b64_url (b64_raw_encode b64_url bs) = Some bs"
  by (simp_all add: b64_raw_roundtrip_gen b64_alphabets)

lemma b64_raw_encode_inj: "b64_raw_encode b64_url xs = b64_raw_encode b64_url ys \<longleftrightarrow> xs = ys"
  by (metis b64_raw_roundtrip(2) option.inject)

lemma length_sextets:
  "length (sextets bs) = 4 * (length bs div 3) + (if length bs mod 3 = 0 then 0 else length bs mod 3 + 1)"
proof (induction bs rule: sextets.induct)
  case (4 a b c r)
  have "length (a # b # c # r) div 3 = Suc (length r div 3)"
    "length (a # b # c # r) mod 3 = length r mod 3"
    by (simp_all add: numeral_3_eq_3 [symmetric] div_add_self1 del: Suc_eq_plus1)
  with 4 show ?case by simp
qed simp_all

lemma b64_padded_std_roundtrip [simp]:
  "b64_padded_decode b64_std (b64_padded_encode b64_std bs) = Some bs"
proof -
  let ?r = "b64_raw_encode b64_std bs"
  have r: "CHR ''='' \<notin> set ?r" "CHR 0x0A \<notin> set ?r" "CHR 0x0D \<notin> set ?r"
    using set_b64_raw_encode [of b64_std bs] b64_alphabets by auto
  have len: "length ?r = 4 * (length bs div 3) + (if length bs mod 3 = 0 then 0 else length bs mod 3 + 1)"
    by (simp add: b64_raw_encode_def length_sextets)
  have nl: "skip_newlines (?r @ replicate n CHR ''='') = ?r @ replicate n CHR ''=''" for n
    using r by (intro skip_newlines_id) auto
  have no1: "\<not> has_suffix ?r (x @ ''='')" for x
    using r(1) by (auto simp: has_suffix_iff)
  have no2: "\<not> has_suffix (?r @ ''='') ''==''"
    using r(1) by (auto simp: has_suffix_iff append_eq_append_conv2 append_eq_Cons_conv Cons_eq_append_conv)
  consider "length bs mod 3 = 0" | "length bs mod 3 = 1" | "length bs mod 3 = 2" by linarith
  then show ?thesis
  proof cases
    case 1
    then show ?thesis
      using nl [of 0] len no1 [of "''=''"] no1 [of "[]"]
      by (simp add: b64_padded_decode_def b64_padded_encode_def)
  next
    case 2
    then show ?thesis
      using nl [of 2] len has_suffix_append [of ?r "''==''"]
      by (simp add: b64_padded_decode_def b64_padded_encode_def numeral_2_eq_2)
  next
    case 3
    then show ?thesis
      using nl [of 1] len no2 has_suffix_append [of ?r "''=''"]
      by (simp add: b64_padded_decode_def b64_padded_encode_def)
  qed
qed

lemma hex_encode_append [simp]: "hex_encode (xs @ ys) = hex_encode xs @ hex_encode ys"
  by (simp add: hex_encode_def)

lemma set_hex_encode: "set (hex_encode bs) \<subseteq> set hex_digits"
  using hex_digit_in by (auto simp: hex_encode_def less_mult_imp_div_less)

lemma length_hex_encode [simp]: "length (hex_encode bs) = 2 * length bs"
  by (induction bs) (simp_all add: hex_encode_def)

lemma hex_digit_eq: "m < 16 \<Longrightarrow> n < 16 \<Longrightarrow> hex_digit m = hex_digit n \<longleftrightarrow> m = n"
  by (metis hex_digit_val_digit option.inject)

lemma hex_encode_inj: "hex_encode xs = hex_encode ys \<longleftrightarrow> xs = ys"
proof
  show "hex_encode xs = hex_encode ys \<Longrightarrow> xs = ys"
  proof (induction xs arbitrary: ys)
    case Nil
    then show ?case by (cases ys) (simp_all add: hex_encode_def)
  next
    case (Cons x xs)
    then obtain y zs where ys: "ys = y # zs" by (cases ys) (simp_all add: hex_encode_def)
    have d: "unat x div 16 < 16" "unat y div 16 < 16"
      by (simp_all add: less_mult_imp_div_less)
    from Cons.prems ys have e: "hex_digit (unat x div 16) = hex_digit (unat y div 16)"
      "hex_digit (unat x mod 16) = hex_digit (unat y mod 16)" "hex_encode xs = hex_encode zs"
      by (simp_all add: hex_encode_def)
    then have "unat x div 16 = unat y div 16" "unat x mod 16 = unat y mod 16"
      using hex_digit_eq d by simp_all
    then have "unat x = unat y" by (metis div_mult_mod_eq)
    with e(3) Cons.IH ys show ?case by (simp add: word_unat_eq_iff)
  qed
qed simp

end
