(* ===== verification/Ocsp.thy ===== *)
theory Ocsp
  imports X509_Model Go_Http Go_Base64
begin

text \<open>
  \<open>pkg/protocols/ocsp\<close>: the OCSP responder (RFC 6960 over POST, RFC 5019 over GET and HEAD)
  and the revocation API. Parsing a request and signing a response are library code
  (\<open>ocsp_env\<close>). A handler that makes two calls to the storage meets it in two states, the
  second possibly later than the first.
\<close>

section \<open>The legacy store\<close>

type_synonym memory_revocation_store = "(string, go_time \<times> int) gomap"

definition new_memory_revocation_store :: memory_revocation_store where
  "new_memory_revocation_store = []"

definition legacy_revoke ::
  "go_time \<Rightarrow> string \<Rightarrow> int \<Rightarrow> memory_revocation_store \<Rightarrow> memory_revocation_store" where
  "legacy_revoke now serial reason m = gm_set serial (now, reason) m"

definition legacy_is_revoked :: "memory_revocation_store \<Rightarrow> string \<Rightarrow> bool \<times> go_time \<times> int" where
  "legacy_is_revoked m serial =
     (case map_of m serial of None \<Rightarrow> (False, 0, 0) | Some (t, n) \<Rightarrow> (True, t, n))"

section \<open>Configuration\<close>

text \<open>The code compares certificate pointers, so a certificate comes with its address.\<close>

record cert_ptr =
  ptr_addr :: nat
  ptr_cert :: certificate

record ('k, 's, 'e) ocsp_config =
  oc_issuer_cert :: "cert_ptr option"
  oc_responder_cert :: "cert_ptr option"
  oc_signer :: "'k option"
  oc_storage :: "('s, 'e) storage_iface option"
  oc_store :: "memory_revocation_store option"
  oc_cache_max_age :: int
  oc_validity :: duration

record ('k, 's, 'e) ocsp_handler =
  oh_issuer_cert :: cert_ptr
  oh_responder_cert :: cert_ptr
  oh_signer :: 'k
  oh_storage :: "('s, 'e) storage_iface option"
  oh_store :: "memory_revocation_store option"
  oh_cache_max_age :: int
  oh_validity :: duration

datatype responder_error = NilIssuer | NilSigner

definition new_ocsp_handler ::
  "cert_ptr \<Rightarrow> 'k \<Rightarrow> memory_revocation_store \<Rightarrow> ('k, 's, 'e) ocsp_handler" where
  "new_ocsp_handler issuer signer store =
     \<lparr>oh_issuer_cert = issuer, oh_responder_cert = issuer, oh_signer = signer, oh_storage = None,
      oh_store = Some store, oh_cache_max_age = 3600, oh_validity = 24 * hour\<rparr>"

definition new_responder :: "('k, 's, 'e) ocsp_config \<Rightarrow> responder_error + ('k, 's, 'e) ocsp_handler" where
  "new_responder cfg =
     (case oc_issuer_cert cfg of
        None \<Rightarrow> Inl NilIssuer
      | Some issuer \<Rightarrow>
     (case oc_signer cfg of
        None \<Rightarrow> Inl NilSigner
      | Some signer \<Rightarrow>
          Inr \<lparr>oh_issuer_cert = issuer,
               oh_responder_cert = (case oc_responder_cert cfg of None \<Rightarrow> issuer | Some c \<Rightarrow> c),
               oh_signer = signer, oh_storage = oc_storage cfg, oh_store = oc_store cfg,
               oh_cache_max_age = (if oc_cache_max_age cfg \<le> 0 then 3600 else oc_cache_max_age cfg),
               oh_validity = (if oc_validity cfg \<le> 0 then 24 * hour else oc_validity cfg)\<rparr>))"

section \<open>Decoding the request\<close>

text \<open>\<open>url.PathUnescape\<close>, and with \<open>qry\<close> \<open>url.QueryUnescape\<close>.\<close>

fun url_unescape :: "bool \<Rightarrow> string \<Rightarrow> string option" where
  "url_unescape qry [] = Some []"
| "url_unescape qry (c # cs) =
     (if c = CHR ''%'' then
        (case cs of
           a # b # rest \<Rightarrow>
             (case (hex_digit_val a, hex_digit_val b) of
                (Some h, Some l) \<Rightarrow> map_option (Cons (char_of (16 * h + l))) (url_unescape qry rest)
              | _ \<Rightarrow> None)
         | _ \<Rightarrow> None)
      else if c = CHR ''+'' \<and> qry then map_option (Cons CHR '' '') (url_unescape qry cs)
      else map_option (Cons c) (url_unescape qry cs))"

definition decode_any_base64 :: "string \<Rightarrow> byte list option" where
  "decode_any_base64 s =
     (case b64_padded_decode b64_std s of Some b \<Rightarrow> Some b | None \<Rightarrow>
     (case b64_padded_decode b64_url s of Some b \<Rightarrow> Some b | None \<Rightarrow>
     (case b64_raw_decode b64_std s of Some b \<Rightarrow> Some b | None \<Rightarrow>
      b64_raw_decode b64_url s)))"

definition strip_ocsp_prefix :: "string \<Rightarrow> string" where
  "strip_ocsp_prefix raw =
     (let raw = (if has_prefix raw ''/ocsp/'' then trim_prefix raw ''/ocsp/''
                 else if has_prefix raw ''/ocsp'' then trim_prefix raw ''/ocsp'' else raw)
      in trim_prefix raw ''/'')"

text \<open>The decoder's own message, which the last 400 appends, is left out.\<close>

definition ocsp_request_bytes :: "request \<Rightarrow> unit response + byte list" where
  "ocsp_request_bytes r =
     (if rq_method r = ''POST'' then
        (case rq_body r of
           None \<Rightarrow> Inl (http_error [] ''failed reading request body'' 400)
         | Some b \<Rightarrow> Inr b)
      else if rq_method r = ''GET'' \<or> rq_method r = ''HEAD'' then
        (let raw = (if rq_escaped_path r = [] then rq_path r else rq_escaped_path r);
             raw = strip_ocsp_prefix raw;
             raw = (if raw = [] then rq_raw_query r else raw)
         in if raw = [] then Inl (http_error [] ''missing ocsp request in url'' 400)
            else case (case url_unescape False raw of Some u \<Rightarrow> Some u | None \<Rightarrow> url_unescape True raw) of
                   None \<Rightarrow> Inl (http_error [] ''invalid url encoding'' 400)
                 | Some unescaped \<Rightarrow>
                     let unescaped = map (\<lambda>c. if c = CHR '' '' then CHR ''+'' else c) unescaped in
                     (case decode_any_base64 unescaped of
                        None \<Rightarrow> Inl (http_error [] ''invalid base64 ocsp request'' 400)
                      | Some b \<Rightarrow> Inr b))
      else Inl (http_error (gm_set ''Allow'' ''GET, HEAD, POST'' []) ''method not allowed'' 405))"

section \<open>The answer\<close>

datatype ocsp_status = Good | Revoked | Unknown

record ocsp_template =
  ot_status :: ocsp_status
  ot_serial_number :: int
  ot_this_update :: go_time
  ot_next_update :: go_time
  ot_revoked_at :: go_time
  ot_revocation_reason :: int
  ot_certificate :: "certificate option"

record 'k ocsp_env =
  oe_parse_request :: "byte list \<Rightarrow> int option"
  oe_create_response :: "certificate \<Rightarrow> certificate \<Rightarrow> ocsp_template \<Rightarrow> 'k \<Rightarrow> string + byte list"
  oe_sha256 :: "byte list \<Rightarrow> byte list"
  oe_format_http_time :: "go_time \<Rightarrow> string"

text \<open>The status decision; None is the internal storage error.\<close>

definition ocsp_status_of ::
  "('k, 's, 'e) ocsp_handler \<Rightarrow> 's \<times> 'e \<Rightarrow> 's \<times> 'e \<Rightarrow> int \<Rightarrow> (ocsp_status \<times> go_time \<times> int) option" where
  "ocsp_status_of h se1 se2 serial =
     (case oh_storage h of
        Some ops \<Rightarrow>
          let serial_hex = normalize_serial (int_text16 serial) in
          (case get_certificate ops (fst se1) (snd se1) serial_hex of
             Inl ErrNotFound \<Rightarrow> Some (Unknown, 0, 0)
           | Inl _ \<Rightarrow> None
           | Inr cert \<Rightarrow>
               if cr_revoked cert then
                 (case get_revocation ops (fst se2) (snd se2) serial_hex of
                    Inr rec \<Rightarrow> Some (Revoked, rr_revoked_at rec, rr_reason rec)
                  | Inl _ \<Rightarrow> Some (Revoked, 0, 0))
               else Some (Good, 0, 0))
      | None \<Rightarrow>
          (case oh_store h of
             Some m \<Rightarrow>
               let (is_revoked, t, n) = legacy_is_revoked m (dec_int serial) in
               if is_revoked then Some (Revoked, t, n) else Some (Good, 0, 0)
           | None \<Rightarrow> Some (Good, 0, 0)))"

definition ocsp_template_of ::
  "('k, 's, 'e) ocsp_handler \<Rightarrow> go_time \<Rightarrow> int \<Rightarrow> ocsp_status \<times> go_time \<times> int \<Rightarrow> ocsp_template" where
  "ocsp_template_of h now serial st =
     \<lparr>ot_status = fst st, ot_serial_number = serial, ot_this_update = now - minute,
      ot_next_update = now + oh_validity h, ot_revoked_at = fst (snd st),
      ot_revocation_reason = snd (snd st),
      ot_certificate = (if ptr_addr (oh_responder_cert h) \<noteq> ptr_addr (oh_issuer_cert h)
                        then Some (ptr_cert (oh_responder_cert h)) else None)\<rparr>"

definition ocsp_serve_http ::
  "'k ocsp_env \<Rightarrow> ('k, 's, 'e) ocsp_handler \<Rightarrow> 's \<times> 'e \<Rightarrow> 's \<times> 'e \<Rightarrow> go_time \<Rightarrow> request \<Rightarrow> unit response" where
  "ocsp_serve_http env h se1 se2 now r =
     (case ocsp_request_bytes r of
        Inl resp \<Rightarrow> resp
      | Inr req_bytes \<Rightarrow>
     (case oe_parse_request env req_bytes of
        None \<Rightarrow> http_error [] ''malformed ocsp request'' 400
      | Some serial \<Rightarrow>
     (case ocsp_status_of h se1 se2 serial of
        None \<Rightarrow> http_error [] ''internal storage error'' 500
      | Some st \<Rightarrow>
          let tmpl = ocsp_template_of h now serial st in
     (case oe_create_response env (ptr_cert (oh_issuer_cert h)) (ptr_cert (oh_responder_cert h)) tmpl (oh_signer h) of
        Inl _ \<Rightarrow> http_error [] ''failed generating ocsp response'' 500
      | Inr resp_der \<Rightarrow>
          let etag = [CHR 0x22] @ hex_encode (oe_sha256 env resp_der) @ [CHR 0x22];
              hs = gm_set ''Content-Type'' ''application/ocsp-response'' [];
              hs = gm_set ''Cache-Control'' (''public, max-age='' @ dec_int (oh_cache_max_age h) @
                     '', no-transform, must-revalidate'') hs;
              hs = gm_set ''ETag'' etag hs;
              hs = gm_set ''Last-Modified'' (oe_format_http_time env (ot_this_update tmpl)) hs;
              if_none_match = get_header ''If-None-Match'' (rq_headers r)
          in if if_none_match \<noteq> [] \<and> (if_none_match = etag \<or> if_none_match = ''*'')
             then respond 304 hs NoBody
             else if rq_method r = ''HEAD'' then respond 200 hs NoBody
             else respond 200 hs (Raw resp_der)))))"

section \<open>The revocation API\<close>

record revoke_response =
  rv_status :: string
  rv_serial :: string
  rv_reason :: int
  rv_revoked_at :: go_time

datatype revoke_json = ErrorJson string | RevokeJson revoke_response

text \<open>\<open>decode\<close> is the JSON decoder of \<open>RevokeRequest\<close>: serial and reason.\<close>

definition handle_revoke ::
  "(byte list \<Rightarrow> (string \<times> int) option) \<Rightarrow> ('s, 'e) storage_iface \<Rightarrow> 'e \<Rightarrow> go_time \<Rightarrow> go_time \<Rightarrow>
     request \<Rightarrow> 's \<Rightarrow> revoke_json response \<times> 's" where
  "handle_revoke decode ops env now clk r s =
     (let json = gm_set ''Content-Type'' ''application/json'' [] in
      if rq_method r \<noteq> ''POST'' then (method_not_allowed ''POST'', s)
      else case Option.bind (rq_body r) decode of
        None \<Rightarrow> (respond 400 json (Json (ErrorJson ''invalid JSON payload'')), s)
      | Some (serial, reason) \<Rightarrow>
          let norm_serial = normalize_serial serial in
          if norm_serial = [] then (respond 400 json (Json (ErrorJson ''serial is required'')), s)
          else case revoke_certificate ops s env clk norm_serial reason now of
            (Some ErrNotFound, s') \<Rightarrow>
              (respond 404 json (Json (ErrorJson ''certificate not found'')), s')
          | (Some ErrAlreadyRevoked, s') \<Rightarrow>
              (respond 409 json (Json (ErrorJson ''certificate already revoked'')), s')
          | (Some _, s') \<Rightarrow>
              (respond 500 json (Json (ErrorJson ''internal error revoking certificate'')), s')
          | (None, s') \<Rightarrow>
              let rev_time = (case get_revocation ops s' env norm_serial of
                                Inr rec \<Rightarrow> if rr_revoked_at rec \<noteq> 0 then rr_revoked_at rec else now
                              | Inl _ \<Rightarrow> now)
              in (respond 200 json (Json (RevokeJson \<lparr>rv_status = ''revoked'', rv_serial = norm_serial,
                    rv_reason = reason, rv_revoked_at = rev_time\<rparr>)), s'))"

section \<open>What the responder says\<close>

context storage_contract
begin

text \<open>What each answer tells of the store. \<open>s2\<close> is any later state.\<close>

lemma status_sound:
  assumes "inv s1" "env_ok e1" "env_ok e2" and "storage_run ops env_ok s1 s2"
    and "oh_storage h = Some ops" and "0 < serial"
    and st: "ocsp_status_of h (s1, e1) (s2, e2) serial = Some (st, t, n)"
  shows "case st of
      Unknown \<Rightarrow> st_certs (view s1) (format_serial (Some serial)) = None
    | Good \<Rightarrow> (\<exists>c. st_certs (view s1) (format_serial (Some serial)) = Some c \<and> \<not> cr_revoked c)
    | Revoked \<Rightarrow> (\<exists>c. st_certs (view s1) (format_serial (Some serial)) = Some c \<and> cr_revoked c)"
proof -
  let ?k = "format_serial (Some serial)"
  have f: "?k = int_text16 serial" "canonical_serial (int_text16 serial)"
    using assms(6) format_serial_canonical [of serial] canonical_text16 [of serial] by simp_all
  then have n: "normalize_serial (int_text16 serial) = ?k" "normalize_serial ?k = ?k" "?k \<noteq> []"
    using canonical_serial_facts(1) by simp_all
  have g: "read_ok (spec_lookup (st_certs (view s1)) ?k) (get_certificate ops s1 e1 ?k)"
    using get_law [OF assms(1,2)] .
  show ?thesis
  proof (cases "get_certificate ops s1 e1 ?k")
    case (Inl x)
    then have "x = ErrNotFound" "st = Unknown"
      using st assms(5) by (auto simp: ocsp_status_of_def Let_def n split: storage_error.splits)
    then show ?thesis using g Inl n by (auto simp: read_ok_def spec_lookup_def Let_def split: option.splits)
  next
    case (Inr c)
    then have "st = (if cr_revoked c then Revoked else Good)"
      using st assms(5) by (auto simp: ocsp_status_of_def Let_def n split: sum.splits if_splits)
    moreover have "st_certs (view s1) ?k = Some c"
      using g Inr n by (auto simp: read_ok_def spec_lookup_def Let_def split: option.splits)
    ultimately show ?thesis by simp
  qed
qed

text \<open>After a revocation the responder never again says good, in any later state.\<close>

lemma revoked_status:
  assumes "inv s" "env_ok e" "env_ok e1" "env_ok e2"
    and rv: "revoke_certificate ops s e now k n t = (None, s')" and k: "normalize_serial k = format_serial (Some serial)"
    and run: "storage_run ops env_ok s' s1" "storage_run ops env_ok s1 s2"
    and h: "oh_storage h = Some ops" and pos: "0 < serial"
  shows "ocsp_status_of h (s1, e1) (s2, e2) serial \<in>
    {None, Some (Revoked, if t = 0 then now else t, n), Some (Revoked, 0, 0)}"
proof -
  let ?k = "format_serial (Some serial)"
  have nk: "normalize_serial (int_text16 serial) = ?k" "normalize_serial ?k = ?k"
    using pos format_serial_canonical [of serial] canonical_text16 [of serial] by simp_all
  have i': "inv s'" using revoke_law [OF assms(1,2) rv] by blast
  have "storage_run ops env_ok s' s2"
    using storage_run_trans [OF run(2,1)] .
  then have g2: "read_ok (Inr \<lparr>rr_serial = ?k, rr_revoked_at = (if t = 0 then now else t), rr_reason = n\<rparr>)
      (get_revocation ops s2 e2 ?k)"
    using revoked_forever(1) [OF assms(1,2,4) rv, of s2 ?k] nk k by simp
  obtain c where c: "cr_revoked c" "read_ok (Inr c) (get_certificate ops s1 e1 ?k)"
    using revoked_forever(3) [OF assms(1,2,3) rv run(1), of ?k] nk k by auto
  from c(2) have "get_certificate ops s1 e1 ?k = Inr c \<or>
      (\<exists>x. get_certificate ops s1 e1 ?k = Inl x \<and> infra x)"
    by (auto simp: read_ok_def)
  then show ?thesis
  proof
    assume "get_certificate ops s1 e1 ?k = Inr c"
    then show ?thesis using g2 c(1) h
      by (auto simp: ocsp_status_of_def Let_def nk read_ok_def)
  next
    assume "\<exists>x. get_certificate ops s1 e1 ?k = Inl x \<and> infra x"
    then obtain x where x: "get_certificate ops s1 e1 ?k = Inl x" "x \<noteq> ErrNotFound"
      by (metis infra_simps(1))
    then have "ocsp_status_of h (s1, e1) (s2, e2) serial = None"
      using h by (cases x) (simp_all add: ocsp_status_of_def Let_def nk)
    then show ?thesis by simp
  qed
qed

text \<open>The revocation API answers 200 exactly when the store recorded the revocation.\<close>

lemma handle_revoke_ok:
  assumes "inv s" "env_ok env" and "handle_revoke decode ops env now clk r s = (resp, s')"
  shows "inv s' \<and> store_le (view s) (view s') \<and>
    (rs_status resp = 200 \<longrightarrow>
       (\<exists>serial reason. Option.bind (rq_body r) decode = Some (serial, reason) \<and>
          spec_revoke (view s) clk (normalize_serial serial) reason now = (None, view s')))"
proof (cases "rq_method r = ''POST'' \<and>
    (\<exists>serial reason. Option.bind (rq_body r) decode = Some (serial, reason) \<and> normalize_serial serial \<noteq> [])")
  case False
  then have "s' = s \<and> rs_status resp \<noteq> 200"
    using assms(3) by (auto simp: handle_revoke_def Let_def split: option.splits if_splits)
  then show ?thesis using assms(1) by simp
next
  case True
  then obtain serial reason where d: "Option.bind (rq_body r) decode = Some (serial, reason)"
    "normalize_serial serial \<noteq> []" and m: "rq_method r = ''POST''" by blast
  obtain q t where q: "revoke_certificate ops s env clk (normalize_serial serial) reason now = (q, t)"
    by fastforce
  have t: "s' = t" and st: "rs_status resp = 200 \<longleftrightarrow> q = None"
    using assms(3) d m q
    by (auto simp: handle_revoke_def Let_def split: option.splits storage_error.splits)
  note law = revoke_law [OF assms(1,2) q]
  have "store_le (view s) (view t)"
    using law write_ok_le store_le_revoke [OF inv_wf [OF assms(1)]] by blast
  then show ?thesis using law d st t by (auto dest: write_ok_None)
qed

end

end
