(* ===== verification/Audit_Log.thy ===== *)
theory Audit_Log
  imports Go_Base64
begin

text \<open>
  \<open>pkg/audit/logger.go\<close>: the hash-chained audit log. SHA-256 and the RFC 3339 text of a time
  are arguments (\<open>hash_env\<close>). An event is what its pointer reaches at the time of the check: the logger
  hands out its own pointers (\<open>LogEvent\<close>, \<open>Events\<close>), so a holder may change an event in place.
\<close>

record hash_env =
  he_sha256 :: "byte list \<Rightarrow> byte list"
  he_format_time :: "go_time \<Rightarrow> string"

record audit_event =
  ev_event_id :: string
  ev_timestamp :: go_time
  ev_action :: string
  ev_actor :: string
  ev_resource :: string
  ev_status :: string
  ev_metadata :: "(string, string) gomap"
  ev_prev_hash :: string
  ev_hash :: string

definition genesis_hash :: string where
  "genesis_hash = replicate 64 CHR ''0''"

definition canonical_metadata :: "(string, string) gomap \<Rightarrow> string" where
  "canonical_metadata meta =
     (if meta = [] then []
      else join_with ''&'' (map (\<lambda>k. k @ ''='' @ (case map_of meta k of Some v \<Rightarrow> v | None \<Rightarrow> []))
             (sort (map fst meta))))"

definition canonical_prefix :: "hash_env \<Rightarrow> audit_event \<Rightarrow> string" where
  "canonical_prefix env e =
     ev_event_id e @ ''|'' @ he_format_time env (ev_timestamp e) @ ''|'' @ ev_action e @ ''|'' @
     ev_actor e @ ''|'' @ ev_resource e @ ''|'' @ ev_status e @ ''|'' @
     canonical_metadata (ev_metadata e) @ ''|''"

definition canonical_str :: "hash_env \<Rightarrow> audit_event \<Rightarrow> string" where
  "canonical_str env e = canonical_prefix env e @ ev_prev_hash e"

definition compute_event_hash :: "hash_env \<Rightarrow> audit_event option \<Rightarrow> string" where
  "compute_event_hash env event =
     (case event of
        None \<Rightarrow> []
      | Some e \<Rightarrow> hex_encode (he_sha256 env (bytes_of (canonical_str env e))))"

text \<open>\<open>cl_writer\<close> is None for a logger without a writer, else the events streamed so far (a
  record whose encoding or write fails is lost silently; \<open>w\<close> in \<open>log_event\<close> says which are).\<close>

record chain_logger =
  cl_events :: "audit_event option list"
  cl_last_hash :: string
  cl_writer :: "audit_event list option"

definition new_chain_logger :: "bool \<Rightarrow> chain_logger" where
  "new_chain_logger has_writer =
     \<lparr>cl_events = [], cl_last_hash = genesis_hash, cl_writer = (if has_writer then Some [] else None)\<rparr>"

definition new_event ::
  "byte list \<Rightarrow> go_time \<Rightarrow> string \<Rightarrow> string \<Rightarrow> string \<Rightarrow> string \<Rightarrow> (string, string) gomap \<Rightarrow> string \<Rightarrow> audit_event" where
  "new_event id_bytes now action actor resource status metadata prev =
     \<lparr>ev_event_id = ''evt_'' @ hex_encode id_bytes, ev_timestamp = now, ev_action = action,
      ev_actor = actor, ev_resource = resource, ev_status = status, ev_metadata = metadata,
      ev_prev_hash = prev, ev_hash = []\<rparr>"

text \<open>The result is None when the entropy read fails.\<close>

definition log_event ::
  "hash_env \<Rightarrow> entropy \<Rightarrow> go_time \<Rightarrow> bool \<Rightarrow> string \<Rightarrow> string \<Rightarrow> string \<Rightarrow> string \<Rightarrow> (string, string) gomap \<Rightarrow>
     chain_logger \<Rightarrow> audit_event option \<times> chain_logger \<times> entropy" where
  "log_event env ent now w action actor resource status metadata l =
     (case rand_read 16 ent of
        None \<Rightarrow> (None, l, ent)
      | Some (id_bytes, ent') \<Rightarrow>
          let event = new_event id_bytes now action actor resource status metadata (cl_last_hash l);
              event = event\<lparr>ev_hash := compute_event_hash env (Some event)\<rparr>
          in (Some event,
              l\<lparr>cl_events := cl_events l @ [Some event], cl_last_hash := ev_hash event,
                cl_writer := map_option (\<lambda>out. if w then out @ [event] else out) (cl_writer l)\<rparr>,
              ent'))"

datatype chain_error =
    NilEventAt nat
  | PrevHashMismatch nat string string string
  | HashMismatch nat string string string

fun verify_from :: "hash_env \<Rightarrow> nat \<Rightarrow> string \<Rightarrow> audit_event option list \<Rightarrow> chain_error option" where
  "verify_from env i expected [] = None"
| "verify_from env i expected (None # es) = Some (NilEventAt i)"
| "verify_from env i expected (Some e # es) =
     (if ev_prev_hash e \<noteq> expected
      then Some (PrevHashMismatch i (ev_event_id e) expected (ev_prev_hash e))
      else let recomputed = compute_event_hash env (Some e) in
        if ev_hash e \<noteq> recomputed then Some (HashMismatch i (ev_event_id e) recomputed (ev_hash e))
        else verify_from env (Suc i) (ev_hash e) es)"

text \<open>None is the result \<open>(true, nil)\<close>.\<close>

definition verify_chain :: "hash_env \<Rightarrow> chain_logger \<Rightarrow> chain_error option" where
  "verify_chain env l = verify_from env 0 genesis_hash (cl_events l)"

definition events :: "chain_logger \<Rightarrow> audit_event option list" where
  "events l = cl_events l"

definition event_count :: "chain_logger \<Rightarrow> nat" where
  "event_count l = length (cl_events l)"

section \<open>Logging keeps the chain intact\<close>

fun head_hash :: "string \<Rightarrow> audit_event option list \<Rightarrow> string" where
  "head_hash h [] = h"
| "head_hash h (None # es) = head_hash h es"
| "head_hash h (Some e # es) = head_hash (ev_hash e) es"

lemma verify_from_append:
  "verify_from env i h (xs @ ys) = None \<longleftrightarrow>
     verify_from env i h xs = None \<and> verify_from env (i + length xs) (head_hash h xs) ys = None"
proof (induction xs arbitrary: i h)
  case (Cons x xs)
  show ?case by (cases x) (simp_all add: Cons.IH Let_def)
qed simp

lemma head_hash_snoc [simp]: "head_hash h (xs @ [Some e]) = ev_hash e"
proof (induction xs arbitrary: h)
  case (Cons x xs)
  then show ?case by (cases x) simp_all
qed simp

definition chain_inv :: "hash_env \<Rightarrow> chain_logger \<Rightarrow> bool" where
  "chain_inv env l =
     (verify_chain env l = None \<and> cl_last_hash l = head_hash genesis_hash (cl_events l))"

lemma canonical_str_hash [simp]: "canonical_str env (e\<lparr>ev_hash := h\<rparr>) = canonical_str env e"
  by (simp add: canonical_str_def canonical_prefix_def)

lemma compute_event_hash_hash [simp]:
  "compute_event_hash env (Some (e\<lparr>ev_hash := h\<rparr>)) = compute_event_hash env (Some e)"
  by (simp add: compute_event_hash_def)

lemma new_event_prev [simp]: "ev_prev_hash (new_event ids now a b c d m p) = p"
  by (simp add: new_event_def)

lemma chain_inv_new: "chain_inv env (new_chain_logger w)"
  by (simp add: chain_inv_def new_chain_logger_def verify_chain_def)

lemma chain_inv_log:
  assumes "chain_inv env l" and "log_event env ent now w a b c d m l = (r, l', ent')"
  shows "chain_inv env l'"
  using assms
  by (auto simp: log_event_def chain_inv_def verify_chain_def verify_from_append Let_def
      split: option.splits)

text \<open>A sequence of \<open>LogEvent\<close> calls.\<close>

type_synonym log_call = "go_time \<times> bool \<times> string \<times> string \<times> string \<times> string \<times> (string, string) gomap"

fun log_events :: "hash_env \<Rightarrow> log_call list \<Rightarrow> chain_logger \<Rightarrow> entropy \<Rightarrow> chain_logger \<times> entropy" where
  "log_events env [] l ent = (l, ent)"
| "log_events env ((now, w, a, b, c, d, m) # cs) l ent =
     (let (_, l', ent') = log_event env ent now w a b c d m l in log_events env cs l' ent')"

lemma chain_inv_logs: "chain_inv env l \<Longrightarrow> chain_inv env (fst (log_events env cs l ent))"
proof (induction cs arbitrary: l ent)
  case (Cons x cs)
  obtain now w a b c d m where x: "x = (now, w, a, b, c, d, m)" by (cases x) auto
  obtain r l' ent' where l: "log_event env ent now w a b c d m l = (r, l', ent')"
    by (cases "log_event env ent now w a b c d m l") auto
  show ?case using Cons.IH [OF chain_inv_log [OF Cons.prems l]] by (simp add: x l)
qed simp

text \<open>The event of a call has what the caller gave and the time of the call.\<close>

fun call_event :: "log_call \<Rightarrow> audit_event \<Rightarrow> bool" where
  "call_event (now, w, action, actor, resource, status, metadata) e =
     (ev_timestamp e = now \<and> ev_action e = action \<and> ev_actor e = actor \<and> ev_resource e = resource \<and>
      ev_status e = status \<and> ev_metadata e = metadata)"

fun streamed :: "log_call \<Rightarrow> bool" where
  "streamed (now, w, action, actor, resource, status, metadata) = w"

text \<open>A call succeeds while 16 bytes of entropy are left, so the calls that succeed are the first ones.\<close>

lemma log_events_record:
  "\<exists>es. cl_events (fst (log_events env cs l ent)) = cl_events l @ map Some es \<and>
     length es = min (length cs) (length ent div 16) \<and> list_all2 call_event (take (length es) cs) es \<and>
     map ev_event_id es = map (\<lambda>i. ''evt_'' @ hex_encode (take 16 (drop (16 * i) ent))) [0..<length es] \<and>
     cl_writer (fst (log_events env cs l ent)) =
       map_option (\<lambda>out. out @ map fst (filter (\<lambda>(e, c). streamed c) (zip es cs))) (cl_writer l)"
proof (induction cs arbitrary: l ent)
  case Nil
  then show ?case by (simp add: option.map_ident)
next
  case (Cons x cs)
  obtain now w a b c d m where x: "x = (now, w, a, b, c, d, m)" by (cases x) auto
  show ?case
  proof (cases "rand_read 16 ent")
    case None
    then have "length ent div 16 = 0" by (auto simp: rand_read_def split: if_splits)
    then show ?thesis using Cons.IH [of l ent] by (auto simp: x log_event_def None option.map_ident)
  next
    case (Some p)
    then obtain ids ent' where r: "rand_read 16 ent = Some (ids, ent')" by (cases p) auto
    then have ids: "ids = take 16 ent" "ent' = drop 16 ent" "16 \<le> length ent"
      by (auto simp: rand_read_def split: if_splits)
    let ?e0 = "new_event ids now a b c d m (cl_last_hash l)"
    let ?e = "?e0\<lparr>ev_hash := compute_event_hash env (Some ?e0)\<rparr>"
    let ?l = "l\<lparr>cl_events := cl_events l @ [Some ?e], cl_last_hash := ev_hash ?e,
        cl_writer := map_option (\<lambda>out. if w then out @ [?e] else out) (cl_writer l)\<rparr>"
    have l: "log_event env ent now w a b c d m l = (Some ?e, ?l, ent')"
      by (simp add: log_event_def r Let_def)
    obtain es where es: "cl_events (fst (log_events env cs ?l ent')) = cl_events ?l @ map Some es"
      "length es = min (length cs) (length ent' div 16)" "list_all2 call_event (take (length es) cs) es"
      "map ev_event_id es = map (\<lambda>i. ''evt_'' @ hex_encode (take 16 (drop (16 * i) ent'))) [0..<length es]"
      "cl_writer (fst (log_events env cs ?l ent')) =
        map_option (\<lambda>out. out @ map fst (filter (\<lambda>(e, c). streamed c) (zip es cs))) (cl_writer ?l)"
      using Cons.IH [of ?l ent'] by blast
    have run: "fst (log_events env (x # cs) l ent) = fst (log_events env cs ?l ent')" by (simp add: x l)
    have div: "length ent div 16 = Suc (length ent' div 16)" using ids by (simp add: le_div_geq)
    have id: "map ev_event_id (?e # es) =
        map (\<lambda>i. ''evt_'' @ hex_encode (take 16 (drop (16 * i) ent))) [0..<length (?e # es)]"
      using es(4) ids by (simp add: new_event_def upt_conv_Cons map_Suc_upt [symmetric] comp_def add.commute del: upt_Suc)
    show ?thesis
      by (intro exI [of _ "?e # es"] conjI)
        (use es div id in \<open>simp_all only: run, simp_all add: x new_event_def option.map_comp comp_def\<close>)
  qed
qed

lemma log_events_count:
  assumes "16 * length cs \<le> length ent"
  shows "event_count (fst (log_events env cs l ent)) = event_count l + length cs"
proof -
  have "length cs \<le> length ent div 16" using assms by simp
  then show ?thesis using log_events_record [of env cs l ent] by (auto simp: event_count_def)
qed

section \<open>What the chain binds\<close>

lemma length_genesis_hash [simp]: "length genesis_hash = 64"
  by (simp add: genesis_hash_def)

text \<open>The hash is collision-free on the given strings and has its 32 bytes.\<close>

definition no_collision :: "hash_env \<Rightarrow> string set \<Rightarrow> bool" where
  "no_collision env S =
     ((\<forall>x. length (he_sha256 env x) = 32) \<and>
      (\<forall>s \<in> S. \<forall>t \<in> S. he_sha256 env (bytes_of s) = he_sha256 env (bytes_of t) \<longrightarrow> s = t))"

lemma no_collision_mono: "no_collision env T \<Longrightarrow> S \<subseteq> T \<Longrightarrow> no_collision env S"
  unfolding no_collision_def by blast

definition canonicals :: "hash_env \<Rightarrow> audit_event option list \<Rightarrow> string set" where
  "canonicals env es = {canonical_str env e | e. Some e \<in> set es}"

lemma verify_snoc:
  "verify_from env i h (xs @ [x]) = None \<longleftrightarrow>
     verify_from env i h xs = None \<and>
     (\<exists>e. x = Some e \<and> ev_prev_hash e = head_hash h xs \<and> ev_hash e = compute_event_hash env (Some e))"
  by (cases x) (auto simp: verify_from_append Let_def)

lemma head_hash_length:
  assumes "\<forall>x. length (he_sha256 env x) = 32" and "length h = 64"
  shows "verify_from env i h xs = None \<Longrightarrow> length (head_hash h xs) = 64"
  by (cases xs rule: rev_cases) (auto simp: verify_snoc compute_event_hash_def assms)

lemma chain_binding:
  assumes "length xs = length ys" and "no_collision env (canonicals env xs \<union> canonicals env ys)"
    and "verify_from env 0 genesis_hash xs = None" and "verify_from env 0 genesis_hash ys = None"
    and "head_hash genesis_hash xs = head_hash genesis_hash ys"
  shows "map (map_option (canonical_str env)) xs = map (map_option (canonical_str env)) ys"
  using assms
proof (induction xs arbitrary: ys rule: rev_induct)
  case (snoc x xs)
  obtain zs y where ys: "ys = zs @ [y]" using snoc.prems(1) by (cases ys rule: rev_cases) auto
  obtain e where e: "x = Some e" "ev_prev_hash e = head_hash genesis_hash xs"
    "ev_hash e = compute_event_hash env (Some e)" and vx: "verify_from env 0 genesis_hash xs = None"
    using snoc.prems(3) by (auto simp: verify_snoc)
  obtain f where f: "y = Some f" "ev_prev_hash f = head_hash genesis_hash zs"
    "ev_hash f = compute_event_hash env (Some f)" and vy: "verify_from env 0 genesis_hash zs = None"
    using snoc.prems(4) by (auto simp: ys verify_snoc)
  have "ev_hash e = ev_hash f" using snoc.prems(5) by (simp add: ys e(1) f(1))
  then have "he_sha256 env (bytes_of (canonical_str env e)) = he_sha256 env (bytes_of (canonical_str env f))"
    by (simp add: e(3) f(3) compute_event_hash_def hex_encode_inj)
  moreover have "canonical_str env e \<in> canonicals env (xs @ [x])"
    "canonical_str env f \<in> canonicals env ys"
    by (auto simp: canonicals_def e(1) f(1) ys)
  ultimately have c: "canonical_str env e = canonical_str env f"
    using snoc.prems(2) unfolding no_collision_def by blast
  have l: "length (ev_prev_hash e) = 64" "length (ev_prev_hash f) = 64"
    using head_hash_length [OF _ length_genesis_hash vx] head_hash_length [OF _ length_genesis_hash vy]
      snoc.prems(2) by (simp_all add: no_collision_def e(2) f(2))
  then have "ev_prev_hash e = ev_prev_hash f"
    using c by (simp add: canonical_str_def)
  then have h: "head_hash genesis_hash xs = head_hash genesis_hash zs" by (simp add: e(2) f(2))
  have "no_collision env (canonicals env xs \<union> canonicals env zs)"
    using snoc.prems(2) by (rule no_collision_mono) (force simp: canonicals_def ys)
  moreover have "length xs = length zs" using snoc.prems(1) by (simp add: ys)
  ultimately have "map (map_option (canonical_str env)) xs = map (map_option (canonical_str env)) zs"
    using snoc.IH vx vy h by blast
  then show ?case by (simp add: ys e(1) f(1) c)
qed simp

text \<open>No event can be cut off the front or out of the middle, but the end is open: any prefix
  of an intact chain verifies.\<close>

lemma prefix_verifies: "verify_from env i h (xs @ ys) = None \<Longrightarrow> verify_from env i h xs = None"
  by (simp add: verify_from_append)

end
