(* ===== verification/Profile.thy ===== *)
theory Profile
  imports X509_Model
begin

text \<open>\<open>pkg/ca/profile.go\<close>: the issuance profiles and the publication URLs.\<close>

record profile_config =
  pf_type :: string
  pf_description :: string
  pf_allowed_max_validity :: duration
  pf_default_validity :: duration
  pf_key_usage :: key_usage
  pf_ext_key_usage :: "ext_key_usage list"
  pf_is_ca :: bool
  pf_max_path_len :: int
  pf_max_path_len_zero :: bool
  pf_require_san :: bool

record extension_config =
  xc_ocsp_server_urls :: "string list"
  xc_issuing_certificate_urls :: "string list"
  xc_crl_distribution_points :: "string list"

definition empty_extension_config :: extension_config where
  "empty_extension_config = \<lparr>xc_ocsp_server_urls = [], xc_issuing_certificate_urls = [],
     xc_crl_distribution_points = []\<rparr>"

definition ProfileServerTLS :: string where
  "ProfileServerTLS = ''server-tls''"

definition ProfileClientAuth :: string where
  "ProfileClientAuth = ''client-auth''"

definition ProfileCodeSigning :: string where
  "ProfileCodeSigning = ''code-signing''"

definition ProfileSubCA :: string where
  "ProfileSubCA = ''sub-ca''"

lemmas profile_names = ProfileServerTLS_def ProfileClientAuth_def ProfileCodeSigning_def ProfileSubCA_def

definition default_server_tls_profile :: profile_config where
  "default_server_tls_profile =
     \<lparr>pf_type = ProfileServerTLS,
      pf_description = ''Standard TLS Server Profile (RFC 5280 / CA/B Forum BR)'',
      pf_allowed_max_validity = 398 * 24 * hour, pf_default_validity = 90 * 24 * hour,
      pf_key_usage = KeyUsageDigitalSignature, pf_ext_key_usage = [EkuServerAuth, EkuClientAuth],
      pf_is_ca = False, pf_max_path_len = 0, pf_max_path_len_zero = False, pf_require_san = True\<rparr>"

definition default_client_auth_profile :: profile_config where
  "default_client_auth_profile =
     \<lparr>pf_type = ProfileClientAuth, pf_description = ''Client Authentication Profile (mTLS)'',
      pf_allowed_max_validity = 730 * 24 * hour, pf_default_validity = 365 * 24 * hour,
      pf_key_usage = KeyUsageDigitalSignature, pf_ext_key_usage = [EkuClientAuth],
      pf_is_ca = False, pf_max_path_len = 0, pf_max_path_len_zero = False, pf_require_san = False\<rparr>"

definition default_code_signing_profile :: profile_config where
  "default_code_signing_profile =
     \<lparr>pf_type = ProfileCodeSigning, pf_description = ''Code Signing Profile (RFC 5280)'',
      pf_allowed_max_validity = 1095 * 24 * hour, pf_default_validity = 365 * 24 * hour,
      pf_key_usage = KeyUsageDigitalSignature, pf_ext_key_usage = [EkuCodeSigning],
      pf_is_ca = False, pf_max_path_len = 0, pf_max_path_len_zero = False, pf_require_san = False\<rparr>"

definition default_sub_ca_profile :: profile_config where
  "default_sub_ca_profile =
     \<lparr>pf_type = ProfileSubCA, pf_description = ''Subordinate Issuing Intermediate CA Profile'',
      pf_allowed_max_validity = 10 * 365 * 24 * hour, pf_default_validity = 5 * 365 * 24 * hour,
      pf_key_usage = KeyUsageCertSign OR KeyUsageCRLSign, pf_ext_key_usage = [],
      pf_is_ca = True, pf_max_path_len = 0, pf_max_path_len_zero = True, pf_require_san = False\<rparr>"

text \<open>\<open>ErrUnknownProfile\<close> is None.\<close>

definition get_profile :: "string \<Rightarrow> profile_config option" where
  "get_profile name =
     (if name = ProfileServerTLS then Some default_server_tls_profile
      else if name = ProfileClientAuth then Some default_client_auth_profile
      else if name = ProfileCodeSigning then Some default_code_signing_profile
      else if name = ProfileSubCA then Some default_sub_ca_profile
      else None)"

lemmas profile_defs = default_server_tls_profile_def default_client_auth_profile_def
  default_code_signing_profile_def default_sub_ca_profile_def

lemma get_profile_cases:
  assumes "get_profile name = Some p"
  obtains "p = default_server_tls_profile" | "p = default_client_auth_profile"
    | "p = default_code_signing_profile" | "p = default_sub_ca_profile"
  using assms by (auto simp: get_profile_def split: if_splits)

lemma get_profile_type: "get_profile name = Some p \<Longrightarrow> pf_type p = name"
  by (auto simp: get_profile_def profile_defs split: if_splits)

lemma get_profile_default_within:
  "get_profile name = Some p \<Longrightarrow>
     0 < pf_default_validity p \<and> pf_default_validity p \<le> pf_allowed_max_validity p"
  by (erule get_profile_cases) (simp_all add: profile_defs)

end
