(* ===== verification/Policy.thy ===== *)
theory Policy
  imports Profile
begin

text \<open>
  \<open>pkg/ca/policy.go\<close>: the policy engine (key, domain-name and request validation) and the
  pre-issuance linter. Errors are a datatype with one constructor per \<open>fmt.Errorf\<close>;
  \<open>policy_sentinel\<close> is the error it wraps, which is what callers test with \<open>errors.Is\<close>.
\<close>

section \<open>Errors\<close>

datatype policy_error =
    NilCSR
  | WeakRSAKey nat int
  | InsecureExponent int
  | CurveNotAllowed string
  | PointNotOnCurve string
  | BadEd25519Length
  | AlgorithmNotSupported string
  | EmptyDNSName
  | DisallowedName string string
  | WildcardsDisabled string
  | WildcardNotLeftmost string
  | WildcardBeforeTLD string
  | MultipleWildcards string
  | ExceedsPolicyMax duration duration
  | ExceedsProfileMax duration duration
  | SANMissing

datatype sentinel =
    ErrWeakRSAKey | ErrUnsupportedKey | ErrForbiddenDNSName | ErrInvalidWildcard
  | ErrValidityExceeded | ErrSANRequired

fun policy_sentinel :: "policy_error \<Rightarrow> sentinel option" where
  "policy_sentinel NilCSR = None"
| "policy_sentinel (WeakRSAKey _ _) = Some ErrWeakRSAKey"
| "policy_sentinel (InsecureExponent _) = None"
| "policy_sentinel (CurveNotAllowed _) = Some ErrUnsupportedKey"
| "policy_sentinel (PointNotOnCurve _) = Some ErrUnsupportedKey"
| "policy_sentinel BadEd25519Length = Some ErrUnsupportedKey"
| "policy_sentinel (AlgorithmNotSupported _) = Some ErrUnsupportedKey"
| "policy_sentinel EmptyDNSName = Some ErrForbiddenDNSName"
| "policy_sentinel (DisallowedName _ _) = Some ErrForbiddenDNSName"
| "policy_sentinel (WildcardsDisabled _) = Some ErrInvalidWildcard"
| "policy_sentinel (WildcardNotLeftmost _) = Some ErrInvalidWildcard"
| "policy_sentinel (WildcardBeforeTLD _) = Some ErrInvalidWildcard"
| "policy_sentinel (MultipleWildcards _) = Some ErrInvalidWildcard"
| "policy_sentinel (ExceedsPolicyMax _ _) = Some ErrValidityExceeded"
| "policy_sentinel (ExceedsProfileMax _ _) = Some ErrValidityExceeded"
| "policy_sentinel SANMissing = Some ErrSANRequired"

section \<open>The engine\<close>

record policy_engine =
  pe_max_validity_duration :: duration
  pe_allow_wildcards :: bool
  pe_allow_internal_domains :: bool
  pe_min_rsa_key_size :: int
  pe_allowed_ec_curves :: "curve list"
  pe_disallowed_dns_names :: "string list"
  pe_require_dns_or_ip :: bool

definition new_default_policy_engine :: policy_engine where
  "new_default_policy_engine =
     \<lparr>pe_max_validity_duration = 398 * 24 * hour, pe_allow_wildcards = True,
      pe_allow_internal_domains = False, pe_min_rsa_key_size = 2048,
      pe_allowed_ec_curves = [P256, P384, P521],
      pe_disallowed_dns_names = [''localhost'', ''.local'', ''.internal'', ''.lan'', ''.onion'',
        ''.test'', ''.invalid'', ''.example''],
      pe_require_dns_or_ip = True\<rparr>"

definition is_internal_domain_suffix :: "string \<Rightarrow> bool" where
  "is_internal_domain_suffix suffix =
     (suffix \<in> {''localhost'', ''.local'', ''.internal'', ''.lan'', ''.test'', ''.invalid'', ''.example''})"

definition validate_public_key :: "policy_engine \<Rightarrow> public_key \<Rightarrow> policy_error option" where
  "validate_public_key p pub =
     (case pub of
        RSAKey n e \<Rightarrow>
          if int (bit_len n) < pe_min_rsa_key_size p then Some (WeakRSAKey (bit_len n) (pe_min_rsa_key_size p))
          else if e < 65537 then Some (InsecureExponent e)
          else None
      | ECDSAKey c x y \<Rightarrow>
          if \<not> list_ex (\<lambda>allowed. cp_name (params c) = cp_name (params allowed)) (pe_allowed_ec_curves p)
          then Some (CurveNotAllowed (cp_name (params c)))
          else if \<not> is_on_curve c x y then Some (PointNotOnCurve (cp_name (params c)))
          else None
      | Ed25519Key k \<Rightarrow> if length k \<noteq> 32 then Some BadEd25519Length else None
      | OtherKey t \<Rightarrow> Some (AlgorithmNotSupported t))"

definition check_disallowed :: "policy_engine \<Rightarrow> string \<Rightarrow> string \<Rightarrow> string \<Rightarrow> policy_error option" where
  "check_disallowed p name trimmed disallowed =
     (if pe_allow_internal_domains p \<and> is_internal_domain_suffix disallowed then None
      else if trimmed = disallowed \<or> has_suffix trimmed disallowed
      then Some (DisallowedName name disallowed) else None)"

definition check_wildcard :: "policy_engine \<Rightarrow> string \<Rightarrow> string \<Rightarrow> policy_error option" where
  "check_wildcard p name trimmed =
     (if contains_str trimmed ''*'' then
        if \<not> pe_allow_wildcards p then Some (WildcardsDisabled name)
        else if \<not> has_prefix trimmed ''*.'' then Some (WildcardNotLeftmost name)
        else
          let remainder = trim_prefix trimmed ''*.'' in
          if remainder = [] \<or> \<not> contains_str remainder ''.'' then Some (WildcardBeforeTLD name)
          else if contains_str remainder ''*'' then Some (MultipleWildcards name)
          else None
      else None)"

definition validate_dns_name :: "policy_engine \<Rightarrow> string \<Rightarrow> policy_error option" where
  "validate_dns_name p name =
     (let trimmed = trim_space (to_lower name) in
      if trimmed = [] then Some EmptyDNSName
      else case first_err (check_disallowed p name trimmed) (pe_disallowed_dns_names p) of
             Some e \<Rightarrow> Some e
           | None \<Rightarrow> check_wildcard p name trimmed)"

definition validate_csr ::
  "policy_engine \<Rightarrow> certificate_request option \<Rightarrow> profile_config \<Rightarrow> duration \<Rightarrow> policy_error option" where
  "validate_csr p csr profile validity =
     (case csr of
        None \<Rightarrow> Some NilCSR
      | Some csr \<Rightarrow>
         (case validate_public_key p (csr_public_key csr) of
            Some e \<Rightarrow> Some e
          | None \<Rightarrow>
              let validity = (if validity \<le> 0 then pf_default_validity profile else validity) in
              if pe_max_validity_duration p > 0 \<and> validity > pe_max_validity_duration p
              then Some (ExceedsPolicyMax validity (pe_max_validity_duration p))
              else if pf_allowed_max_validity profile > 0 \<and> validity > pf_allowed_max_validity profile
              then Some (ExceedsProfileMax validity (pf_allowed_max_validity profile))
              else (case first_err (validate_dns_name p) (csr_dns_names csr) of
                      Some e \<Rightarrow> Some e
                    | None \<Rightarrow>
                        if pf_require_san profile \<or> (pe_require_dns_or_ip p \<and> pf_type profile = ProfileServerTLS)
                        then if csr_dns_names csr = [] \<and> csr_ip_addresses csr = [] \<and>
                                csr_email_addresses csr = [] \<and> csr_uris csr = []
                             then Some SANMissing else None
                        else None)))"

section \<open>The linter\<close>

datatype lint_level = LintError | LintWarning | LintInfo

text \<open>A message is its format with its arguments; \<open>lint_text\<close> renders it, times by \<open>ft\<close>.\<close>

datatype lint_message =
    Plain string
  | SerialNotPositive int
  | SerialTooLong nat
  | NotChronological go_time go_time
  | IsCAMismatch bool bool

record lint_result =
  lr_rule :: string
  lr_level :: lint_level
  lr_message :: lint_message

fun lint_text :: "(go_time \<Rightarrow> string) \<Rightarrow> lint_message \<Rightarrow> string" where
  "lint_text ft (Plain s) = s"
| "lint_text ft (SerialNotPositive n) = ''serial number must be positive (got '' @ dec_int n @ '')''"
| "lint_text ft (SerialTooLong n) =
     ''serial number length '' @ dec_nat n @ '' bits exceeds 159 bits (20 octets limit)''"
| "lint_text ft (NotChronological a b) =
     ''NotBefore ('' @ ft a @ '') must be before NotAfter ('' @ ft b @ '')''"
| "lint_text ft (IsCAMismatch a b) =
     ''certificate IsCA ('' @ bool_text a @ '') does not match profile IsCA ('' @ bool_text b @ '')''"

definition has_lint_errors :: "lint_result list \<Rightarrow> bool" where
  "has_lint_errors results = list_ex (\<lambda>r. lr_level r = LintError) results"

definition lint_errors_error :: "(go_time \<Rightarrow> string) \<Rightarrow> lint_result list \<Rightarrow> string" where
  "lint_errors_error ft results =
     ''certificate failed pre-issuance linting: '' @
     join_with ''; '' (map (\<lambda>r. ''['' @ lr_rule r @ ''] '' @ lint_text ft (lr_message r))
       (filter (\<lambda>r. lr_level r = LintError) results))"

abbreviation lint_error :: "string \<Rightarrow> lint_message \<Rightarrow> lint_result" where
  "lint_error rule msg \<equiv> \<lparr>lr_rule = rule, lr_level = LintError, lr_message = msg\<rparr>"

definition lint_serial :: "certificate \<Rightarrow> lint_result list" where
  "lint_serial cert =
     (case c_serial_number cert of
        None \<Rightarrow> [lint_error ''serial-not-nil'' (Plain ''certificate serial number cannot be nil'')]
      | Some n \<Rightarrow>
          (if n \<le> 0 then [lint_error ''serial-positive'' (SerialNotPositive n)] else []) @
          (if int (bit_len n) > max_serial_bits
           then [lint_error ''serial-20-octets'' (SerialTooLong (bit_len n))] else []))"

definition lint_validity :: "certificate \<Rightarrow> lint_result list" where
  "lint_validity cert =
     (if \<not> c_not_before cert < c_not_after cert
      then [lint_error ''validity-chronological'' (NotChronological (c_not_before cert) (c_not_after cert))]
      else [])"

definition lint_basic_constraints :: "certificate \<Rightarrow> profile_config \<Rightarrow> lint_result list" where
  "lint_basic_constraints cert profile =
     (if \<not> c_basic_constraints_valid cert
      then [lint_error ''basic-constraints-valid''
             (Plain ''BasicConstraints extension must be marked valid'')] else []) @
     (if c_is_ca cert \<noteq> pf_is_ca profile
      then [lint_error ''basic-constraints-is-ca'' (IsCAMismatch (c_is_ca cert) (pf_is_ca profile))] else [])"

definition lint_key_usage :: "certificate \<Rightarrow> public_key option \<Rightarrow> lint_result list" where
  "lint_key_usage cert pub =
     (case pub of
        None \<Rightarrow> []
      | Some k \<Rightarrow>
          if is_ec_or_ed k \<and> c_key_usage cert AND KeyUsageKeyEncipherment \<noteq> 0
          then [lint_error ''key-usage-algorithm-alignment''
                 (Plain ''KeyEncipherment KeyUsage is forbidden for ECDSA / Ed25519 keys'')] else []) @
     (if c_is_ca cert then
        if c_key_usage cert AND KeyUsageCertSign = 0
        then [lint_error ''ca-key-usage-cert-sign'' (Plain ''CA certificate KeyUsage must include CertSign'')]
        else []
      else [])"

definition lint_san :: "certificate \<Rightarrow> profile_config \<Rightarrow> lint_result list" where
  "lint_san cert profile =
     (if pf_require_san profile \<and> c_dns_names cert = [] \<and> c_ip_addresses cert = [] \<and>
         c_email_addresses cert = [] \<and> c_uris cert = []
      then [lint_error ''san-present'' (Plain ''profile requires at least one Subject Alternative Name'')]
      else [])"

definition lint_eku :: "certificate \<Rightarrow> profile_config \<Rightarrow> lint_result list" where
  "lint_eku cert profile =
     (if pf_type profile = ProfileServerTLS \<and> \<not> list_ex (\<lambda>eku. eku = EkuServerAuth) (c_ext_key_usage cert)
      then [lint_error ''server-tls-eku''
             (Plain ''Server TLS profile must include ServerAuth in ExtKeyUsage'')]
      else [])"

definition lint_certificate ::
  "policy_engine \<Rightarrow> certificate \<Rightarrow> public_key option \<Rightarrow> profile_config \<Rightarrow> lint_result list" where
  "lint_certificate p cert pub profile =
     lint_serial cert @ lint_validity cert @ lint_basic_constraints cert profile @
     lint_key_usage cert pub @ lint_san cert profile @ lint_eku cert profile"

section \<open>What the checks accept\<close>

text \<open>The keys the engine accepts.\<close>

definition key_acceptable :: "policy_engine \<Rightarrow> public_key \<Rightarrow> bool" where
  "key_acceptable p pub =
     (case pub of
        RSAKey n e \<Rightarrow> pe_min_rsa_key_size p \<le> int (bit_len n) \<and> 65537 \<le> e
      | ECDSAKey c x y \<Rightarrow> c \<in> set (pe_allowed_ec_curves p) \<and> is_on_curve c x y
      | Ed25519Key k \<Rightarrow> length k = 32
      | OtherKey _ \<Rightarrow> False)"

lemma validate_public_key_iff [policy_simps]:
  "validate_public_key p pub = None \<longleftrightarrow> key_acceptable p pub"
  by (cases pub) (auto simp: validate_public_key_def key_acceptable_def params_name_inj list_ex_iff)

text \<open>The names the engine accepts, said without the code's order of checks: the trimmed
  lower-case name is not empty, ends in no active disallowed suffix, and has either no
  asterisk or exactly one, as a whole leftmost label before at least two more labels.\<close>

definition wildcard_ok :: "policy_engine \<Rightarrow> string \<Rightarrow> bool" where
  "wildcard_ok p s =
     (CHR ''*'' \<notin> set s \<or>
      (pe_allow_wildcards p \<and> (\<exists>r. s = ''*.'' @ r \<and> CHR ''*'' \<notin> set r \<and> CHR ''.'' \<in> set r)))"

definition name_acceptable :: "policy_engine \<Rightarrow> string \<Rightarrow> bool" where
  "name_acceptable p name =
     (let s = trim_space (to_lower name) in
      s \<noteq> [] \<and>
      (\<forall>d \<in> set (pe_disallowed_dns_names p).
         (\<exists>a. s = a @ d) \<longrightarrow> pe_allow_internal_domains p \<and> is_internal_domain_suffix d) \<and>
      wildcard_ok p s)"

lemma check_wildcard_iff: "check_wildcard p name s = None \<longleftrightarrow> wildcard_ok p s"
proof (cases "CHR ''*'' \<in> set s \<and> has_prefix s ''*.''")
  case True
  then obtain r where r: "s = ''*.'' @ r" by (auto simp: has_prefix_iff)
  then have t: "trim_prefix s ''*.'' = r" by (simp only: trim_prefix_append)
  have "CHR ''.'' \<in> set r \<Longrightarrow> r \<noteq> []" by auto
  then show ?thesis using True t r
    by (auto simp: check_wildcard_def wildcard_ok_def contains_char_iff)
next
  case False
  then show ?thesis
    by (auto simp: check_wildcard_def wildcard_ok_def contains_char_iff has_prefix_Cons has_prefix_def)
qed

lemma check_disallowed_iff:
  "check_disallowed p name s d = None \<longleftrightarrow>
     ((\<exists>a. s = a @ d) \<longrightarrow> pe_allow_internal_domains p \<and> is_internal_domain_suffix d)"
  by (auto simp: check_disallowed_def has_suffix_iff)

lemma validate_dns_name_iff [policy_simps]:
  "validate_dns_name p name = None \<longleftrightarrow> name_acceptable p name"
proof -
  let ?s = "trim_space (to_lower name)"
  have "validate_dns_name p name = None \<longleftrightarrow> ?s \<noteq> [] \<and>
      first_err (check_disallowed p name ?s) (pe_disallowed_dns_names p) = None \<and>
      check_wildcard p name ?s = None"
    by (auto simp: validate_dns_name_def Let_def split: option.splits simp del: first_err_None)
  then show ?thesis
    by (simp add: name_acceptable_def Let_def check_disallowed_iff check_wildcard_iff)
qed

section \<open>What a clean lint means\<close>

definition lint_clean :: "certificate \<Rightarrow> public_key option \<Rightarrow> profile_config \<Rightarrow> bool" where
  "lint_clean cert pub profile =
     ((\<exists>n. c_serial_number cert = Some n \<and> 0 < n \<and> n < 2 ^ 159) \<and>
      c_not_before cert < c_not_after cert \<and> c_basic_constraints_valid cert \<and>
      c_is_ca cert = pf_is_ca profile \<and>
      (\<forall>k. pub = Some k \<and> is_ec_or_ed k \<longrightarrow> \<not> bit (c_key_usage cert) 2) \<and>
      (c_is_ca cert \<longrightarrow> bit (c_key_usage cert) 5) \<and>
      (pf_require_san profile \<longrightarrow> c_dns_names cert \<noteq> [] \<or> c_ip_addresses cert \<noteq> [] \<or>
         c_email_addresses cert \<noteq> [] \<or> c_uris cert \<noteq> []) \<and>
      (pf_type profile = ProfileServerTLS \<longrightarrow> EkuServerAuth \<in> set (c_ext_key_usage cert)))"

lemma has_lint_errors_append [simp]:
  "has_lint_errors (a @ b) \<longleftrightarrow> has_lint_errors a \<or> has_lint_errors b"
  by (simp add: has_lint_errors_def)

lemma has_lint_errors_simps [simp]:
  "\<not> has_lint_errors []" "has_lint_errors (lint_error r m # rs)"
  by (simp_all add: has_lint_errors_def)

lemma usage_bit_iff:
  "(u AND KeyUsageKeyEncipherment = 0) \<longleftrightarrow> \<not> bit u 2"
  "(u AND KeyUsageCertSign = 0) \<longleftrightarrow> \<not> bit u 5"
  using and_exp_eq_0_iff_not_bit [of u 2] and_exp_eq_0_iff_not_bit [of u 5]
  by (simp_all add: key_usage_defs)

lemma lint_serial_iff:
  "has_lint_errors (lint_serial cert) \<longleftrightarrow> \<not> (\<exists>n. c_serial_number cert = Some n \<and> 0 < n \<and> n < 2 ^ 159)"
proof -
  have "int (bit_len n) > max_serial_bits \<longleftrightarrow> \<not> n < 2 ^ 159" if "0 < n" for n
    using bit_len_le [of n 159] that by (simp add: max_serial_bits_def; linarith)
  then show ?thesis by (auto simp: lint_serial_def split: option.splits)
qed

lemma lint_certificate_iff [policy_simps]:
  "has_lint_errors (lint_certificate p cert pub profile) \<longleftrightarrow> \<not> lint_clean cert pub profile"
  unfolding lint_certificate_def has_lint_errors_append lint_serial_iff lint_clean_def
  by (auto simp: lint_validity_def lint_basic_constraints_def lint_key_usage_def lint_san_def
      lint_eku_def list_ex_iff usage_bit_iff split: option.splits if_splits)

lemma lint_only_errors: "r \<in> set (lint_certificate p cert pub profile) \<Longrightarrow> lr_level r = LintError"
  by (auto simp: lint_certificate_def lint_serial_def lint_validity_def lint_basic_constraints_def
      lint_key_usage_def lint_san_def lint_eku_def split: option.splits if_splits)

end
