(* ===== verification/Sct.thy ===== *)
theory Sct
  imports X509_Model Go_Base64
begin

text \<open>
  \<open>pkg/ctlog/models.go\<close> and \<open>precert.go\<close>: signed certificate timestamps and their binary
  form, the SCT list of RFC 6962 with its ASN.1 wrapping, and the certificate templates with
  the poison and the SCT-list extension. \<open>decode_sct\<close> and \<open>decode_sct_list\<close> read the formats
  back as RFC 6962 defines them; the encoders are proved against them.
\<close>

section \<open>Timestamps\<close>

record sct =
  sct_version :: byte
  sct_log_id :: "byte list"
  sct_timestamp :: "64 word"
  sct_extensions :: "byte list"
  sct_hash_algo :: byte
  sct_sig_algo :: byte
  sct_signature :: "byte list"

text \<open>\<open>LogID\<close> has the Go type \<open>[32]byte\<close>.\<close>

definition sct_wf :: "sct \<Rightarrow> bool" where
  "sct_wf s = (length (sct_log_id s) = 32)"

datatype sct_error =
    ExtensionsTooLong nat
  | SignatureTooLong nat
  | EmptySCTList
  | BadSCTLength nat nat
  | ListTooLong nat

definition marshal_binary :: "sct \<Rightarrow> sct_error + byte list" where
  "marshal_binary s =
     (let ext_len = length (sct_extensions s); sig_len = length (sct_signature s) in
      if ext_len > 65535 then Inl (ExtensionsTooLong ext_len)
      else if sig_len > 65535 then Inl (SignatureTooLong sig_len)
      else Inr ([sct_version s] @ sct_log_id s @ put_uint64 (sct_timestamp s) @
             put_uint16 (word_of_nat ext_len) @ sct_extensions s @
             [sct_hash_algo s] @ [sct_sig_algo s] @
             put_uint16 (word_of_nat sig_len) @ sct_signature s))"

text \<open>RFC 6962 section 3.2, read back.\<close>

definition take_bytes :: "nat \<Rightarrow> byte list \<Rightarrow> (byte list \<times> byte list) option" where
  "take_bytes n bs = (if length bs < n then None else Some (take n bs, drop n bs))"

definition take_vector :: "byte list \<Rightarrow> (byte list \<times> byte list) option" where
  "take_vector bs = Option.bind (take_bytes 2 bs) (\<lambda>(l, bs). take_bytes (be_val l) bs)"

definition decode_sct :: "byte list \<Rightarrow> sct option" where
  "decode_sct bs =
     Option.bind (take_bytes 1 bs) (\<lambda>(v, bs).
     Option.bind (take_bytes 32 bs) (\<lambda>(logid, bs).
     Option.bind (take_bytes 8 bs) (\<lambda>(ts, bs).
     Option.bind (take_vector bs) (\<lambda>(exts, bs).
     Option.bind (take_bytes 1 bs) (\<lambda>(h, bs).
     Option.bind (take_bytes 1 bs) (\<lambda>(a, bs).
     Option.bind (take_vector bs) (\<lambda>(sig, bs).
       if bs = [] then Some \<lparr>sct_version = hd v, sct_log_id = logid,
         sct_timestamp = word_of_nat (be_val ts), sct_extensions = exts, sct_hash_algo = hd h,
         sct_sig_algo = hd a, sct_signature = sig\<rparr> else None)))))))"

lemma take_bytes_append: "length xs = n \<Longrightarrow> take_bytes n (xs @ ys) = Some (xs, ys)"
  by (simp add: take_bytes_def)

lemma be_val_put_uint16_len: "n \<le> 65535 \<Longrightarrow> be_val (put_uint16 (word_of_nat n)) = n"
  by (simp add: unat_of_nat)

lemma take_vector_append:
  "length xs \<le> 65535 \<Longrightarrow> take_vector (put_uint16 (word_of_nat (length xs)) @ xs @ ys) = Some (xs, ys)"
  by (simp add: take_vector_def take_bytes_append be_val_put_uint16_len del: be_val_put_uint16)

lemma decode_marshal:
  assumes "marshal_binary s = Inr bs" and "sct_wf s"
  shows "decode_sct bs = Some s"
proof -
  have l: "length (sct_extensions s) \<le> 65535" "length (sct_signature s) \<le> 65535"
    "length (sct_log_id s) = 32"
    using assms by (auto simp: marshal_binary_def Let_def sct_wf_def split: if_splits)
  have bs: "bs = [sct_version s] @ sct_log_id s @ put_uint64 (sct_timestamp s) @
      put_uint16 (word_of_nat (length (sct_extensions s))) @ sct_extensions s @
      [sct_hash_algo s] @ [sct_sig_algo s] @
      put_uint16 (word_of_nat (length (sct_signature s))) @ sct_signature s @ []"
    using assms(1) by (simp add: marshal_binary_def Let_def split: if_splits)
  show ?thesis
    unfolding bs decode_sct_def
    by (simp add: take_bytes_append take_vector_append l del: append_Cons append_Nil append_Nil2)
qed

lemma marshal_binary_total:
  "(\<exists>bs. marshal_binary s = Inr bs) \<longleftrightarrow>
     length (sct_extensions s) \<le> 65535 \<and> length (sct_signature s) \<le> 65535"
  by (auto simp: marshal_binary_def Let_def)

section \<open>The SCT list\<close>

text \<open>The loop over the SCTs, with the index it reports.\<close>

fun serialize_elements :: "nat \<Rightarrow> byte list list \<Rightarrow> sct_error + byte list" where
  "serialize_elements i [] = Inr []"
| "serialize_elements i (s # ss) =
     (if length s = 0 \<or> length s > 65535 then Inl (BadSCTLength (length s) i)
      else case serialize_elements (Suc i) ss of
             Inl e \<Rightarrow> Inl e
           | Inr rest \<Rightarrow> Inr (put_uint16 (word_of_nat (length s)) @ s @ rest))"

text \<open>\<open>asn1.Marshal\<close> of a byte slice: tag 4 and the definite length of X.690, 8.1.3.\<close>

definition asn1_length :: "nat \<Rightarrow> byte list" where
  "asn1_length n =
     (if n < 128 then [word_of_nat n]
      else (128 OR word_of_nat (length (nat_bytes n))) # nat_bytes n)"

definition asn1_octet_string :: "byte list \<Rightarrow> byte list" where
  "asn1_octet_string bs = 4 # asn1_length (length bs) @ bs"

definition serialize_sct_list :: "byte list list \<Rightarrow> sct_error + byte list" where
  "serialize_sct_list scts =
     (if scts = [] then Inl EmptySCTList
      else case serialize_elements 0 scts of
             Inl e \<Rightarrow> Inl e
           | Inr elements \<Rightarrow>
               let total_len = length elements in
               if total_len > 65535 then Inl (ListTooLong total_len)
               else Inr (asn1_octet_string (put_uint16 (word_of_nat total_len) @ elements)))"

text \<open>Reading it back: DER octet string, then the TLS vectors.\<close>

definition decode_octet_string :: "byte list \<Rightarrow> byte list option" where
  "decode_octet_string bs =
     (case bs of
        t # l # rest \<Rightarrow>
          if t \<noteq> 4 then None
          else if unat l < 128 then (if length rest = unat l then Some rest else None)
          else Option.bind (take_bytes (unat l - 128) rest) (\<lambda>(n, body).
                 if length body = be_val n then Some body else None)
      | _ \<Rightarrow> None)"

lemma take_vector_shorter: "take_vector bs = Some (x, rest) \<Longrightarrow> length rest < length bs"
  by (auto simp: take_vector_def take_bytes_def bind_eq_Some_conv split: if_splits)

function decode_vectors :: "byte list \<Rightarrow> byte list list option" where
  "decode_vectors bs =
     (if bs = [] then Some []
      else case take_vector bs of
             None \<Rightarrow> None
           | Some (x, rest) \<Rightarrow> map_option (Cons x) (decode_vectors rest))"
  by auto

termination
  by (relation "measure length") (auto dest: take_vector_shorter)

declare decode_vectors.simps [simp del]

definition decode_sct_list :: "byte list \<Rightarrow> byte list list option" where
  "decode_sct_list bs =
     Option.bind (decode_octet_string bs) (\<lambda>body.
     Option.bind (take_vector body) (\<lambda>(elements, rest).
       if rest = [] then decode_vectors elements else None))"

lemma serialize_elements_ok:
  "serialize_elements i ss = Inr bs \<Longrightarrow> decode_vectors bs = Some ss"
proof (induction ss arbitrary: i bs)
  case Nil
  then show ?case by (simp add: decode_vectors.simps)
next
  case (Cons s ss)
  then obtain rest where r: "serialize_elements (Suc i) ss = Inr rest"
    and l: "length s \<le> 65535" and bs: "bs = put_uint16 (word_of_nat (length s)) @ s @ rest"
    by (auto split: if_splits sum.splits)
  have "length bs \<noteq> 0" by (simp add: bs)
  then have "bs \<noteq> []" by auto
  then show ?case
    using Cons.IH [OF r] by (simp add: decode_vectors.simps [of bs])
      (simp add: bs take_vector_append l)
qed

lemma serialize_elements_iff:
  "(\<exists>bs. serialize_elements i ss = Inr bs) \<longleftrightarrow> (\<forall>s \<in> set ss. s \<noteq> [] \<and> length s \<le> 65535)"
proof (induction ss arbitrary: i)
  case (Cons s ss)
  from Cons.IH [of "Suc i"] show ?case
    by (cases "serialize_elements (Suc i) ss") (auto simp: not_less)
qed simp

lemma serialize_elements_length:
  "serialize_elements i ss = Inr bs \<Longrightarrow> length bs = sum_list (map (\<lambda>s. length s + 2) ss)"
  by (induction ss arbitrary: i bs) (auto split: if_splits sum.splits)

lemma octet_string_roundtrip:
  assumes "length bs < 256 ^ 126"
  shows "decode_octet_string (asn1_octet_string bs) = Some bs"
proof (cases "length bs < 128")
  case True
  then show ?thesis
    by (simp add: asn1_octet_string_def asn1_length_def decode_octet_string_def unat_of_nat)
next
  case False
  let ?k = "length (nat_bytes (length bs))"
  have k: "?k \<le> 126" using assms by (simp add: length_nat_bytes_le)
  have "(128 :: byte) AND word_of_nat ?k = 0"
  proof -
    have "(word_of_nat ?k :: byte) < 2 ^ 7" using k by (simp add: word_less_nat_alt unat_of_nat)
    then have "take_bit 7 (word_of_nat ?k :: byte) = word_of_nat ?k"
      by (simp add: take_bit_eq_mask less_mask_eq)
    then have "\<not> bit (word_of_nat ?k :: byte) 7" by (metis bit_take_bit_iff less_irrefl)
    then show ?thesis using and_exp_eq_0_iff_not_bit [of "word_of_nat ?k :: byte" 7]
      by (simp add: and.commute)
  qed
  then have "128 OR word_of_nat ?k = 128 + (word_of_nat ?k :: byte)"
    by (simp add: disjunctive_add_eq_or)
  also have "\<dots> = word_of_nat (128 + ?k)" by simp
  finally have or: "128 OR word_of_nat ?k = (word_of_nat (128 + ?k) :: byte)" .
  have u: "unat (128 OR word_of_nat ?k :: byte) = 128 + ?k"
    unfolding or using k by (simp add: unat_of_nat del: of_nat_add)
  show ?thesis
    using False by (simp add: asn1_octet_string_def asn1_length_def decode_octet_string_def u
        take_bytes_append)
qed

lemma decode_serialize_sct_list:
  assumes "serialize_sct_list scts = Inr bs"
  shows "decode_sct_list bs = Some scts"
proof -
  obtain els where els: "serialize_elements 0 scts = Inr els" and l: "length els \<le> 65535"
    and bs: "bs = asn1_octet_string (put_uint16 (word_of_nat (length els)) @ els)"
    using assms by (auto simp: serialize_sct_list_def Let_def split: if_splits sum.splits)
  have "length (put_uint16 (word_of_nat (length els)) @ els) < 256 ^ 126"
  proof -
    have "length (put_uint16 (word_of_nat (length els)) @ els) < 256 ^ 3" using l by simp
    also have "(256::nat) ^ 3 \<le> 256 ^ 126" by (rule power_increasing) simp_all
    finally show ?thesis .
  qed
  then show ?thesis
    using serialize_elements_ok [OF els] take_vector_append [OF l, of "[]"]
    by (simp add: bs decode_sct_list_def octet_string_roundtrip)
qed

section \<open>Templates\<close>

definition OIDExtensionCTPoison :: oid where
  "OIDExtensionCTPoison = [1, 3, 6, 1, 4, 1, 11129, 2, 4, 3]"

definition OIDExtensionSCTList :: oid where
  "OIDExtensionSCTList = [1, 3, 6, 1, 4, 1, 11129, 2, 4, 2]"

text \<open>None is the error for a nil template; the template itself is not touched.\<close>

definition build_pre_certificate_template :: "certificate option \<Rightarrow> certificate option" where
  "build_pre_certificate_template tmpl =
     map_option (\<lambda>t. t\<lparr>c_extra_extensions := c_extra_extensions t @
       [\<lparr>ext_id = OIDExtensionCTPoison, ext_critical = True, ext_value = [0x05, 0x00]\<rparr>]\<rparr>) tmpl"

text \<open>The updated template of \<open>EmbedSCTList\<close>.\<close>

definition embed_sct_list :: "certificate \<Rightarrow> byte list \<Rightarrow> certificate" where
  "embed_sct_list t serialized =
     (if length serialized = 0 then t
      else t\<lparr>c_extra_extensions :=
        filter (\<lambda>x. ext_id x \<noteq> OIDExtensionCTPoison) (c_extra_extensions t) @
        [\<lparr>ext_id = OIDExtensionSCTList, ext_critical = False, ext_value = serialized\<rparr>]\<rparr>)"

definition poisoned :: "certificate \<Rightarrow> bool" where
  "poisoned t = (\<exists>x \<in> set (c_extra_extensions t). ext_id x = OIDExtensionCTPoison \<and> ext_critical x)"

lemma pre_certificate_poisoned:
  "build_pre_certificate_template (Some t) = Some p \<Longrightarrow>
     poisoned p \<and> p\<lparr>c_extra_extensions := c_extra_extensions t\<rparr> = t"
  by (auto simp: build_pre_certificate_template_def poisoned_def)

lemma embed_not_poisoned: "bs \<noteq> [] \<Longrightarrow> \<not> poisoned (embed_sct_list t bs)"
  by (auto simp: embed_sct_list_def poisoned_def OIDExtensionCTPoison_def OIDExtensionSCTList_def)

end
