(* ===== verification/Ct_Client.thy ===== *)
theory Ct_Client
  imports Sct
begin

text \<open>
  \<open>pkg/ctlog/client.go\<close> and \<open>mock_log.go\<close>: the submission of a pre-certificate to a CT log and
  the log of the test bed. The HTTP exchange between them is a function \<open>transport\<close>; the
  structured request and response stand for the JSON texts \<open>encoding/json\<close> makes of them.
\<close>

record add_chain_response =
  ac_sct_version :: int
  ac_id :: string
  ac_timestamp :: "64 word"
  ac_extensions :: string
  ac_signature :: string

datatype ct_body = CtText string | CtJson add_chain_response

record ct_response =
  ct_status :: nat
  ct_body :: ct_body

datatype ct_error =
    EmptyChain
  | RequestFailed string
  | BadStatus nat ct_body
  | BadJson
  | BadLogId
  | BadExtensions
  | BadSignature

type_synonym ct_transport = "ctx \<Rightarrow> string \<Rightarrow> string list \<Rightarrow> string + ct_response"

record ct_submitter =
  sub_url :: string
  sub_client :: ct_transport

definition new_ct_submitter :: "string \<Rightarrow> ct_transport \<Rightarrow> ct_submitter" where
  "new_ct_submitter url client = \<lparr>sub_url = trim_suffix url ''/'', sub_client = client\<rparr>"

text \<open>The bytes the client packs from a decoded response.\<close>

definition pack_response ::
  "int \<Rightarrow> byte list \<Rightarrow> 64 word \<Rightarrow> byte list \<Rightarrow> byte list \<Rightarrow> byte list" where
  "pack_response version log_id timestamp ext sig =
     [word_of_int version] @ log_id @ put_uint64 timestamp @
     put_uint16 (word_of_nat (length ext)) @ ext @ sig"

definition submit_pre_certificate ::
  "ct_submitter \<Rightarrow> ctx \<Rightarrow> byte list \<Rightarrow> byte list \<Rightarrow> ct_error + byte list" where
  "submit_pre_certificate c ctx pre_cert_der issuer_cert_der =
     (if length pre_cert_der = 0 \<or> length issuer_cert_der = 0 then Inl EmptyChain
      else
        let chain = [b64_padded_encode b64_std pre_cert_der, b64_padded_encode b64_std issuer_cert_der];
            endpoint = sub_url c @ ''/ct/v1/add-pre-chain''
        in case sub_client c ctx endpoint chain of
             Inl e \<Rightarrow> Inl (RequestFailed e)
           | Inr resp \<Rightarrow>
               if ct_status resp \<noteq> 200 then Inl (BadStatus (ct_status resp) (ct_body resp))
               else (case ct_body resp of
                       CtText _ \<Rightarrow> Inl BadJson
                     | CtJson r \<Rightarrow>
                         (case b64_padded_decode b64_std (ac_id r) of
                            None \<Rightarrow> Inl BadLogId
                          | Some log_id \<Rightarrow>
                              if length log_id \<noteq> 32 then Inl BadLogId
                              else (case (if ac_extensions r = [] then Some []
                                          else b64_padded_decode b64_std (ac_extensions r)) of
                                      None \<Rightarrow> Inl BadExtensions
                                    | Some ext \<Rightarrow>
                                        (case b64_padded_decode b64_std (ac_signature r) of
                                           None \<Rightarrow> Inl BadSignature
                                         | Some sig \<Rightarrow>
                                             Inr (pack_response (ac_sct_version r) log_id
                                                    (ac_timestamp r) ext sig))))))"

section \<open>The mock log\<close>

text \<open>
  \<open>'k\<close> is the log's ECDSA key; \<open>sign\<close> is \<open>ecdsa.SignASN1\<close> on a digest, with the random bytes
  it draws.
\<close>

record 'k mock_ct_log =
  ml_key :: 'k
  ml_log_id :: "byte list"

definition new_mock_ct_log ::
  "'k crypto_env \<Rightarrow> string + 'k \<Rightarrow> string + 'k mock_ct_log" where
  "new_mock_ct_log env generated =
     (case generated of
        Inl e \<Rightarrow> Inl e
      | Inr key \<Rightarrow>
          (case ce_marshal_pkix env (ce_public env key) of
             Inl e \<Rightarrow> Inl e
           | Inr spki \<Rightarrow> Inr \<lparr>ml_key = key, ml_log_id = ce_sha256 env spki\<rparr>))"

definition precert_sig_input :: "64 word \<Rightarrow> byte list \<Rightarrow> byte list \<Rightarrow> byte list" where
  "precert_sig_input timestamp issuer_key_hash tbs =
     [0] @ [0] @ put_uint64 timestamp @ put_uint16 1 @ issuer_key_hash @
     put_be 3 (length tbs) @ tbs @ put_uint16 0"

definition digitally_signed :: "byte list \<Rightarrow> byte list" where
  "digitally_signed asn1_sig = [4] @ [3] @ put_uint16 (word_of_nat (length asn1_sig)) @ asn1_sig"

text \<open>\<open>chain\<close> None is a body that is not the expected JSON.\<close>

definition handle_add_pre_chain ::
  "'k crypto_env \<Rightarrow> ('k \<Rightarrow> byte list \<Rightarrow> string + byte list) \<Rightarrow> go_time \<Rightarrow> 'k mock_ct_log \<Rightarrow>
     string \<Rightarrow> string list option \<Rightarrow> ct_response" where
  "handle_add_pre_chain env sign now m meth chain =
     (let err = (\<lambda>msg code. \<lparr>ct_status = code, ct_body = CtText msg\<rparr>) in
      if meth \<noteq> ''POST'' then err ''Method Not Allowed'' 405
      else case chain of
        Some (c0 # c1 # _) \<Rightarrow>
          (case b64_padded_decode b64_std c0 of
             None \<Rightarrow> err ''Bad Request: invalid base64 in pre-cert'' 400
           | Some pre_cert_der \<Rightarrow>
          (case b64_padded_decode b64_std c1 of
             None \<Rightarrow> err ''Bad Request: invalid base64 in issuer'' 400
           | Some issuer_der \<Rightarrow>
          (case ce_parse_certificate env issuer_der of
             Inl _ \<Rightarrow> err ''Bad Request: malformed issuer certificate'' 400
           | Inr issuer_cert \<Rightarrow>
          (case ce_marshal_pkix env (c_public_key issuer_cert) of
             Inl _ \<Rightarrow> err ''Internal Error'' 500
           | Inr issuer_spki \<Rightarrow>
              let issuer_key_hash = ce_sha256 env issuer_spki;
                  timestamp = word_of_int (unix_milli now);
                  sig_input = precert_sig_input timestamp issuer_key_hash pre_cert_der
              in (case sign (ml_key m) (ce_sha256 env sig_input) of
                    Inl _ \<Rightarrow> err ''Failed to sign'' 500
                  | Inr asn1_sig \<Rightarrow>
                      \<lparr>ct_status = 200, ct_body = CtJson
                        \<lparr>ac_sct_version = 0, ac_id = b64_padded_encode b64_std (ml_log_id m),
                         ac_timestamp = timestamp, ac_extensions = [],
                         ac_signature = b64_padded_encode b64_std (digitally_signed asn1_sig)\<rparr>\<rparr>)))))
      | _ \<Rightarrow> err ''Bad Request: invalid chain'' 400)"

text \<open>The log as the client reaches it.\<close>

definition mock_transport ::
  "'k crypto_env \<Rightarrow> ('k \<Rightarrow> byte list \<Rightarrow> string + byte list) \<Rightarrow> go_time \<Rightarrow> 'k mock_ct_log \<Rightarrow> ct_transport" where
  "mock_transport env sign now m ctx endpoint chain =
     (case ctx of
        Some _ \<Rightarrow> Inl ''context done''
      | None \<Rightarrow> Inr (handle_add_pre_chain env sign now m ''POST'' (Some chain)))"

section \<open>What the client gets\<close>

lemma pack_marshal:
  assumes "length sig \<le> 65535" and "length ext \<le> 65535"
  shows "marshal_binary \<lparr>sct_version = word_of_int v, sct_log_id = log_id, sct_timestamp = t,
      sct_extensions = ext, sct_hash_algo = h, sct_sig_algo = a, sct_signature = sig\<rparr> =
    Inr (pack_response v log_id t ext ([h] @ [a] @ put_uint16 (word_of_nat (length sig)) @ sig))"
  using assms by (simp add: marshal_binary_def pack_response_def Let_def)

lemma handle_add_pre_chain_ok:
  assumes "ce_parse_certificate env issuer_der = Inr issuer"
    and "ce_marshal_pkix env (c_public_key issuer) = Inr spki"
    and "sign (ml_key m) (ce_sha256 env (precert_sig_input (word_of_int (unix_milli now))
           (ce_sha256 env spki) pre)) = Inr sig"
  shows "handle_add_pre_chain env sign now m ''POST''
      (Some [b64_padded_encode b64_std pre, b64_padded_encode b64_std issuer_der]) =
    \<lparr>ct_status = 200, ct_body = CtJson
       \<lparr>ac_sct_version = 0, ac_id = b64_padded_encode b64_std (ml_log_id m),
        ac_timestamp = word_of_int (unix_milli now), ac_extensions = [],
        ac_signature = b64_padded_encode b64_std (digitally_signed sig)\<rparr>\<rparr>"
  using assms by (simp add: handle_add_pre_chain_def)

lemma submit_to_mock:
  assumes "pre \<noteq> []" "issuer_der \<noteq> []" and "length (ml_log_id m) = 32" and "length sig \<le> 65535"
    and "sub_client c = mock_transport env sign now m"
    and "ce_parse_certificate env issuer_der = Inr issuer"
    and "ce_marshal_pkix env (c_public_key issuer) = Inr spki"
    and "sign (ml_key m) (ce_sha256 env (precert_sig_input (word_of_int (unix_milli now))
           (ce_sha256 env spki) pre)) = Inr sig"
  shows "\<exists>bs. submit_pre_certificate c None pre issuer_der = Inr bs \<and>
    decode_sct bs = Some \<lparr>sct_version = 0, sct_log_id = ml_log_id m,
      sct_timestamp = word_of_int (unix_milli now), sct_extensions = [],
      sct_hash_algo = 4, sct_sig_algo = 3, sct_signature = sig\<rparr>"
proof -
  let ?s = "\<lparr>sct_version = 0, sct_log_id = ml_log_id m,
      sct_timestamp = word_of_int (unix_milli now), sct_extensions = [],
      sct_hash_algo = 4, sct_sig_algo = 3, sct_signature = sig\<rparr>"
  let ?bs = "pack_response 0 (ml_log_id m) (word_of_int (unix_milli now)) [] (digitally_signed sig)"
  have "marshal_binary ?s = Inr ?bs"
    using pack_marshal [of sig "[]" 0] assms(4) by (simp add: digitally_signed_def)
  then have "decode_sct ?bs = Some ?s"
    by (rule decode_marshal) (simp add: sct_wf_def assms(3))
  moreover have "submit_pre_certificate c None pre issuer_der = Inr ?bs"
    using assms(1-3,5) handle_add_pre_chain_ok [where env = env and sign = sign, OF assms(6-8)]
    by (simp add: submit_pre_certificate_def mock_transport_def Let_def)
  ultimately show ?thesis by blast
qed

end
