(* ===== verification/Authority.thy ===== *)
theory Authority
  imports Policy Ct_Client
begin

text \<open>
  \<open>pkg/ca/authority.go\<close>: the issuing authority. \<open>SignCertificateWithProfile\<close> and
  \<open>SignCertificateWithCT\<close> share their first half in the code almost word for word;
  \<open>prepare\<close> is that half, with the one difference (the override of the IP addresses) as an
  argument. Clock readings and random bytes are arguments.
\<close>

record 'k authority =
  au_root_cert :: certificate
  au_intermediate_cert :: certificate
  au_signer :: 'k
  au_policy :: "policy_engine option"

datatype authority_error =
    SerialNotAllowed
  | MalformedCSR string
  | BadPossession string
  | ValidityExceeded duration duration
  | SANRequired
  | KeyPolicy policy_error
  | NamePolicy policy_error
  | SubjectKeyIdError string
  | LintErrors "lint_result list"
  | PreCertTemplate
  | PreCertCreate string
  | CTSubmission string ct_error
  | SCTSerialization sct_error
  | CreateFailed string
  | RootKeyFailed string
  | RootKeyIdFailed string
  | IntermediateKeyIdFailed string
  | CreateRootFailed string
  | CreateIntermediateFailed string

definition compute_subject_key_id :: "'k crypto_env \<Rightarrow> public_key \<Rightarrow> string + byte list" where
  "compute_subject_key_id env pub =
     (case ce_marshal_pkix env pub of
        Inl e \<Rightarrow> Inl e
      | Inr pkix_bytes \<Rightarrow>
          (case ce_spki_bits env pkix_bytes of
             Inl e \<Rightarrow> Inl e
           | Inr bits \<Rightarrow> Inr (ce_sha1 env bits)))"

section \<open>The in-memory hierarchy\<close>

text \<open>\<open>time.Time.AddDate(years, 0, 0)\<close> depends on the calendar, which is \<open>add_years\<close>;
  \<open>clock\<close> gives the successive readings of \<open>time.Now()\<close>.\<close>

definition root_template :: "(go_time \<Rightarrow> int \<Rightarrow> go_time) \<Rightarrow> go_time \<Rightarrow> go_time \<Rightarrow> byte list \<Rightarrow> certificate" where
  "root_template add_years now1 now2 skid =
     zero_certificate\<lparr>c_serial_number := Some 1,
       c_subject := \<lparr>nm_organization = [''Go-Certa Trust Network''], nm_common_name = ''Go-Certa Root CA G1''\<rparr>,
       c_not_before := now1 - hour, c_not_after := add_years now2 20, c_is_ca := True,
       c_key_usage := KeyUsageCertSign OR KeyUsageCRLSign, c_basic_constraints_valid := True,
       c_max_path_len := 1, c_subject_key_id := skid, c_authority_key_id := skid\<rparr>"

definition intermediate_template ::
  "(go_time \<Rightarrow> int \<Rightarrow> go_time) \<Rightarrow> go_time \<Rightarrow> go_time \<Rightarrow> byte list \<Rightarrow> byte list \<Rightarrow> certificate" where
  "intermediate_template add_years now1 now2 skid akid =
     zero_certificate\<lparr>c_serial_number := Some 2,
       c_subject := \<lparr>nm_organization = [''Go-Certa Trust Network''],
                     nm_common_name = ''Go-Certa Issuing Intermediate CA 1''\<rparr>,
       c_not_before := now1 - hour, c_not_after := add_years now2 5, c_is_ca := True,
       c_key_usage := KeyUsageCertSign OR KeyUsageCRLSign, c_basic_constraints_valid := True,
       c_max_path_len_zero := True, c_subject_key_id := skid, c_authority_key_id := akid\<rparr>"

text \<open>The parse errors the code drops leave a nil certificate, which is \<open>zero_certificate\<close>
  here; \<open>create_parse_ok\<close> excludes them.\<close>

definition parse_or_nil :: "'k crypto_env \<Rightarrow> byte list \<Rightarrow> certificate" where
  "parse_or_nil env der = (case ce_parse_certificate env der of Inl _ \<Rightarrow> zero_certificate | Inr c \<Rightarrow> c)"

definition new_authority ::
  "'k crypto_env \<Rightarrow> (go_time \<Rightarrow> int \<Rightarrow> go_time) \<Rightarrow> (nat \<Rightarrow> go_time) \<Rightarrow> byte list \<Rightarrow> byte list \<Rightarrow> byte list \<Rightarrow> 'k \<Rightarrow>
     authority_error + 'k authority" where
  "new_authority env add_years clock rnd_key rnd_root rnd_int hsm =
     (case ce_generate_rsa env 4096 rnd_key of
        Inl e \<Rightarrow> Inl (RootKeyFailed e)
      | Inr root_key \<Rightarrow>
     (case compute_subject_key_id env (ce_public env root_key) of
        Inl e \<Rightarrow> Inl (RootKeyIdFailed e)
      | Inr root_skid \<Rightarrow>
        let root_tmpl = root_template add_years (clock 0) (clock 1) root_skid in
     (case ce_create_certificate env rnd_root root_tmpl root_tmpl (ce_public env root_key) root_key of
        Inl e \<Rightarrow> Inl (CreateRootFailed e)
      | Inr root_der \<Rightarrow>
        let root_cert = parse_or_nil env root_der in
     (case compute_subject_key_id env (ce_public env hsm) of
        Inl e \<Rightarrow> Inl (IntermediateKeyIdFailed e)
      | Inr int_skid \<Rightarrow>
        let int_tmpl = intermediate_template add_years (clock 2) (clock 3) int_skid (c_subject_key_id root_cert) in
     (case ce_create_certificate env rnd_int int_tmpl root_cert (ce_public env hsm) root_key of
        Inl e \<Rightarrow> Inl (CreateIntermediateFailed e)
      | Inr int_der \<Rightarrow>
          Inr \<lparr>au_root_cert = root_cert, au_intermediate_cert = parse_or_nil env int_der,
               au_signer = hsm, au_policy = Some new_default_policy_engine\<rparr>)))))"

section \<open>Issuance\<close>

definition align_key_usage :: "public_key \<Rightarrow> key_usage \<Rightarrow> key_usage" where
  "align_key_usage pub usage =
     (if is_ec_or_ed pub \<and> usage AND KeyUsageDigitalSignature \<noteq> 0
      then usage AND NOT KeyUsageKeyEncipherment else usage)"

definition effective_validity :: "profile_config \<Rightarrow> duration \<Rightarrow> duration" where
  "effective_validity profile validity = (if validity \<le> 0 then pf_default_validity profile else validity)"

definition authority_key_id :: "'k crypto_env \<Rightarrow> certificate \<Rightarrow> byte list" where
  "authority_key_id env issuer =
     (let akid = c_subject_key_id issuer in
      if length akid = 0
      then (case compute_subject_key_id env (c_public_key issuer) of Inl _ \<Rightarrow> [] | Inr k \<Rightarrow> k)
      else akid)"

definition leaf_template ::
  "'k crypto_env \<Rightarrow> 'k authority \<Rightarrow> certificate_request \<Rightarrow> int \<Rightarrow> profile_config \<Rightarrow> extension_config \<Rightarrow>
     duration \<Rightarrow> string list \<Rightarrow> ip list \<Rightarrow> byte list \<Rightarrow> go_time \<Rightarrow> go_time \<Rightarrow> certificate" where
  "leaf_template env a csr serial profile ext_config validity san_dns san_ip skid now1 now2 =
     zero_certificate\<lparr>c_serial_number := Some serial, c_subject := csr_subject csr,
       c_dns_names := san_dns, c_ip_addresses := san_ip,
       c_email_addresses := csr_email_addresses csr, c_uris := csr_uris csr,
       c_not_before := now1 - 5 * minute, c_not_after := now2 + validity,
       c_key_usage := align_key_usage (csr_public_key csr) (pf_key_usage profile),
       c_ext_key_usage := pf_ext_key_usage profile, c_basic_constraints_valid := True,
       c_is_ca := pf_is_ca profile, c_max_path_len := pf_max_path_len profile,
       c_max_path_len_zero := pf_max_path_len_zero profile, c_subject_key_id := skid,
       c_authority_key_id := authority_key_id env (au_intermediate_cert a),
       c_ocsp_server := xc_ocsp_server_urls ext_config,
       c_issuing_certificate_url := xc_issuing_certificate_urls ext_config,
       c_crl_distribution_points := xc_crl_distribution_points ext_config\<rparr>"

definition engine_of :: "'k authority \<Rightarrow> policy_engine" where
  "engine_of a = (case au_policy a of None \<Rightarrow> new_default_policy_engine | Some p \<Rightarrow> p)"

definition prepare ::
  "'k crypto_env \<Rightarrow> 'k authority \<Rightarrow> byte list \<Rightarrow> int option \<Rightarrow> profile_config \<Rightarrow> extension_config \<Rightarrow>
     duration \<Rightarrow> string list \<Rightarrow> ip list \<Rightarrow> go_time \<Rightarrow> go_time \<Rightarrow>
     authority_error + certificate_request \<times> certificate" where
  "prepare env a csr_der serial profile ext_config validity dns_names ip_addresses now1 now2 =
     (case serial of
        None \<Rightarrow> Inl SerialNotAllowed
      | Some n \<Rightarrow>
      if n \<le> 0 then Inl SerialNotAllowed
      else (case ce_parse_csr env csr_der of
        Inl e \<Rightarrow> Inl (MalformedCSR e)
      | Inr csr \<Rightarrow>
     (case ce_check_csr_signature env csr of
        Some e \<Rightarrow> Inl (BadPossession e)
      | None \<Rightarrow>
        let policy = engine_of a;
            validity = effective_validity profile validity;
            san_dns = (if length dns_names > 0 then dns_names else csr_dns_names csr);
            san_ip = (if length ip_addresses > 0 then ip_addresses else csr_ip_addresses csr)
        in
        if pf_allowed_max_validity profile > 0 \<and> validity > pf_allowed_max_validity profile
        then Inl (ValidityExceeded validity (pf_allowed_max_validity profile))
        else if pf_require_san profile \<and> san_dns = [] \<and> san_ip = [] \<and>
                csr_email_addresses csr = [] \<and> csr_uris csr = []
        then Inl SANRequired
        else (case validate_public_key policy (csr_public_key csr) of
          Some e \<Rightarrow> Inl (KeyPolicy e)
        | None \<Rightarrow>
       (case first_err (validate_dns_name policy) san_dns of
          Some e \<Rightarrow> Inl (NamePolicy e)
        | None \<Rightarrow>
       (case compute_subject_key_id env (csr_public_key csr) of
          Inl e \<Rightarrow> Inl (SubjectKeyIdError e)
        | Inr skid \<Rightarrow>
          let tmpl = leaf_template env a csr n profile ext_config validity san_dns san_ip skid now1 now2;
              lint_results = lint_certificate policy tmpl (Some (csr_public_key csr)) profile
          in if has_lint_errors lint_results then Inl (LintErrors lint_results)
             else Inr (csr, tmpl)))))))"

definition sign_certificate_with_profile ::
  "'k crypto_env \<Rightarrow> 'k authority \<Rightarrow> byte list \<Rightarrow> int option \<Rightarrow> profile_config \<Rightarrow> extension_config \<Rightarrow>
     duration \<Rightarrow> string list \<Rightarrow> ip list \<Rightarrow> go_time \<Rightarrow> go_time \<Rightarrow> byte list \<Rightarrow> authority_error + byte list" where
  "sign_certificate_with_profile env a csr_der serial profile ext_config validity dns_names
     ip_addresses now1 now2 rnd =
     (case prepare env a csr_der serial profile ext_config validity dns_names ip_addresses now1 now2 of
        Inl e \<Rightarrow> Inl e
      | Inr (csr, tmpl) \<Rightarrow>
          (case ce_create_certificate env rnd tmpl (au_intermediate_cert a) (csr_public_key csr) (au_signer a) of
             Inl e \<Rightarrow> Inl (CreateFailed e)
           | Inr der \<Rightarrow> Inr der))"

definition sign_certificate ::
  "'k crypto_env \<Rightarrow> 'k authority \<Rightarrow> byte list \<Rightarrow> int option \<Rightarrow> duration \<Rightarrow> string list \<Rightarrow>
     go_time \<Rightarrow> go_time \<Rightarrow> byte list \<Rightarrow> authority_error + byte list" where
  "sign_certificate env a csr_der serial validity dns_names now1 now2 rnd =
     sign_certificate_with_profile env a csr_der serial default_server_tls_profile
       empty_extension_config validity dns_names [] now1 now2 rnd"

text \<open>The submission loop: nil submitters are skipped, the first failure stops it.\<close>

fun submit_all ::
  "ct_submitter option list \<Rightarrow> ctx \<Rightarrow> byte list \<Rightarrow> byte list \<Rightarrow> authority_error + byte list list" where
  "submit_all [] ctx pre issuer = Inr []"
| "submit_all (None # subs) ctx pre issuer = submit_all subs ctx pre issuer"
| "submit_all (Some sub # subs) ctx pre issuer =
     (case submit_pre_certificate sub ctx pre issuer of
        Inl e \<Rightarrow> Inl (CTSubmission (sub_url sub) e)
      | Inr sct \<Rightarrow>
          (case submit_all subs ctx pre issuer of
             Inl e \<Rightarrow> Inl e
           | Inr scts \<Rightarrow> Inr (sct # scts)))"

definition sign_certificate_with_ct ::
  "'k crypto_env \<Rightarrow> 'k authority \<Rightarrow> ctx \<Rightarrow> byte list \<Rightarrow> int option \<Rightarrow> profile_config \<Rightarrow> extension_config \<Rightarrow>
     duration \<Rightarrow> string list \<Rightarrow> ct_submitter option list \<Rightarrow> go_time \<Rightarrow> go_time \<Rightarrow> byte list \<Rightarrow> byte list \<Rightarrow>
     authority_error + byte list" where
  "sign_certificate_with_ct env a ctx csr_der serial profile ext_config validity dns_names
     ct_submitters now1 now2 rnd1 rnd2 =
     (case prepare env a csr_der serial profile ext_config validity dns_names [] now1 now2 of
        Inl e \<Rightarrow> Inl e
      | Inr (csr, tmpl) \<Rightarrow>
     (case build_pre_certificate_template (Some tmpl) of
        None \<Rightarrow> Inl PreCertTemplate
      | Some pre_tmpl \<Rightarrow>
     (case ce_create_certificate env rnd1 pre_tmpl (au_intermediate_cert a) (csr_public_key csr) (au_signer a) of
        Inl e \<Rightarrow> Inl (PreCertCreate e)
      | Inr pre_der \<Rightarrow>
     (case submit_all ct_submitters ctx pre_der (c_raw (au_intermediate_cert a)) of
        Inl e \<Rightarrow> Inl e
      | Inr scts \<Rightarrow>
     (case (if length scts > 0 then
              (case serialize_sct_list scts of
                 Inl e \<Rightarrow> Inl (SCTSerialization e)
               | Inr serialized \<Rightarrow> Inr (embed_sct_list tmpl serialized))
            else Inr tmpl) of
        Inl e \<Rightarrow> Inl e
      | Inr final_tmpl \<Rightarrow>
          (case ce_create_certificate env rnd2 final_tmpl (au_intermediate_cert a) (csr_public_key csr) (au_signer a) of
             Inl e \<Rightarrow> Inl (CreateFailed e)
           | Inr der \<Rightarrow> Inr der))))))"

section \<open>What is signed\<close>

text \<open>What every template that reaches the signer satisfies.\<close>

definition issuable :: "policy_engine \<Rightarrow> profile_config \<Rightarrow> public_key \<Rightarrow> certificate \<Rightarrow> bool" where
  "issuable p profile pub t =
     (key_acceptable p pub \<and> (\<forall>d \<in> set (c_dns_names t). name_acceptable p d) \<and>
      lint_clean t (Some pub) profile)"

lemma prepare_ok:
  assumes "prepare env a csr_der serial profile ext_config validity dns_names ip_addresses now1 now2
             = Inr (csr, tmpl)"
  shows "issuable (engine_of a) profile (csr_public_key csr) tmpl"
    and "ce_parse_csr env csr_der = Inr csr" and "ce_check_csr_signature env csr = None"
    and "serial = c_serial_number tmpl"
    and "c_dns_names tmpl = (if dns_names = [] then csr_dns_names csr else dns_names)"
    and "c_extra_extensions tmpl = []"
    and "c_not_before tmpl = now1 - 5 * minute"
    and "c_not_after tmpl = now2 + effective_validity profile validity"
    and "pf_allowed_max_validity profile > 0 \<longrightarrow>
           effective_validity profile validity \<le> pf_allowed_max_validity profile"
    and "c_is_ca tmpl = pf_is_ca profile" and "c_basic_constraints_valid tmpl"
    and "c_subject tmpl = csr_subject csr"
  using assms
  by (auto simp: prepare_def issuable_def Let_def policy_simps leaf_template_def zero_certificate_def
      split: option.splits sum.splits if_splits)

lemma lint_clean_extensions:
  "lint_clean (t\<lparr>c_extra_extensions := xs\<rparr>) pub profile \<longleftrightarrow> lint_clean t pub profile"
  by (simp add: lint_clean_def)

end
