(* ===== verification/Signer_Pool.thy ===== *)
theory Signer_Pool
  imports Authority
begin

text \<open>
  \<open>pkg/signer\<close>: the simulated HSM and the worker pool. The pool is a state machine: a bounded
  job queue, workers that are idle, busy with one request or gone, and the answers sent. Each
  request carries its own buffered response channel, named by \<open>sr_chan\<close>.
\<close>

section \<open>The HSM signer\<close>

record 'k hsm_signer =
  hs_key :: "'k option"
  hs_latency :: duration

definition new_hsm_signer :: "'k option \<Rightarrow> duration \<Rightarrow> 'k hsm_signer" where
  "new_hsm_signer key latency = \<lparr>hs_key = key, hs_latency = latency\<rparr>"

text \<open>\<open>h.key.Public()\<close>, and \<open>Sign\<close> with the time it takes; \<open>sign\<close> is the key's own signature.\<close>

definition hsm_public :: "('k \<Rightarrow> public_key) \<Rightarrow> 'k hsm_signer \<Rightarrow> public_key option" where
  "hsm_public pub h = map_option pub (hs_key h)"

definition hsm_sign ::
  "('k \<Rightarrow> byte list \<Rightarrow> string + byte list) \<Rightarrow> 'k hsm_signer \<Rightarrow> byte list \<Rightarrow> (string + byte list) \<times> duration" where
  "hsm_sign sign h digest =
     (case hs_key h of
        None \<Rightarrow> (Inl ''hsm session uninitialized'', 0)
      | Some k \<Rightarrow> (sign k digest, if hs_latency h > 0 then hs_latency h else 0))"

section \<open>The pool\<close>

record sign_request =
  sr_csr_der :: "byte list"
  sr_serial_number :: "int option"
  sr_validity :: duration
  sr_dns_names :: "string list"
  sr_chan :: nat

type_synonym sign_response = "authority_error + byte list"

datatype worker = Idle | Busy sign_request | Exited

record 'i worker_pool =
  wp_issuer :: 'i
  wp_jobs :: "sign_request list"
  wp_queue_size :: nat
  wp_workers :: "worker list"
  wp_cancelled :: bool
  wp_closed :: bool
  wp_submitted :: "sign_request list"
  wp_answers :: "(sign_request \<times> sign_response) list"

definition new_worker_pool :: "'i \<Rightarrow> nat \<Rightarrow> nat \<Rightarrow> 'i worker_pool" where
  "new_worker_pool issuer queue_size workers =
     \<lparr>wp_issuer = issuer, wp_jobs = [], wp_queue_size = queue_size, wp_workers = replicate workers Idle,
      wp_cancelled = False, wp_closed = False, wp_submitted = [], wp_answers = []\<rparr>"

text \<open>\<open>sign\<close> is the method \<open>SignCertificate\<close> of the \<open>Issuer\<close> the pool was built with. A worker in its \<open>select\<close> may take a job even when the
  context is already cancelled, since a ready \<open>select\<close> chooses freely. \<open>QueueDepth\<close> is the
  length of the queue.\<close>

inductive pool_step :: "('i \<Rightarrow> sign_request \<Rightarrow> sign_response) \<Rightarrow> 'i worker_pool \<Rightarrow> 'i worker_pool \<Rightarrow> bool"
  for sign where
  pool_submit: "length (wp_jobs p) < wp_queue_size p \<Longrightarrow> \<not> wp_closed p \<Longrightarrow>
    pool_step sign p (p\<lparr>wp_jobs := wp_jobs p @ [req], wp_submitted := wp_submitted p @ [req]\<rparr>)"
| pool_take: "i < length (wp_workers p) \<Longrightarrow> wp_workers p ! i = Idle \<Longrightarrow> wp_jobs p = req # rest \<Longrightarrow>
    pool_step sign p (p\<lparr>wp_jobs := rest, wp_workers := (wp_workers p)[i := Busy req]\<rparr>)"
| pool_answer: "i < length (wp_workers p) \<Longrightarrow> wp_workers p ! i = Busy req \<Longrightarrow>
    pool_step sign p (p\<lparr>wp_workers := (wp_workers p)[i := Idle],
      wp_answers := wp_answers p @ [(req, sign (wp_issuer p) req)]\<rparr>)"
| pool_exit: "i < length (wp_workers p) \<Longrightarrow> wp_workers p ! i = Idle \<Longrightarrow>
    wp_cancelled p \<or> (wp_closed p \<and> wp_jobs p = []) \<Longrightarrow>
    pool_step sign p (p\<lparr>wp_workers := (wp_workers p)[i := Exited]\<rparr>)"
| pool_cancel: "pool_step sign p (p\<lparr>wp_cancelled := True\<rparr>)"

lemma pool_answerI:
  "i < length (wp_workers p) \<Longrightarrow> wp_workers p ! i = Busy req \<Longrightarrow> ans = sign (wp_issuer p) req \<Longrightarrow>
    pool_step sign p (p\<lparr>wp_workers := (wp_workers p)[i := Idle], wp_answers := wp_answers p @ [(req, ans)]\<rparr>)"
  by (simp add: pool_answer)

inductive pool_run :: "('i \<Rightarrow> sign_request \<Rightarrow> sign_response) \<Rightarrow> 'i worker_pool \<Rightarrow> 'i worker_pool \<Rightarrow> bool"
  for sign where
  pool_refl: "pool_run sign p p"
| pool_next: "pool_run sign p q \<Longrightarrow> pool_step sign q r \<Longrightarrow> pool_run sign p r"

definition queue_depth :: "'i worker_pool \<Rightarrow> nat" where
  "queue_depth p = length (wp_jobs p)"

section \<open>Every request is somewhere, once\<close>

definition busy_requests :: "'i worker_pool \<Rightarrow> sign_request multiset" where
  "busy_requests p = mset (List.map_filter (\<lambda>w. case w of Busy r \<Rightarrow> Some r | _ \<Rightarrow> None) (wp_workers p))"

definition pool_inv :: "('i \<Rightarrow> sign_request \<Rightarrow> sign_response) \<Rightarrow> 'i worker_pool \<Rightarrow> bool" where
  "pool_inv sign p =
     (mset (wp_submitted p) = mset (wp_jobs p) + busy_requests p + mset (map fst (wp_answers p)) \<and>
      (\<forall>(r, a) \<in> set (wp_answers p). a = sign (wp_issuer p) r) \<and> length (wp_jobs p) \<le> wp_queue_size p)"

fun busy_of :: "worker \<Rightarrow> sign_request multiset" where
  "busy_of (Busy r) = {#r#}"
| "busy_of _ = {#}"

lemma busy_requests_sum: "busy_requests p = sum_list (map busy_of (wp_workers p))"
proof -
  have "mset (List.map_filter (\<lambda>w. case w of Busy r \<Rightarrow> Some r | _ \<Rightarrow> None) ws) = sum_list (map busy_of ws)"
    for ws
  proof (induction ws)
    case (Cons w ws)
    then show ?case by (cases w) (simp_all add: map_filter_simps)
  qed (simp add: map_filter_simps)
  then show ?thesis by (simp add: busy_requests_def)
qed

lemma sum_update_worker:
  "i < length ws \<Longrightarrow>
     sum_list (map busy_of (ws[i := w])) + busy_of (ws ! i) = sum_list (map busy_of ws) + busy_of w"
proof (induction ws arbitrary: i)
  case (Cons v ws)
  show ?case
  proof (cases i)
    case 0
    then show ?thesis by (simp add: ac_simps)
  next
    case (Suc j)
    then show ?thesis using Cons.IH [of j] Cons.prems by (simp add: add.assoc)
  qed
qed simp

lemma pool_inv_step:
  assumes "pool_step sign p q" and "pool_inv sign p"
  shows "pool_inv sign q"
  using assms
proof (cases rule: pool_step.cases)
  case (pool_take i req rest)
  then have "busy_requests q = busy_requests p + {#req#}"
    using sum_update_worker [of i "wp_workers p" "Busy req"] by (simp add: busy_requests_sum)
  then show ?thesis using assms(2) pool_take by (auto simp: pool_inv_def)
next
  case (pool_answer i req)
  then have "busy_requests p = busy_requests q + {#req#}"
    using sum_update_worker [of i "wp_workers p" Idle] by (simp add: busy_requests_sum)
  then show ?thesis using assms(2) pool_answer by (auto simp: pool_inv_def)
next
  case (pool_exit i)
  then have "busy_requests q = busy_requests p"
    using sum_update_worker [of i "wp_workers p" Exited] by (simp add: busy_requests_sum)
  then show ?thesis using assms(2) pool_exit by (auto simp: pool_inv_def)
qed (auto simp: pool_inv_def busy_requests_def)

text \<open>A pool keeps its issuer.\<close>

lemma pool_run_issuer: "pool_run sign p q \<Longrightarrow> wp_issuer q = wp_issuer p"
  by (induction rule: pool_run.induct) (auto elim: pool_step.cases)

lemma pool_inv_run: "pool_run sign p q \<Longrightarrow> pool_inv sign p \<Longrightarrow> pool_inv sign q"
  by (induction rule: pool_run.induct) (auto intro: pool_inv_step)

lemma busy_none: "set ws \<subseteq> {Idle, Exited} \<Longrightarrow> sum_list (map busy_of ws) = {#}"
  by (induction ws) auto

lemma sum_replicate_empty: "sum_list (replicate n ({#} :: 'a multiset)) = {#}"
  by (induction n) simp_all

lemma pool_inv_new: "pool_inv sign (new_worker_pool issuer qs n)"
  by (simp add: pool_inv_def new_worker_pool_def busy_requests_sum map_replicate sum_replicate_empty)

lemma pair_answers: "\<forall>(r, a) \<in> set xs. a = f r \<Longrightarrow> map (\<lambda>r. (r, f r)) (map fst xs) = xs"
  by (induction xs) auto

text \<open>When nothing is queued or in progress, every request has exactly its answer.\<close>

lemma pool_drained:
  assumes "pool_run sign (new_worker_pool issuer qs n) p" and "wp_jobs p = []"
    and "\<forall>w \<in> set (wp_workers p). w = Idle \<or> w = Exited"
  shows "mset (wp_answers p) = mset (map (\<lambda>r. (r, sign issuer r)) (wp_submitted p))"
proof -
  have inv: "pool_inv sign p" and i: "wp_issuer p = issuer"
    using pool_inv_run [OF assms(1) pool_inv_new] pool_run_issuer [OF assms(1)]
    by (simp_all add: new_worker_pool_def)
  have "busy_requests p = {#}" using assms(3) by (subst busy_requests_sum) (rule busy_none, auto)
  then have "mset (wp_submitted p) = mset (map fst (wp_answers p))"
    using inv assms(2) by (simp add: pool_inv_def)
  then have "mset (map (\<lambda>r. (r, sign issuer r)) (wp_submitted p))
      = mset (map (\<lambda>r. (r, sign issuer r)) (map fst (wp_answers p)))" by (metis mset_map)
  also have "map (\<lambda>r. (r, sign issuer r)) (map fst (wp_answers p)) = wp_answers p"
    using inv i by (intro pair_answers) (simp add: pool_inv_def)
  finally show ?thesis by simp
qed

text \<open>A pool with an idle worker makes progress on its queue.\<close>

lemma pool_progress:
  assumes "wp_jobs p = req # rest" and "i < length (wp_workers p)" and "wp_workers p ! i = Idle"
  shows "\<exists>q. pool_run sign p q \<and> wp_jobs q = rest \<and> wp_answers q = wp_answers p @ [(req, sign (wp_issuer p) req)]"
proof -
  let ?q = "p\<lparr>wp_jobs := rest, wp_workers := (wp_workers p)[i := Busy req]\<rparr>"
  let ?r = "?q\<lparr>wp_workers := (wp_workers ?q)[i := Idle], wp_answers := wp_answers ?q @ [(req, sign (wp_issuer p) req)]\<rparr>"
  have "pool_step sign p ?q" using assms by (intro pool_step.pool_take)
  moreover have "pool_step sign ?q ?r" using assms by (intro pool_answerI) simp_all
  ultimately have "pool_run sign p ?r" by (meson pool_run.intros)
  then show ?thesis by (intro exI [of _ ?r]) simp
qed

text \<open>Once every worker is gone, the queued requests are never answered.\<close>

lemma pool_dead_step:
  assumes "pool_step sign p q" and "set (wp_workers p) \<subseteq> {Exited}"
  shows "wp_answers q = wp_answers p \<and> set (wp_workers q) \<subseteq> {Exited}"
  using assms
proof (cases rule: pool_step.cases)
  case (pool_take i req rest)
  then show ?thesis using assms(2) nth_mem [of i "wp_workers p"] by auto
next
  case (pool_answer i req)
  then show ?thesis using assms(2) nth_mem [of i "wp_workers p"] by auto
next
  case (pool_exit i)
  then show ?thesis using assms(2) nth_mem [of i "wp_workers p"] by auto
qed auto

lemma pool_dead:
  "pool_run sign p q \<Longrightarrow> set (wp_workers p) \<subseteq> {Exited} \<Longrightarrow>
     wp_answers q = wp_answers p \<and> set (wp_workers q) \<subseteq> {Exited}"
  by (induction rule: pool_run.induct) (use pool_dead_step in fastforce)+

end
