(* ===== verification/Service_Properties.thy ===== *)
theory Service_Properties
  imports Storage_Properties Crl Ocsp Audit_Log Signer_Pool
begin

text \<open>
  What the audit log, the CRL service, the OCSP responder, the revocation API and the signing pool
  guarantee, the last three over the SQLite storage.
\<close>

section \<open>The audit log\<close>

text \<open>
  C18. The audit log records every call and stays intact: from an empty log, after any sequence of
  \<open>LogEvent\<close> calls, \<open>Events\<close> returns exactly one event for each call that could draw the 16 random bytes
  of its identifier, in the order of the calls, with the action, actor, resource, status, metadata and
  time of its call and an identifier of its own bytes; \<open>VerifyChain\<close> finds nothing to report and
  \<open>EventCount\<close> is their number; and the writer, where there is one, has received those of the events
  whose writing succeeded, in that order. A call without entropy leaves no trace.
\<close>

theorem audit_chain_intact:
  "let l = fst (log_events env calls (new_chain_logger has_writer) ent);
       n = min (length calls) (length ent div 16)
   in verify_chain env l = None \<and> event_count l = n \<and>
      (\<exists>es. events l = map Some es \<and> list_all2 call_event (take n calls) es \<and>
         map ev_event_id es = map (\<lambda>i. ''evt_'' @ hex_encode (take 16 (drop (16 * i) ent))) [0..<n] \<and>
         cl_writer l = (if has_writer then Some (map fst (filter (\<lambda>(_, c). streamed c) (zip es calls))) else None))"
  using chain_inv_logs [OF chain_inv_new, of env calls has_writer ent]
    log_events_record [of env calls "new_chain_logger has_writer" ent]
  by (auto simp: Let_def chain_inv_def event_count_def events_def new_chain_logger_def)

definition length_hash :: hash_env where
  "length_hash = \<lparr>he_sha256 = (\<lambda>bs. replicate 31 0 @ [word_of_nat (length bs)]), he_format_time = (\<lambda>_. ''t'')\<rparr>"

definition sample_calls :: "log_call list" where
  "sample_calls = [(1, True, ''ISSUE'', ''acme'', ''a.dev'', ''SUCCESS'', [(''serial'', ''1f'')]),
                   (2, True, ''REVOKE'', ''admin'', ''1f'', ''SUCCESS'', [])]"

definition sample_log :: chain_logger where
  "sample_log = fst (log_events length_hash sample_calls (new_chain_logger True) (replicate 32 7))"

lemma sample_log_ok: "verify_chain length_hash sample_log = None" "event_count sample_log = 2"
proof -
  show "verify_chain length_hash sample_log = None"
    using chain_inv_logs [OF chain_inv_new, of length_hash sample_calls True "replicate 32 7"]
    unfolding sample_log_def chain_inv_def by blast
  have "16 * length sample_calls \<le> length (replicate 32 (7 :: byte))" by (simp add: sample_calls_def)
  from log_events_count [OF this] show "event_count sample_log = 2"
    by (simp only: sample_log_def) (simp add: new_chain_logger_def event_count_def sample_calls_def del: log_events.simps)
qed

theorem audit_chain_intact_witness:
  "verify_chain length_hash sample_log = None \<and> event_count sample_log = 2 \<and>
   (\<exists>a b. events sample_log = [Some a, Some b] \<and> ev_action a = ''ISSUE'' \<and> ev_actor b = ''admin'' \<and>
      cl_writer sample_log = Some [a, b])"
proof -
  have n: "min (length sample_calls) (length (replicate 32 (7 :: byte)) div 16) = 2"
    by (simp add: sample_calls_def)
  obtain es where es: "events sample_log = map Some es" "list_all2 call_event (take 2 sample_calls) es"
    "cl_writer sample_log = Some (map fst (filter (\<lambda>(_, c). streamed c) (zip es sample_calls)))"
    using audit_chain_intact [of length_hash sample_calls True "replicate 32 7"]
    unfolding n Let_def sample_log_def by auto
  then obtain a b where "es = [a, b]" "ev_action a = ''ISSUE''" "ev_actor b = ''admin''"
    by (auto simp: sample_calls_def list_all2_Cons1)
  moreover have "verify_chain length_hash sample_log = None" "event_count sample_log = 2"
    using audit_chain_intact [of length_hash sample_calls True "replicate 32 7"]
    unfolding n Let_def sample_log_def by blast+
  ultimately show ?thesis using es by (simp add: sample_calls_def)
qed

text \<open>
  C17. An edit in place is detected: changing any event but the last of an intact log in a way that
  changes its canonical text, whatever is written into its own hash field, makes \<open>VerifyChain\<close> fail,
  as long as the hash function does not collide on the two texts.
\<close>

theorem audit_edit_detected:
  assumes "verify_chain env l = None" and "Suc i < event_count l" and "cl_events l ! i = Some e"
    and "he_sha256 env (bytes_of (canonical_str env e')) \<noteq> he_sha256 env (bytes_of (canonical_str env e))"
  shows "verify_chain env (l\<lparr>cl_events := (cl_events l)[i := Some e']\<rparr>) \<noteq> None"
proof
  assume bad: "verify_chain env (l\<lparr>cl_events := (cl_events l)[i := Some e']\<rparr>) = None"
  let ?es = "cl_events l" and ?xs = "take i (cl_events l)"
  have len: "i < length ?es" "Suc i < length ?es" using assms(2) by (simp_all add: event_count_def)
  obtain nxt where nx: "drop (Suc i) ?es = nxt # drop (Suc (Suc i)) ?es"
    using len(2) by (metis Cons_nth_drop_Suc)
  have es: "?es = ?xs @ Some e # nxt # drop (Suc (Suc i)) ?es"
    using id_take_nth_drop [OF len(1)] assms(3) nx by simp
  have es': "?es[i := Some e'] = ?xs @ Some e' # nxt # drop (Suc (Suc i)) ?es"
    using upd_conv_take_nth_drop [OF len(1)] nx by simp
  have v: "verify_from env (length ?xs) (head_hash genesis_hash ?xs) (Some e # nxt # drop (Suc (Suc i)) ?es) = None"
    using assms(1) verify_from_append [of env 0 genesis_hash ?xs] es
    unfolding verify_chain_def by (metis add_0)
  have v': "verify_from env (length ?xs) (head_hash genesis_hash ?xs) (Some e' # nxt # drop (Suc (Suc i)) ?es) = None"
    using bad verify_from_append [of env 0 genesis_hash ?xs] es'
    unfolding verify_chain_def by (simp del: verify_from.simps)
  obtain f where f: "nxt = Some f" using v by (cases nxt) (auto simp: Let_def split: if_splits)
  have "ev_prev_hash f = compute_event_hash env (Some e)" "ev_prev_hash f = compute_event_hash env (Some e')"
    using v v' by (auto simp: f Let_def split: if_splits)
  then show False using assms(4) by (simp add: compute_event_hash_def hex_encode_inj)
qed

lemma sample_log_first: "\<exists>e. cl_events sample_log ! 0 = Some e \<and> ev_actor e = ''acme''"
proof -
  have r: "rand_read 16 (replicate 32 (7 :: byte)) = Some (replicate 16 7, replicate 16 7)"
    "rand_read 16 (replicate 16 (7 :: byte)) = Some (replicate 16 7, [])"
    by (simp_all add: rand_read_def)
  show ?thesis
    by (simp add: sample_log_def sample_calls_def log_event_def r Let_def new_chain_logger_def new_event_def)
qed

theorem audit_edit_detected_witness:
  "\<exists>e. cl_events sample_log ! 0 = Some e \<and>
     verify_chain length_hash (sample_log\<lparr>cl_events := (cl_events sample_log)[0 := Some (e\<lparr>ev_actor := ''mallory''\<rparr>)]\<rparr>) \<noteq> None"
proof -
  note v = sample_log_ok
  obtain e where e: "cl_events sample_log ! 0 = Some e" and a: "ev_actor e = ''acme''"
    using sample_log_first by blast
  have "length (canonical_str length_hash (e\<lparr>ev_actor := ''mallory''\<rparr>)) = 3 + length (canonical_str length_hash e)"
    using a by (simp add: canonical_str_def canonical_prefix_def)
  then have "he_sha256 length_hash (bytes_of (canonical_str length_hash (e\<lparr>ev_actor := ''mallory''\<rparr>))) \<noteq>
      he_sha256 length_hash (bytes_of (canonical_str length_hash e))"
    by (simp add: length_hash_def)
  then show ?thesis
    using audit_edit_detected [of length_hash sample_log 0 e] v e by (intro exI [of _ e]) simp
qed

text \<open>
  The end of the log is not protected: dropping any number of the most recent events from an
  intact log, or putting any forged event with a recomputed hash in the place of the last one, leaves
  a log that \<open>VerifyChain\<close> accepts, since the recorded last hash is not consulted.
\<close>

theorem audit_tail_unprotected:
  assumes "verify_chain env l = None"
  shows "verify_chain env (l\<lparr>cl_events := take k (cl_events l)\<rparr>) = None \<and>
    verify_chain env (l\<lparr>cl_events := take k (cl_events l) @
      [Some (forged\<lparr>ev_prev_hash := head_hash genesis_hash (take k (cl_events l)),
         ev_hash := compute_event_hash env
           (Some (forged\<lparr>ev_prev_hash := head_hash genesis_hash (take k (cl_events l))\<rparr>))\<rparr>)]\<rparr>) = None"
proof -
  have "verify_from env 0 genesis_hash (take k (cl_events l) @ drop k (cl_events l)) = None"
    using assms by (simp add: verify_chain_def)
  then have "verify_from env 0 genesis_hash (take k (cl_events l)) = None" by (rule prefix_verifies)
  then show ?thesis
    by (simp add: verify_chain_def verify_from_append Let_def)
qed

theorem audit_tail_unprotected_witness:
  "verify_chain length_hash (sample_log\<lparr>cl_events := take 1 (cl_events sample_log)\<rparr>) = None"
proof -
  from audit_tail_unprotected [OF sample_log_ok(1), of 1] show ?thesis by blast
qed

text \<open>The fields are joined with a bar that is not escaped, so different events can have one hash.\<close>

lemma audit_ambiguous_fields:
  "compute_event_hash env (Some (e\<lparr>ev_action := ''ISSUE|x'', ev_actor := ''y''\<rparr>)) =
   compute_event_hash env (Some (e\<lparr>ev_action := ''ISSUE'', ev_actor := ''x|y''\<rparr>))"
  by (simp add: compute_event_hash_def canonical_str_def canonical_prefix_def)

section \<open>CRLs\<close>

lemma format_31: "format_serial (Some 31) = ''1f''"
  by code_simp

text \<open>
  C15. A CRL generated over a reachable SQLite database, whose revoked serials are ones the program
  formatted, lists exactly the recorded revocations: one entry per revoked certificate with its
  recorded time and reason and no other, sorted by time; its number is one above the generator's
  last, it is valid from one minute before the clock's reading for the configured period, and it is
  created by the configured issuer and key.
\<close>

theorem crl_lists_revocations:
  assumes "storage_run sqlite_ops sql_env_ok init_schema db" and "sql_env_ok env"
    and "\<forall>rec \<in> set (db_revocations db). \<exists>n > 0. rr_serial rec = format_serial (Some n)"
    and "cg_storage g = sqlite_ops" and "generate_crl create g db env now = Some (Inr der, g')"
  shows "\<exists>es. create \<lparr>rl_number = cg_crl_number g + 1, rl_this_update = now - minute,
        rl_next_update = now + cg_validity g, rl_entries = es\<rparr> (cg_issuer_cert g) (cg_signer g) = Inr der \<and>
    cg_crl_number g' = cg_crl_number g + 1 \<and>
    (\<forall>n > 0. \<forall>t c. \<lparr>re_serial_number = n, re_revocation_time = t, re_reason_code = c\<rparr> \<in> set es \<longleftrightarrow>
       \<lparr>rr_serial = format_serial (Some n), rr_revoked_at = t, rr_reason = c\<rparr> \<in> set (db_revocations db)) \<and>
    distinct (map re_serial_number es) \<and> sorted (map re_revocation_time es)"
proof -
  have inv: "sqlite_inv db" using sq.run_preserves [OF assms(1)] by simp
  have sel: "sql_select_revocation k db = Some r \<longleftrightarrow> r \<in> set (db_revocations db) \<and> rr_serial r = k" for k r
    using find_key_mem [of rr_serial "db_revocations db" r] inv
    by (auto simp: sql_select_revocation_def sqlite_inv_def dest: find_key_Some)
  have ne: "\<forall>k r. st_revs (sqlite_view db) k = Some r \<longrightarrow> (\<exists>n > 0. k = format_serial (Some n))"
    using assms(3) by (auto simp: sel)
  obtain recs es where l: "sqlite_list_revoked db env = Inr recs" and c: "convert_records recs = Inr es"
    and cr: "create \<lparr>rl_number = cg_crl_number g + 1, rl_this_update = now - minute,
        rl_next_update = now + cg_validity g, rl_entries = es\<rparr> (cg_issuer_cert g) (cg_signer g) = Inr der"
    and g': "cg_crl_number g' = cg_crl_number g + 1"
    using assms(4,5) by (auto simp: generate_crl_def generate_crl_locked_def Let_def split: if_splits sum.splits)
  from sq.generated_entries [OF inv assms(2), unfolded sqlite_ops_simps, OF l ne] c cr g' show ?thesis
    by (auto simp: sel)
qed

definition sample_generator :: "(nat, sqlite_db, sql_env) crl_generator" where
  "sample_generator = \<lparr>cg_issuer_cert = zero_certificate, cg_signer = 1, cg_storage = sqlite_ops,
     cg_validity = 24 * hour, cg_crl_number = 4, cg_locked = False\<rparr>"

lemma revoked_db_revocations:
  "db_revocations revoked_db = [\<lparr>rr_serial = ''1f'', rr_revoked_at = 8, rr_reason = 1\<rparr>]"
  by (simp add: revoked_db_def)

lemma sample_crl:
  "generate_crl (\<lambda>t c k. Inr [1]) sample_generator revoked_db calm 100 =
     Some (Inr [1], sample_generator\<lparr>cg_crl_number := 5\<rparr>)"
proof -
  have "int_set_string16 (normalize_serial ''1f'') = Some 31" by code_simp
  then show ?thesis
    by (simp add: generate_crl_def generate_crl_locked_def sample_generator_def sqlite_list_revoked_def
        revoked_db_revocations Let_def)
qed

theorem crl_lists_revocations_witness:
  "\<exists>es. \<lparr>re_serial_number = 31, re_revocation_time = 8, re_reason_code = 1\<rparr> \<in> set es \<and> sorted (map re_revocation_time es)"
proof -
  have f: "\<forall>rec \<in> set (db_revocations revoked_db). \<exists>n > 0. rr_serial rec = format_serial (Some n)"
    using format_31 by (intro ballI exI [of _ 31]) (simp add: revoked_db_revocations)
  have "cg_storage sample_generator = sqlite_ops" by (simp add: sample_generator_def)
  from crl_lists_revocations [OF revoked_run calm_ok f this sample_crl] obtain es where
    e: "\<forall>n > 0. \<forall>t c. \<lparr>re_serial_number = n, re_revocation_time = t, re_reason_code = c\<rparr> \<in> set es \<longleftrightarrow>
       \<lparr>rr_serial = format_serial (Some n), rr_revoked_at = t, rr_reason = c\<rparr> \<in> set (db_revocations revoked_db)"
    and s: "sorted (map re_revocation_time es)" by blast
  have "\<lparr>re_serial_number = 31, re_revocation_time = 8, re_reason_code = 1\<rparr> \<in> set es"
    using e [rule_format, of 31 8 1] by (simp add: revoked_db_revocations format_31)
  with s show ?thesis by blast
qed

text \<open>
  The background refresh never works: on its first tick the goroutine takes the generator's mutex
  with \<open>TryLock\<close> and then waits for it in \<open>Regenerate\<close>, for good. From then on, whatever ticks, calls
  and stops follow, every \<open>Regenerate\<close> hangs (the result None), the handler keeps serving the CRL
  that was current at the first tick, and the goroutine never notices \<open>Stop\<close>.
\<close>

theorem crl_refresh_deadlock:
  assumes "cs_ticker sv = Waiting"
  shows "let sv' = service_run create sv (Tick s env now now2 # evs) in
    latest_crl sv' = latest_crl sv \<and> cs_ticker sv' = BlockedOnMutex \<and>
    regenerate create sv' s' env' now' now2' = None"
proof -
  let ?sv = "sv\<lparr>cs_generator := (cs_generator sv)\<lparr>cg_locked := True\<rparr>, cs_ticker := BlockedOnMutex\<rparr>"
  have "service_run create sv (Tick s env now now2 # evs) = service_run create ?sv evs"
    by (simp add: service_run_def ticker_round_first [OF assms])
  moreover have "latest_crl ?sv = latest_crl sv" by (simp add: latest_crl_def)
  ultimately show ?thesis
    using stuck_run [of ?sv create evs] by (simp add: Let_def regenerate_locked)
qed

theorem crl_refresh_deadlock_witness:
  "\<exists>sv :: (nat, sqlite_db, sql_env) crl_service.
     start_service (\<lambda>t c k. Inr [1]) (new_crl_service sample_generator hour) init_schema calm 5 6 = Some (None, sv) \<and>
     regenerate (\<lambda>t c k. Inr [1]) (service_run (\<lambda>t c k. Inr [1]) sv [Tick init_schema calm 7 8]) init_schema calm 9 9 = None"
proof -
  obtain sv :: "(nat, sqlite_db, sql_env) crl_service" where
    sv: "start_service (\<lambda>t c k. Inr [1]) (new_crl_service sample_generator hour) init_schema calm 5 6 = Some (None, sv)"
      "cs_ticker sv = Waiting"
    by (simp add: start_service_def new_crl_service_def regenerate_def generate_crl_def generate_crl_locked_def
        sample_generator_def sqlite_list_revoked_def init_schema_def Let_def)
  from crl_refresh_deadlock [OF sv(2), where evs = "[]"] sv(1) show ?thesis unfolding Let_def by blast
qed

section \<open>OCSP\<close>

text \<open>
  C16. The responder's answer is the truth about the store, read in two steps over a running database:
  it says \<open>good\<close> only for a certificate that is stored and not revoked, \<open>unknown\<close> only for a serial
  with no certificate, and \<open>revoked\<close> only for a certificate flagged revoked; and it never says
  \<open>good\<close> again after a revocation that succeeded.
\<close>

theorem ocsp_status_sound:
  assumes "storage_run sqlite_ops sql_env_ok init_schema db1" and "storage_run sqlite_ops sql_env_ok db1 db2"
    and "sql_env_ok env1" and "sql_env_ok env2" and "oh_storage h = Some sqlite_ops" and "0 < serial"
    and "ocsp_status_of h (db1, env1) (db2, env2) serial = Some (st, t, n)"
  shows "(case st of
      Unknown \<Rightarrow> sql_select_certificate (format_serial (Some serial)) db1 = None
    | Good \<Rightarrow> (\<exists>w. sql_select_certificate (format_serial (Some serial)) db1 = Some w \<and> cw_revoked w \<noteq> 1)
    | Revoked \<Rightarrow> (\<exists>w. sql_select_certificate (format_serial (Some serial)) db1 = Some w \<and> cw_revoked w = 1)) \<and>
    (\<forall>db0 env now reason at dbr. sqlite_inv db0 \<and> sql_env_ok env \<and>
       sqlite_revoke_certificate db0 env now (format_serial (Some serial)) reason at = (None, dbr) \<and>
       storage_run sqlite_ops sql_env_ok dbr db1 \<longrightarrow>
       st = Revoked \<and> ((t, n) = (if at = 0 then now else at, reason) \<or> (t, n) = (0, 0)))"
proof (intro conjI allI impI)
  have inv: "sqlite_inv db1" using sq.run_preserves [OF assms(1)] by simp
  show "case st of
      Unknown \<Rightarrow> sql_select_certificate (format_serial (Some serial)) db1 = None
    | Good \<Rightarrow> (\<exists>w. sql_select_certificate (format_serial (Some serial)) db1 = Some w \<and> cw_revoked w \<noteq> 1)
    | Revoked \<Rightarrow> (\<exists>w. sql_select_certificate (format_serial (Some serial)) db1 = Some w \<and> cw_revoked w = 1)"
    using sq.status_sound [OF inv assms(3,4,2,5,6,7)]
    by (cases st) (auto simp: cert_of_row_def)
  fix db0 env now reason at dbr
  assume r: "sqlite_inv db0 \<and> sql_env_ok env \<and>
       sqlite_revoke_certificate db0 env now (format_serial (Some serial)) reason at = (None, dbr) \<and>
       storage_run sqlite_ops sql_env_ok dbr db1"
  have nk: "normalize_serial (format_serial (Some serial)) = format_serial (Some serial)"
    using format_serial_canonical [of serial, THEN conjunct1] assms(6) by (intro normalize_canonical) auto
  have "ocsp_status_of h (db1, env1) (db2, env2) serial \<in>
      {None, Some (Revoked, if at = 0 then now else at, reason), Some (Revoked, 0, 0)}"
    using sq.revoked_status [OF _ _ assms(3,4) _ nk _ assms(2,5,6), of db0 env now reason at dbr] r by simp
  then show "st = Revoked" "(t, n) = (if at = 0 then now else at, reason) \<or> (t, n) = (0, 0)"
    using assms(7) by auto
qed

definition sample_responder :: "(nat, sqlite_db, sql_env) ocsp_handler" where
  "sample_responder = \<lparr>oh_issuer_cert = \<lparr>ptr_addr = 0, ptr_cert = zero_certificate\<rparr>,
     oh_responder_cert = \<lparr>ptr_addr = 0, ptr_cert = zero_certificate\<rparr>, oh_signer = 1,
     oh_storage = Some sqlite_ops, oh_store = None, oh_cache_max_age = 3600, oh_validity = 24 * hour\<rparr>"

lemma sample_status: "ocsp_status_of sample_responder (revoked_db, calm) (revoked_db, calm) 31 = Some (Revoked, 8, 1)"
proof -
  have "int_text16 31 = ''1f''" by code_simp
  then show ?thesis
    by (simp add: ocsp_status_of_def sample_responder_def sqlite_get_certificate_def sqlite_get_revocation_def
        sql_select_certificate_def sql_select_revocation_def revoked_db_def sql_update_revoked_def saved_db_def
        row_of_cert_def cert_of_row_def Let_def)
qed

theorem ocsp_status_sound_witness: "\<exists>w. sql_select_certificate ''1f'' revoked_db = Some w \<and> cw_revoked w = 1"
proof -
  have "oh_storage sample_responder = Some sqlite_ops" by (simp add: sample_responder_def)
  from ocsp_status_sound [OF revoked_run run_refl calm_ok calm_ok this _ sample_status] show ?thesis
    by (simp add: format_31)
qed

section \<open>The revocation API\<close>

text \<open>
  C35. The answer of the revocation API is determined by the request and the database, as long as the
  driver does not fail: 405 for another method, 400 for a body that does not decode or an empty
  serial, 404 for an unknown serial, 409 for a certificate already revoked and 200 otherwise; only
  with 200 the database changes, and then the revocation is recorded with the request's reason and
  the certificate is flagged. (A serial that is empty only after a second normalization is 500.)
\<close>

theorem revoke_api_outcome:
  assumes "storage_run sqlite_ops sql_env_ok init_schema db" and "sql_env_ok env" and "\<forall>s. se_fault env s = None"
    and "handle_revoke decode sqlite_ops env now clk r db = (resp, db')"
  shows "rs_status resp =
      (if rq_method r \<noteq> ''POST'' then 405
       else case Option.bind (rq_body r) decode of
         None \<Rightarrow> 400
       | Some (serial, reason) \<Rightarrow>
           if normalize_serial serial = [] then 400
           else let k = normalize_serial (normalize_serial serial) in
             if k = [] then 500
             else case sql_select_certificate k db of
               None \<Rightarrow> 404
             | Some w \<Rightarrow> if cw_revoked w = 1 then 409 else 200) \<and>
    (rs_status resp \<noteq> 200 \<longrightarrow> db' = db) \<and>
    (rs_status resp = 200 \<longrightarrow> (\<exists>serial reason w. Option.bind (rq_body r) decode = Some (serial, reason) \<and>
       (let k = normalize_serial (normalize_serial serial) in
        sql_select_revocation k db' = Some \<lparr>rr_serial = k, rr_revoked_at = (if now = 0 then clk else now),
          rr_reason = reason\<rparr> \<and>
        sql_select_certificate k db' = Some w \<and> cw_revoked w = 1)))"
proof (cases "rq_method r = ''POST'' \<and>
    (\<exists>serial reason. Option.bind (rq_body r) decode = Some (serial, reason) \<and> normalize_serial serial \<noteq> [])")
  case False
  then have "db' = db" and "rs_status resp = (if rq_method r \<noteq> ''POST'' then 405 else 400)"
    using assms(4) by (auto simp: handle_revoke_def Let_def split: option.splits if_splits)
  then show ?thesis using False by (cases "Option.bind (rq_body r) decode") auto
next
  case True
  then obtain serial reason where d: "Option.bind (rq_body r) decode = Some (serial, reason)"
    "normalize_serial serial \<noteq> []" and m: "rq_method r = ''POST''" by blast
  let ?k = "normalize_serial (normalize_serial serial)"
  have inv: "sqlite_inv db" using sq.run_preserves [OF assms(1)] by simp
  obtain q t where q: "sqlite_revoke_certificate db env clk (normalize_serial serial) reason now = (q, t)"
    by fastforce
  have "\<not> (\<exists>e. q = Some e \<and> infra e)" using sqlite_revoke_no_infra [OF inv _ q [THEN trans]] assms(3) q
    by (metis sqlite_revoke_no_infra inv)
  then have sp: "(q, sqlite_view t) = spec_revoke (sqlite_view db) clk (normalize_serial serial) reason now"
    using sqlite_revoke_law [OF inv q] write_ok_spec by blast
  have same: "q \<noteq> None \<Longrightarrow> t = db"
    using q by (auto simp: sqlite_revoke_certificate_def Let_def split: option.splits if_splits sum.splits)
  have t: "db' = t" and st: "rs_status resp = (case q of None \<Rightarrow> 200 | Some ErrNotFound \<Rightarrow> 404
      | Some ErrAlreadyRevoked \<Rightarrow> 409 | Some _ \<Rightarrow> 500)"
    using assms(4) d m q
    by (auto simp: handle_revoke_def Let_def split: option.splits storage_error.splits)
  consider "?k = []" "q = Some ErrInvalidInput" | "?k \<noteq> []" "sql_select_certificate ?k db = None" "q = Some ErrNotFound"
    | w where "?k \<noteq> []" "sql_select_certificate ?k db = Some w" "cw_revoked w = 1" "q = Some ErrAlreadyRevoked"
    | w where "?k \<noteq> []" "sql_select_certificate ?k db = Some w" "cw_revoked w \<noteq> 1" "q = None"
    using sp by (auto simp: spec_revoke_def Let_def cert_of_row_def split: if_splits option.splits)
  then show ?thesis
  proof cases
    case (4 w)
    then have ok: "spec_revoke (sqlite_view db) clk (normalize_serial serial) reason now = (None, sqlite_view t)"
      using sp by simp
    obtain v where v: "sql_select_certificate ?k t = Some v" "cw_revoked v = 1"
      using spec_revoke_success(3) [OF ok] by (auto simp: cert_of_row_def)
    show ?thesis using 4 d m st t v spec_revoke_success(2) [OF ok] by (simp add: Let_def)
  qed (use d m st t same in \<open>simp_all add: Let_def\<close>)
qed

definition revoke_request :: request where
  "revoke_request = \<lparr>rq_method = ''POST'', rq_path = ''/revoke'', rq_escaped_path = ''/revoke'', rq_raw_query = [],
     rq_query = [], rq_headers = [], rq_body = Some [1], rq_ctx = None\<rparr>"

theorem revoke_api_outcome_witness:
  "rs_status (fst (handle_revoke (\<lambda>_. Some (''0x1F'', 4)) sqlite_ops calm 0 9 revoke_request saved_db)) = 200 \<and>
   rs_status (fst (handle_revoke (\<lambda>_. Some (''1f'', 4)) sqlite_ops calm 0 9 revoke_request revoked_db)) = 409"
proof -
  have k: "normalize_serial ''0x1F'' = ''1f''" "normalize_serial ''1f'' = ''1f''" by code_simp+
  have "\<exists>w. sql_select_certificate ''1f'' saved_db = Some w \<and> cw_revoked w \<noteq> 1"
    "\<exists>w. sql_select_certificate ''1f'' revoked_db = Some w \<and> cw_revoked w = 1"
    by (simp_all add: sql_select_certificate_def saved_db_def revoked_db_def sql_update_revoked_def
        row_of_cert_def sample_cert_def)
  then show ?thesis
    using revoke_api_outcome [OF saved_run calm_ok _ prod.collapse [symmetric],
        of "\<lambda>_. Some (''0x1F'', 4)" 0 9 revoke_request]
      revoke_api_outcome [OF revoked_run calm_ok _ prod.collapse [symmetric],
        of "\<lambda>_. Some (''1f'', 4)" 0 9 revoke_request]
    by (auto simp: revoke_request_def k Let_def)
qed

section \<open>The signing pool\<close>

text \<open>
  C24. However submissions, workers and shutdown interleave, the pool invents nothing and loses
  nothing: every answer sent is the issuer's result for that request, no request is answered more
  often than it was submitted, the queue never outgrows its bound, and once the queue is empty and no
  worker is busy every submitted request has had its answer.
\<close>

theorem pool_answers_once:
  assumes "pool_run sign (new_worker_pool issuer queue_size workers) p"
  shows "(\<forall>(req, ans) \<in> set (wp_answers p). ans = sign issuer req) \<and>
    mset (map fst (wp_answers p)) \<subseteq># mset (wp_submitted p) \<and>
    queue_depth p \<le> wp_queue_size p \<and>
    (wp_jobs p = [] \<and> (\<forall>w \<in> set (wp_workers p). w = Idle \<or> w = Exited) \<longrightarrow>
       mset (wp_answers p) = mset (map (\<lambda>req. (req, sign issuer req)) (wp_submitted p)))"
proof -
  have "pool_inv sign p" "wp_issuer p = issuer"
    using pool_inv_run [OF assms pool_inv_new] pool_run_issuer [OF assms] by (simp_all add: new_worker_pool_def)
  then show ?thesis
    using pool_drained [OF assms] by (simp add: pool_inv_def queue_depth_def)
qed

definition sample_request :: sign_request where
  "sample_request = \<lparr>sr_csr_der = [1], sr_serial_number = Some 7, sr_validity = hour, sr_dns_names = [], sr_chan = 0\<rparr>"

lemma sample_pool_run:
  "\<exists>p. pool_run sign (new_worker_pool issuer 2 1) p \<and> wp_jobs p = [] \<and> wp_workers p = [Idle] \<and>
     wp_submitted p = [sample_request]"
proof -
  let ?p0 = "new_worker_pool issuer 2 1"
  let ?p1 = "?p0\<lparr>wp_jobs := wp_jobs ?p0 @ [sample_request], wp_submitted := wp_submitted ?p0 @ [sample_request]\<rparr>"
  let ?p2 = "?p1\<lparr>wp_jobs := [], wp_workers := (wp_workers ?p1)[0 := Busy sample_request]\<rparr>"
  let ?p3 = "?p2\<lparr>wp_workers := (wp_workers ?p2)[0 := Idle], wp_answers := wp_answers ?p2 @ [(sample_request, sign issuer sample_request)]\<rparr>"
  have "pool_step sign ?p0 ?p1" by (rule pool_step.pool_submit) (simp_all add: new_worker_pool_def)
  moreover have "pool_step sign ?p1 ?p2" by (rule pool_step.pool_take) (simp_all add: new_worker_pool_def)
  moreover have "pool_step sign ?p2 ?p3" by (rule pool_answerI) (simp_all add: new_worker_pool_def)
  ultimately have "pool_run sign ?p0 ?p3" by (meson pool_run.intros)
  then show ?thesis by (intro exI [of _ ?p3]) (simp add: new_worker_pool_def)
qed

theorem pool_answers_once_witness:
  "\<exists>p :: unit worker_pool. mset (wp_answers p) = {#(sample_request, Inr [9])#}"
proof -
  obtain p where p: "pool_run (\<lambda>_ _. Inr [9]) (new_worker_pool () 2 1) p" "wp_jobs p = []" "wp_workers p = [Idle]"
    "wp_submitted p = [sample_request]" using sample_pool_run [of "\<lambda>_ _. Inr [9]" "()"] by blast
  have "mset (wp_answers p) = {#(sample_request, Inr [9])#}"
    using pool_answers_once [OF p(1)] p(2-4) by simp
  then show ?thesis by blast
qed

end
