(* ===== verification/Sample_Crypto.thy ===== *)
theory Sample_Crypto
  imports Authority
begin

text \<open>
  Concrete instances of the cryptographic environment, on which the witnesses of the properties
  evaluate the code. \<open>table_env\<close> "issues" the certificates of a given table: creating one looks the
  entry up by the template's fields, and parsing looks it up by its encoding, so that the
  documented round trip of \<open>create_parse_ok\<close> holds.
\<close>

definition sample_key :: public_key where
  "sample_key = Ed25519Key (replicate 32 7)"

definition sample_csr :: certificate_request where
  "sample_csr =
     \<lparr>csr_subject = \<lparr>nm_organization = [], nm_common_name = ''www.go.dev''\<rparr>,
      csr_public_key = sample_key, csr_dns_names = [''www.go.dev''], csr_ip_addresses = [],
      csr_email_addresses = [], csr_uris = [], csr_signature = [1]\<rparr>"

definition table_create :: "certificate list \<Rightarrow> certificate \<Rightarrow> certificate \<Rightarrow> public_key \<Rightarrow> string + byte list" where
  "table_create tbl t p pub =
     (case List.find (\<lambda>c. same_tbs t c \<and> c_issuer c = c_subject p \<and> c_public_key c = pub) tbl of
        None \<Rightarrow> Inl ''unsupported template''
      | Some c \<Rightarrow> Inr (c_raw c))"

definition table_env :: "certificate list \<Rightarrow> nat crypto_env" where
  "table_env tbl =
     \<lparr>ce_parse_csr = (\<lambda>bs. if bs = [1] then Inr sample_csr else Inl ''asn1''),
      ce_check_csr_signature = (\<lambda>_. None),
      ce_marshal_pkix = (\<lambda>_. Inr [2]), ce_spki_bits = (\<lambda>_. Inr [3]),
      ce_sha1 = (\<lambda>_. replicate 20 9), ce_sha256 = (\<lambda>_. replicate 32 8),
      ce_public = (\<lambda>k. if k = 0 then RSAKey 15 3 else sample_key),
      ce_generate_rsa = (\<lambda>_ _. Inr 0),
      ce_create_certificate = (\<lambda>_ t p pub _. table_create tbl t p pub),
      ce_parse_certificate = (\<lambda>der. case List.find (\<lambda>c. c_raw c = der) tbl of
         None \<Rightarrow> Inl ''asn1'' | Some c \<Rightarrow> Inr c)\<rparr>"

lemma table_env_simps [simp]:
  "ce_parse_csr (table_env tbl) [1] = Inr sample_csr"
  "ce_check_csr_signature (table_env tbl) csr = None"
  "ce_marshal_pkix (table_env tbl) k = Inr [2]" "ce_spki_bits (table_env tbl) bs = Inr [3]"
  "ce_sha1 (table_env tbl) bs = replicate 20 9" "ce_sha256 (table_env tbl) bs = replicate 32 8"
  "ce_generate_rsa (table_env tbl) n rnd = Inr 0"
  "ce_public (table_env tbl) h = (if h = 0 then RSAKey 15 3 else sample_key)"
  "ce_create_certificate (table_env tbl) rnd t p pub hsm = table_create tbl t p pub"
  by (simp_all add: table_env_def)

lemma table_env_ok: "distinct (map c_raw tbl) \<Longrightarrow> create_parse_ok (table_env tbl)"
proof -
  assume d: "distinct (map c_raw tbl)"
  have "ce_parse_certificate (table_env tbl) (c_raw c) = Inr c" if "c \<in> set tbl" for c
    using find_key_mem [OF d that] by (simp add: table_env_def)
  then show ?thesis
    by (auto simp: create_parse_ok_def table_create_def find_Some_iff split: option.splits)
qed

text \<open>A table with one issued certificate for the sample request.\<close>

definition sample_issuer :: certificate where
  "sample_issuer = zero_certificate\<lparr>c_subject := \<lparr>nm_organization = [], nm_common_name = ''CA''\<rparr>,
     c_subject_key_id := [5], c_is_ca := True, c_raw := [6]\<rparr>"

definition sample_leaf :: certificate where
  "sample_leaf = zero_certificate\<lparr>c_serial_number := Some 77, c_subject := csr_subject sample_csr,
     c_issuer := c_subject sample_issuer, c_public_key := sample_key,
     c_dns_names := csr_dns_names sample_csr, c_not_before := 700 * second,
     c_not_after := 1000 * second + 30 * 24 * hour, c_subject_key_id := replicate 20 9,
     c_basic_constraints_valid := True, c_raw := [8]\<rparr>"

definition sample_authority :: "nat authority" where
  "sample_authority = \<lparr>au_root_cert = zero_certificate, au_intermediate_cert = sample_issuer,
     au_signer = 1, au_policy = None\<rparr>"

lemmas sample_defs = sample_key_def sample_csr_def sample_issuer_def sample_leaf_def sample_authority_def

lemma sample_authority_simps [simp]:
  "au_intermediate_cert sample_authority = sample_issuer" "au_signer sample_authority = 1"
  by (simp_all add: sample_authority_def)

lemma sample_engine [simp]: "engine_of sample_authority = new_default_policy_engine"
  by (simp add: engine_of_def sample_authority_def)

lemma sample_key_acceptable: "key_acceptable new_default_policy_engine sample_key"
  by (simp add: key_acceptable_def sample_key_def)

lemma sample_name_acceptable: "validate_dns_name new_default_policy_engine ''www.go.dev'' = None"
  by code_simp

definition sample_env :: "nat crypto_env" where
  "sample_env = table_env [sample_leaf]"

lemma sample_env_ok: "create_parse_ok sample_env"
  unfolding sample_env_def by (rule table_env_ok) simp

lemma sample_leaf_template:
  "prepare sample_env sample_authority [1] (Some 77) default_server_tls_profile empty_extension_config
     (30 * 24 * hour) [] [] (1000 * second) (1000 * second) =
   Inr (sample_csr, leaf_template sample_env sample_authority sample_csr 77 default_server_tls_profile
     empty_extension_config (30 * 24 * hour) [''www.go.dev''] [] (replicate 20 9) (1000 * second) (1000 * second))"
  by code_simp

lemma sample_create:
  "ce_create_certificate sample_env rnd (leaf_template sample_env sample_authority sample_csr 77
     default_server_tls_profile empty_extension_config (30 * 24 * hour) [''www.go.dev''] [] (replicate 20 9)
     (1000 * second) (1000 * second)) sample_issuer sample_key 1 = Inr [8]"
  by code_simp

end
