(* ===== verification/Issuance_Properties.thy ===== *)
theory Issuance_Properties
  imports Sample_Crypto Storage_Properties
begin

text \<open>
  What serial allocation, the policy engine, the linter, the issuing authority and the
  certificate-transparency code guarantee together.
\<close>

section \<open>Serial numbers\<close>

lemma draw_positive_error: "draw_positive bits ent = (Inl e, ent') \<Longrightarrow> e = EntropyError"
proof (induction bits ent arbitrary: ent' rule: draw_positive.induct)
  case (1 bits ent)
  then show ?case by (auto simp: draw_positive.simps [of bits ent] split: if_splits option.splits)
qed

text \<open>
  C33. Every serial \<open>GenerateSerialWithBits\<close> returns is positive, below \<open>2 ^ bits\<close> and fits the 20
  octets of RFC 5280; a width outside 64..159 is refused without reading entropy, and inside it the
  call fails only when the entropy source runs dry.
\<close>

theorem generated_serial_bounds:
  "case generate_serial_with_bits bits ent of
     (Inr n, ent') \<Rightarrow> 64 \<le> bits \<and> bits \<le> 159 \<and> 0 < n \<and> n < 2 ^ nat bits \<and> bit_len n \<le> 159
   | (Inl e, ent') \<Rightarrow>
       if 64 \<le> bits \<and> bits \<le> 159 then e = EntropyError else e = ErrInvalidSerialBits bits \<and> ent' = ent"
proof -
  obtain r ent' where r: "generate_serial_with_bits bits ent = (r, ent')" by fastforce
  show ?thesis
  proof (cases r)
    case (Inl e)
    then show ?thesis using r draw_positive_error
      by (auto simp: generate_serial_with_bits_def min_serial_bits_def max_serial_bits_def split: if_splits)
  next
    case (Inr n)
    then show ?thesis using r generate_serial_Inr [of bits ent n ent'] by simp
  qed
qed

text \<open>
  C32. The textual form of serials is lossless: a positive serial formatted and parsed again, with or
  without the \<open>0x\<close> prefix, gives the same number, and distinct serials have distinct texts, which
  \<open>NormalizeSerial\<close> leaves alone.
\<close>

theorem serial_text_roundtrip:
  assumes "0 < n"
  shows "parse_serial (format_serial (Some n)) = Inr n \<and> parse_serial (''0x'' @ format_serial (Some n)) = Inr n \<and>
    normalize_serial (format_serial (Some n)) = format_serial (Some n) \<and>
    (\<forall>m > 0. format_serial (Some m) = format_serial (Some n) \<longrightarrow> m = n)"
  using assms parse_format parse_prefixed_format format_serial_inj by simp

theorem serial_text_roundtrip_witness: "parse_serial (''0x'' @ format_serial (Some 48879)) = Inr 48879"
  using serial_text_roundtrip [of 48879] by simp

lemma reserved_fresh:
  assumes "storage_run sqlite_ops sql_env_ok init_schema db"
    and "\<forall>i. sql_env_ok (fst (snd (envs i)))"
    and "generate_and_reserve_serial (Some sqlite_ops) envs db ent = (r, db', ent')"
  shows "case r of
      Inl _ \<Rightarrow> sqlite_view db' = sqlite_view db
    | Inr n \<Rightarrow> 0 < n \<and> n < 2 ^ 128 \<and> format_serial (Some n) \<notin> sr_serial ` set (db_serials db) \<and>
        format_serial (Some n) \<in> sr_serial ` set (db_serials db') \<and>
        sql_select_certificate (format_serial (Some n)) db = None"
proof -
  have inv: "sqlite_inv db" using sq.run_preserves [OF assms(1)] by simp
  let ?envs = "map envs [0..<max_reservation_retries]"
  have ok: "list_all (\<lambda>(_, e, _). sql_env_ok e) ?envs"
    using assms(2) by (auto simp: list_all_iff case_prod_unfold)
  have "reserve_attempts sqlite_ops default_serial_bits ?envs db ent = (r, db', ent')"
    using assms(3) by (simp add: generate_and_reserve_serial_def generate_and_reserve_serial_with_bits_def)
  note res = sq.reserve_attempts_ok [OF this inv ok]
  show ?thesis
  proof (cases r)
    case (Inl e)
    with res show ?thesis by simp
  next
    case (Inr n)
    let ?h = "format_serial (Some n)"
    have n: "0 < n" "n < 2 ^ 128" and new: "?h \<notin> st_serials (sqlite_view db)"
      and v: "sqlite_view db' = (sqlite_view db)\<lparr>st_serials := insert ?h (st_serials (sqlite_view db))\<rparr>"
      using res Inr by (simp_all add: default_serial_bits_def)
    have "st_serials (sqlite_view db') = insert ?h (st_serials (sqlite_view db))" using v by simp
    moreover have "sql_select_certificate ?h db = None" using stored_serial [OF inv] new by fastforce
    ultimately show ?thesis using Inr n new by auto
  qed
qed

text \<open>
  C9. A serial that \<open>GenerateAndReserveSerial\<close> returns over a SQLite database was not in use before
  the call and is recorded after it, so no two issuances can share a serial; when the call fails
  instead, no serial has been consumed and the stored certificates and revocations are as before.
\<close>

theorem allocated_serial_fresh:
  assumes "storage_run sqlite_ops sql_env_ok init_schema db"
    and "\<forall>i. sql_env_ok (fst (snd (envs i)))"
    and "generate_and_reserve_serial (Some sqlite_ops) envs db ent = (r, db', ent')"
  shows "case r of
      Inl _ \<Rightarrow> sqlite_view db' = sqlite_view db
    | Inr n \<Rightarrow> 0 < n \<and> n < 2 ^ 128 \<and> format_serial (Some n) \<notin> sr_serial ` set (db_serials db) \<and>
        format_serial (Some n) \<in> sr_serial ` set (db_serials db') \<and>
        sql_select_certificate (format_serial (Some n)) db = None"
  by (rule reserved_fresh [OF assms])

lemma sample_draw: "generate_serial_with_bits 128 (replicate 15 0 @ [42]) = (Inr 42, [])"
proof -
  have "replicate 15 0 @ [42] = [0, 0, 0, 0, 0, 0, 0, 0, 0, 0, 0, 0, 0, 0, 0, 42 :: byte]"
    by (simp add: eval_nat_numeral)
  then show ?thesis
    by (simp add: generate_serial_with_bits_def min_serial_bits_def max_serial_bits_def
        draw_positive.simps [of 128] rand_int_pow2_def rand_read_def be_val_def)
qed

lemma sample_allocation:
  "generate_and_reserve_serial (Some sqlite_ops) (\<lambda>_. (None, calm, 7)) init_schema (replicate 15 0 @ [42]) =
     (Inr 42, init_schema\<lparr>db_serials := [\<lparr>sr_serial = ''2a'', sr_issued_at = 7\<rparr>]\<rparr>, [])"
proof -
  have "format_serial (Some 42) = ''2a''" by code_simp
  then show ?thesis
    by (simp add: generate_and_reserve_serial_def generate_and_reserve_serial_with_bits_def
        max_reservation_retries_def default_serial_bits_def upt_rec sample_draw reserved_step)
qed

theorem allocated_serial_fresh_witness: "0 < (42::int) \<and> format_serial (Some 42) \<notin> sr_serial ` set (db_serials init_schema)"
  using allocated_serial_fresh [OF run_refl _ sample_allocation] unfolding sum.case by auto

section \<open>Policy\<close>

text \<open>
  C31. The DNS-name policy decides exactly this set: the name, lower-cased and trimmed, is not empty;
  it does not end in a disallowed suffix, except an internal one when the engine allows internal
  domains; and it has no asterisk, or wildcards are allowed and it is \<open>*.\<close> followed by a
  remainder with a dot and no further asterisk.
\<close>

theorem dns_name_policy:
  "validate_dns_name p name = None \<longleftrightarrow>
     (let s = trim_space (to_lower name) in
      s \<noteq> [] \<and>
      (\<forall>d. d \<in> set (pe_disallowed_dns_names p) \<and> (\<exists>a. s = a @ d) \<longrightarrow>
         pe_allow_internal_domains p \<and> is_internal_domain_suffix d) \<and>
      (CHR ''*'' \<notin> set s \<or>
       (pe_allow_wildcards p \<and> (\<exists>r. s = ''*.'' @ r \<and> CHR ''*'' \<notin> set r \<and> CHR ''.'' \<in> set r))))"
  using validate_dns_name_iff [of p name] unfolding name_acceptable_def wildcard_ok_def Let_def by blast

theorem dns_name_policy_witness:
  "validate_dns_name new_default_policy_engine ''*.Go.dev'' = None \<and>
   validate_dns_name new_default_policy_engine ''db.internal'' \<noteq> None"
proof -
  have t: "trim_space (to_lower ''db.internal'') = ''db'' @ ''.internal''" by code_simp
  have d: "''.internal'' \<in> set (pe_disallowed_dns_names new_default_policy_engine)"
    "\<not> pe_allow_internal_domains new_default_policy_engine" by code_simp+
  have "validate_dns_name new_default_policy_engine ''db.internal'' \<noteq> None"
    using dns_name_policy [of new_default_policy_engine "''db.internal''"] t d unfolding Let_def by metis
  moreover have "validate_dns_name new_default_policy_engine ''*.Go.dev'' = None" by code_simp
  ultimately show ?thesis by blast
qed

text \<open>
  The suffix test can be side-stepped: a name the default policy forbids is accepted once it is
  written as a fully qualified name with the trailing dot, and any text without an asterisk that
  avoids the suffixes passes as a DNS name, blanks and slashes included.
\<close>

theorem trailing_dot_accepted:
  "validate_dns_name new_default_policy_engine ''db.internal'' = Some (DisallowedName ''db.internal'' ''.internal'') \<and>
   validate_dns_name new_default_policy_engine ''db.internal.'' = None \<and>
   validate_dns_name new_default_policy_engine ''a b/c'' = None"
  by (intro conjI) code_simp+

text \<open>
  C30. The linter reports an error exactly when the template breaks one of its rules: a serial that is
  missing, not positive or longer than 159 bits; a validity period that is not chronological; basic
  constraints that are absent or disagree with the profile; key encipherment on an elliptic-curve or
  Ed25519 key; a CA without the certificate-signing usage; a missing subject alternative name where
  the profile wants one; or a server profile without the server-authentication usage.
\<close>

theorem linter_complete:
  "has_lint_errors (lint_certificate p cert pub profile) \<longleftrightarrow>
     \<not> (\<exists>n. c_serial_number cert = Some n \<and> 0 < n \<and> n < 2 ^ 159) \<or>
     c_not_after cert \<le> c_not_before cert \<or>
     \<not> c_basic_constraints_valid cert \<or> c_is_ca cert \<noteq> pf_is_ca profile \<or>
     (\<exists>k. pub = Some k \<and> is_ec_or_ed k \<and> bit (c_key_usage cert) 2) \<or>
     c_is_ca cert \<and> \<not> bit (c_key_usage cert) 5 \<or>
     pf_require_san profile \<and> c_dns_names cert = [] \<and> c_ip_addresses cert = [] \<and>
       c_email_addresses cert = [] \<and> c_uris cert = [] \<or>
     pf_type profile = ProfileServerTLS \<and> EkuServerAuth \<notin> set (c_ext_key_usage cert)"
  unfolding lint_certificate_iff lint_clean_def by (auto simp: not_less)

theorem linter_complete_witness:
  "has_lint_errors (lint_certificate new_default_policy_engine sample_leaf (Some sample_key) default_server_tls_profile)"
  unfolding linter_complete
  by (simp add: default_server_tls_profile_def sample_leaf_def zero_certificate_def ProfileServerTLS_def)

section \<open>Issued certificates\<close>

lemma signed_from_template:
  assumes "create_parse_ok env"
    and "sign_certificate_with_profile env a csr_der serial profile ext_config validity dns_names ips now1 now2 rnd
           = Inr der"
  obtains csr tmpl c where
    "prepare env a csr_der serial profile ext_config validity dns_names ips now1 now2 = Inr (csr, tmpl)"
    "ce_parse_certificate env der = Inr c" "same_tbs tmpl c"
    "c_issuer c = c_subject (au_intermediate_cert a)" "c_public_key c = csr_public_key csr"
proof -
  obtain csr tmpl where p: "prepare env a csr_der serial profile ext_config validity dns_names ips now1 now2
      = Inr (csr, tmpl)"
    and cr: "ce_create_certificate env rnd tmpl (au_intermediate_cert a) (csr_public_key csr) (au_signer a) = Inr der"
    using assms(2) by (auto simp: sign_certificate_with_profile_def split: sum.splits prod.splits)
  have "plain_extras tmpl" by (simp add: plain_extras_def prepare_ok(6) [OF p])
  then show thesis using that p cr assms(1) unfolding create_parse_ok_def by blast
qed

lemma signed_conforms:
  assumes "create_parse_ok env"
    and "sign_certificate_with_profile env a csr_der serial profile ext_config validity dns_names ips now1 now2 rnd
           = Inr der"
  shows "\<exists>csr c n. ce_parse_csr env csr_der = Inr csr \<and> ce_check_csr_signature env csr = None \<and>
    ce_parse_certificate env der = Inr c \<and>
    c_public_key c = csr_public_key csr \<and> validate_public_key (engine_of a) (csr_public_key csr) = None \<and>
    c_dns_names c = (if dns_names = [] then csr_dns_names csr else dns_names) \<and>
    (\<forall>d \<in> set (c_dns_names c). validate_dns_name (engine_of a) d = None) \<and>
    serial = Some n \<and> c_serial_number c = Some n \<and> 0 < n \<and> n < 2 ^ 159 \<and>
    c_issuer c = c_subject (au_intermediate_cert a) \<and> c_subject c = csr_subject csr \<and>
    c_is_ca c = pf_is_ca profile"
proof (rule signed_from_template [OF assms])
  fix csr tmpl c
  assume p: "prepare env a csr_der serial profile ext_config validity dns_names ips now1 now2 = Inr (csr, tmpl)"
    and c: "ce_parse_certificate env der = Inr c" "same_tbs tmpl c"
      "c_issuer c = c_subject (au_intermediate_cert a)" "c_public_key c = csr_public_key csr"
  note ok = prepare_ok [OF p]
  have iss: "key_acceptable (engine_of a) (csr_public_key csr)"
    "\<forall>d \<in> set (c_dns_names tmpl). name_acceptable (engine_of a) d"
    and clean: "lint_clean tmpl (Some (csr_public_key csr)) profile"
    using ok(1) by (simp_all add: issuable_def)
  obtain n where n: "c_serial_number tmpl = Some n" "0 < n" "n < 2 ^ 159"
    using clean by (auto simp: lint_clean_def)
  have same: "c_serial_number c = c_serial_number tmpl" "c_subject c = c_subject tmpl"
    "c_dns_names c = c_dns_names tmpl" "c_is_ca c = c_is_ca tmpl"
    using c(2) ok(11) by (simp_all add: same_tbs_def)
  show ?thesis
    by (intro exI [of _ csr] exI [of _ c] exI [of _ n])
      (use ok iss n c same in \<open>simp add: policy_simps\<close>)
qed

text \<open>
  C3. Every certificate \<open>SignCertificateWithProfile\<close> issues conforms: it answers a parseable request
  with a verified proof of possession and certifies exactly that request's key, which the policy
  accepts; all its DNS names, the caller's or else the request's, are ones the policy accepts; its
  serial is the caller's, positive and below \<open>2 ^ 159\<close>; its issuer is the intermediate's subject;
  it is a CA certificate only under a CA profile, and has a name where the profile requires one.
\<close>

theorem issued_certificate_conforms:
  assumes "create_parse_ok env"
    and "sign_certificate_with_profile env a csr_der serial profile ext_config validity dns_names ips now1 now2 rnd
           = Inr der"
  shows "\<exists>csr c n. ce_parse_csr env csr_der = Inr csr \<and> ce_check_csr_signature env csr = None \<and>
    ce_parse_certificate env der = Inr c \<and>
    c_public_key c = csr_public_key csr \<and> validate_public_key (engine_of a) (csr_public_key csr) = None \<and>
    c_dns_names c = (if dns_names = [] then csr_dns_names csr else dns_names) \<and>
    (\<forall>d \<in> set (c_dns_names c). validate_dns_name (engine_of a) d = None) \<and>
    serial = Some n \<and> c_serial_number c = Some n \<and> 0 < n \<and> n < 2 ^ 159 \<and>
    c_issuer c = c_subject (au_intermediate_cert a) \<and> c_subject c = csr_subject csr \<and>
    c_is_ca c = pf_is_ca profile"
  by (rule signed_conforms [OF assms])

lemma sample_signed:
  "sign_certificate_with_profile sample_env sample_authority [1] (Some 77) default_server_tls_profile
     empty_extension_config (30 * 24 * hour) [] [] (1000 * second) (1000 * second) [] = Inr [8]"
  unfolding sign_certificate_with_profile_def sample_leaf_template sum.case prod.case
  using sample_create [of "[]"] by (simp add: sample_csr_def)

lemma sample_parsed: "ce_parse_certificate sample_env [8] = Inr sample_leaf"
  by (simp add: sample_env_def table_env_def sample_leaf_def)

theorem issued_certificate_conforms_witness:
  "c_issuer sample_leaf = c_subject sample_issuer \<and> validate_dns_name new_default_policy_engine ''www.go.dev'' = None"
  using issued_certificate_conforms [OF sample_env_ok sample_signed]
  by (auto simp: sample_parsed sample_name_acceptable)

text \<open>
  C29. The validity period of an issued certificate runs from five minutes before the first clock
  reading to the requested validity (the profile's default where none was requested) after the
  second one, cut to whole seconds; the requested validity never exceeds the profile's ceiling, so
  the whole lifetime stays within the ceiling plus the backdating, the time between the two
  readings and the second lost to rounding.
\<close>

theorem issued_lifetime:
  assumes "create_parse_ok env"
    and "sign_certificate_with_profile env a csr_der serial profile ext_config validity dns_names ips now1 now2 rnd
           = Inr der"
  shows "\<exists>c. ce_parse_certificate env der = Inr c \<and>
    c_not_before c = trunc_second (now1 - 5 * minute) \<and>
    c_not_after c = trunc_second (now2 + effective_validity profile validity) \<and>
    now1 - 5 * minute < now2 + effective_validity profile validity \<and>
    (0 < pf_allowed_max_validity profile \<longrightarrow>
       c_not_after c - c_not_before c < pf_allowed_max_validity profile + 5 * minute + (now2 - now1) + second)"
proof (rule signed_from_template [OF assms])
  fix csr tmpl c
  assume p: "prepare env a csr_der serial profile ext_config validity dns_names ips now1 now2 = Inr (csr, tmpl)"
    and c: "ce_parse_certificate env der = Inr c" "same_tbs tmpl c"
  note ok = prepare_ok [OF p]
  let ?v = "effective_validity profile validity"
  have t: "c_not_before c = trunc_second (now1 - 5 * minute)" "c_not_after c = trunc_second (now2 + ?v)"
    using c(2) ok(7,8) by (simp_all add: same_tbs_def)
  have "c_not_before tmpl < c_not_after tmpl" using ok(1) by (simp add: issuable_def lint_clean_def)
  then have order: "now1 - 5 * minute < now2 + ?v" by (simp only: ok(7,8))
  have "c_not_after c - c_not_before c < ?v + 5 * minute + (now2 - now1) + second"
    using trunc_second_bounds [of "now1 - 5 * minute"] trunc_second_bounds [of "now2 + ?v"] unfolding t
    by linarith
  then show ?thesis using ok(9) c(1) t order by (intro exI [of _ c]) auto
qed

theorem issued_lifetime_witness: "c_not_before sample_leaf = trunc_second (1000 * second - 5 * minute)"
  using issued_lifetime [OF sample_env_ok sample_signed] by (auto simp: sample_parsed)

text \<open>
  The ceiling itself is overshot: a certificate issued with the largest validity its profile
  allows lives longer than that maximum (by the five minutes of backdating), because only the
  requested duration is compared with it.
\<close>

theorem lifetime_exceeds_ceiling:
  assumes "create_parse_ok env" and "0 < pf_allowed_max_validity profile"
    and "sign_certificate_with_profile env a csr_der serial profile ext_config (pf_allowed_max_validity profile)
           dns_names ips now now rnd = Inr der"
  shows "\<exists>c. ce_parse_certificate env der = Inr c \<and>
    pf_allowed_max_validity profile < c_not_after c - c_not_before c"
proof (rule signed_from_template [OF assms(1,3)])
  fix csr tmpl c
  let ?v = "pf_allowed_max_validity profile"
  assume p: "prepare env a csr_der serial profile ext_config ?v dns_names ips now now = Inr (csr, tmpl)"
    and c: "ce_parse_certificate env der = Inr c" "same_tbs tmpl c"
  have "c_not_before c = trunc_second (now - 5 * minute)" "c_not_after c = trunc_second (now + ?v)"
    using c(2) prepare_ok(7,8) [OF p] assms(2) by (simp_all add: same_tbs_def effective_validity_def)
  then have "?v < c_not_after c - c_not_before c"
    using trunc_second_bounds [of "now - 5 * minute"] trunc_second_bounds [of "now + ?v"] by linarith
  then show ?thesis using c(1) by blast
qed

definition long_leaf :: certificate where
  "long_leaf = sample_leaf\<lparr>c_not_after := 1000 * second + 398 * 24 * hour\<rparr>"

lemma long_signed:
  "sign_certificate_with_profile (table_env [long_leaf]) sample_authority [1] (Some 77) default_server_tls_profile
     empty_extension_config (pf_allowed_max_validity default_server_tls_profile) [] [] (1000 * second) (1000 * second) []
   = Inr [8]"
  by code_simp

theorem lifetime_exceeds_ceiling_witness: "398 * 24 * hour < c_not_after long_leaf - c_not_before long_leaf"
proof -
  have "create_parse_ok (table_env [long_leaf])" by (rule table_env_ok) simp
  moreover have "ce_parse_certificate (table_env [long_leaf]) [8] = Inr long_leaf"
    by (simp add: table_env_def long_leaf_def sample_leaf_def)
  ultimately show ?thesis
    using lifetime_exceeds_ceiling [OF _ _ long_signed] by (auto simp: default_server_tls_profile_def)
qed

lemma profile_lintable:
  assumes "get_profile name = Some profile"
  shows "pf_type profile = ProfileServerTLS \<longrightarrow> EkuServerAuth \<in> set (pf_ext_key_usage profile)"
    and "pf_is_ca profile \<longrightarrow> bit (pf_key_usage profile) 5" and "\<not> bit (pf_key_usage profile) 2"
    and "0 < pf_default_validity profile"
  using assms by (rule get_profile_cases;
      simp add: profile_defs key_usage_defs ProfileServerTLS_def ProfileClientAuth_def
        ProfileCodeSigning_def ProfileSubCA_def bit_or_iff bit_numeral_rec)+

lemma align_key_usage_clear: "\<not> bit u 2 \<Longrightarrow> \<not> bit (align_key_usage pub u) 2"
  by (simp add: align_key_usage_def bit_and_iff)

lemma align_key_usage_cert_sign: "bit u 5 \<Longrightarrow> bit (align_key_usage pub u) 5"
  by (simp add: align_key_usage_def bit_and_iff bit_not_iff key_usage_defs bit_numeral_rec)

text \<open>A conforming request passes every check before the signature.\<close>

lemma conforming_prepared:
  assumes "get_profile name = Some profile" and "ce_parse_csr env csr_der = Inr csr"
    and "ce_check_csr_signature env csr = None" and "compute_subject_key_id env (csr_public_key csr) = Inr skid"
    and "validate_public_key (engine_of a) (csr_public_key csr) = None"
    and "san = (if dns_names = [] then csr_dns_names csr else dns_names)"
    and "\<forall>d \<in> set san. validate_dns_name (engine_of a) d = None"
    and "pf_require_san profile \<longrightarrow> san \<noteq> [] \<or> csr_ip_addresses csr \<noteq> []"
    and "0 < n" and "n < 2 ^ 159"
    and "validity \<le> pf_allowed_max_validity profile" and "now1 \<le> now2"
  shows "prepare env a csr_der (Some n) profile ext_config validity dns_names [] now1 now2 =
    Inr (csr, leaf_template env a csr n profile ext_config (effective_validity profile validity) san
      (csr_ip_addresses csr) skid now1 now2)"
proof -
  let ?v = "effective_validity profile validity"
  let ?t = "leaf_template env a csr n profile ext_config ?v san (csr_ip_addresses csr) skid now1 now2"
  note prof = profile_lintable [OF assms(1)] get_profile_default_within [OF assms(1)]
  have v: "0 < ?v" "?v \<le> pf_allowed_max_validity profile"
    using prof assms(11) by (auto simp: effective_validity_def)
  have clean: "lint_clean ?t (Some (csr_public_key csr)) profile"
    using prof(1-3) assms(8-10,12) v(1) align_key_usage_clear align_key_usage_cert_sign
    by (auto simp: lint_clean_def leaf_template_def zero_certificate_def)
  then have "\<not> has_lint_errors (lint_certificate (engine_of a) ?t (Some (csr_public_key csr)) profile)"
    by (simp add: lint_certificate_iff)
  moreover have "first_err (validate_dns_name (engine_of a)) san = None" using assms(7) by simp
  ultimately show ?thesis
    using assms(2-5,6,8,9) v(2) unfolding prepare_def Let_def
    by (auto simp del: first_err_None)
qed

lemma align_key_usage_builtin:
  assumes "\<not> bit u 2"
  shows "align_key_usage pub u = u"
proof -
  have "\<not> bit (u AND KeyUsageKeyEncipherment) n" for n
    using assms usage_bit_iff(1) [of u] by simp
  then have "u AND NOT KeyUsageKeyEncipherment = u"
    by (intro bit_word_eqI) (auto simp: bit_and_iff bit_not_iff)
  then show ?thesis by (simp add: align_key_usage_def)
qed

text \<open>
  C20. Issuance is not refused without reason: under any of the built-in profiles, a request that
  parses and proves possession, whose key and names the policy accepts, with a serial in range, a
  validity within the profile's ceiling and a subject alternative name where one is required,
  passes every check including the linter. What happens then is exactly one call of the library with the
  issuer's key, on exactly this template: the caller's serial, the subject, the addresses and URIs of the
  request, the names given or else those of the request, the period from five minutes before now for the
  requested validity (or the profile's default), usages and constraints of the profile, the key
  identifiers of the key and of the issuer, and the publication points of the configuration. Its
  certificate is returned, its error is the error.
\<close>

theorem conforming_request_issued:
  assumes "get_profile name = Some profile" and "ce_parse_csr env csr_der = Inr csr"
    and "ce_check_csr_signature env csr = None" and "compute_subject_key_id env (csr_public_key csr) = Inr skid"
    and "validate_public_key (engine_of a) (csr_public_key csr) = None"
    and "san = (if dns_names = [] then csr_dns_names csr else dns_names)"
    and "\<forall>d \<in> set san. validate_dns_name (engine_of a) d = None"
    and "pf_require_san profile \<longrightarrow> san \<noteq> [] \<or> csr_ip_addresses csr \<noteq> []"
    and "0 < n" and "n < 2 ^ 159"
    and "validity \<le> pf_allowed_max_validity profile" and "now1 \<le> now2"
    and "issuer = au_intermediate_cert a"
  shows "sign_certificate_with_profile env a csr_der (Some n) profile ext_config validity dns_names []
      now1 now2 rnd =
    (case ce_create_certificate env rnd
        (zero_certificate\<lparr>c_serial_number := Some n, c_subject := csr_subject csr,
           c_dns_names := san, c_ip_addresses := csr_ip_addresses csr,
           c_email_addresses := csr_email_addresses csr, c_uris := csr_uris csr,
           c_not_before := now1 - 5 * minute,
           c_not_after := now2 + (if validity \<le> 0 then pf_default_validity profile else validity),
           c_key_usage := pf_key_usage profile, c_ext_key_usage := pf_ext_key_usage profile,
           c_basic_constraints_valid := True, c_is_ca := pf_is_ca profile,
           c_max_path_len := pf_max_path_len profile, c_max_path_len_zero := pf_max_path_len_zero profile,
           c_subject_key_id := skid, c_authority_key_id :=
             (if c_subject_key_id issuer \<noteq> [] then c_subject_key_id issuer
              else case compute_subject_key_id env (c_public_key issuer) of Inl _ \<Rightarrow> [] | Inr k \<Rightarrow> k),
           c_ocsp_server := xc_ocsp_server_urls ext_config,
           c_issuing_certificate_url := xc_issuing_certificate_urls ext_config,
           c_crl_distribution_points := xc_crl_distribution_points ext_config\<rparr>)
        issuer (csr_public_key csr) (au_signer a) of
       Inl e \<Rightarrow> Inl (CreateFailed e)
     | Inr der \<Rightarrow> Inr der)"
  using conforming_prepared [OF assms(1-12), of ext_config] assms(13) profile_lintable(3) [OF assms(1)]
  by (simp add: sign_certificate_with_profile_def leaf_template_def effective_validity_def
      authority_key_id_def align_key_usage_builtin)

text \<open>The sample environment makes certificates for the templates of its table only.\<close>

theorem conforming_request_issued_witness:
  "sign_certificate_with_profile sample_env sample_authority [1] (Some 77) default_server_tls_profile
     empty_extension_config (30 * 24 * hour) [] [] (1000 * second) (1000 * second) [] = Inr [8]"
proof -
  have env: "ce_parse_csr sample_env [1] = Inr sample_csr" "ce_check_csr_signature sample_env c = None"
    "compute_subject_key_id sample_env k = Inr (replicate 20 9)" for c k
    by (simp_all add: sample_env_def compute_subject_key_id_def)
  have prof: "get_profile ProfileServerTLS = Some default_server_tls_profile" by code_simp
  have lim: "30 * 24 * hour \<le> pf_allowed_max_validity default_server_tls_profile"
    by (simp add: default_server_tls_profile_def)
  have csr: "csr_public_key sample_csr = sample_key" "csr_dns_names sample_csr = [''www.go.dev'']"
    by (simp_all add: sample_csr_def)
  have iss: "c_subject_key_id sample_issuer \<noteq> []" by (simp add: sample_issuer_def)
  let ?t = "zero_certificate\<lparr>c_serial_number := Some 77, c_subject := csr_subject sample_csr,
      c_dns_names := [''www.go.dev''], c_ip_addresses := csr_ip_addresses sample_csr,
      c_email_addresses := csr_email_addresses sample_csr, c_uris := csr_uris sample_csr,
      c_not_before := 1000 * second - 5 * minute,
      c_not_after := 1000 * second + (if 30 * 24 * hour \<le> 0 then pf_default_validity default_server_tls_profile
        else 30 * 24 * hour),
      c_key_usage := pf_key_usage default_server_tls_profile,
      c_ext_key_usage := pf_ext_key_usage default_server_tls_profile, c_basic_constraints_valid := True,
      c_is_ca := pf_is_ca default_server_tls_profile, c_max_path_len := pf_max_path_len default_server_tls_profile,
      c_max_path_len_zero := pf_max_path_len_zero default_server_tls_profile,
      c_subject_key_id := replicate 20 9, c_authority_key_id := c_subject_key_id sample_issuer,
      c_ocsp_server := xc_ocsp_server_urls empty_extension_config,
      c_issuing_certificate_url := xc_issuing_certificate_urls empty_extension_config,
      c_crl_distribution_points := xc_crl_distribution_points empty_extension_config\<rparr>"
  have cr: "ce_create_certificate sample_env [] ?t sample_issuer sample_key 1 = Inr [8]" by code_simp
  show ?thesis
    using conforming_request_issued [OF prof env(1,2,3), of sample_authority "[''www.go.dev'']" "[]" 77
        "30 * 24 * hour" "1000 * second" "1000 * second" sample_issuer empty_extension_config "[]"] lim iss cr
    by (simp add: csr sample_name_acceptable validate_public_key_iff sample_key_acceptable)
qed

section \<open>The hierarchy\<close>

text \<open>
  C28. \<open>NewAuthority\<close> builds a two-level hierarchy around a freshly generated 4096-bit root key. The root
  is one certificate the library made from a CA template for the root key, with itself as the parent
  and signed with the root key; the intermediate is one it made from a CA template for the signer's
  public key, with the root certificate as the parent and, again, signed with the root key. So both
  verify under the root's public key. The issuer and the subject of the root
  are one name and both its key identifiers that of the root key; the intermediate names the root as its issuer, has the key identifier of the signer's
  key, and that of the root as its authority key identifier. The root allows one CA below it, the
  intermediate none; each may sign certificates and CRLs only. The authority signs with the given
  signer, whose key the intermediate certifies, under the default policy.
\<close>

theorem new_authority_hierarchy:
  assumes "create_parse_ok env" and "create_signed_ok env verifies"
    and "new_authority env add_years clock rnd_key rnd_root rnd_int hsm = Inr a"
    and "root = au_root_cert a" and "int_cert = au_intermediate_cert a"
  shows "\<exists>root_key root_skid int_skid root_tmpl int_tmpl.
    ce_generate_rsa env 4096 rnd_key = Inr root_key \<and>
    compute_subject_key_id env (ce_public env root_key) = Inr root_skid \<and>
    compute_subject_key_id env (ce_public env hsm) = Inr int_skid \<and>
    ce_create_certificate env rnd_root root_tmpl root_tmpl (ce_public env root_key) root_key = Inr (c_raw root) \<and>
    ce_create_certificate env rnd_int int_tmpl root (ce_public env hsm) root_key = Inr (c_raw int_cert) \<and>
    c_public_key root = ce_public env root_key \<and> c_public_key int_cert = ce_public env hsm \<and>
    verifies (c_public_key root) root \<and> verifies (c_public_key root) int_cert \<and>
    c_issuer root = c_subject root \<and> c_issuer int_cert = c_subject root \<and> c_subject int_cert \<noteq> c_subject root \<and>
    c_authority_key_id root = root_skid \<and>
    (root_skid \<noteq> [] \<longrightarrow> c_subject_key_id root = root_skid \<and> c_authority_key_id int_cert = root_skid) \<and>
    (int_skid \<noteq> [] \<longrightarrow> c_subject_key_id int_cert = int_skid) \<and>
    c_authority_key_id int_tmpl = c_subject_key_id root \<and>
    c_is_ca root \<and> c_is_ca int_cert \<and>
    c_key_usage root_tmpl = KeyUsageCertSign OR KeyUsageCRLSign \<and>
    c_key_usage int_tmpl = KeyUsageCertSign OR KeyUsageCRLSign \<and>
    c_max_path_len root_tmpl = 1 \<and> c_max_path_len int_tmpl = 0 \<and> c_max_path_len_zero int_tmpl \<and>
    c_not_after root_tmpl = add_years (clock 1) 20 \<and> c_not_after int_tmpl = add_years (clock 3) 5 \<and>
    au_signer a = hsm \<and> engine_of a = new_default_policy_engine"
proof -
  obtain root_key root_skid root_der int_skid int_der where
    k: "ce_generate_rsa env 4096 rnd_key = Inr root_key"
    and rs: "compute_subject_key_id env (ce_public env root_key) = Inr root_skid"
    and isk: "compute_subject_key_id env (ce_public env hsm) = Inr int_skid"
    and r: "ce_create_certificate env rnd_root (root_template add_years (clock 0) (clock 1) root_skid)
      (root_template add_years (clock 0) (clock 1) root_skid) (ce_public env root_key) root_key = Inr root_der"
    and i: "ce_create_certificate env rnd_int
      (intermediate_template add_years (clock 2) (clock 3) int_skid (c_subject_key_id (parse_or_nil env root_der)))
      (parse_or_nil env root_der) (ce_public env hsm) root_key = Inr int_der"
    and a: "a = \<lparr>au_root_cert = parse_or_nil env root_der, au_intermediate_cert = parse_or_nil env int_der,
      au_signer = hsm, au_policy = Some new_default_policy_engine\<rparr>"
    using assms(3) by (auto simp: new_authority_def Let_def split: sum.splits)
  let ?rt = "root_template add_years (clock 0) (clock 1) root_skid"
  let ?it = "intermediate_template add_years (clock 2) (clock 3) int_skid (c_subject_key_id root)"
  have pl: "plain_extras (root_template y m n x)" "plain_extras (intermediate_template y m n x z)" for y m n x z
    by (simp_all add: plain_extras_def root_template_def intermediate_template_def zero_certificate_def)
  obtain rc where rc: "ce_parse_certificate env root_der = Inr rc" "same_tbs ?rt rc"
      "c_issuer rc = c_subject ?rt" "c_public_key rc = ce_public env root_key" "c_raw rc = root_der"
    using assms(1) pl(1) r unfolding create_parse_ok_def by blast
  have root: "root = rc" by (simp add: assms(4) a parse_or_nil_def rc(1))
  have ii: "ce_create_certificate env rnd_int ?it root (ce_public env hsm) root_key = Inr int_der"
    using i by (simp add: parse_or_nil_def rc(1) root)
  obtain ic where ic: "ce_parse_certificate env int_der = Inr ic" "same_tbs ?it ic"
      "c_issuer ic = c_subject root" "c_public_key ic = ce_public env hsm" "c_raw ic = int_der"
    using assms(1) pl(2) ii unfolding create_parse_ok_def by blast
  have int_cert: "int_cert = ic" by (simp add: assms(5) a parse_or_nil_def ic(1))
  have names: "c_subject root = c_subject ?rt" "c_subject ic = c_subject ?it" "c_subject ?it \<noteq> c_subject ?rt"
    using rc(2) ic(2) by (simp_all add: root same_tbs_def root_template_def intermediate_template_def)
  have akid: "c_authority_key_id ?rt = root_skid" by (simp add: root_template_def)
  have sig: "verifies (ce_public env root_key) rc \<and> c_authority_key_id rc = root_skid"
    using assms(2) pl(1) r rc(1) akid unfolding create_signed_ok_def signed_akid_def by metis
  have sig_i: "verifies (ce_public env root_key) ic \<and>
      (c_subject_key_id root \<noteq> [] \<longrightarrow> c_authority_key_id ic = c_subject_key_id root)"
    using assms(2) pl(2) ii ic(1) names unfolding create_signed_ok_def signed_akid_def by metis
  have skids: "root_skid \<noteq> [] \<longrightarrow> c_subject_key_id rc = root_skid" "c_is_ca rc"
    "int_skid \<noteq> [] \<longrightarrow> c_subject_key_id ic = int_skid" "c_is_ca ic"
    using rc(2) ic(2) by (simp_all add: same_tbs_def root_template_def intermediate_template_def)
  show ?thesis
    by (intro exI [of _ root_key] exI [of _ root_skid] exI [of _ int_skid] exI [of _ ?rt] exI [of _ ?it])
      (use k rs isk r ii rc(3-5) ic(3-5) sig sig_i names skids in \<open>auto simp: int_cert root a engine_of_def
        root_template_def intermediate_template_def zero_certificate_def\<close>)
qed

text \<open>A table with the two certificates of the hierarchy; \<open>add_years\<close> counts 365 days here.\<close>

definition years365 :: "go_time \<Rightarrow> int \<Rightarrow> go_time" where
  "years365 t n = t + n * 365 * 24 * hour"

definition sample_root :: certificate where
  "sample_root = (root_template years365 hour hour (replicate 20 9))
     \<lparr>c_issuer := \<lparr>nm_organization = [''Go-Certa Trust Network''], nm_common_name = ''Go-Certa Root CA G1''\<rparr>,
      c_public_key := RSAKey 15 3, c_raw := [1]\<rparr>"

definition sample_intermediate :: certificate where
  "sample_intermediate = (intermediate_template years365 hour hour (replicate 20 9) (replicate 20 9))
     \<lparr>c_issuer := c_subject sample_root, c_public_key := sample_key, c_raw := [2]\<rparr>"

text \<open>The library refuses to sign with another key than the root's, number 0 here, and a signature of the
  table verifies under its public half only.\<close>

definition hierarchy_env :: "nat crypto_env" where
  "hierarchy_env = (table_env [sample_root, sample_intermediate])
     \<lparr>ce_create_certificate := \<lambda>_ t p pub k.
        if k \<noteq> 0 then Inl ''x509: provided PrivateKey does not match the PublicKey of the parent''
        else if signed_akid t p \<noteq> replicate 20 9 then Inl ''unsupported template''
        else table_create [sample_root, sample_intermediate] t p pub\<rparr>"

lemma hierarchy_env_ok:
  "create_parse_ok hierarchy_env"
  "create_signed_ok hierarchy_env (\<lambda>pub c. pub = RSAKey 15 3 \<and> c \<in> {sample_root, sample_intermediate})"
proof -
  have t: "create_parse_ok (table_env [sample_root, sample_intermediate])"
    by (rule table_env_ok) (simp add: sample_root_def sample_intermediate_def)
  then show "create_parse_ok hierarchy_env"
    by (simp add: create_parse_ok_def hierarchy_env_def)
  show "create_signed_ok hierarchy_env (\<lambda>pub c. pub = RSAKey 15 3 \<and> c \<in> {sample_root, sample_intermediate})"
  proof (unfold create_signed_ok_def, intro allI impI)
    fix rnd t p pub k der c
    assume cr: "ce_create_certificate hierarchy_env rnd t p pub k = Inr der"
      and pa: "ce_parse_certificate hierarchy_env der = Inr c"
    have k: "k = 0" "signed_akid t p = replicate 20 9"
      using cr by (simp_all add: hierarchy_env_def split: if_splits)
    have c: "c \<in> {sample_root, sample_intermediate}"
      using pa by (auto simp: hierarchy_env_def table_env_def split: option.splits if_splits)
    then have "c_authority_key_id c = replicate 20 9"
      by (auto simp: sample_root_def sample_intermediate_def root_template_def intermediate_template_def)
    then show "(ce_public hierarchy_env k = RSAKey 15 3 \<and> c \<in> {sample_root, sample_intermediate}) \<and>
        c_authority_key_id c = signed_akid t p"
      using k c by (simp add: hierarchy_env_def)
  qed
qed

lemma sample_new_authority:
  "new_authority hierarchy_env years365 (\<lambda>_. hour) [] [] [] 1 =
     Inr \<lparr>au_root_cert = sample_root, au_intermediate_cert = sample_intermediate, au_signer = 1,
          au_policy = Some new_default_policy_engine\<rparr>"
  by code_simp

theorem new_authority_hierarchy_witness:
  "c_issuer sample_intermediate = c_subject sample_root \<and> c_public_key sample_intermediate = sample_key \<and>
   c_authority_key_id sample_intermediate = replicate 20 9"
proof -
  have "compute_subject_key_id hierarchy_env k = Inr (replicate 20 9)" for k
    by (simp add: hierarchy_env_def compute_subject_key_id_def)
  with new_authority_hierarchy [OF hierarchy_env_ok sample_new_authority refl refl] show ?thesis
    by (auto simp: hierarchy_env_def)
qed

section \<open>Certificate transparency\<close>


lemma put_uint16_bytes: "put_uint16 w = [word_of_nat (unat w div 256), word_of_nat (unat w)]"
  unfolding put_uint16_def numeral_2_eq_2 by simp


lemma submit_all_ok:
  "submit_all subs ctx pre issuer = Inr scts \<Longrightarrow>
     list_all2 (\<lambda>s sct. submit_pre_certificate s ctx pre issuer = Inr sct)
       (List.map_filter id subs) scts"
proof (induction subs arbitrary: scts)
  case (Cons s subs)
  then show ?case
    by (cases s) (auto simp: map_filter_simps split: sum.splits)
qed (simp add: map_filter_simps)

text \<open>
  C23. A certificate issued through \<open>SignCertificateWithCT\<close> with at least one log is the pre-certificate
  with the poison replaced by the logs' timestamps: the template of the pre-certificate sent to the logs is
  the checked one with exactly one extra extension, the critical poison of RFC 6962 with the value NULL, every non-nil submitter was asked about
  it and answered, and the certificate's template differs from the checked one by the SCT-list
  extension only, not critical, which decodes to exactly the answers, in the order of the submitters.
\<close>

theorem ct_certificate_embeds_answers:
  assumes "sign_certificate_with_ct env a ctx csr_der serial profile ext_config validity dns_names subs
             now1 now2 rnd1 rnd2 = Inr der"
    and "Some sub \<in> set subs"
  shows "\<exists>csr tmpl pre pre_der scts final sct_list.
    prepare env a csr_der serial profile ext_config validity dns_names [] now1 now2 = Inr (csr, tmpl) \<and>
    pre\<lparr>c_extra_extensions := []\<rparr> = tmpl \<and>
    c_extra_extensions pre =
      [\<lparr>ext_id = [1, 3, 6, 1, 4, 1, 11129, 2, 4, 3], ext_critical = True, ext_value = [0x05, 0x00]\<rparr>] \<and>
    ce_create_certificate env rnd1 pre (au_intermediate_cert a) (csr_public_key csr) (au_signer a) = Inr pre_der \<and>
    list_all2 (\<lambda>s sct. submit_pre_certificate s ctx pre_der (c_raw (au_intermediate_cert a)) = Inr sct)
      (List.map_filter id subs) scts \<and> scts \<noteq> [] \<and>
    ce_create_certificate env rnd2 final (au_intermediate_cert a) (csr_public_key csr) (au_signer a) = Inr der \<and>
    final\<lparr>c_extra_extensions := []\<rparr> = tmpl \<and>
    c_extra_extensions final = [\<lparr>ext_id = [1, 3, 6, 1, 4, 1, 11129, 2, 4, 2], ext_critical = False, ext_value = sct_list\<rparr>] \<and>
    decode_sct_list sct_list = Some scts"
proof -
  obtain csr tmpl where p: "prepare env a csr_der serial profile ext_config validity dns_names [] now1 now2 = Inr (csr, tmpl)"
    using assms(1) by (auto simp: sign_certificate_with_ct_def split: sum.splits prod.splits)
  obtain pre where pre: "build_pre_certificate_template (Some tmpl) = Some pre"
    by (simp add: build_pre_certificate_template_def)
  have ext: "c_extra_extensions tmpl = []" using prepare_ok(6) [OF p] .
  obtain pre_der scts where
    pd: "ce_create_certificate env rnd1 pre (au_intermediate_cert a) (csr_public_key csr) (au_signer a) = Inr pre_der"
    and sub: "submit_all subs ctx pre_der (c_raw (au_intermediate_cert a)) = Inr scts"
    and rest: "(case (if length scts > 0 then
              (case serialize_sct_list scts of
                 Inl e \<Rightarrow> Inl (SCTSerialization e)
               | Inr serialized \<Rightarrow> Inr (embed_sct_list tmpl serialized))
            else Inr tmpl) of
        Inl e \<Rightarrow> Inl e
      | Inr final_tmpl \<Rightarrow>
          (case ce_create_certificate env rnd2 final_tmpl (au_intermediate_cert a) (csr_public_key csr) (au_signer a) of
             Inl e \<Rightarrow> Inl (CreateFailed e)
           | Inr der \<Rightarrow> Inr der)) = Inr der"
    using assms(1) p pre by (auto simp: sign_certificate_with_ct_def split: sum.splits prod.splits)
  have all: "list_all2 (\<lambda>s sct. submit_pre_certificate s ctx pre_der (c_raw (au_intermediate_cert a)) = Inr sct)
      (List.map_filter id subs) scts" using submit_all_ok [OF sub] .
  have "sub \<in> set (List.map_filter id subs)" using assms(2) by (force simp: map_filter_def)
  then have ne: "scts \<noteq> []" using all by auto
  then obtain bs where bs: "serialize_sct_list scts = Inr bs"
    and cr: "ce_create_certificate env rnd2 (embed_sct_list tmpl bs) (au_intermediate_cert a)
       (csr_public_key csr) (au_signer a) = Inr der"
    using rest by (auto split: sum.splits)
  have "bs \<noteq> []" using bs by (auto simp: serialize_sct_list_def Let_def asn1_octet_string_def split: if_splits sum.splits)
  then have emb: "c_extra_extensions (embed_sct_list tmpl bs) =
      [\<lparr>ext_id = [1, 3, 6, 1, 4, 1, 11129, 2, 4, 2], ext_critical = False, ext_value = bs\<rparr>]"
      "(embed_sct_list tmpl bs)\<lparr>c_extra_extensions := []\<rparr> = tmpl"
    using ext by (simp_all add: embed_sct_list_def OIDExtensionSCTList_def)
  have po: "pre\<lparr>c_extra_extensions := []\<rparr> = tmpl" "c_extra_extensions pre =
      [\<lparr>ext_id = [1, 3, 6, 1, 4, 1, 11129, 2, 4, 3], ext_critical = True, ext_value = [0x05, 0x00]\<rparr>]"
    using pre ext by (auto simp: build_pre_certificate_template_def OIDExtensionCTPoison_def)
  show ?thesis
    by (intro exI conjI) (rule p po pd all ne cr emb decode_serialize_sct_list [OF bs])+
qed

text \<open>A log that answers every submission with the same timestamp.\<close>

definition fixed_log :: ct_submitter where
  "fixed_log = \<lparr>sub_url = ''https://log'', sub_client = \<lambda>_ _ _. Inr \<lparr>ct_status = 200, ct_body = CtJson
     \<lparr>ac_sct_version = 0, ac_id = b64_padded_encode b64_std (replicate 32 0), ac_timestamp = 5,
      ac_extensions = [], ac_signature = b64_padded_encode b64_std [4, 3, 0, 1, 9]\<rparr>\<rparr>\<rparr>"

lemma fixed_log_answer:
  "length pre > 0 \<Longrightarrow> length iss > 0 \<Longrightarrow>
     submit_pre_certificate fixed_log ctx pre iss = Inr (pack_response 0 (replicate 32 0) 5 [] [4, 3, 0, 1, 9])"
  by (simp add: submit_pre_certificate_def fixed_log_def)

lemma sample_create_extras:
  "ce_create_certificate sample_env rnd ((leaf_template sample_env sample_authority sample_csr 77
     default_server_tls_profile empty_extension_config (30 * 24 * hour) [''www.go.dev''] [] (replicate 20 9)
     (1000 * second) (1000 * second))\<lparr>c_extra_extensions := xs\<rparr>) sample_issuer sample_key 1 = Inr [8]"
proof -
  have "table_create tbl (t\<lparr>c_extra_extensions := xs\<rparr>) p k = table_create tbl t p k" for tbl t p k
    by (simp add: table_create_def same_tbs_def)
  then show ?thesis using sample_create by (simp add: sample_env_def)
qed

lemma sample_ct_signed:
  "sign_certificate_with_ct sample_env sample_authority None [1] (Some 77) default_server_tls_profile
     empty_extension_config (30 * 24 * hour) [] [None, Some fixed_log] (1000 * second) (1000 * second) [] [] = Inr [8]"
proof -
  let ?sct = "pack_response 0 (replicate 32 0) 5 [] [4, 3, 0, 1, 9]"
  have raw: "c_raw sample_issuer = [6]" "csr_public_key sample_csr = sample_key"
    by (simp_all add: sample_issuer_def sample_csr_def)
  obtain bs where "serialize_sct_list [?sct] = Inr bs"
    by (simp add: serialize_sct_list_def pack_response_def put_uint16_bytes put_uint64_def Let_def)
  moreover obtain t where t: "prepare sample_env sample_authority [1] (Some 77) default_server_tls_profile
      empty_extension_config (30 * 24 * hour) [] [] (1000 * second) (1000 * second) = Inr (sample_csr, t)"
    and cr: "\<And>rnd. ce_create_certificate sample_env rnd t sample_issuer sample_key 1 = Inr [8]"
      "\<And>rnd xs. ce_create_certificate sample_env rnd (t\<lparr>c_extra_extensions := xs\<rparr>) sample_issuer sample_key 1 = Inr [8]"
    using sample_leaf_template sample_create sample_create_extras by blast
  ultimately show ?thesis
    unfolding sign_certificate_with_ct_def t
    by (simp add: build_pre_certificate_template_def cr fixed_log_answer raw embed_sct_list_def)
qed

theorem ct_certificate_embeds_answers_witness:
  "\<exists>scts sct_list. decode_sct_list sct_list = Some scts \<and> length scts = 1"
proof -
  have "Some fixed_log \<in> set [None, Some fixed_log]" by simp
  moreover have "List.map_filter id [None, Some fixed_log] = [fixed_log]" by (simp add: map_filter_simps)
  ultimately show ?thesis
    using ct_certificate_embeds_answers [OF sample_ct_signed] list_all2_lengthD by fastforce
qed

end
