(* ===== verification/Acme_Nonce.thy ===== *)
theory Acme_Nonce
  imports Go_Base64
begin

text \<open>\<open>pkg/protocols/acme/nonce.go\<close>: the single-use anti-replay nonces.\<close>

record nonce_manager =
  nm_nonces :: "(string, go_time) gomap"
  nm_ttl :: duration

definition new_nonce_manager :: "duration \<Rightarrow> nonce_manager" where
  "new_nonce_manager ttl = \<lparr>nm_nonces = [], nm_ttl = (if ttl \<le> 0 then 15 * minute else ttl)\<rparr>"

text \<open>The result is None when the entropy read fails.\<close>

definition generate_nonce ::
  "entropy \<Rightarrow> go_time \<Rightarrow> nonce_manager \<Rightarrow> string option \<times> nonce_manager \<times> entropy" where
  "generate_nonce ent now m =
     (case rand_read 16 ent of
        None \<Rightarrow> (None, m, ent)
      | Some (buf, ent') \<Rightarrow>
          let nonce = b64_raw_encode b64_url buf
          in (Some nonce, m\<lparr>nm_nonces := gm_set nonce (now + nm_ttl m) (nm_nonces m)\<rparr>, ent'))"

definition validate_and_consume_nonce ::
  "go_time \<Rightarrow> string \<Rightarrow> nonce_manager \<Rightarrow> bool \<times> nonce_manager" where
  "validate_and_consume_nonce now nonce m =
     (if nonce = [] then (False, m)
      else case map_of (nm_nonces m) nonce of
        None \<Rightarrow> (False, m)
      | Some expiry \<Rightarrow> (now < expiry, m\<lparr>nm_nonces := gm_del nonce (nm_nonces m)\<rparr>))"

definition cleanup :: "go_time \<Rightarrow> nonce_manager \<Rightarrow> nonce_manager" where
  "cleanup now m = m\<lparr>nm_nonces := filter (\<lambda>(n, exp). \<not> exp < now) (nm_nonces m)\<rparr>"

section \<open>Runs of the manager\<close>

datatype nonce_op =
    Generate "byte list" go_time
  | Validate string go_time
  | Cleanup go_time

text \<open>Each \<open>Generate\<close> has the 16 bytes it draws.\<close>

fun nonce_step :: "nonce_op \<Rightarrow> nonce_manager \<Rightarrow> nonce_manager" where
  "nonce_step (Generate buf now) m = fst (snd (generate_nonce buf now m))"
| "nonce_step (Validate n now) m = snd (validate_and_consume_nonce now n m)"
| "nonce_step (Cleanup now) m = cleanup now m"

definition nonce_run :: "nonce_op list \<Rightarrow> nonce_manager \<Rightarrow> nonce_manager" where
  "nonce_run ops m = foldl (\<lambda>m op. nonce_step op m) m ops"

definition issued :: "nonce_op list \<Rightarrow> string set" where
  "issued ops = {b64_raw_encode b64_url (take 16 buf) | buf now. Generate buf now \<in> set ops \<and> 16 \<le> length buf}"

definition known :: "nonce_manager \<Rightarrow> string set" where
  "known m = fst ` set (nm_nonces m)"

lemma known_iff: "n \<in> known m \<longleftrightarrow> map_of (nm_nonces m) n \<noteq> None"
  unfolding known_def by (metis map_of_eq_None_iff)

lemma validate_consumes:
  "n \<notin> known (snd (validate_and_consume_nonce now n m)) \<or> n = []"
  by (auto simp: validate_and_consume_nonce_def known_iff split: option.splits)

lemma validate_unknown: "n \<notin> known m \<Longrightarrow> \<not> fst (validate_and_consume_nonce now n m)"
  by (auto simp: validate_and_consume_nonce_def known_iff)

lemma nonce_step_known: "known (nonce_step op m) \<subseteq> known m \<union> issued [op]"
proof (cases op)
  case (Generate buf now)
  then show ?thesis
    by (auto simp: generate_nonce_def issued_def known_def rand_read_def Let_def split: option.splits)
next
  case (Validate n now)
  then show ?thesis
    by (auto simp: validate_and_consume_nonce_def known_iff split: option.splits if_splits)
next
  case (Cleanup now)
  then show ?thesis by (auto simp: cleanup_def known_def)
qed

lemma nonce_run_known: "known (nonce_run ops m) \<subseteq> known m \<union> issued ops"
proof (induction ops arbitrary: m)
  case (Cons op ops)
  have "issued (op # ops) = issued [op] \<union> issued ops" by (auto simp: issued_def)
  then show ?case
    using Cons.IH [of "nonce_step op m"] nonce_step_known [of op m] by (auto simp: nonce_run_def)
qed (simp add: nonce_run_def)

lemma no_replay:
  assumes "n \<notin> issued ops"
  shows "\<not> fst (validate_and_consume_nonce later n
    (nonce_run ops (snd (validate_and_consume_nonce now n m))))"
proof (cases "n = []")
  case True
  then show ?thesis by (simp add: validate_and_consume_nonce_def)
next
  case False
  then have "n \<notin> known (snd (validate_and_consume_nonce now n m))" using validate_consumes by blast
  then have "n \<notin> known (nonce_run ops (snd (validate_and_consume_nonce now n m)))"
    using nonce_run_known assms by blast
  then show ?thesis by (rule validate_unknown)
qed

lemma generated_valid:
  assumes "generate_nonce ent now m = (Some n, m', ent')"
  shows "fst (validate_and_consume_nonce later n m') = (later < now + nm_ttl m) \<and> length n = 22"
proof -
  obtain buf where b: "rand_read 16 ent = Some (buf, ent')" and n: "n = b64_raw_encode b64_url buf"
    and m: "map_of (nm_nonces m') n = Some (now + nm_ttl m)"
    using assms by (auto simp: generate_nonce_def Let_def split: option.splits)
  have "length n = 22"
    using rand_read_length [OF b] by (simp add: n b64_raw_encode_def length_sextets)
  then show ?thesis using m by (auto simp: validate_and_consume_nonce_def)
qed

text \<open>\<open>Cleanup\<close> removes no nonce that would still be accepted.\<close>

lemma map_of_filter_val:
  assumes "map_of m k = Some v" and "P (k, v)"
  shows "map_of (filter P m) k = Some v"
  using assms by (induction m) (auto split: if_splits)

lemma cleanup_keeps:
  assumes "fst (validate_and_consume_nonce now n m)"
  shows "fst (validate_and_consume_nonce now n (cleanup now m))"
proof -
  from assms obtain e where e: "map_of (nm_nonces m) n = Some e" "now < e" "n \<noteq> []"
    by (auto simp: validate_and_consume_nonce_def split: option.splits if_splits)
  then have "map_of (nm_nonces (cleanup now m)) n = Some e"
    by (simp add: cleanup_def) (rule map_of_filter_val, simp_all)
  then show ?thesis using e by (simp add: validate_and_consume_nonce_def)
qed

end
