(* ===== verification/Acme_Jws.thy ===== *)
theory Acme_Jws
  imports X509_Model Go_Base64
begin

text \<open>
  \<open>pkg/protocols/acme/jws.go\<close>: JSON web keys, their thumbprints, and the verification and
  construction of JWS messages. The JSON codecs and the signature schemes are arguments
  (\<open>jws_env\<close>); the base-64 and big-integer encodings are executable.
\<close>

section \<open>Keys\<close>

record jwk =
  jwk_kty :: string
  jwk_crv :: string
  jwk_x :: string
  jwk_y :: string
  jwk_n :: string
  jwk_e :: string

datatype jws_error =
    UnsupportedCurveForJwk
  | UnsupportedKeyType
  | NilJwk
  | BadJwkField string
  | UnsupportedCrv string
  | NotOnP256
  | UnknownKty string
  | BadMessageJson string
  | MissingProtectedOrSignature
  | BadProtected
  | BadHeaderJson string
  | BadPayload
  | NoKeyLookup
  | KidNotResolved string string
  | MissingKey
  | BadSignatureEncoding
  | ExpectedRSA
  | RSAVerifyFailed
  | ExpectedECDSA
  | BadES256Length
  | ECDSAVerifyFailed
  | UnsupportedAlgorithm string
  | HeaderMarshal string
  | SignFailed string
  | UnsupportedSigner
  | UnsupportedSignerKey
  | MessageMarshal string

text \<open>The slices \<open>xPadded[byteLen-len(xBytes):]\<close> panic for a coordinate of more than 32 bytes.\<close>

definition key_to_jwk :: "public_key \<Rightarrow> (jws_error + jwk) go_call" where
  "key_to_jwk pub =
     (case pub of
        RSAKey n e \<Rightarrow>
          Returns (Inr \<lparr>jwk_kty = ''RSA'', jwk_crv = [], jwk_x = [], jwk_y = [],
               jwk_n = b64_raw_encode b64_url (nat_bytes (nat \<bar>n\<bar>)),
               jwk_e = b64_raw_encode b64_url (nat_bytes (nat \<bar>e\<bar>))\<rparr>)
      | ECDSAKey c x y \<Rightarrow>
          if c \<noteq> P256 then Returns (Inl UnsupportedCurveForJwk)
          else
            let byte_len = 32; x_bytes = nat_bytes (nat \<bar>x\<bar>); y_bytes = nat_bytes (nat \<bar>y\<bar>) in
            if length x_bytes > byte_len \<or> length y_bytes > byte_len then Panics
            else
              let x_padded = replicate (byte_len - length x_bytes) 0 @ x_bytes;
                  y_padded = replicate (byte_len - length y_bytes) 0 @ y_bytes
              in Returns (Inr \<lparr>jwk_kty = ''EC'', jwk_crv = ''P-256'', jwk_x = b64_raw_encode b64_url x_padded,
                      jwk_y = b64_raw_encode b64_url y_padded, jwk_n = [], jwk_e = []\<rparr>)
      | _ \<Rightarrow> Returns (Inl UnsupportedKeyType))"

definition jwk_to_key :: "jwk option \<Rightarrow> jws_error + public_key" where
  "jwk_to_key j =
     (case j of
        None \<Rightarrow> Inl NilJwk
      | Some j \<Rightarrow>
          if jwk_kty j = ''RSA'' then
            (case b64_raw_decode b64_url (jwk_n j) of
               None \<Rightarrow> Inl (BadJwkField ''RSA modulus N'')
             | Some n_bytes \<Rightarrow>
            (case b64_raw_decode b64_url (jwk_e j) of
               None \<Rightarrow> Inl (BadJwkField ''RSA exponent E'')
             | Some e_bytes \<Rightarrow>
                 let n = int (be_val n_bytes);
                     e_int = sint (word_of_nat (be_val e_bytes) :: 64 word)
                 in Inr (RSAKey n e_int)))
          else if jwk_kty j = ''EC'' then
            if jwk_crv j \<noteq> ''P-256'' then Inl (UnsupportedCrv (jwk_crv j))
            else
            (case b64_raw_decode b64_url (jwk_x j) of
               None \<Rightarrow> Inl (BadJwkField ''EC coordinate X'')
             | Some x_bytes \<Rightarrow>
            (case b64_raw_decode b64_url (jwk_y j) of
               None \<Rightarrow> Inl (BadJwkField ''EC coordinate Y'')
             | Some y_bytes \<Rightarrow>
                 let x = int (be_val x_bytes); y = int (be_val y_bytes) in
                 if \<not> is_on_curve P256 x y then Inl NotOnP256 else Inr (ECDSAKey P256 x y)))
          else Inl (UnknownKty (jwk_kty j)))"

text \<open>The canonical JSON of RFC 7638.\<close>

definition canonical_json :: "jwk \<Rightarrow> string" where
  "canonical_json j =
     (if jwk_kty j = ''RSA'' then
        ''{'' @ go_quote ''e'' @ '':'' @ go_quote (jwk_e j) @ '','' @ go_quote ''kty'' @ '':'' @
        go_quote (jwk_kty j) @ '','' @ go_quote ''n'' @ '':'' @ go_quote (jwk_n j) @ ''}''
      else
        ''{'' @ go_quote ''crv'' @ '':'' @ go_quote (jwk_crv j) @ '','' @ go_quote ''kty'' @ '':'' @
        go_quote (jwk_kty j) @ '','' @ go_quote ''x'' @ '':'' @ go_quote (jwk_x j) @ '','' @
        go_quote ''y'' @ '':'' @ go_quote (jwk_y j) @ ''}'')"

definition compute_jwk_thumbprint ::
  "(byte list \<Rightarrow> byte list) \<Rightarrow> public_key \<Rightarrow> (jws_error + string) go_call" where
  "compute_jwk_thumbprint sha256 pub =
     (case key_to_jwk pub of
        Panics \<Rightarrow> Panics
      | Returns (Inl e) \<Rightarrow> Returns (Inl e)
      | Returns (Inr j) \<Rightarrow>
          if jwk_kty j = ''RSA'' \<or> jwk_kty j = ''EC''
          then Returns (Inr (b64_raw_encode b64_url (sha256 (bytes_of (canonical_json j)))))
          else Returns (Inl (UnknownKty (jwk_kty j))))"

text \<open>The public keys an account may have: a key that went through \<open>JWKToKey\<close>.\<close>

definition jwk_key_ok :: "public_key \<Rightarrow> bool" where
  "jwk_key_ok pub =
     (case pub of
        RSAKey n e \<Rightarrow> 0 \<le> n \<and> 0 \<le> e \<and> e < 2 ^ 63
      | ECDSAKey c x y \<Rightarrow> c = P256 \<and> is_on_curve P256 x y
      | _ \<Rightarrow> False)"

lemma p256_coordinate:
  assumes "is_on_curve P256 x y"
  shows "0 \<le> x" "0 \<le> y" "nat x < 256 ^ 32" "nat y < 256 ^ 32"
proof -
  have "x < cp_p (params P256)" "y < cp_p (params P256)" and s: "0 \<le> x" "0 \<le> y"
    using assms by (simp_all add: is_on_curve_def Let_def)
  moreover have "cp_p (params P256) < 256 ^ 32" by simp
  ultimately have "x < 256 ^ 32" "y < 256 ^ 32" by linarith+
  with s show "0 \<le> x" "0 \<le> y" "nat x < 256 ^ 32" "nat y < 256 ^ 32"
    by (simp_all add: nat_less_iff)
qed

lemma sint_small: "0 \<le> n \<Longrightarrow> n < 2 ^ 63 \<Longrightarrow> sint (word_of_int n :: 64 word) = n"
  by (simp add: signed_of_int signed_take_bit_int_eq_self)

lemma jwk_roundtrip:
  assumes "jwk_key_ok pub"
  shows "\<exists>j. key_to_jwk pub = Returns (Inr j) \<and> jwk_to_key (Some j) = Inr pub"
proof (cases pub)
  case (RSAKey n e)
  then have "0 \<le> n" "0 \<le> e" "e < 2 ^ 63"
    using assms by (simp_all add: jwk_key_ok_def)
  then show ?thesis using RSAKey
    by (simp add: key_to_jwk_def jwk_to_key_def sint_small)
next
  case (ECDSAKey c x y)
  then have c: "c = P256" "is_on_curve P256 x y" using assms by (simp_all add: jwk_key_ok_def)
  note b = p256_coordinate [OF c(2)]
  have l: "length (nat_bytes (nat x)) \<le> 32" "length (nat_bytes (nat y)) \<le> 32"
    using b(3,4) by (simp_all only: length_nat_bytes_le)
  then show ?thesis using ECDSAKey c b(1,2)
    by (simp add: key_to_jwk_def jwk_to_key_def Let_def not_less)
qed (use assms in \<open>simp_all add: jwk_key_ok_def\<close>)

lemma jwk_to_key_ok:
  assumes "jwk_to_key (Some j) = Inr pub"
  shows "is_ec_or_ed pub \<Longrightarrow> jwk_key_ok pub" and "\<exists>n e x y. pub = RSAKey n e \<or> pub = ECDSAKey P256 x y"
  using assms by (auto simp: jwk_to_key_def jwk_key_ok_def Let_def split: if_splits option.splits)

text \<open>\<open>JWKToKey\<close> admits points of the curve only, so turning its key back into a JWK cannot panic.\<close>

lemma jwk_key_no_panic:
  assumes "jwk_to_key (Some j) = Inr pub"
  shows "key_to_jwk pub \<noteq> Panics"
proof (cases "is_ec_or_ed pub")
  case True
  from jwk_roundtrip [OF jwk_to_key_ok(1) [OF assms True]] show ?thesis by auto
next
  case False
  then show ?thesis by (cases pub) (simp_all add: key_to_jwk_def)
qed

lemma thumbprint_panic: "compute_jwk_thumbprint sha pub = Panics \<longleftrightarrow> key_to_jwk pub = Panics"
  by (simp add: compute_jwk_thumbprint_def split: go_call.splits sum.splits)

section \<open>Thumbprints\<close>

lemma split_at_char: "c \<notin> set xs \<Longrightarrow> c \<notin> set ys \<Longrightarrow> xs @ c # r = ys @ c # s \<longleftrightarrow> xs = ys \<and> r = s"
  by (induction xs arbitrary: ys; case_tac ys) auto

definition plain :: "string \<Rightarrow> bool" where
  "plain s = (concat (map quote_char s) = s \<and> CHR 0x22 \<notin> set s)"

lemma plain_b64_url: "c \<in> set b64_url \<Longrightarrow> quote_char c = [c] \<and> c \<noteq> CHR 0x22"
  by (auto simp: b64_url_def quote_char_def)

lemma plainI: "\<forall>c \<in> set s. quote_char c = [c] \<and> c \<noteq> CHR 0x22 \<Longrightarrow> plain s"
  unfolding plain_def by (induction s) auto

lemma plain_b64 [simp]: "plain (b64_raw_encode b64_url bs)"
proof (rule plainI)
  have "set (b64_raw_encode b64_url bs) \<subseteq> set b64_url"
    by (rule set_b64_raw_encode) (rule b64_alphabets)
  then show "\<forall>c \<in> set (b64_raw_encode b64_url bs). quote_char c = [c] \<and> c \<noteq> CHR 0x22"
    using plain_b64_url by blast
qed

lemma go_quote_plain: "plain s \<Longrightarrow> go_quote s = CHR 0x22 # s @ [CHR 0x22]"
  by (simp add: go_quote_def plain_def)

lemma plain_names [simp]: "plain ''e''" "plain ''kty''" "plain ''n''" "plain ''crv''" "plain ''x''"
  "plain ''y''" "plain ''RSA''" "plain ''EC''" "plain ''P-256''"
  by (simp_all add: plain_def quote_char_def)

lemma quoted_eq: "plain s \<Longrightarrow> plain t \<Longrightarrow> go_quote s @ r = go_quote t @ q \<longleftrightarrow> s = t \<and> r = q"
  by (simp add: go_quote_plain split_at_char) (simp add: plain_def split_at_char)

lemma quoted_eq_Nil: "plain s \<Longrightarrow> plain t \<Longrightarrow> go_quote s = go_quote t \<longleftrightarrow> s = t"
  by (simp add: go_quote_plain)

definition jwk_shape :: "jwk \<Rightarrow> bool" where
  "jwk_shape j =
     (((jwk_kty j = ''RSA'' \<and> jwk_crv j = [] \<and> jwk_x j = [] \<and> jwk_y j = []) \<or>
       (jwk_kty j = ''EC'' \<and> jwk_crv j = ''P-256'' \<and> jwk_n j = [] \<and> jwk_e j = [])) \<and>
      plain (jwk_n j) \<and> plain (jwk_e j) \<and> plain (jwk_x j) \<and> plain (jwk_y j))"

lemma plain_Nil [simp]: "plain []"
  by (simp add: plain_def)

lemma key_to_jwk_shape: "key_to_jwk p = Returns (Inr j) \<Longrightarrow> jwk_shape j"
  by (cases p) (auto simp only: key_to_jwk_def Let_def jwk_shape_def public_key.case go_call.inject go_call.distinct
    sum.inject sum.distinct jwk.simps plain_b64 plain_Nil split: if_splits)

lemma canonical_json_inj:
  assumes "jwk_shape j" and "jwk_shape k" and "canonical_json j = canonical_json k"
  shows "j = k"
proof -
  note pl = assms(1,2) [unfolded jwk_shape_def, THEN conjunct2]
  note sh = assms(1,2) [unfolded jwk_shape_def, THEN conjunct1]
  consider "jwk_kty j = ''RSA''" "jwk_kty k = ''RSA''"
    | "jwk_kty j = ''EC''" "jwk_kty k = ''EC''" "jwk_crv j = jwk_crv k"
    | "jwk_kty j \<noteq> jwk_kty k" using sh by auto
  then show ?thesis
  proof cases
    case 1
    then have "jwk_e j = jwk_e k \<and> jwk_n j = jwk_n k"
      using assms(3) pl by (simp add: canonical_json_def quoted_eq quoted_eq_Nil)
    then show ?thesis using 1 sh by (cases j; cases k) auto
  next
    case 2
    then have "jwk_x j = jwk_x k \<and> jwk_y j = jwk_y k"
      using assms(3) pl by (simp add: canonical_json_def quoted_eq quoted_eq_Nil)
    then show ?thesis using 2 sh by (cases j; cases k) auto
  next
    case 3
    then show ?thesis using assms(3) sh pl
      by (auto simp: canonical_json_def quoted_eq quoted_eq_Nil)
  qed
qed

lemma thumbprint_of:
  assumes "key_to_jwk p = Returns (Inr j)"
  shows "compute_jwk_thumbprint sha p =
    Returns (Inr (b64_raw_encode b64_url (sha (bytes_of (canonical_json j)))))"
proof -
  have "jwk_kty j = ''RSA'' \<or> jwk_kty j = ''EC''"
    using key_to_jwk_shape [OF assms] by (auto simp: jwk_shape_def)
  then show ?thesis by (simp only: compute_jwk_thumbprint_def assms go_call.case sum.case if_True)
qed

lemma thumbprint_inj:
  assumes "jwk_key_ok p" "jwk_key_ok q" and "compute_jwk_thumbprint sha p = compute_jwk_thumbprint sha q"
    and "\<And>j k. key_to_jwk p = Returns (Inr j) \<Longrightarrow> key_to_jwk q = Returns (Inr k) \<Longrightarrow>
      sha (bytes_of (canonical_json j)) = sha (bytes_of (canonical_json k)) \<Longrightarrow>
      canonical_json j = canonical_json k"
  shows "p = q"
proof -
  obtain j where j: "key_to_jwk p = Returns (Inr j)" "jwk_to_key (Some j) = Inr p"
    using jwk_roundtrip [OF assms(1)] by blast
  obtain k where k: "key_to_jwk q = Returns (Inr k)" "jwk_to_key (Some k) = Inr q"
    using jwk_roundtrip [OF assms(2)] by blast
  have "sha (bytes_of (canonical_json j)) = sha (bytes_of (canonical_json k))"
    using assms(3) thumbprint_of [OF j(1)] thumbprint_of [OF k(1)] by (simp add: b64_raw_encode_inj)
  then have "j = k"
    using canonical_json_inj [OF key_to_jwk_shape [OF j(1)] key_to_jwk_shape [OF k(1)]]
      assms(4) [OF j(1) k(1)] by blast
  then show ?thesis using j(2) k(2) by simp
qed

section \<open>Messages\<close>

record jws_header =
  jh_alg :: string
  jh_nonce :: string
  jh_url :: string
  jh_jwk :: "jwk option"
  jh_kid :: string

record jws_message =
  jm_protected :: string
  jm_payload :: string
  jm_signature :: string

record parsed_jws =
  pj_header :: jws_header
  pj_payload :: "byte list"
  pj_public_key :: public_key

text \<open>
  JSON and signatures. \<open>je_rsa_verify\<close> is \<open>rsa.VerifyPKCS1v15\<close> with SHA-256 (key, digest,
  signature), \<open>je_ecdsa_verify\<close> is \<open>ecdsa.Verify\<close> (key, digest, r, s); the signing functions
  take the random bytes they draw.
\<close>

record 'k jws_env =
  je_unmarshal_message :: "byte list \<Rightarrow> string + jws_message"
  je_unmarshal_header :: "byte list \<Rightarrow> string + jws_header"
  je_marshal_message :: "jws_message \<Rightarrow> string + byte list"
  je_marshal_header :: "jws_header \<Rightarrow> string + byte list"
  je_sha256 :: "byte list \<Rightarrow> byte list"
  je_rsa_verify :: "public_key \<Rightarrow> byte list \<Rightarrow> byte list \<Rightarrow> bool"
  je_ecdsa_verify :: "public_key \<Rightarrow> byte list \<Rightarrow> nat \<Rightarrow> nat \<Rightarrow> bool"
  je_rsa_sign :: "byte list \<Rightarrow> 'k \<Rightarrow> byte list \<Rightarrow> string + byte list"
  je_ecdsa_sign :: "byte list \<Rightarrow> 'k \<Rightarrow> byte list \<Rightarrow> string + nat \<times> nat"

definition signing_input :: "string \<Rightarrow> string \<Rightarrow> byte list" where
  "signing_input prot payload = bytes_of (prot @ ''.'' @ payload)"

text \<open>The signature check of step 4.\<close>

definition check_signature ::
  "'k jws_env \<Rightarrow> string \<Rightarrow> public_key \<Rightarrow> byte list \<Rightarrow> byte list \<Rightarrow> jws_error option" where
  "check_signature env alg pub hash sig_bytes =
     (if alg = ''RS256'' then
        (case pub of
           RSAKey n e \<Rightarrow> if je_rsa_verify env pub hash sig_bytes then None else Some RSAVerifyFailed
         | _ \<Rightarrow> Some ExpectedRSA)
      else if alg = ''ES256'' then
        (case pub of
           ECDSAKey c x y \<Rightarrow>
             if length sig_bytes \<noteq> 64 then Some BadES256Length
             else if je_ecdsa_verify env pub hash (be_val (take 32 sig_bytes)) (be_val (drop 32 sig_bytes))
             then None else Some ECDSAVerifyFailed
         | _ \<Rightarrow> Some ExpectedECDSA)
      else Some (UnsupportedAlgorithm alg))"

definition resolve_key ::
  "(string \<Rightarrow> string + public_key) option \<Rightarrow> jws_header \<Rightarrow> jws_error + public_key" where
  "resolve_key key_lookup header =
     (case jh_jwk header of
        Some j \<Rightarrow> jwk_to_key (Some j)
      | None \<Rightarrow>
          if jh_kid header \<noteq> [] then
            (case key_lookup of
               None \<Rightarrow> Inl NoKeyLookup
             | Some look \<Rightarrow>
                 (case look (jh_kid header) of
                    Inl e \<Rightarrow> Inl (KidNotResolved (jh_kid header) e)
                  | Inr k \<Rightarrow> Inr k))
          else Inl MissingKey)"

definition decode_and_verify_jws ::
  "'k jws_env \<Rightarrow> byte list \<Rightarrow> (string \<Rightarrow> string + public_key) option \<Rightarrow> jws_error + parsed_jws" where
  "decode_and_verify_jws env body key_lookup =
     (case je_unmarshal_message env body of
        Inl e \<Rightarrow> Inl (BadMessageJson e)
      | Inr msg \<Rightarrow>
      if jm_protected msg = [] \<or> jm_signature msg = [] then Inl MissingProtectedOrSignature
      else (case b64_raw_decode b64_url (jm_protected msg) of
        None \<Rightarrow> Inl BadProtected
      | Some header_bytes \<Rightarrow>
     (case je_unmarshal_header env header_bytes of
        Inl e \<Rightarrow> Inl (BadHeaderJson e)
      | Inr header \<Rightarrow>
     (case (if jm_payload msg = [] then Some [] else b64_raw_decode b64_url (jm_payload msg)) of
        None \<Rightarrow> Inl BadPayload
      | Some payload_bytes \<Rightarrow>
     (case resolve_key key_lookup header of
        Inl e \<Rightarrow> Inl e
      | Inr pub_key \<Rightarrow>
     (case b64_raw_decode b64_url (jm_signature msg) of
        None \<Rightarrow> Inl BadSignatureEncoding
      | Some sig_bytes \<Rightarrow>
          let hash = je_sha256 env (signing_input (jm_protected msg) (jm_payload msg)) in
          (case check_signature env (jh_alg header) pub_key hash sig_bytes of
             Some e \<Rightarrow> Inl e
           | None \<Rightarrow> Inr \<lparr>pj_header = header, pj_payload = payload_bytes,
                         pj_public_key = pub_key\<rparr>)))))))"

text \<open>A signer is an RSA or ECDSA private key or another \<open>crypto.Signer\<close>, such as the HSM,
  with its public key.\<close>

datatype 'k jws_signer = RSAPrivate 'k public_key | ECDSAPrivate 'k public_key | OtherSigner public_key

fun signer_public :: "'k jws_signer \<Rightarrow> public_key" where
  "signer_public (RSAPrivate k p) = p"
| "signer_public (ECDSAPrivate k p) = p"
| "signer_public (OtherSigner p) = p"

text \<open>The slices \<open>rawSig[32-len(rBytes):32]\<close> and \<open>rawSig[64-len(sBytes):64]\<close>: a number of more than 32
  bytes makes the first panic, and the second one overwrite what is before it, or panic over 64 bytes.\<close>

definition raw_ecdsa_signature :: "nat \<Rightarrow> nat \<Rightarrow> byte list go_call" where
  "raw_ecdsa_signature r s =
     (let r_bytes = nat_bytes r; s_bytes = nat_bytes s in
      if length r_bytes > 32 \<or> length s_bytes > 64 then Panics
      else
        let raw = replicate (32 - length r_bytes) 0 @ r_bytes @ replicate 32 0
        in Returns (take (64 - length s_bytes) raw @ s_bytes))"

text \<open>The switch over the signer's type.\<close>

definition raw_signature ::
  "'k jws_env \<Rightarrow> byte list \<Rightarrow> 'k jws_signer \<Rightarrow> byte list \<Rightarrow> (jws_error + byte list) go_call" where
  "raw_signature env rnd sgnr hash =
     (case sgnr of
        RSAPrivate k _ \<Rightarrow>
          (case je_rsa_sign env rnd k hash of
             Inl e \<Rightarrow> Returns (Inl (SignFailed e))
           | Inr sig \<Rightarrow> Returns (Inr sig))
      | ECDSAPrivate k _ \<Rightarrow>
          (case je_ecdsa_sign env rnd k hash of
             Inl e \<Rightarrow> Returns (Inl (SignFailed e))
           | Inr (r, s) \<Rightarrow>
               (case raw_ecdsa_signature r s of Panics \<Rightarrow> Panics | Returns raw \<Rightarrow> Returns (Inr raw)))
      | OtherSigner _ \<Rightarrow> Returns (Inl UnsupportedSignerKey))"

definition sign_jws ::
  "'k jws_env \<Rightarrow> byte list \<Rightarrow> 'k jws_signer \<Rightarrow> jws_header \<Rightarrow> byte list \<Rightarrow> (jws_error + byte list) go_call" where
  "sign_jws env rnd sgnr header payload =
     (case (case signer_public sgnr of RSAKey _ _ \<Rightarrow> Some ''RS256'' | ECDSAKey _ _ _ \<Rightarrow> Some ''ES256'' | _ \<Rightarrow> None) of
        None \<Rightarrow> Returns (Inl UnsupportedSigner)
      | Some alg \<Rightarrow>
        let header = header\<lparr>jh_alg := alg\<rparr> in
     (case je_marshal_header env header of
        Inl e \<Rightarrow> Returns (Inl (HeaderMarshal e))
      | Inr header_json \<Rightarrow>
        let prot_b64 = b64_raw_encode b64_url header_json;
            pay_b64 = (if length payload > 0 then b64_raw_encode b64_url payload else []);
            hash = je_sha256 env (signing_input prot_b64 pay_b64)
        in
     (case raw_signature env rnd sgnr hash of
        Panics \<Rightarrow> Panics
      | Returns (Inl e) \<Rightarrow> Returns (Inl e)
      | Returns (Inr raw_sig) \<Rightarrow>
          (case je_marshal_message env \<lparr>jm_protected = prot_b64, jm_payload = pay_b64,
                  jm_signature = b64_raw_encode b64_url raw_sig\<rparr> of
             Inl e \<Rightarrow> Returns (Inl (MessageMarshal e))
           | Inr b \<Rightarrow> Returns (Inr b)))))"

section \<open>What a verified message means\<close>

lemma verified_jws:
  assumes "decode_and_verify_jws env body look = Inr p"
  obtains msg sig where
    "je_unmarshal_message env body = Inr msg" and
    "b64_raw_decode b64_url (jm_signature msg) = Some sig" and
    "check_signature env (jh_alg (pj_header p)) (pj_public_key p)
       (je_sha256 env (signing_input (jm_protected msg) (jm_payload msg))) sig = None" and
    "Option.bind (b64_raw_decode b64_url (jm_protected msg)) (\<lambda>b. case je_unmarshal_header env b of
       Inl _ \<Rightarrow> None | Inr h \<Rightarrow> Some h) = Some (pj_header p)" and
    "resolve_key look (pj_header p) = Inr (pj_public_key p)"
  using assms
  by (auto simp: decode_and_verify_jws_def Let_def split: sum.splits option.splits if_splits)

text \<open>Only the two algorithms pass, each with a key of its own kind.\<close>

lemma check_signature_kinds:
  "check_signature env alg pub hash sig = None \<Longrightarrow>
     (alg = ''RS256'' \<and> (\<exists>n e. pub = RSAKey n e) \<and> je_rsa_verify env pub hash sig) \<or>
     (alg = ''ES256'' \<and> (\<exists>c x y. pub = ECDSAKey c x y) \<and> length sig = 64 \<and>
       je_ecdsa_verify env pub hash (be_val (take 32 sig)) (be_val (drop 32 sig)))"
  by (auto simp: check_signature_def split: if_splits public_key.splits)

text \<open>The documented behaviour of the libraries for a matching key pair.\<close>

definition codec_ok :: "'k jws_env \<Rightarrow> bool" where
  "codec_ok env =
     ((\<forall>m b. je_marshal_message env m = Inr b \<longrightarrow> je_unmarshal_message env b = Inr m) \<and>
      (\<forall>h b. je_marshal_header env h = Inr b \<longrightarrow> b \<noteq> [] \<and> je_unmarshal_header env b = Inr h))"

definition signer_ok :: "'k jws_env \<Rightarrow> 'k jws_signer \<Rightarrow> bool" where
  "signer_ok env sgnr =
     (case sgnr of
        RSAPrivate k p \<Rightarrow> (\<exists>n e. p = RSAKey n e) \<and>
          (\<forall>rnd h sig. je_rsa_sign env rnd k h = Inr sig \<longrightarrow> sig \<noteq> [] \<and> je_rsa_verify env p h sig)
      | ECDSAPrivate k p \<Rightarrow> (\<exists>c x y. p = ECDSAKey c x y) \<and>
          (\<forall>rnd h r s. je_ecdsa_sign env rnd k h = Inr (r, s) \<longrightarrow>
             r < 256 ^ 32 \<and> s < 256 ^ 32 \<and> je_ecdsa_verify env p h r s)
      | OtherSigner p \<Rightarrow> True)"

lemma raw_ecdsa_signature_halves:
  assumes "r < 256 ^ 32" and "s < 256 ^ 32"
  shows "raw_ecdsa_signature r s = Returns (put_be 32 r @ put_be 32 s)"
proof -
  have l: "length (nat_bytes r) \<le> 32" "length (nat_bytes s) \<le> 32"
    using assms by (simp_all only: length_nat_bytes_le)
  let ?r = "replicate (32 - length (nat_bytes r)) 0 @ nat_bytes r"
  have "length ?r = 32" using l by simp
  then have "take (64 - length (nat_bytes s)) (?r @ replicate 32 0) = ?r @ replicate (32 - length (nat_bytes s)) 0"
    using l by (simp add: min_def) arith
  then have "raw_ecdsa_signature r s = Returns (?r @ replicate (32 - length (nat_bytes s)) 0 @ nat_bytes s)"
    using l unfolding raw_ecdsa_signature_def Let_def by (simp only: append_assoc if_False linorder_not_less) auto
  then show ?thesis by (simp only: append_assoc [symmetric] pad_nat_bytes [OF assms(1)])
      (simp only: append_assoc pad_nat_bytes [OF assms(2)])
qed

lemma sextets_Nil_iff: "b64_raw_encode b64_url bs = [] \<longleftrightarrow> bs = []"
proof -
  have "b64_raw_encode b64_url [] = []" by (simp add: b64_raw_encode_def)
  then show ?thesis by (metis b64_raw_encode_inj)
qed

lemma signed_checks:
  assumes "signer_ok env sgnr" and "jh_alg h = (case signer_public sgnr of RSAKey _ _ \<Rightarrow> ''RS256'' | _ \<Rightarrow> ''ES256'')"
    and "raw_signature env rnd sgnr hash = Returns (Inr sig)"
  shows "sig \<noteq> [] \<and> check_signature env (jh_alg h) (signer_public sgnr) hash sig = None"
proof (cases sgnr)
  case (RSAPrivate k p)
  then show ?thesis using assms
    by (auto simp: signer_ok_def check_signature_def raw_signature_def split: sum.splits)
next
  case (ECDSAPrivate k p)
  then obtain r s where rs: "je_ecdsa_sign env rnd k hash = Inr (r, s)" "raw_ecdsa_signature r s = Returns sig"
    using assms(3) by (auto simp: raw_signature_def split: sum.splits prod.splits go_call.splits)
  then have b: "r < 256 ^ 32" "s < 256 ^ 32" "je_ecdsa_verify env p hash r s"
    and p: "\<exists>c x y. p = ECDSAKey c x y"
    using assms(1) ECDSAPrivate by (auto simp: signer_ok_def)
  have sig: "sig = put_be 32 r @ put_be 32 s"
    using rs(2) raw_ecdsa_signature_halves [OF b(1,2)] by simp
  then have "length sig = 64" "be_val (take 32 sig) = r" "be_val (drop 32 sig) = s"
    using b(1,2) by (simp_all add: be_val_put_be)
  moreover have "sig \<noteq> []" using \<open>length sig = 64\<close> by auto
  ultimately show ?thesis using p b(3) ECDSAPrivate assms(2) by (auto simp: check_signature_def)
qed (use assms in \<open>simp add: raw_signature_def\<close>)

lemma sign_verify:
  assumes "codec_ok env" and "signer_ok env sgnr" and "sign_jws env rnd sgnr header payload = Returns (Inr body)"
    and "\<And>alg. resolve_key look (header\<lparr>jh_alg := alg\<rparr>) = Inr (signer_public sgnr)"
  shows "\<exists>alg. decode_and_verify_jws env body look =
    Inr \<lparr>pj_header = header\<lparr>jh_alg := alg\<rparr>, pj_payload = payload, pj_public_key = signer_public sgnr\<rparr>"
proof -
  obtain alg where alg: "(case signer_public sgnr of RSAKey _ _ \<Rightarrow> Some ''RS256''
      | ECDSAKey _ _ _ \<Rightarrow> Some ''ES256'' | _ \<Rightarrow> None) = Some alg"
    using assms(3) by (auto simp: sign_jws_def split: option.splits)
  let ?h = "header\<lparr>jh_alg := alg\<rparr>"
  have ha: "jh_alg ?h = (case signer_public sgnr of RSAKey _ _ \<Rightarrow> ''RS256'' | _ \<Rightarrow> ''ES256'')"
    using alg by (auto split: public_key.splits)
  obtain hj where hj: "je_marshal_header env ?h = Inr hj"
    using assms(3) alg by (auto simp: sign_jws_def Let_def split: sum.splits)
  let ?pb = "b64_raw_encode b64_url hj"
  let ?yb = "if length payload > 0 then b64_raw_encode b64_url payload else []"
  let ?hash = "je_sha256 env (signing_input ?pb ?yb)"
  obtain sig where sig: "raw_signature env rnd sgnr ?hash = Returns (Inr sig)"
    and body: "je_marshal_message env \<lparr>jm_protected = ?pb, jm_payload = ?yb,
      jm_signature = b64_raw_encode b64_url sig\<rparr> = Inr body"
    using assms(3) unfolding sign_jws_def alg option.case Let_def hj sum.case
    by (auto split: sum.splits go_call.splits)
  have um: "je_unmarshal_message env body = Inr \<lparr>jm_protected = ?pb, jm_payload = ?yb,
      jm_signature = b64_raw_encode b64_url sig\<rparr>"
    and uh: "je_unmarshal_header env hj = Inr ?h" "hj \<noteq> []"
    using assms(1) body hj unfolding codec_ok_def by blast+
  note ck = signed_checks [OF assms(2) ha sig]
  have "decode_and_verify_jws env body look =
    Inr \<lparr>pj_header = ?h, pj_payload = payload, pj_public_key = signer_public sgnr\<rparr>"
    using um uh ck assms(4) [of alg]
    by (cases "payload = []") (simp_all add: decode_and_verify_jws_def sextets_Nil_iff Let_def)
  then show ?thesis by blast
qed

end
