(* ===== verification/Go_Pem.thy ===== *)
theory Go_Pem
  imports Go_Base64
begin

text \<open>
  \<open>encoding/pem\<close>: \<open>pem.EncodeToMemory\<close> of a block without headers, written out. Decoding is a
  library function the code calls on text of any origin; a component that needs it takes it as
  an argument, with the documented round trip as a named hypothesis.
\<close>

function break_lines :: "string \<Rightarrow> string" where
  "break_lines s =
     (if length s \<le> 64 then (if s = [] then [] else s @ [CHR 0x0A])
      else take 64 s @ [CHR 0x0A] @ break_lines (drop 64 s))"
  by auto
termination by (relation "measure length") auto

declare break_lines.simps [simp del]

definition pem_encode :: "string \<Rightarrow> byte list \<Rightarrow> byte list" where
  "pem_encode block_type der =
     bytes_of (''-----BEGIN '' @ block_type @ ''-----'' @ [CHR 0x0A] @
               break_lines (b64_padded_encode b64_std der) @
               ''-----END '' @ block_type @ ''-----'' @ [CHR 0x0A])"

type_synonym pem_decoder = "byte list \<Rightarrow> (string \<times> byte list) option"

text \<open>The documented round trip, for block types that are a plain label.\<close>

definition pem_label :: "string \<Rightarrow> bool" where
  "pem_label t = (CHR ''-'' \<notin> set t \<and> CHR '':'' \<notin> set t \<and> CHR 0x0A \<notin> set t \<and> CHR 0x0D \<notin> set t)"

definition pem_decode_ok :: "pem_decoder \<Rightarrow> bool" where
  "pem_decode_ok dec = (\<forall>t der. pem_label t \<longrightarrow> dec (pem_encode t der) = Some (t, der))"

section \<open>A decoder\<close>

text \<open>A decoder with that round trip, which takes the label of the first line and the text up to
  the next dash; the witnesses of the properties use it.\<close>

definition line_decoder :: pem_decoder where
  "line_decoder bs =
     (let s = string_of bs; body = drop 1 (dropWhile (\<lambda>c. c \<noteq> CHR 0x0A) s)
      in if \<not> has_prefix s ''-----BEGIN '' then None
         else map_option (\<lambda>der. (takeWhile (\<lambda>c. c \<noteq> CHR ''-'') (drop 11 s), der))
                (b64_padded_decode b64_std (takeWhile (\<lambda>c. c \<noteq> CHR ''-'') body)))"

lemma skip_newlines_append: "skip_newlines (s @ t) = skip_newlines s @ skip_newlines t"
  by (simp add: skip_newlines_def)

lemma break_lines_short: "length s \<le> 64 \<Longrightarrow> break_lines s = (if s = [] then [] else s @ [CHR 0x0A])"
  by (subst break_lines.simps) simp

lemma break_lines_long: "\<not> length s \<le> 64 \<Longrightarrow> break_lines s = take 64 s @ [CHR 0x0A] @ break_lines (drop 64 s)"
  by (subst break_lines.simps) (simp only: if_False)

lemma skip_newline_char [simp]: "skip_newlines [CHR 0x0A] = []"
  by (simp add: skip_newlines_def)

lemma break_lines_skip: "skip_newlines (break_lines s) = skip_newlines s"
proof (induction s rule: break_lines.induct)
  case (1 s)
  show ?case
  proof (cases "length s \<le> 64")
    case True
    then show ?thesis by (simp add: break_lines_short skip_newlines_append)
  next
    case False
    have "skip_newlines (break_lines s) = skip_newlines (take 64 s) @ skip_newlines (drop 64 s)"
      using 1 [OF False] by (simp only: break_lines_long [OF False] skip_newlines_append skip_newline_char append_Nil)
    also have "\<dots> = skip_newlines s" by (metis skip_newlines_append append_take_drop_id)
    finally show ?thesis .
  qed
qed

lemma set_break_lines: "set (break_lines s) \<subseteq> set s \<union> {CHR 0x0A}"
proof (induction s rule: break_lines.induct)
  case (1 s)
  show ?case
  proof (cases "length s \<le> 64")
    case True
    then show ?thesis by (auto simp: break_lines_short)
  next
    case False
    then show ?thesis using 1 by (auto simp: break_lines_long dest: in_set_takeD in_set_dropD)
  qed
qed

lemma b64_padded_no_dash: "CHR ''-'' \<notin> set (b64_padded_encode b64_std der)"
proof -
  have "CHR ''-'' \<notin> set b64_std" by (simp add: b64_std_def)
  then show ?thesis
    using set_b64_raw_encode [OF b64_alphabets(2), of der] by (auto simp: b64_padded_encode_def)
qed

lemma takeWhile_stop: "c \<notin> set xs \<Longrightarrow> takeWhile (\<lambda>x. x \<noteq> c) (xs @ c # ys) = xs"
  by (induction xs) auto

lemma dropWhile_stop: "c \<notin> set xs \<Longrightarrow> dropWhile (\<lambda>x. x \<noteq> c) (xs @ c # ys) = c # ys"
  by (induction xs) auto

lemma line_decoder_ok: "pem_decode_ok line_decoder"
proof -
  have "line_decoder (pem_encode t der) = Some (t, der)" if t: "pem_label t" for t der
  proof -
    let ?b = "break_lines (b64_padded_encode b64_std der)"
    let ?hd = "''-----BEGIN '' @ t @ ''-----''"
    have s: "string_of (pem_encode t der) =
        ?hd @ CHR 0x0A # ?b @ CHR ''-'' # ''----END '' @ t @ ''-----'' @ [CHR 0x0A]"
      unfolding pem_encode_def string_of_bytes_of by simp
    have nl: "CHR 0x0A \<notin> set ?hd" and d: "CHR ''-'' \<notin> set t" using t by (auto simp: pem_label_def)
    have b: "CHR ''-'' \<notin> set ?b"
      using set_break_lines [of "b64_padded_encode b64_std der"] b64_padded_no_dash [of der] by auto
    have "drop 1 (dropWhile (\<lambda>c. c \<noteq> CHR 0x0A) (string_of (pem_encode t der))) =
        ?b @ CHR ''-'' # ''----END '' @ t @ ''-----'' @ [CHR 0x0A]"
      unfolding s dropWhile_stop [OF nl] by simp
    moreover have "b64_padded_decode b64_std ?b = Some der"
      using b64_padded_std_roundtrip [of der] unfolding b64_padded_decode_def break_lines_skip by simp
    moreover have "takeWhile (\<lambda>c. c \<noteq> CHR ''-'') (drop 11 (string_of (pem_encode t der))) = t"
      unfolding s using takeWhile_stop [OF d, of "''----'' @ CHR 0x0A # ?b @ CHR ''-'' # ''----END '' @ t @ ''-----'' @ [CHR 0x0A]"]
      by simp
    moreover have "has_prefix (string_of (pem_encode t der)) ''-----BEGIN ''"
      unfolding s by (simp add: has_prefix_def)
    ultimately show ?thesis using takeWhile_stop [OF b] by (simp add: line_decoder_def Let_def)
  qed
  then show ?thesis by (simp add: pem_decode_ok_def)
qed

end
