(* ===== verification/Acme_Server.thy ===== *)
theory Acme_Server
  imports Authority Acme_Nonce Acme_Jws Go_Http Go_Pem
begin

text \<open>
  \<open>pkg/protocols/acme/server.go\<close>: the ACME server. Its state is the record of its maps; a
  handler is a function on the world it runs in (server, storage, entropy left, response
  headers set so far), one per Go function, with the calls in the order the code makes them.
  Each handler's critical sections are taken one request at a time. One request reads one
  clock value.
\<close>

section \<open>Objects\<close>

datatype detail =
    Detail string
  | ReserveDetail serial_error
  | SignDetail authority_error

record problem_details =
  pd_type :: string
  pd_detail :: detail
  pd_status :: nat

definition ProblemBadNonce :: string where
  "ProblemBadNonce = ''urn:ietf:params:acme:error:badNonce''"

definition ProblemMalformed :: string where
  "ProblemMalformed = ''urn:ietf:params:acme:error:malformed''"

definition ProblemAccountDoesNotExist :: string where
  "ProblemAccountDoesNotExist = ''urn:ietf:params:acme:error:accountDoesNotExist''"

definition ProblemOrderNotReady :: string where
  "ProblemOrderNotReady = ''urn:ietf:params:acme:error:orderNotReady''"

definition ProblemServerInternal :: string where
  "ProblemServerInternal = ''urn:ietf:params:acme:error:serverInternal''"

record account =
  acc_id :: string
  acc_key :: public_key
  acc_key_thumbprint :: string
  acc_status :: string
  acc_contact :: "string list"
  acc_orders_url :: string
  acc_terms_agreed :: bool
  acc_created_at :: go_time

record acme_identifier =
  id_type :: string
  id_value :: string

record challenge =
  ch_type :: string
  ch_url :: string
  ch_token :: string
  ch_status :: string
  ch_validated :: string
  ch_error :: "problem_details option"

record authorization =
  az_id :: string
  az_account_id :: string
  az_status :: string
  az_expires :: string
  az_identifier :: acme_identifier
  az_challenges :: "challenge list"

record order =
  od_id :: string
  od_account_id :: string
  od_status :: string
  od_expires :: string
  od_identifiers :: "acme_identifier list"
  od_authorizations :: "string list"
  od_finalize_url :: string
  od_certificate_url :: string

record challenge_ref =
  cf_authz_id :: string
  cf_index :: nat

record 'k acme_server =
  as_base_url :: string
  as_authority :: "'k authority"
  as_nonces :: nonce_manager
  as_skip_challenge_validation :: bool
  as_accounts :: "(string, account) gomap"
  as_accounts_by_thumb :: "(string, account) gomap"
  as_orders :: "(string, order) gomap"
  as_authorizations :: "(string, authorization) gomap"
  as_challenges :: "(string, challenge_ref) gomap"
  as_certificates :: "(string, byte list) gomap"
  as_order_authz_map :: "(string, string) gomap"

datatype server_error = NilAuthority | NilServerStorage

definition new_acme_server ::
  "string \<Rightarrow> 'k authority option \<Rightarrow> ('s, 'e) storage_iface option \<Rightarrow> duration \<Rightarrow> bool \<Rightarrow>
     server_error + 'k acme_server" where
  "new_acme_server base_url authority storage nonce_ttl skip =
     (let base_url = trim_suffix (if base_url = [] then ''http://localhost:8080'' else base_url) ''/'' in
      case authority of
        None \<Rightarrow> Inl NilAuthority
      | Some a \<Rightarrow>
          (case storage of
             None \<Rightarrow> Inl NilServerStorage
           | Some _ \<Rightarrow>
               Inr \<lparr>as_base_url = base_url, as_authority = a, as_nonces = new_nonce_manager nonce_ttl,
                    as_skip_challenge_validation = skip, as_accounts = [], as_accounts_by_thumb = [],
                    as_orders = [], as_authorizations = [], as_challenges = [], as_certificates = [],
                    as_order_authz_map = []\<rparr>))"

section \<open>The world of a request\<close>

record new_account_payload =
  na_contact :: "string list"
  na_terms_of_service_agreed :: bool
  na_only_return_existing :: bool

text \<open>The libraries: JWS and certificate cryptography, the JSON decoders of the payloads (the
  finalize payload is its \<open>csr\<close> field), RFC 3339 text of a time, the base-64 decoder's message
  within a JWS error, and the storage.\<close>

record ('k, 's, 'e) acme_env =
  ae_jws :: "'k jws_env"
  ae_crypto :: "'k crypto_env"
  ae_storage :: "('s, 'e) storage_iface"
  ae_new_account_payload :: "byte list \<Rightarrow> new_account_payload option"
  ae_new_order_payload :: "byte list \<Rightarrow> acme_identifier list option"
  ae_finalize_payload :: "byte list \<Rightarrow> string option"
  ae_format_rfc3339 :: "go_time \<Rightarrow> string"
  ae_b64_error_text :: "jws_error \<Rightarrow> string"

record 'e acme_inputs =
  ai_now :: go_time
  ai_reserve :: "nat \<Rightarrow> ctx \<times> 'e \<times> go_time"
  ai_save :: 'e
  ai_rnd :: "byte list"

record ('k, 's) world =
  w_srv :: "'k acme_server"
  w_store :: 's
  w_ent :: entropy
  w_hs :: headers

datatype acme_json =
    DirectoryJson "(string \<times> string) list"
  | ProblemJson problem_details
  | AccountJson account
  | OrderJson order
  | AuthzJson authorization
  | ChallengeJson challenge

type_synonym ('k, 's) handled = "acme_json response \<times> ('k, 's) world"

definition set_hdr :: "string \<Rightarrow> string \<Rightarrow> ('k, 's) world \<Rightarrow> ('k, 's) world" where
  "set_hdr k v w = w\<lparr>w_hs := gm_set k v (w_hs w)\<rparr>"

definition reply :: "nat \<Rightarrow> acme_json body \<Rightarrow> ('k, 's) world \<Rightarrow> ('k, 's) handled" where
  "reply code b w = (respond code (w_hs w) b, w)"

text \<open>A handler that panics: the connection is dropped without an answer.\<close>

definition panicked :: "('k, 's) world \<Rightarrow> ('k, 's) handled" where
  "panicked w = (respond 0 [] NoBody, w)"

section \<open>Helpers\<close>

definition add_nonce_header :: "go_time \<Rightarrow> ('k, 's) world \<Rightarrow> ('k, 's) world" where
  "add_nonce_header now w =
     (let (nonce, m, ent) = generate_nonce (w_ent w) now (as_nonces (w_srv w));
          w' = w\<lparr>w_srv := (w_srv w)\<lparr>as_nonces := m\<rparr>, w_ent := ent\<rparr>
      in case nonce of None \<Rightarrow> w' | Some n \<Rightarrow> set_hdr ''Replay-Nonce'' n w')"

definition write_problem :: "go_time \<Rightarrow> problem_details \<Rightarrow> ('k, 's) world \<Rightarrow> ('k, 's) handled" where
  "write_problem now p w =
     reply (pd_status p) (Json (ProblemJson p))
       (add_nonce_header now (set_hdr ''Content-Type'' ''application/problem+json'' w))"

abbreviation problem :: "string \<Rightarrow> detail \<Rightarrow> nat \<Rightarrow> problem_details" where
  "problem t d code \<equiv> \<lparr>pd_type = t, pd_detail = d, pd_status = code\<rparr>"

definition plain_error :: "string \<Rightarrow> nat \<Rightarrow> ('k, 's) world \<Rightarrow> ('k, 's) handled" where
  "plain_error msg code w = (http_error (w_hs w) msg code, w)"

definition wrong_method :: "string \<Rightarrow> ('k, 's) world \<Rightarrow> ('k, 's) handled" where
  "wrong_method allow w = plain_error ''Method Not Allowed'' 405 (set_hdr ''Allow'' allow w)"

definition lookup_key :: "'k acme_server \<Rightarrow> string \<Rightarrow> string + public_key" where
  "lookup_key s kid =
     (let account_id = trim_prefix kid (as_base_url s @ ''/acme/acct/'');
          account_id = (if CHR ''/'' \<in> set account_id then after_last CHR ''/'' account_id else account_id)
      in case map_of (as_accounts s) account_id of
           None \<Rightarrow> Inl (''account '' @ go_quote account_id @ '' not found'')
         | Some acct \<Rightarrow> Inr (acc_key acct))"

text \<open>The error texts, as far as \<open>verifyJWS\<close> looks into them.\<close>

fun jws_error_text :: "(jws_error \<Rightarrow> string) \<Rightarrow> jws_error \<Rightarrow> string" where
  "jws_error_text lib (KidNotResolved kid e) =
     ''failed resolving key for kid '' @ go_quote kid @ '': '' @ e"
| "jws_error_text lib (UnsupportedAlgorithm a) = ''unsupported JWS algorithm: '' @ go_quote a"
| "jws_error_text lib (UnsupportedCrv c) =
     ''unsupported JWS algorithm: unsupported curve '' @ go_quote c"
| "jws_error_text lib (UnknownKty t) = ''unsupported JWS algorithm: unknown kty '' @ go_quote t"
| "jws_error_text lib (BadMessageJson e) = ''invalid JWS payload: '' @ e"
| "jws_error_text lib (BadHeaderJson e) =
     ''invalid JWS payload: failed parsing protected header JSON: '' @ e"
| "jws_error_text lib MissingProtectedOrSignature =
     ''invalid JWS payload: missing protected or signature''"
| "jws_error_text lib MissingKey = ''missing public key or kid in JWS header''"
| "jws_error_text lib NotOnP256 = ''EC point is not on P-256 curve''"
| "jws_error_text lib ExpectedRSA =
     ''JWS signature verification failed: expected RSA public key for RS256''"
| "jws_error_text lib ExpectedECDSA =
     ''JWS signature verification failed: expected ECDSA public key for ES256''"
| "jws_error_text lib BadES256Length =
     ''JWS signature verification failed: ES256 signature must be 64 bytes (R||S)''"
| "jws_error_text lib ECDSAVerifyFailed = ''JWS signature verification failed''"
| "jws_error_text lib e = lib e"

definition verify_jws ::
  "('k, 's, 'e) acme_env \<Rightarrow> 'e acme_inputs \<Rightarrow> request \<Rightarrow> ('k, 's) world \<Rightarrow>
     (acme_json response + parsed_jws) \<times> ('k, 's) world" where
  "verify_jws env inp r w =
     (case rq_body r of
        None \<Rightarrow>
          (let (resp, w') = write_problem (ai_now inp)
                 (problem ProblemMalformed (Detail ''failed reading request body'') 400) w
           in (Inl resp, w'))
      | Some b \<Rightarrow>
     (case decode_and_verify_jws (ae_jws env) b (Some (lookup_key (w_srv w))) of
        Inl e \<Rightarrow>
          (let text = jws_error_text (ae_b64_error_text env) e;
               t = (if contains_str text ''account'' \<and> contains_str text ''not found''
                    then ProblemAccountDoesNotExist else ProblemMalformed);
               (resp, w') = write_problem (ai_now inp) (problem t (Detail text) 400) w
           in (Inl resp, w'))
      | Inr parsed \<Rightarrow>
          (let (ok, m) = validate_and_consume_nonce (ai_now inp) (jh_nonce (pj_header parsed))
                           (as_nonces (w_srv w));
               w1 = w\<lparr>w_srv := (w_srv w)\<lparr>as_nonces := m\<rparr>\<rparr>
           in if \<not> ok
              then let (resp, w') = write_problem (ai_now inp)
                         (problem ProblemBadNonce (Detail ''replay nonce invalid or expired'') 400)
                         (add_nonce_header (ai_now inp) w1)
                   in (Inl resp, w')
              else (Inr parsed, add_nonce_header (ai_now inp) w1))))"

text \<open>\<open>rand.Read\<close>'s error is dropped, which leaves the buffer zero.\<close>

definition random_id :: "string \<Rightarrow> ('k, 's) world \<Rightarrow> string \<times> ('k, 's) world" where
  "random_id pre w =
     (let (b, ent) = (case rand_read 8 (w_ent w) of None \<Rightarrow> (replicate 8 0, w_ent w) | Some r \<Rightarrow> r)
      in (pre @ ''_'' @ hex_encode b, w\<lparr>w_ent := ent\<rparr>))"

text \<open>The authentication most handlers start with on POST.\<close>

definition authenticated ::
  "('k, 's, 'e) acme_env \<Rightarrow> 'e acme_inputs \<Rightarrow> request \<Rightarrow> ('k, 's) world \<Rightarrow>
     (('k, 's) world \<Rightarrow> ('k, 's) handled) \<Rightarrow> ('k, 's) handled" where
  "authenticated env inp r w k =
     (if rq_method r = ''POST'' then
        (case verify_jws env inp r w of (Inl resp, w') \<Rightarrow> (resp, w') | (Inr _, w') \<Rightarrow> k w')
      else k w)"

section \<open>Handlers\<close>

definition handle_directory :: "request \<Rightarrow> ('k, 's) world \<Rightarrow> ('k, 's) handled" where
  "handle_directory r w =
     (if rq_method r \<noteq> ''GET'' then plain_error ''Method Not Allowed'' 405 w
      else let base = as_base_url (w_srv w) in
        reply 200 (Json (DirectoryJson
          [(''newNonce'', base @ ''/acme/new-nonce''), (''newAccount'', base @ ''/acme/new-account''),
           (''newOrder'', base @ ''/acme/new-order''), (''revokeCert'', base @ ''/acme/revoke-cert'')]))
          (set_hdr ''Content-Type'' ''application/json'' w))"

definition handle_new_nonce :: "'e acme_inputs \<Rightarrow> request \<Rightarrow> ('k, 's) world \<Rightarrow> ('k, 's) handled" where
  "handle_new_nonce inp r w =
     (if rq_method r \<noteq> ''GET'' \<and> rq_method r \<noteq> ''HEAD'' then wrong_method ''GET, HEAD'' w
      else reply 204 NoBody (add_nonce_header (ai_now inp) (set_hdr ''Cache-Control'' ''no-store'' w)))"

definition reply_account :: "nat \<Rightarrow> account \<Rightarrow> ('k, 's) world \<Rightarrow> ('k, 's) handled" where
  "reply_account code acct w =
     reply code (Json (AccountJson acct))
       (set_hdr ''Content-Type'' ''application/json''
         (set_hdr ''Location'' (as_base_url (w_srv w) @ ''/acme/acct/'' @ acc_id acct) w))"

definition handle_new_account ::
  "('k, 's, 'e) acme_env \<Rightarrow> 'e acme_inputs \<Rightarrow> request \<Rightarrow> ('k, 's) world \<Rightarrow> ('k, 's) handled" where
  "handle_new_account env inp r w =
     (if rq_method r \<noteq> ''POST'' then wrong_method ''POST'' w
      else case verify_jws env inp r w of
        (Inl resp, w) \<Rightarrow> (resp, w)
      | (Inr jws, w) \<Rightarrow>
          if jh_jwk (pj_header jws) = None
          then write_problem (ai_now inp)
                 (problem ProblemMalformed (Detail ''newAccount requires jwk in protected header'') 400) w
          else case (if length (pj_payload jws) > 0 then ae_new_account_payload env (pj_payload jws)
                     else Some \<lparr>na_contact = [], na_terms_of_service_agreed = False,
                                na_only_return_existing = False\<rparr>) of
            None \<Rightarrow> write_problem (ai_now inp)
                      (problem ProblemMalformed (Detail ''invalid JSON payload'') 400) w
          | Some payload \<Rightarrow>
         (case compute_jwk_thumbprint (je_sha256 (ae_jws env)) (pj_public_key jws) of
            Panics \<Rightarrow> panicked w
          | Returns (Inl _) \<Rightarrow> write_problem (ai_now inp)
                      (problem ProblemServerInternal (Detail ''failed computing key thumbprint'') 500) w
          | Returns (Inr thumbprint) \<Rightarrow>
         (case map_of (as_accounts_by_thumb (w_srv w)) thumbprint of
            Some existing \<Rightarrow> reply_account 200 existing w
          | None \<Rightarrow>
              if na_only_return_existing payload
              then write_problem (ai_now inp) (problem ProblemAccountDoesNotExist
                     (Detail ''no account exists for the provided key'') 400) w
              else
                let (acct_id, w) = random_id ''acct'' w;
                    s = w_srv w;
                    acct = \<lparr>acc_id = acct_id, acc_key = pj_public_key jws,
                      acc_key_thumbprint = thumbprint, acc_status = ''valid'',
                      acc_contact = na_contact payload,
                      acc_orders_url = as_base_url s @ ''/acme/acct/'' @ acct_id @ ''/orders'',
                      acc_terms_agreed = na_terms_of_service_agreed payload,
                      acc_created_at = ai_now inp\<rparr>
                in reply_account 201 acct (w\<lparr>w_srv := s\<lparr>
                     as_accounts := gm_set acct_id acct (as_accounts s),
                     as_accounts_by_thumb := gm_set thumbprint acct (as_accounts_by_thumb s)\<rparr>\<rparr>))))"

definition handle_account ::
  "('k, 's, 'e) acme_env \<Rightarrow> 'e acme_inputs \<Rightarrow> request \<Rightarrow> string \<Rightarrow> ('k, 's) world \<Rightarrow> ('k, 's) handled" where
  "handle_account env inp r acct_id w =
     authenticated env inp r w (\<lambda>w.
       case map_of (as_accounts (w_srv w)) acct_id of
         None \<Rightarrow> write_problem (ai_now inp)
                   (problem ProblemAccountDoesNotExist (Detail ''account not found'') 404) w
       | Some acct \<Rightarrow> reply 200 (Json (AccountJson acct))
                       (set_hdr ''Content-Type'' ''application/json'' w))"

text \<open>The loop of \<open>handleNewOrder\<close> over the identifiers.\<close>

fun create_authzs ::
  "('k, 's, 'e) acme_env \<Rightarrow> go_time \<Rightarrow> string \<Rightarrow> string \<Rightarrow> acme_identifier list \<Rightarrow> ('k, 's) world \<Rightarrow>
     string list \<times> ('k, 's) world" where
  "create_authzs env now account_id order_id [] w = ([], w)"
| "create_authzs env now account_id order_id (ident # idents) w =
     (let (authz_id, w) = random_id ''authz'' w;
          (chal_id, w) = random_id ''chal'' w;
          (chal_token, w) = random_id ''token'' w;
          s = w_srv w;
          chal = \<lparr>ch_type = ''http-01'', ch_url = as_base_url s @ ''/acme/challenge/'' @ chal_id,
            ch_token = chal_token, ch_status = ''pending'', ch_validated = [], ch_error = None\<rparr>;
          authz = \<lparr>az_id = authz_id, az_account_id = account_id, az_status = ''pending'',
            az_expires = ae_format_rfc3339 env (now + 24 * hour), az_identifier = ident,
            az_challenges = [chal]\<rparr>;
          s = s\<lparr>as_authorizations := gm_set authz_id authz (as_authorizations s),
            as_challenges := gm_set chal_id \<lparr>cf_authz_id = authz_id, cf_index = 0\<rparr> (as_challenges s),
            as_order_authz_map := gm_set authz_id order_id (as_order_authz_map s)\<rparr>;
          (urls, w) = create_authzs env now account_id order_id idents (w\<lparr>w_srv := s\<rparr>)
      in ((as_base_url s @ ''/acme/authz/'' @ authz_id) # urls, w))"

definition place_order ::
  "('k, 's, 'e) acme_env \<Rightarrow> 'e acme_inputs \<Rightarrow> jws_header \<Rightarrow> acme_identifier list \<Rightarrow> ('k, 's) world \<Rightarrow>
     ('k, 's) handled" where
  "place_order env inp header idents w =
     (let base = as_base_url (w_srv w);
          account_id = trim_prefix (jh_kid header) (base @ ''/acme/acct/'');
          (order_id, w) = random_id ''order'' w;
          (authz_urls, w) = create_authzs env (ai_now inp) account_id order_id idents w;
          ord = \<lparr>od_id = order_id, od_account_id = account_id, od_status = ''pending'',
            od_expires = ae_format_rfc3339 env (ai_now inp + 24 * hour),
            od_identifiers = idents, od_authorizations = authz_urls,
            od_finalize_url = base @ ''/acme/order/'' @ order_id @ ''/finalize'',
            od_certificate_url = []\<rparr>;
          w = w\<lparr>w_srv := (w_srv w)\<lparr>as_orders := gm_set order_id ord (as_orders (w_srv w))\<rparr>\<rparr>
      in reply 201 (Json (OrderJson ord))
           (set_hdr ''Content-Type'' ''application/json''
             (set_hdr ''Location'' (base @ ''/acme/order/'' @ order_id) w)))"

definition handle_new_order ::
  "('k, 's, 'e) acme_env \<Rightarrow> 'e acme_inputs \<Rightarrow> request \<Rightarrow> ('k, 's) world \<Rightarrow> ('k, 's) handled" where
  "handle_new_order env inp r w =
     (if rq_method r \<noteq> ''POST'' then wrong_method ''POST'' w
      else case verify_jws env inp r w of
        (Inl resp, w) \<Rightarrow> (resp, w)
      | (Inr jws, w) \<Rightarrow>
         (case ae_new_order_payload env (pj_payload jws) of
            Some (ident # idents) \<Rightarrow> place_order env inp (pj_header jws) (ident # idents) w
          | _ \<Rightarrow> write_problem (ai_now inp)
                   (problem ProblemMalformed (Detail ''identifiers list cannot be empty'') 400) w))"

text \<open>The loop, repeated in three handlers, that tests an order's authorizations.\<close>

definition authz_valid :: "'k acme_server \<Rightarrow> string \<Rightarrow> bool" where
  "authz_valid s url =
     (case map_of (as_authorizations s) (trim_prefix url (as_base_url s @ ''/acme/authz/'')) of
        None \<Rightarrow> False
      | Some a \<Rightarrow> az_status a = ''valid'')"

definition all_authz_valid :: "'k acme_server \<Rightarrow> order \<Rightarrow> bool" where
  "all_authz_valid s ord = list_all (authz_valid s) (od_authorizations ord)"

definition refresh_order :: "'k acme_server \<Rightarrow> order \<Rightarrow> order" where
  "refresh_order s ord =
     (if od_status ord = ''pending'' \<and> all_authz_valid s ord then ord\<lparr>od_status := ''ready''\<rparr> else ord)"

definition handle_get_order ::
  "('k, 's, 'e) acme_env \<Rightarrow> 'e acme_inputs \<Rightarrow> request \<Rightarrow> string \<Rightarrow> ('k, 's) world \<Rightarrow> ('k, 's) handled" where
  "handle_get_order env inp r order_id w =
     authenticated env inp r w (\<lambda>w.
       let s = w_srv w in
       case map_of (as_orders s) order_id of
         None \<Rightarrow> write_problem (ai_now inp) (problem ProblemMalformed (Detail ''order not found'') 404) w
       | Some ord \<Rightarrow>
           let ord = refresh_order s ord;
               w = w\<lparr>w_srv := s\<lparr>as_orders := gm_set order_id ord (as_orders s)\<rparr>\<rparr>
           in reply 200 (Json (OrderJson ord))
                (set_hdr ''Content-Type'' ''application/json''
                  (set_hdr ''Location'' (as_base_url s @ ''/acme/order/'' @ order_id) w)))"

definition handle_get_authz ::
  "('k, 's, 'e) acme_env \<Rightarrow> 'e acme_inputs \<Rightarrow> request \<Rightarrow> string \<Rightarrow> ('k, 's) world \<Rightarrow> ('k, 's) handled" where
  "handle_get_authz env inp r authz_id w =
     authenticated env inp r w (\<lambda>w.
       case map_of (as_authorizations (w_srv w)) authz_id of
         None \<Rightarrow> write_problem (ai_now inp)
                   (problem ProblemMalformed (Detail ''authorization not found'') 404) w
       | Some authz \<Rightarrow> reply 200 (Json (AuthzJson authz))
                        (set_hdr ''Content-Type'' ''application/json'' w))"

text \<open>The update of \<open>handleChallenge\<close> under the lock: challenge, authorization, parent order.\<close>

definition accept_challenge ::
  "(go_time \<Rightarrow> string) \<Rightarrow> go_time \<Rightarrow> challenge_ref \<Rightarrow> authorization \<Rightarrow> challenge \<Rightarrow> 'k acme_server \<Rightarrow> 'k acme_server" where
  "accept_challenge fmt now ref authz chal s =
     (let chal = chal\<lparr>ch_status := ''valid'', ch_validated := fmt now\<rparr>;
          authz = authz\<lparr>az_challenges := (az_challenges authz)[cf_index ref := chal], az_status := ''valid''\<rparr>;
          s = s\<lparr>as_authorizations := gm_set (cf_authz_id ref) authz (as_authorizations s)\<rparr>
      in case map_of (as_order_authz_map s) (cf_authz_id ref) of
           None \<Rightarrow> s
         | Some order_id \<Rightarrow>
             (case map_of (as_orders s) order_id of
                None \<Rightarrow> s
              | Some ord \<Rightarrow>
                  if od_status ord = ''pending'' \<and> all_authz_valid s ord
                  then s\<lparr>as_orders := gm_set order_id (ord\<lparr>od_status := ''ready''\<rparr>) (as_orders s)\<rparr>
                  else s))"

definition answer_challenge ::
  "('k, 's, 'e) acme_env \<Rightarrow> 'e acme_inputs \<Rightarrow> request \<Rightarrow> string \<Rightarrow> ('k, 's) world \<Rightarrow> ('k, 's) handled" where
  "answer_challenge env inp r chal_id w =
     (let s = w_srv w in
       case map_of (as_challenges s) chal_id of
         None \<Rightarrow> write_problem (ai_now inp)
                   (problem ProblemMalformed (Detail ''challenge not found'') 404) w
       | Some ref \<Rightarrow>
      (case map_of (as_authorizations s) (cf_authz_id ref) of
         None \<Rightarrow> panicked w
       | Some authz \<Rightarrow>
           if \<not> cf_index ref < length (az_challenges authz) then panicked w
           else
             let chal = az_challenges authz ! cf_index ref;
                 hit = (rq_method r = ''POST'' \<and>
                        (as_skip_challenge_validation s \<or> ch_status chal = ''pending''));
                 s' = (if hit then accept_challenge (ae_format_rfc3339 env) (ai_now inp) ref authz chal s else s);
                 chal' = (if hit then chal\<lparr>ch_status := ''valid'',
                            ch_validated := ae_format_rfc3339 env (ai_now inp)\<rparr> else chal)
             in reply 200 (Json (ChallengeJson chal'))
                  (set_hdr ''Content-Type'' ''application/json''
                    (set_hdr ''Location'' (ch_url chal')
                      (set_hdr ''Link'' (''<'' @ as_base_url s @ ''/acme/authz/'' @ cf_authz_id ref @
                          ''>;rel='' @ [CHR 0x22] @ ''up'' @ [CHR 0x22])
                        (w\<lparr>w_srv := s'\<rparr>))))))"

definition handle_challenge ::
  "('k, 's, 'e) acme_env \<Rightarrow> 'e acme_inputs \<Rightarrow> request \<Rightarrow> string \<Rightarrow> ('k, 's) world \<Rightarrow> ('k, 's) handled" where
  "handle_challenge env inp r chal_id w =
     (if rq_method r \<noteq> ''POST'' \<and> rq_method r \<noteq> ''GET'' then wrong_method ''GET, POST'' w
      else authenticated env inp r w (answer_challenge env inp r chal_id))"

text \<open>The certificate names an order asks for.\<close>

definition order_dns_names :: "order \<Rightarrow> string list" where
  "order_dns_names ord = map id_value (filter (\<lambda>i. id_type i = ''dns'') (od_identifiers ord))"

definition decode_csr :: "string \<Rightarrow> byte list option" where
  "decode_csr s = (case b64_raw_decode b64_url s of Some b \<Rightarrow> Some b | None \<Rightarrow> b64_padded_decode b64_std s)"

text \<open>The part of \<open>handleFinalizeOrder\<close> after the payload: reserve, sign, save, record.\<close>

definition issue_for_order ::
  "('k, 's, 'e) acme_env \<Rightarrow> 'e acme_inputs \<Rightarrow> string \<Rightarrow> order \<Rightarrow> byte list \<Rightarrow> ('k, 's) world \<Rightarrow> ('k, 's) handled" where
  "issue_for_order env inp order_id ord csr_der w =
     (case generate_and_reserve_serial (Some (ae_storage env)) (ai_reserve inp) (w_store w) (w_ent w) of
        (Inl e, st, ent) \<Rightarrow>
          write_problem (ai_now inp) (problem ProblemServerInternal (ReserveDetail e) 500)
            (w\<lparr>w_store := st, w_ent := ent\<rparr>)
      | (Inr serial, st, ent) \<Rightarrow>
          let w = w\<lparr>w_store := st, w_ent := ent\<rparr>; auth = as_authority (w_srv w) in
         (case sign_certificate_with_profile (ae_crypto env) auth csr_der (Some serial)
                 default_server_tls_profile empty_extension_config (30 * 24 * hour)
                 (order_dns_names ord) [] (ai_now inp) (ai_now inp) (ai_rnd inp) of
            Inl e \<Rightarrow> write_problem (ai_now inp) (problem ProblemServerInternal (SignDetail e) 500) w
          | Inr cert_der \<Rightarrow>
              let leaf_pem = pem_encode ''CERTIFICATE'' cert_der;
                  int_pem = pem_encode ''CERTIFICATE'' (c_raw (au_intermediate_cert auth));
                  chain_pem = leaf_pem @ int_pem;
                  (cert_id, w) = random_id ''cert'' w;
                  hex_serial = format_serial (Some serial);
                  rec = \<lparr>cr_serial = hex_serial, cr_subject = [], cr_issuer = [],
                    cr_not_before = ai_now inp, cr_not_after = ai_now inp + 30 * 24 * hour,
                    cr_raw_der = Some cert_der, cr_pem = Some leaf_pem, cr_revoked = False\<rparr>;
                  (_, st) = save_certificate (ae_storage env) (w_store w) (ai_save inp) (ai_now inp) (Some rec);
                  s = w_srv w;
                  ord = ord\<lparr>od_status := ''valid'',
                    od_certificate_url := as_base_url s @ ''/acme/cert/'' @ cert_id\<rparr>;
                  s = s\<lparr>as_certificates := gm_set cert_id chain_pem (as_certificates s),
                    as_orders := gm_set order_id ord (as_orders s)\<rparr>
              in reply 200 (Json (OrderJson ord))
                   (set_hdr ''Content-Type'' ''application/json''
                     (set_hdr ''Location'' (as_base_url s @ ''/acme/order/'' @ order_id)
                       (w\<lparr>w_srv := s, w_store := st\<rparr>)))))"

definition finalize_order ::
  "('k, 's, 'e) acme_env \<Rightarrow> 'e acme_inputs \<Rightarrow> byte list \<Rightarrow> string \<Rightarrow> ('k, 's) world \<Rightarrow> ('k, 's) handled" where
  "finalize_order env inp payload order_id w =
     (case map_of (as_orders (w_srv w)) order_id of
        None \<Rightarrow> write_problem (ai_now inp) (problem ProblemMalformed (Detail ''order not found'') 404) w
      | Some ord \<Rightarrow>
          if \<not> all_authz_valid (w_srv w) ord
          then write_problem (ai_now inp) (problem ProblemOrderNotReady
                 (Detail ''order authorizations are not yet valid'') 403) w
          else case ae_finalize_payload env payload of
            Some (c # cs) \<Rightarrow>
              (case decode_csr (c # cs) of
                 None \<Rightarrow> write_problem (ai_now inp)
                           (problem ProblemMalformed (Detail ''invalid base64 encoding in CSR'') 400) w
               | Some csr_der \<Rightarrow> issue_for_order env inp order_id ord csr_der w)
          | _ \<Rightarrow> write_problem (ai_now inp)
                   (problem ProblemMalformed (Detail ''CSR is required in finalize payload'') 400) w)"

definition handle_finalize_order ::
  "('k, 's, 'e) acme_env \<Rightarrow> 'e acme_inputs \<Rightarrow> request \<Rightarrow> string \<Rightarrow> ('k, 's) world \<Rightarrow> ('k, 's) handled" where
  "handle_finalize_order env inp r order_id w =
     (if rq_method r \<noteq> ''POST'' then wrong_method ''POST'' w
      else case verify_jws env inp r w of
        (Inl resp, w) \<Rightarrow> (resp, w)
      | (Inr jws, w) \<Rightarrow> finalize_order env inp (pj_payload jws) order_id w)"

definition handle_get_certificate ::
  "('k, 's, 'e) acme_env \<Rightarrow> 'e acme_inputs \<Rightarrow> request \<Rightarrow> string \<Rightarrow> ('k, 's) world \<Rightarrow> ('k, 's) handled" where
  "handle_get_certificate env inp r cert_id w =
     authenticated env inp r w (\<lambda>w.
       case map_of (as_certificates (w_srv w)) cert_id of
         None \<Rightarrow> (not_found (w_hs w), w)
       | Some chain_pem \<Rightarrow> reply 200 (Raw chain_pem)
           (set_hdr ''Content-Type'' ''application/pem-certificate-chain''
             (set_hdr ''Link'' (''<'' @ as_base_url (w_srv w) @ ''/ca/intermediate.crt>;rel='' @
                [CHR 0x22] @ ''up'' @ [CHR 0x22]) w)))"

section \<open>Routing\<close>

definition acme_serve_http ::
  "('k, 's, 'e) acme_env \<Rightarrow> 'e acme_inputs \<Rightarrow> request \<Rightarrow> ('k, 's) world \<Rightarrow> ('k, 's) handled" where
  "acme_serve_http env inp r w =
     (let w = (if rq_method r = ''POST'' then add_nonce_header (ai_now inp) w else w);
          path = rq_path r
      in if path = ''/.well-known/acme/directory'' then handle_directory r w
         else if path = ''/acme/new-nonce'' then handle_new_nonce inp r w
         else if path = ''/acme/new-account'' then handle_new_account env inp r w
         else if path = ''/acme/new-order'' then handle_new_order env inp r w
         else if has_prefix path ''/acme/order/'' \<and> has_suffix path ''/finalize''
           then handle_finalize_order env inp r (trim_suffix (trim_prefix path ''/acme/order/'') ''/finalize'') w
         else if has_prefix path ''/acme/order/''
           then handle_get_order env inp r (trim_prefix path ''/acme/order/'') w
         else if has_prefix path ''/acme/authz/''
           then handle_get_authz env inp r (trim_prefix path ''/acme/authz/'') w
         else if has_prefix path ''/acme/challenge/''
           then handle_challenge env inp r (trim_prefix path ''/acme/challenge/'') w
         else if has_prefix path ''/acme/cert/''
           then handle_get_certificate env inp r (trim_prefix path ''/acme/cert/'') w
         else if has_prefix path ''/acme/acct/''
           then handle_account env inp r (trim_prefix path ''/acme/acct/'') w
         else (not_found (w_hs w), w))"

end
