(* ===== verification/Acme_Safety.thy ===== *)
theory Acme_Safety
  imports Acme_Server
begin

text \<open>
  Properties of the ACME server as a state machine: what one request can change, the
  well-formedness invariant over every sequence of requests, and the conditions under which
  authorizations become valid and certificates are issued.
\<close>

section \<open>What the helpers leave alone\<close>

text \<open>All of the server but its nonces.\<close>

definition core :: "'k acme_server \<Rightarrow> 'k acme_server" where
  "core s = s\<lparr>as_nonces := \<lparr>nm_nonces = [], nm_ttl = 0\<rparr>\<rparr>"

lemma core_fields:
  assumes "core s = core t"
  shows "as_base_url s = as_base_url t" "as_authority s = as_authority t"
    "as_skip_challenge_validation s = as_skip_challenge_validation t"
    "as_accounts s = as_accounts t" "as_accounts_by_thumb s = as_accounts_by_thumb t"
    "as_orders s = as_orders t" "as_authorizations s = as_authorizations t"
    "as_challenges s = as_challenges t" "as_certificates s = as_certificates t"
    "as_order_authz_map s = as_order_authz_map t"
  using assms unfolding core_def by (cases s; cases t; simp)+

lemma core_nonces [simp]: "core (s\<lparr>as_nonces := m\<rparr>) = core s"
  by (simp add: core_def)

lemma set_hdr_simps [simp]:
  "w_srv (set_hdr k v w) = w_srv w" "w_store (set_hdr k v w) = w_store w" "w_ent (set_hdr k v w) = w_ent w"
  by (simp_all add: set_hdr_def)

lemma add_nonce_header_simps [simp]:
  "core (w_srv (add_nonce_header now w)) = core (w_srv w)"
  "w_store (add_nonce_header now w) = w_store w"
  by (auto simp: add_nonce_header_def Let_def split: prod.splits option.splits)

lemma reply_simps [simp]: "snd (reply c b w) = w" "rs_status (fst (reply c b w)) = c"
  by (simp_all add: reply_def)

lemma write_problem_simps [simp]:
  "core (w_srv (snd (write_problem now p w))) = core (w_srv w)"
  "w_store (snd (write_problem now p w)) = w_store w"
  "rs_status (fst (write_problem now p w)) = pd_status p"
  by (simp_all add: write_problem_def)

lemma plain_error_simps [simp]:
  "snd (plain_error m c w) = w" "rs_status (fst (plain_error m c w)) = c"
  by (simp_all add: plain_error_def)

lemma wrong_method_simps [simp]:
  "core (w_srv (snd (wrong_method a w))) = core (w_srv w)"
  "w_store (snd (wrong_method a w)) = w_store w"
  "rs_status (fst (wrong_method a w)) = 405"
  by (simp_all add: wrong_method_def)

lemma random_id_simps:
  assumes "random_id pre w = (i, w')"
  shows "w_srv w' = w_srv w" "w_store w' = w_store w" "w_hs w' = w_hs w"
  using assms by (auto simp: random_id_def split: prod.splits)

lemma verify_jws_simps:
  assumes "verify_jws env inp r w = (res, w')"
  shows "core (w_srv w') = core (w_srv w)" "w_store w' = w_store w"
    and "\<And>resp. res = Inl resp \<Longrightarrow> rs_status resp = 400"
proof -
  have wp: "core (w_srv v) = core (w_srv u) \<and> w_store v = w_store u \<and> rs_status q = pd_status p"
    if "write_problem now p u = (q, v)" for now p u q v
    using write_problem_simps [of now p u] that by simp
  show "core (w_srv w') = core (w_srv w)" "w_store w' = w_store w"
    "\<And>resp. res = Inl resp \<Longrightarrow> rs_status resp = 400"
    using assms
    by (auto simp: verify_jws_def Let_def split: option.splits sum.splits prod.splits if_splits dest!: wp)
qed

lemma authenticated_cases:
  assumes "authenticated env inp r w k = (resp, w')"
  obtains "rs_status resp = 400" "core (w_srv w') = core (w_srv w)" "w_store w' = w_store w"
  | w1 where "k w1 = (resp, w')" "core (w_srv w1) = core (w_srv w)" "w_store w1 = w_store w"
proof (cases "rq_method r = ''POST''")
  case True
  obtain res w1 where v: "verify_jws env inp r w = (res, w1)" by fastforce
  with that assms True verify_jws_simps [OF v] show ?thesis
    by (cases res) (auto simp: authenticated_def)
next
  case False
  then show ?thesis using assms that(2) [of w] by (simp add: authenticated_def)
qed

section \<open>The invariant\<close>

text \<open>Statuses are those of RFC 8555 the code uses; an authorization has its one challenge,
  with the same status; a challenge reference leads to a challenge.\<close>

definition authz_wf :: "authorization \<Rightarrow> bool" where
  "authz_wf a =
     ((\<exists>c. az_challenges a = [c] \<and> ch_status c = az_status a) \<and> az_status a \<in> {''pending'', ''valid''})"

definition order_wf :: "order \<Rightarrow> bool" where
  "order_wf ord =
     (od_status ord \<in> {''pending'', ''ready'', ''valid''} \<and> od_authorizations ord \<noteq> [] \<and>
      (od_status ord = ''valid'' \<longleftrightarrow> od_certificate_url ord \<noteq> []))"

definition acme_inv :: "'k acme_server \<Rightarrow> bool" where
  "acme_inv s =
     ((\<forall>i a. map_of (as_authorizations s) i = Some a \<longrightarrow> authz_wf a) \<and>
      (\<forall>i ord. map_of (as_orders s) i = Some ord \<longrightarrow> order_wf ord) \<and>
      (\<forall>i c. map_of (as_challenges s) i = Some c \<longrightarrow>
         cf_index c = 0 \<and> map_of (as_authorizations s) (cf_authz_id c) \<noteq> None))"

lemma acme_inv_core: "core s = core t \<Longrightarrow> acme_inv s = acme_inv t"
  using core_fields [of s t] by (simp add: acme_inv_def)

lemma acme_inv_new: "new_acme_server u a st ttl skip = Inr s \<Longrightarrow> acme_inv s"
  by (auto simp: new_acme_server_def acme_inv_def Let_def split: option.splits)

lemma acme_inv_set_order:
  "acme_inv s \<Longrightarrow> order_wf ord \<Longrightarrow> acme_inv (s\<lparr>as_orders := gm_set i ord (as_orders s)\<rparr>)"
  by (auto simp: acme_inv_def)

lemma acme_inv_set_orders:
  "acme_inv s \<Longrightarrow> order_wf ord \<Longrightarrow> m = as_orders s \<Longrightarrow> acme_inv (s\<lparr>as_orders := gm_set i ord m\<rparr>)"
  by (simp add: acme_inv_set_order)

lemma acme_inv_set_authz:
  "acme_inv s \<Longrightarrow> authz_wf a \<Longrightarrow> acme_inv (s\<lparr>as_authorizations := gm_set i a (as_authorizations s)\<rparr>)"
  by (auto simp: acme_inv_def)

lemma acme_inv_accounts [simp]:
  "acme_inv (s\<lparr>as_accounts := x, as_accounts_by_thumb := y\<rparr>) = acme_inv s"
  "acme_inv (s\<lparr>as_certificates := z, as_orders := v\<rparr>) = acme_inv (s\<lparr>as_orders := v\<rparr>)"
  by (simp_all add: acme_inv_def)

section \<open>Each handler keeps it\<close>

definition valid_authzs :: "'k acme_server \<Rightarrow> string set" where
  "valid_authzs s = {i. \<exists>a. map_of (as_authorizations s) i = Some a \<and> az_status a = ''valid''}"


lemma create_authzs_inv:
  "create_authzs env now a o_id ids w = (urls, w') \<Longrightarrow> acme_inv (w_srv w) \<Longrightarrow>
     acme_inv (w_srv w') \<and> length urls = length ids \<and> as_orders (w_srv w') = as_orders (w_srv w) \<and>
     as_certificates (w_srv w') = as_certificates (w_srv w) \<and> w_store w' = w_store w \<and>
     valid_authzs (w_srv w') \<subseteq> valid_authzs (w_srv w)"
proof (induction ids arbitrary: w urls w')
  case (Cons ident ids)
  obtain ai w1 where r1: "random_id ''authz'' w = (ai, w1)" by fastforce
  obtain ci w2 where r2: "random_id ''chal'' w1 = (ci, w2)" by fastforce
  obtain ti w3 where r3: "random_id ''token'' w2 = (ti, w3)" by fastforce
  note rs = random_id_simps [OF r1] random_id_simps [OF r2] random_id_simps [OF r3]
  let ?c = "\<lparr>ch_type = ''http-01'', ch_url = as_base_url (w_srv w) @ ''/acme/challenge/'' @ ci,
      ch_token = ti, ch_status = ''pending'', ch_validated = [], ch_error = None\<rparr>"
  let ?a = "\<lparr>az_id = ai, az_account_id = a, az_status = ''pending'',
      az_expires = ae_format_rfc3339 env (now + 24 * hour), az_identifier = ident, az_challenges = [?c]\<rparr>"
  let ?s = "(w_srv w)\<lparr>as_authorizations := gm_set ai ?a (as_authorizations (w_srv w)),
      as_challenges := gm_set ci \<lparr>cf_authz_id = ai, cf_index = 0\<rparr> (as_challenges (w_srv w)),
      as_order_authz_map := gm_set ai o_id (as_order_authz_map (w_srv w))\<rparr>"
  obtain us w4 where rec: "create_authzs env now a o_id ids (w3\<lparr>w_srv := ?s\<rparr>) = (us, w4)" by fastforce
  have out: "urls = (as_base_url (w_srv w) @ ''/acme/authz/'' @ ai) # us" "w' = w4"
    using Cons.prems(1) rec by (simp_all add: r1 r2 r3 rs Let_def)
  have "authz_wf ?a" by (simp add: authz_wf_def)
  then have "acme_inv ?s"
    using Cons.prems(2) by (auto simp: acme_inv_def)
  moreover have "valid_authzs ?s \<subseteq> valid_authzs (w_srv w)" by (auto simp: valid_authzs_def)
  ultimately show ?case using Cons.IH [OF rec] out rs by auto
qed simp

lemma order_wf_ready:
  "order_wf ord \<Longrightarrow> od_status ord = ''pending'' \<Longrightarrow> order_wf (ord\<lparr>od_status := ''ready''\<rparr>)"
  by (simp add: order_wf_def)

lemma accept_challenge_inv:
  assumes inv: "acme_inv s" and ref: "cf_index ref = 0"
    and a: "map_of (as_authorizations s) (cf_authz_id ref) = Some authz"
  shows "acme_inv (accept_challenge fmt now ref authz (az_challenges authz ! cf_index ref) s)"
proof -
  let ?chal = "(az_challenges authz ! 0)\<lparr>ch_status := ''valid'', ch_validated := fmt now\<rparr>"
  let ?a = "authz\<lparr>az_challenges := (az_challenges authz)[0 := ?chal], az_status := ''valid''\<rparr>"
  let ?s = "s\<lparr>as_authorizations := gm_set (cf_authz_id ref) ?a (as_authorizations s)\<rparr>"
  have "authz_wf authz" using inv a by (auto simp: acme_inv_def)
  then have "authz_wf ?a" by (auto simp: authz_wf_def)
  then have i: "acme_inv ?s" using acme_inv_set_authz [OF inv] by blast
  have wf: "order_wf (ord\<lparr>od_status := ''ready''\<rparr>)"
    if "map_of (as_orders ?s) oid = Some ord" "od_status ord = ''pending''" for oid ord
    using i that order_wf_ready [of ord] unfolding acme_inv_def by blast
  have "acme_inv (?s\<lparr>as_orders := gm_set oid (ord\<lparr>od_status := ''ready''\<rparr>) (as_orders ?s)\<rparr>)"
    if "map_of (as_orders ?s) oid = Some ord" "od_status ord = ''pending''" for oid ord
    using acme_inv_set_order [OF i wf [OF that]] .
  then show ?thesis
    using i by (simp add: accept_challenge_def Let_def ref split: option.splits)
qed

lemma refresh_order_wf: "order_wf ord \<Longrightarrow> order_wf (refresh_order s ord)"
  by (auto simp: refresh_order_def order_wf_def)

text \<open>What every handler but the finalization guarantees: the invariant, an answer, and no
  certificate, nothing stored, and no authorization outside \<open>X\<close> newly valid.\<close>

definition harmless :: "string set \<Rightarrow> ('k, 's) world \<Rightarrow> ('k, 's) handled \<Rightarrow> bool" where
  "harmless X w h =
     (acme_inv (w_srv (snd h)) \<and> rs_status (fst h) \<noteq> 0 \<and> w_store (snd h) = w_store w \<and>
      as_certificates (w_srv (snd h)) = as_certificates (w_srv w) \<and>
      valid_authzs (w_srv (snd h)) \<subseteq> valid_authzs (w_srv w) \<union> X)"

lemma valid_authzs_core:
  assumes "core s = core t"
  shows "valid_authzs s = valid_authzs t"
  using core_fields(7) [OF assms] by (simp add: valid_authzs_def)

lemma valid_authzs_simps [simp]:
  "valid_authzs (s\<lparr>as_orders := x\<rparr>) = valid_authzs s"
  "valid_authzs (s\<lparr>as_accounts := y, as_accounts_by_thumb := z\<rparr>) = valid_authzs s"
  "valid_authzs (s\<lparr>as_certificates := v\<rparr>) = valid_authzs s"
  by (simp_all add: valid_authzs_def)

lemma harmless_core:
  "acme_inv (w_srv w) \<Longrightarrow> core (w_srv (snd h)) = core (w_srv w) \<Longrightarrow> w_store (snd h) = w_store w \<Longrightarrow>
     rs_status (fst h) \<noteq> 0 \<Longrightarrow> harmless X w h"
  using acme_inv_core core_fields(9) valid_authzs_core unfolding harmless_def by (metis Un_upper1)

lemma harmless_from:
  "harmless X w1 h \<Longrightarrow> core (w_srv w1) = core (w_srv w) \<Longrightarrow> w_store w1 = w_store w \<Longrightarrow> harmless X w h"
  using core_fields(9) valid_authzs_core unfolding harmless_def by metis

lemma harmless_problem:
  "acme_inv (w_srv w) \<Longrightarrow> pd_status p \<noteq> 0 \<Longrightarrow> harmless X w (write_problem now p w)"
  by (rule harmless_core) simp_all

lemma harmless_verified:
  assumes "acme_inv (w_srv w)" and "verify_jws env inp r w = (res, w1)"
    and "\<And>jws. res = Inr jws \<Longrightarrow> acme_inv (w_srv w1) \<Longrightarrow> harmless X w1 (k jws w1)"
  shows "harmless X w (case (res, w1) of (Inl resp, w) \<Rightarrow> (resp, w) | (Inr jws, w) \<Rightarrow> k jws w)"
proof (cases res)
  case (Inl resp)
  then show ?thesis
    using verify_jws_simps [OF assms(2)] assms(1) by (auto intro: harmless_core)
next
  case (Inr jws)
  have "acme_inv (w_srv w1)"
    using assms(1) acme_inv_core verify_jws_simps(1) [OF assms(2)] by metis
  then show ?thesis
    using Inr assms(3) verify_jws_simps [OF assms(2)] harmless_from by fastforce
qed

lemma harmless_authenticated:
  assumes "acme_inv (w_srv w)" and "\<And>w. acme_inv (w_srv w) \<Longrightarrow> harmless X w (k w)"
  shows "harmless X w (authenticated env inp r w k)"
proof -
  obtain res w1 where v: "verify_jws env inp r w = (res, w1)" by fastforce
  show ?thesis
    using assms harmless_verified [OF assms(1) v, of X "\<lambda>_. k"] by (simp add: authenticated_def v)
qed

lemma harmless_reply:
  "acme_inv (w_srv w) \<Longrightarrow> c \<noteq> 0 \<Longrightarrow> harmless X w (reply c b (set_hdr k v w))"
  by (rule harmless_core) simp_all

lemma harmless_reply_account:
  "acme_inv (w_srv w) \<Longrightarrow> c \<noteq> 0 \<Longrightarrow> harmless X w (reply_account c acct w)"
  by (rule harmless_core) (simp_all add: reply_account_def)

lemma harmless_directory: "acme_inv (w_srv w) \<Longrightarrow> harmless X w (handle_directory r w)"
  by (rule harmless_core) (simp_all add: handle_directory_def Let_def)

lemma harmless_new_nonce: "acme_inv (w_srv w) \<Longrightarrow> harmless X w (handle_new_nonce inp r w)"
  by (rule harmless_core) (simp_all add: handle_new_nonce_def)

lemma harmless_wrong_method: "acme_inv (w_srv w) \<Longrightarrow> harmless X w (wrong_method a w)"
  by (rule harmless_core) simp_all

lemma harmless_store_account:
  assumes "acme_inv (w_srv w)" and "random_id ''acct'' w = (i, w1)"
  shows "harmless X w (reply_account 201 acct (w1\<lparr>w_srv := (w_srv w1)\<lparr>
     as_accounts := x, as_accounts_by_thumb := y\<rparr>\<rparr>))"
  using assms random_id_simps [OF assms(2)] by (simp add: harmless_def reply_account_def)

text \<open>The key of a verified JWS with an embedded key is a point of the curve or an RSA key, so its
  thumbprint can be computed.\<close>

lemma verified_thumbprint:
  assumes "verify_jws env inp r w = (Inr jws, w1)" and "jh_jwk (pj_header jws) = Some j"
  shows "compute_jwk_thumbprint sha (pj_public_key jws) \<noteq> Panics"
proof -
  obtain b where "decode_and_verify_jws (ae_jws env) b (Some (lookup_key (w_srv w))) = Inr jws"
    using assms(1)
    by (auto simp: verify_jws_def Let_def split: option.splits sum.splits prod.splits if_splits)
  then have "jwk_to_key (Some j) = Inr (pj_public_key jws)"
    by (rule verified_jws) (use assms(2) in \<open>simp add: resolve_key_def\<close>)
  then show ?thesis using jwk_key_no_panic by (simp add: thumbprint_panic)
qed

lemma harmless_new_account:
  assumes i: "acme_inv (w_srv w)"
  shows "harmless X w (handle_new_account env inp r w)"
proof -
  obtain res w1 where v: "verify_jws env inp r w = (res, w1)" by fastforce
  have np: False if "res = Inr jws" "jh_jwk (pj_header jws) = Some j"
      "compute_jwk_thumbprint sha (pj_public_key jws) = Panics" for jws j sha
    using verified_thumbprint v that by blast
  show ?thesis
    unfolding handle_new_account_def v
    by (simp only: if_split) (intro conjI impI harmless_wrong_method [OF i] harmless_verified [OF i v];
      auto simp: Let_def dest: np intro!: harmless_problem harmless_reply_account harmless_store_account
        split: option.splits sum.splits prod.splits go_call.splits)
qed

lemma harmless_account: "acme_inv (w_srv w) \<Longrightarrow> harmless X w (handle_account env inp r i w)"
  unfolding handle_account_def
  by (rule harmless_authenticated) (auto intro!: harmless_problem harmless_reply split: option.splits)

lemma harmless_get_authz: "acme_inv (w_srv w) \<Longrightarrow> harmless X w (handle_get_authz env inp r i w)"
  unfolding handle_get_authz_def
  by (rule harmless_authenticated) (auto intro!: harmless_problem harmless_reply split: option.splits)

lemma harmless_get_certificate:
  "acme_inv (w_srv w) \<Longrightarrow> harmless X w (handle_get_certificate env inp r i w)"
  unfolding handle_get_certificate_def
  by (rule harmless_authenticated) (auto simp: harmless_def split: option.splits)

lemma harmless_set_order:
  "acme_inv (w_srv w) \<Longrightarrow> order_wf ord \<Longrightarrow> c \<noteq> 0 \<Longrightarrow>
     harmless X w (reply c b (set_hdr k v (set_hdr k' v'
       (w\<lparr>w_srv := (w_srv w)\<lparr>as_orders := gm_set i ord (as_orders (w_srv w))\<rparr>\<rparr>))))"
  by (simp add: harmless_def acme_inv_set_order)

lemma acme_inv_order:
  "acme_inv s \<Longrightarrow> map_of (as_orders s) i = Some ord \<Longrightarrow> order_wf ord"
  by (simp add: acme_inv_def)

lemma harmless_get_order: "acme_inv (w_srv w) \<Longrightarrow> harmless X w (handle_get_order env inp r i w)"
  unfolding handle_get_order_def
  by (rule harmless_authenticated)
    (auto simp: Let_def intro!: harmless_problem harmless_set_order refresh_order_wf
      intro: acme_inv_order split: option.splits)

lemma harmless_set_srv:
  "acme_inv s \<Longrightarrow> as_certificates s = as_certificates (w_srv w) \<Longrightarrow>
     valid_authzs s \<subseteq> valid_authzs (w_srv w) \<union> X \<Longrightarrow> c \<noteq> 0 \<Longrightarrow>
     harmless X w (reply c b (set_hdr k1 v1 (set_hdr k2 v2 (set_hdr k3 v3 (w\<lparr>w_srv := s\<rparr>)))))"
  by (simp add: harmless_def)

lemma accept_challenge_certificates [simp]:
  "as_certificates (accept_challenge fmt now ref authz chal s) = as_certificates s"
  by (simp add: accept_challenge_def Let_def split: option.splits)

lemma accept_challenge_authzs:
  "valid_authzs (accept_challenge fmt now ref authz chal s) \<subseteq> valid_authzs s \<union> {cf_authz_id ref}"
  by (auto simp: accept_challenge_def Let_def valid_authzs_def split: option.splits if_splits)

text \<open>The authorization a challenge belongs to.\<close>

definition challenge_targets :: "'k acme_server \<Rightarrow> string \<Rightarrow> string set" where
  "challenge_targets s ch = {cf_authz_id c | c. map_of (as_challenges s) ch = Some c}"

lemma harmless_answer_challenge:
  assumes i: "acme_inv (w_srv w)" and X: "rq_method r = ''POST'' \<Longrightarrow> challenge_targets (w_srv w) ch \<subseteq> X"
  shows "harmless X w (answer_challenge env inp r ch w)"
proof (cases "map_of (as_challenges (w_srv w)) ch")
  case None
  then show ?thesis using harmless_problem [OF i] by (simp add: answer_challenge_def)
next
  case (Some ref)
  then have r: "cf_index ref = 0" and "map_of (as_authorizations (w_srv w)) (cf_authz_id ref) \<noteq> None"
    using i unfolding acme_inv_def by blast+
  then obtain authz where a: "map_of (as_authorizations (w_srv w)) (cf_authz_id ref) = Some authz"
    by blast
  have "authz_wf authz" using i a unfolding acme_inv_def by blast
  then obtain c where c: "az_challenges authz = [c]" by (auto simp: authz_wf_def)
  have "acme_inv (accept_challenge (ae_format_rfc3339 env) (ai_now inp) ref authz c (w_srv w))"
    using accept_challenge_inv [OF i r a, of "ae_format_rfc3339 env" "ai_now inp"] by (simp add: r c)
  moreover have "valid_authzs (accept_challenge (ae_format_rfc3339 env) (ai_now inp) ref authz c (w_srv w))
      \<subseteq> valid_authzs (w_srv w) \<union> X" if "rq_method r = ''POST''"
    using accept_challenge_authzs [of "ae_format_rfc3339 env" "ai_now inp" ref authz c "w_srv w"]
      X [OF that] Some by (auto simp: challenge_targets_def)
  ultimately show ?thesis
    using i by (simp add: answer_challenge_def Some a r c harmless_set_srv Let_def)
qed

lemma harmless_challenge:
  fixes w :: "('k, 's) world"
  assumes i: "acme_inv (w_srv w)" and X: "rq_method r = ''POST'' \<Longrightarrow> challenge_targets (w_srv w) ch \<subseteq> X"
  shows "harmless X w (handle_challenge env inp r ch w)"
proof -
  have "harmless X w (authenticated env inp r w (answer_challenge env inp r ch))"
  proof -
    obtain res w1 where v: "verify_jws env inp r w = (res, w1)" by fastforce
    have t: "challenge_targets (w_srv w1) ch = challenge_targets (w_srv w) ch"
      using core_fields(8) [OF verify_jws_simps(1) [OF v]] by (simp add: challenge_targets_def)
    have "harmless X w1 (answer_challenge env inp r ch w1)" if "acme_inv (w_srv w1)"
      using harmless_answer_challenge [OF that] X t by blast
    then show ?thesis
      using harmless_verified [OF i v, of X "\<lambda>_. answer_challenge env inp r ch"]
        harmless_answer_challenge [OF i X, where r = r and env = env and inp = inp]
      by (simp add: authenticated_def v)
  qed
  then show ?thesis using harmless_wrong_method [OF i] by (simp add: handle_challenge_def)
qed

lemma harmless_place_order:
  assumes i: "acme_inv (w_srv w)" and ne: "ids \<noteq> []"
  shows "harmless X w (place_order env inp h ids w)"
proof -
  obtain oid w1 where r: "random_id ''order'' w = (oid, w1)" by fastforce
  let ?acct = "trim_prefix (jh_kid h) (as_base_url (w_srv w) @ ''/acme/acct/'')"
  obtain urls w2 where c: "create_authzs env (ai_now inp) ?acct oid ids w1 = (urls, w2)" by fastforce
  note rs = random_id_simps [OF r]
  note cs = create_authzs_inv [OF c]
  have "urls \<noteq> []" using cs i ne rs by auto
  then show ?thesis
    using cs i rs
    by (auto simp: place_order_def r c Let_def harmless_def order_wf_def intro!: acme_inv_set_orders)
qed

lemma harmless_new_order:
  assumes i: "acme_inv (w_srv w)"
  shows "harmless X w (handle_new_order env inp r w)"
proof -
  obtain res w1 where v: "verify_jws env inp r w = (res, w1)" by fastforce
  show ?thesis
    unfolding handle_new_order_def v
    by (simp only: if_split) (intro conjI impI harmless_wrong_method [OF i] harmless_verified [OF i v];
      auto intro!: harmless_problem harmless_place_order split: option.splits list.splits)
qed

text \<open>The finalization keeps the invariant and always answers.\<close>

definition fine :: "('k, 's) handled \<Rightarrow> bool" where
  "fine h = (acme_inv (w_srv (snd h)) \<and> rs_status (fst h) \<noteq> 0)"

lemma fine_harmless: "harmless X w h \<Longrightarrow> fine h"
  by (simp add: harmless_def fine_def)

lemma fine_problem: "acme_inv (w_srv w) \<Longrightarrow> pd_status p \<noteq> 0 \<Longrightarrow> fine (write_problem now p w)"
  by (rule fine_harmless) (rule harmless_problem)

text \<open>What an issuance is: a serial reserved now, a certificate signed now for the order's names,
  recorded under a new URL.\<close>

definition issued_for ::
  "('k, 's, 'e) acme_env \<Rightarrow> 'e acme_inputs \<Rightarrow> order \<Rightarrow> byte list \<Rightarrow> ('k, 's) world \<Rightarrow> int \<Rightarrow> byte list \<Rightarrow> bool" where
  "issued_for env inp ord csr w serial der =
     ((\<exists>st ent. generate_and_reserve_serial (Some (ae_storage env)) (ai_reserve inp) (w_store w) (w_ent w)
         = (Inr serial, st, ent)) \<and>
      sign_certificate_with_profile (ae_crypto env) (as_authority (w_srv w)) csr (Some serial)
        default_server_tls_profile empty_extension_config (30 * 24 * hour)
        (order_dns_names ord) [] (ai_now inp) (ai_now inp) (ai_rnd inp) = Inr der)"

lemma issue_for_order_cases:
  fixes w :: "('k, 's) world"
  assumes h: "issue_for_order env inp oid ord csr w = (resp, w')"
  obtains (failed) "core (w_srv w') = core (w_srv w)" "rs_status resp = 500"
  | (issued) serial der cid where "issued_for env inp ord csr w serial der" "rs_status resp = 200"
    "w_srv w' = (w_srv w)\<lparr>as_certificates := gm_set cid (pem_encode ''CERTIFICATE'' der @
        pem_encode ''CERTIFICATE'' (c_raw (au_intermediate_cert (as_authority (w_srv w)))))
        (as_certificates (w_srv w)),
      as_orders := gm_set oid (ord\<lparr>od_status := ''valid'',
        od_certificate_url := as_base_url (w_srv w) @ ''/acme/cert/'' @ cid\<rparr>) (as_orders (w_srv w))\<rparr>"
proof -
  obtain g st ent where g: "generate_and_reserve_serial (Some (ae_storage env)) (ai_reserve inp)
      (w_store w) (w_ent w) = (g, st, ent)"
    by (cases "generate_and_reserve_serial (Some (ae_storage env)) (ai_reserve inp) (w_store w) (w_ent w)")
      auto
  let ?w = "w\<lparr>w_store := st, w_ent := ent\<rparr>"
  let ?sign = "sign_certificate_with_profile (ae_crypto env) (as_authority (w_srv w)) csr"
  have wp: "core (w_srv w') = core (w_srv w) \<and> rs_status resp = 500"
    if "write_problem (ai_now inp) (problem t d 500) ?w = (resp, w')" for t d
    using write_problem_simps [of "ai_now inp" "problem t d 500" ?w] that by simp
  show thesis
  proof (cases g)
    case (Inl e)
    then show ?thesis using h g wp failed by (simp add: issue_for_order_def)
  next
    case g': (Inr serial)
    show ?thesis
    proof (cases "?sign (Some serial) default_server_tls_profile empty_extension_config (30 * 24 * hour)
                 (order_dns_names ord) [] (ai_now inp) (ai_now inp) (ai_rnd inp)")
      case (Inl e)
      then show ?thesis using h g g' wp failed by (simp add: issue_for_order_def Let_def)
    next
      case (Inr der)
      obtain cid w1 where r: "random_id ''cert'' ?w = (cid, w1)" by fastforce
      have s: "w_srv w1 = w_srv w" using random_id_simps(1) [OF r] by simp
      have "issued_for env inp ord csr w serial der" using g g' Inr by (simp add: issued_for_def)
      moreover have "rs_status resp = 200" and "w_srv w' = (w_srv w)\<lparr>as_certificates := gm_set cid
          (pem_encode ''CERTIFICATE'' der @
            pem_encode ''CERTIFICATE'' (c_raw (au_intermediate_cert (as_authority (w_srv w)))))
          (as_certificates (w_srv w)), as_orders := gm_set oid (ord\<lparr>od_status := ''valid'',
          od_certificate_url := as_base_url (w_srv w) @ ''/acme/cert/'' @ cid\<rparr>) (as_orders (w_srv w))\<rparr>"
        using h g r Inr g' s
        by (auto simp: issue_for_order_def Let_def reply_def split: prod.splits)
      ultimately show ?thesis using issued by blast
    qed
  qed
qed

lemma fine_issue:
  assumes i: "acme_inv (w_srv w)" and ord: "order_wf ord"
  shows "fine (issue_for_order env inp oid ord csr w)"
proof -
  obtain resp w' where h: "issue_for_order env inp oid ord csr w = (resp, w')" by fastforce
  have o: "order_wf (ord\<lparr>od_status := ''valid'', od_certificate_url := u @ ''/acme/cert/'' @ c\<rparr>)" for u c
    using ord by (simp add: order_wf_def)
  from h show ?thesis
  proof (cases rule: issue_for_order_cases)
    case failed
    then show ?thesis using h i acme_inv_core by (fastforce simp: fine_def)
  next
    case (issued serial der cid)
    then show ?thesis using h i o by (simp add: fine_def acme_inv_set_order)
  qed
qed

lemma fine_finalize: "acme_inv (w_srv w) \<Longrightarrow> fine (finalize_order env inp pl oid w)"
  by (auto simp: finalize_order_def intro!: fine_problem fine_issue intro: acme_inv_order
      split: option.splits list.splits)

lemma fine_handle_finalize:
  assumes i: "acme_inv (w_srv w)"
  shows "fine (handle_finalize_order env inp r oid w)"
proof -
  obtain res w1 where v: "verify_jws env inp r w = (res, w1)" by fastforce
  have "acme_inv (w_srv w1)" using i acme_inv_core verify_jws_simps(1) [OF v] by metis
  then show ?thesis
    using fine_harmless [OF harmless_wrong_method [OF i]] fine_finalize [of w1 env inp _ oid]
      verify_jws_simps(3) [OF v]
    by (auto simp: handle_finalize_order_def v fine_def split: sum.splits)
qed

section \<open>Every request\<close>

definition is_finalize :: "request \<Rightarrow> bool" where
  "is_finalize r = (has_prefix (rq_path r) ''/acme/order/'' \<and> has_suffix (rq_path r) ''/finalize'')"

lemma acme_inv_nonce [simp]: "acme_inv (w_srv (add_nonce_header now w)) = acme_inv (w_srv w)"
  by (rule acme_inv_core) simp

definition request_targets :: "'k acme_server \<Rightarrow> request \<Rightarrow> string set" where
  "request_targets s r =
     (if rq_method r = ''POST'' \<and> has_prefix (rq_path r) ''/acme/challenge/''
      then challenge_targets s (trim_prefix (rq_path r) ''/acme/challenge/'') else {})"

lemma request_targets_nonce: "request_targets (w_srv (add_nonce_header now w)) r = request_targets (w_srv w) r"
  using core_fields(8) [OF add_nonce_header_simps(1) [of now w]]
  by (simp add: request_targets_def challenge_targets_def)

lemma serve_harmless:
  assumes i: "acme_inv (w_srv w)" and "\<not> is_finalize r" and X: "request_targets (w_srv w) r \<subseteq> X"
  shows "harmless X w (acme_serve_http env inp r w)"
proof -
  let ?w = "if rq_method r = ''POST'' then add_nonce_header (ai_now inp) w else w"
  have iw: "acme_inv (w_srv ?w)" and c: "core (w_srv ?w) = core (w_srv w)" "w_store ?w = w_store w"
    using i by simp_all
  have "request_targets (w_srv ?w) r \<subseteq> X" using X request_targets_nonce [of "ai_now inp" w r] by simp
  then have t: "rq_method r = ''POST'' \<Longrightarrow> has_prefix (rq_path r) ''/acme/challenge/'' \<Longrightarrow>
      challenge_targets (w_srv ?w) (trim_prefix (rq_path r) ''/acme/challenge/'') \<subseteq> X"
    unfolding request_targets_def by simp
  have "harmless X ?w (acme_serve_http env inp r w)"
    using assms(2) iw
    unfolding acme_serve_http_def Let_def is_finalize_def
    by (simp only: if_split) (intro conjI impI harmless_directory harmless_new_nonce
      harmless_new_account harmless_new_order harmless_get_order harmless_get_authz
      harmless_challenge harmless_get_certificate harmless_account t; blast?;
      simp add: harmless_def)
  then show ?thesis using harmless_from c by blast
qed

lemma serve_fine:
  assumes i: "acme_inv (w_srv w)"
  shows "fine (acme_serve_http env inp r w)"
proof (cases "is_finalize r")
  case False
  then show ?thesis using serve_harmless [OF i _ subset_refl] fine_harmless by blast
next
  case True
  then have p: "rq_path r \<noteq> ''/.well-known/acme/directory''" "rq_path r \<noteq> ''/acme/new-nonce''"
    "rq_path r \<noteq> ''/acme/new-account''" "rq_path r \<noteq> ''/acme/new-order''"
    by (auto simp: is_finalize_def has_prefix_def)
  let ?w = "if rq_method r = ''POST'' then add_nonce_header (ai_now inp) w else w"
  have "acme_inv (w_srv ?w)" using i by simp
  then show ?thesis
    using True p fine_handle_finalize [of ?w env inp r]
    unfolding acme_serve_http_def Let_def is_finalize_def by simp
qed

text \<open>The server handling one request after the other.\<close>

fun acme_run ::
  "('k, 's, 'e) acme_env \<Rightarrow> ('e acme_inputs \<times> request) list \<Rightarrow> ('k, 's) world \<Rightarrow>
     acme_json response list \<times> ('k, 's) world" where
  "acme_run env [] w = ([], w)"
| "acme_run env ((inp, r) # rs) w =
     (let (resp, w) = acme_serve_http env inp r (w\<lparr>w_hs := []\<rparr>);
          (resps, w) = acme_run env rs w
      in (resp # resps, w))"

lemma acme_run_inv:
  "acme_inv (w_srv w) \<Longrightarrow> acme_run env rs w = (resps, w') \<Longrightarrow>
     acme_inv (w_srv w') \<and> (\<forall>resp \<in> set resps. rs_status resp \<noteq> 0)"
proof (induction rs arbitrary: w resps)
  case (Cons x rs)
  obtain inp r where x: "x = (inp, r)" by fastforce
  obtain resp w1 where s: "acme_serve_http env inp r (w\<lparr>w_hs := []\<rparr>) = (resp, w1)" by fastforce
  obtain resps1 w2 where rn: "acme_run env rs w1 = (resps1, w2)" by fastforce
  have "acme_inv (w_srv (w\<lparr>w_hs := []\<rparr>))" using Cons.prems(1) by simp
  then have "acme_inv (w_srv w1)" "rs_status resp \<noteq> 0"
    using serve_fine [of "w\<lparr>w_hs := []\<rparr>" env inp r] s by (simp_all add: fine_def)
  moreover have "w2 = w'" "resps = resp # resps1" using Cons.prems(2) s rn by (simp_all add: x)
  ultimately show ?case using Cons.IH [of w1 resps1] rn by simp
qed simp

section \<open>The gate before issuance\<close>

lemma all_authz_valid_core: "core s = core t \<Longrightarrow> all_authz_valid s = all_authz_valid t"
proof -
  assume c: "core s = core t"
  have "authz_valid s = authz_valid t"
    using core_fields(1,7) [OF c] by (simp add: authz_valid_def fun_eq_iff)
  then show ?thesis by (intro ext) (simp add: all_authz_valid_def)
qed

lemma finalize_order_cases:
  assumes h: "finalize_order env inp pl oid w = (resp, w')"
  obtains (refused) "core (w_srv w') = core (w_srv w)" "rs_status resp \<in> {400, 403, 404}"
  | (issue) ord csr where "map_of (as_orders (w_srv w)) oid = Some ord" "all_authz_valid (w_srv w) ord"
    "issue_for_order env inp oid ord csr w = (resp, w')"
proof -
  have wp: "core (w_srv w') = core (w_srv w) \<and> rs_status resp = c"
    if "write_problem (ai_now inp) (problem t d c) w = (resp, w')" for t d c
    using write_problem_simps [of "ai_now inp" "problem t d c" w] that by simp
  show thesis
    using h refused issue
    by (auto simp: finalize_order_def split: option.splits if_splits list.splits dest: wp)
qed

text \<open>A request changes the certificates only by a finalization that got past signature, nonce
  and authorizations.\<close>

lemma gate:
  fixes w :: "('k, 's) world"
  assumes i: "acme_inv (w_srv w)" and h: "acme_serve_http env inp r w = (resp, w')"
    and ch: "as_certificates (w_srv w') \<noteq> as_certificates (w_srv w)"
  shows "\<exists>oid ord jws w1 w2 csr serial der.
    rq_method r = ''POST'' \<and> is_finalize r \<and>
    oid = trim_suffix (trim_prefix (rq_path r) ''/acme/order/'') ''/finalize'' \<and>
    core (w_srv w1) = core (w_srv w) \<and> verify_jws env inp r w1 = (Inr jws, w2) \<and>
    w_store w2 = w_store w \<and> as_authority (w_srv w2) = as_authority (w_srv w) \<and>
    map_of (as_orders (w_srv w)) oid = Some ord \<and> all_authz_valid (w_srv w) ord \<and>
    issued_for env inp ord csr w2 serial der \<and>
    (\<exists>cid. as_certificates (w_srv w') = gm_set cid (pem_encode ''CERTIFICATE'' der @
      pem_encode ''CERTIFICATE'' (c_raw (au_intermediate_cert (as_authority (w_srv w))))) (as_certificates (w_srv w)))"
proof -
  have f: "is_finalize r"
    using serve_harmless [OF i _ subset_refl, of r env inp] ch by (auto simp: h harmless_def)
  then have p: "rq_path r \<noteq> ''/.well-known/acme/directory''" "rq_path r \<noteq> ''/acme/new-nonce''"
    "rq_path r \<noteq> ''/acme/new-account''" "rq_path r \<noteq> ''/acme/new-order''"
    by (auto simp: is_finalize_def has_prefix_def)
  let ?w1 = "if rq_method r = ''POST'' then add_nonce_header (ai_now inp) w else w"
  let ?oid = "trim_suffix (trim_prefix (rq_path r) ''/acme/order/'') ''/finalize''"
  have c1: "core (w_srv ?w1) = core (w_srv w)" by simp
  have h1: "handle_finalize_order env inp r ?oid ?w1 = (resp, w')"
    using h f p unfolding acme_serve_http_def Let_def is_finalize_def by simp
  obtain res w2 where v: "verify_jws env inp r ?w1 = (res, w2)" by fastforce
  have c2: "core (w_srv w2) = core (w_srv w)" "w_store w2 = w_store w"
    using verify_jws_simps(1,2) [OF v] c1 by simp_all
  have m: "rq_method r = ''POST''"
  proof (rule ccontr)
    assume "rq_method r \<noteq> ''POST''"
    then have "core (w_srv w') = core (w_srv w)"
      using h1 wrong_method_simps(1) [of "''POST''" w] by (simp add: handle_finalize_order_def)
    then show False using ch core_fields(9) by blast
  qed
  have "\<exists>jws. res = Inr jws"
  proof (rule ccontr)
    assume "\<not> ?thesis"
    then have "core (w_srv w') = core (w_srv w)"
      using h1 v m c2(1) by (auto simp: handle_finalize_order_def split: sum.splits)
    then show False using ch core_fields(9) by blast
  qed
  then obtain jws where j: "res = Inr jws" by blast
  have h2: "finalize_order env inp (pj_payload jws) ?oid w2 = (resp, w')"
    using h1 v m j by (simp add: handle_finalize_order_def)
  from h2 show ?thesis
  proof (cases rule: finalize_order_cases)
    case refused
    then show ?thesis using c2(1) ch core_fields(9) by metis
  next
    case (issue ord csr)
    from issue(3) show ?thesis
    proof (cases rule: issue_for_order_cases)
      case failed
      then show ?thesis using c2(1) ch core_fields(9) by metis
    next
      case (issued serial der cid)
      have "map_of (as_orders (w_srv w)) ?oid = Some ord" "all_authz_valid (w_srv w) ord"
        using issue(1,2) core_fields(6) [OF c2(1)] all_authz_valid_core [OF c2(1)] by simp_all
      moreover have "as_certificates (w_srv w') = gm_set cid (pem_encode ''CERTIFICATE'' der @
          pem_encode ''CERTIFICATE'' (c_raw (au_intermediate_cert (as_authority (w_srv w))))) (as_certificates (w_srv w))"
        using issued(3) core_fields(2,9) [OF c2(1)] by simp
      ultimately show ?thesis using f m c1 c2(2) core_fields(2) [OF c2(1)] v j issued(1) by blast
    qed
  qed
qed

section \<open>How an authorization becomes valid\<close>

lemma finalize_authzs:
  assumes "handle_finalize_order env inp r oid w = (resp, w')"
  shows "valid_authzs (w_srv w') = valid_authzs (w_srv w)"
proof -
  obtain res w1 where v: "verify_jws env inp r w = (res, w1)" by fastforce
  have c: "core (w_srv w1) = core (w_srv w)" using verify_jws_simps(1) [OF v] .
  have "core (w_srv w') = core (w_srv w) \<or>
      (\<exists>pl. finalize_order env inp pl oid w1 = (resp, w'))"
  proof (cases "rq_method r = ''POST''")
    case False
    then have "wrong_method ''POST'' w = (resp, w')"
      using assms by (simp add: handle_finalize_order_def)
    then show ?thesis using wrong_method_simps(1) [of "''POST''" w] by simp
  next
    case True
    then show ?thesis using assms c v by (cases res) (auto simp: handle_finalize_order_def)
  qed
  then consider "core (w_srv w') = core (w_srv w)"
    | pl where "finalize_order env inp pl oid w1 = (resp, w')"
    by blast
  then show ?thesis
  proof cases
    case 1
    then show ?thesis by (rule valid_authzs_core)
  next
    case (2 pl)
    then show ?thesis
    proof (cases rule: finalize_order_cases)
      case refused
      then show ?thesis using c valid_authzs_core by metis
    next
      case (issue ord csr)
      from issue(3) show ?thesis
      proof (cases rule: issue_for_order_cases)
        case failed
        then show ?thesis using c valid_authzs_core by metis
      next
        case (issued serial der cid)
        then show ?thesis using valid_authzs_core [OF c] by simp
      qed
    qed
  qed
qed

lemma newly_valid:
  assumes i: "acme_inv (w_srv w)" and h: "acme_serve_http env inp r w = (resp, w')"
  shows "valid_authzs (w_srv w') \<subseteq> valid_authzs (w_srv w) \<union> request_targets (w_srv w) r"
proof (cases "is_finalize r")
  case False
  then show ?thesis
    using serve_harmless [OF i False subset_refl, of env inp] by (simp add: h harmless_def)
next
  case True
  then have p: "rq_path r \<noteq> ''/.well-known/acme/directory''" "rq_path r \<noteq> ''/acme/new-nonce''"
    "rq_path r \<noteq> ''/acme/new-account''" "rq_path r \<noteq> ''/acme/new-order''"
    by (auto simp: is_finalize_def has_prefix_def)
  let ?w1 = "if rq_method r = ''POST'' then add_nonce_header (ai_now inp) w else w"
  have "handle_finalize_order env inp r
      (trim_suffix (trim_prefix (rq_path r) ''/acme/order/'') ''/finalize'') ?w1 = (resp, w')"
    using h True p unfolding acme_serve_http_def Let_def is_finalize_def by simp
  from finalize_authzs [OF this] have "valid_authzs (w_srv w') = valid_authzs (w_srv ?w1)" .
  moreover have "core (w_srv ?w1) = core (w_srv w)" by simp
  ultimately show ?thesis using valid_authzs_core by blast
qed

text \<open>The challenge handler accepts any verified request for a pending challenge: nothing is
  looked up at the domain, whatever \<open>skipChallengeValidation\<close> says.\<close>

lemma challenge_accepted_unseen:
  assumes "map_of (as_challenges (w_srv w)) ch = Some ref" and "cf_index ref = 0"
    and "map_of (as_authorizations (w_srv w)) (cf_authz_id ref) = Some authz"
    and "az_challenges authz = [c]" and "ch_status c = ''pending''" and "rq_method r = ''POST''"
  shows "cf_authz_id ref \<in> valid_authzs (w_srv (snd (answer_challenge env inp r ch w)))"
  using assms
  by (auto simp: answer_challenge_def Let_def accept_challenge_def valid_authzs_def
      split: option.splits)

section \<open>Nonces of the requests\<close>

text \<open>A verified request's nonce was outstanding and unexpired, and is no longer outstanding
  unless the answer's fresh nonce happens to be the same string.\<close>

lemma verified_nonce:
  assumes "verify_jws env inp r w = (Inr jws, w')"
  shows "fst (validate_and_consume_nonce (ai_now inp) (jh_nonce (pj_header jws)) (as_nonces (w_srv w)))"
    and "jh_nonce (pj_header jws) \<in> known (as_nonces (w_srv w'))
      \<Longrightarrow> map_of (w_hs w') ''Replay-Nonce'' = Some (jh_nonce (pj_header jws))"
proof -
  let ?n = "jh_nonce (pj_header jws)"
  obtain b where d: "rq_body r = Some b"
      "decode_and_verify_jws (ae_jws env) b (Some (lookup_key (w_srv w))) = Inr jws"
    and ok: "fst (validate_and_consume_nonce (ai_now inp) ?n (as_nonces (w_srv w)))"
    and w': "w' = add_nonce_header (ai_now inp) (w\<lparr>w_srv := (w_srv w)\<lparr>as_nonces :=
      snd (validate_and_consume_nonce (ai_now inp) ?n (as_nonces (w_srv w)))\<rparr>\<rparr>)"
    using assms
    by (auto simp: verify_jws_def Let_def split: option.splits sum.splits prod.splits if_splits)
  show "fst (validate_and_consume_nonce (ai_now inp) ?n (as_nonces (w_srv w)))" by (rule ok)
  have ne: "?n \<noteq> []" using ok by (auto simp: validate_and_consume_nonce_def)
  then have nk: "?n \<notin> known (snd (validate_and_consume_nonce (ai_now inp) ?n (as_nonces (w_srv w))))"
    using validate_consumes by blast
  show "map_of (w_hs w') ''Replay-Nonce'' = Some ?n" if "?n \<in> known (as_nonces (w_srv w'))"
    using that nk unfolding w'
    by (auto simp: add_nonce_header_def generate_nonce_def known_iff set_hdr_def Let_def
        split: option.splits if_splits)
qed

text \<open>With a key in the header itself, verification never looks at the accounts.\<close>

lemma embedded_key_unregistered:
  assumes "decode_and_verify_jws env b look = Inr jws" and "jh_jwk (pj_header jws) = Some k"
  shows "decode_and_verify_jws env b look' = Inr jws"
proof -
  have "resolve_key look (pj_header jws) = resolve_key look' (pj_header jws)"
    using assms(2) by (simp add: resolve_key_def)
  then show ?thesis using assms
    by (auto simp: decode_and_verify_jws_def Let_def split: sum.splits option.splits if_splits)
qed

end
