(* ===== verification/Telemetry.thy ===== *)
theory Telemetry
  imports Go_Encoding Go_Http
begin

text \<open>
  \<open>pkg/telemetry/metrics.go\<close>: the metric registry, its operations, the Prometheus text it writes
  and the handler that serves it. Metric values are \<open>float64\<close>; its arithmetic and its decimal text
  are an argument (\<open>float64_ops\<close>), so nothing is assumed of rounding unless a theorem says so. Every
  operation holds the registry's lock, so a history of the registry is a sequence of operations.
\<close>

section \<open>The registry\<close>

definition MetricCertsIssuedTotal :: string where
  "MetricCertsIssuedTotal = ''certa_certificates_issued_total''"

definition MetricCertsRevokedTotal :: string where
  "MetricCertsRevokedTotal = ''certa_certificates_revoked_total''"

definition MetricOCSPRequestsTotal :: string where
  "MetricOCSPRequestsTotal = ''certa_ocsp_requests_total''"

definition MetricPolicyRejectionsTotal :: string where
  "MetricPolicyRejectionsTotal = ''certa_policy_rejections_total''"

definition MetricSigningQueueDepth :: string where
  "MetricSigningQueueDepth = ''certa_signing_queue_depth''"

definition MetricRevokedCertsCount :: string where
  "MetricRevokedCertsCount = ''certa_revoked_certificates_count''"

lemmas metric_names = MetricCertsIssuedTotal_def MetricCertsRevokedTotal_def MetricOCSPRequestsTotal_def
  MetricPolicyRejectionsTotal_def MetricSigningQueueDepth_def MetricRevokedCertsCount_def

record 'v float64_ops =
  fl_of_int :: "int \<Rightarrow> 'v"
  fl_add :: "'v \<Rightarrow> 'v \<Rightarrow> 'v"
  fl_sub :: "'v \<Rightarrow> 'v \<Rightarrow> 'v"
  fl_less :: "'v \<Rightarrow> 'v \<Rightarrow> bool"
  fl_text :: "'v \<Rightarrow> string"

type_synonym labels = "(string, string) gomap"

record 'v counter_entry =
  ctr_labels :: labels
  ctr_value :: 'v

record 'v counter_metric =
  cm_name :: string
  cm_help :: string
  cm_entries :: "(string, 'v counter_entry) gomap"

record 'v gauge_metric =
  gg_name :: string
  gg_help :: string
  gg_value :: 'v

record 'v registry =
  mr_counters :: "(string, 'v counter_metric) gomap"
  mr_gauges :: "(string, 'v gauge_metric) gomap"

definition register_counter :: "string \<Rightarrow> string \<Rightarrow> 'v registry \<Rightarrow> 'v registry" where
  "register_counter name help r =
     r\<lparr>mr_counters := gm_set name \<lparr>cm_name = name, cm_help = help, cm_entries = []\<rparr> (mr_counters r)\<rparr>"

definition register_gauge :: "'v float64_ops \<Rightarrow> string \<Rightarrow> string \<Rightarrow> 'v registry \<Rightarrow> 'v registry" where
  "register_gauge fl name help r =
     r\<lparr>mr_gauges := gm_set name \<lparr>gg_name = name, gg_help = help, gg_value = fl_of_int fl 0\<rparr> (mr_gauges r)\<rparr>"

definition new_registry :: "'v float64_ops \<Rightarrow> 'v registry" where
  "new_registry fl =
     (let r = \<lparr>mr_counters = [], mr_gauges = []\<rparr>;
          r = register_counter MetricCertsIssuedTotal ''Total number of certificates issued by profile'' r;
          r = register_counter MetricCertsRevokedTotal ''Total number of certificates revoked by reason'' r;
          r = register_counter MetricOCSPRequestsTotal ''Total number of OCSP requests processed by status'' r;
          r = register_counter MetricPolicyRejectionsTotal
                ''Total number of certificate requests rejected by policy'' r;
          r = register_gauge fl MetricSigningQueueDepth ''Current number of signing requests queued'' r;
          r = register_gauge fl MetricRevokedCertsCount ''Total number of currently revoked certificates'' r
      in r)"

section \<open>Operations\<close>

definition label_of :: "labels \<Rightarrow> string \<Rightarrow> string" where
  "label_of ls k = (case map_of ls k of Some v \<Rightarrow> v | None \<Rightarrow> [])"

definition format_labels :: "labels \<Rightarrow> string" where
  "format_labels ls =
     (if length ls = 0 then []
      else ''{'' @ join_with '','' (map (\<lambda>k. k @ ''='' @ go_quote (label_of ls k)) (sort (map fst ls))) @ ''}'')"

definition add_counter :: "'v float64_ops \<Rightarrow> string \<Rightarrow> 'v \<Rightarrow> labels \<Rightarrow> 'v registry \<Rightarrow> 'v registry" where
  "add_counter fl name delta ls r =
     (let c = (case map_of (mr_counters r) name of
                 Some c \<Rightarrow> c
               | None \<Rightarrow> \<lparr>cm_name = name, cm_help = name, cm_entries = []\<rparr>);
          label_str = format_labels ls;
          entry = (case map_of (cm_entries c) label_str of
                     Some e \<Rightarrow> e
                   | None \<Rightarrow> \<lparr>ctr_labels = ls, ctr_value = fl_of_int fl 0\<rparr>);
          entry = entry\<lparr>ctr_value := fl_add fl (ctr_value entry) delta\<rparr>
      in r\<lparr>mr_counters := gm_set name (c\<lparr>cm_entries := gm_set label_str entry (cm_entries c)\<rparr>) (mr_counters r)\<rparr>)"

definition set_gauge :: "'v float64_ops \<Rightarrow> string \<Rightarrow> 'v \<Rightarrow> 'v registry \<Rightarrow> 'v registry" where
  "set_gauge fl name v r =
     (let g = (case map_of (mr_gauges r) name of
                 Some g \<Rightarrow> g
               | None \<Rightarrow> \<lparr>gg_name = name, gg_help = name, gg_value = fl_of_int fl 0\<rparr>)
      in r\<lparr>mr_gauges := gm_set name (g\<lparr>gg_value := v\<rparr>) (mr_gauges r)\<rparr>)"

definition inc_revoked_certificates_count :: "'v float64_ops \<Rightarrow> 'v registry \<Rightarrow> 'v registry" where
  "inc_revoked_certificates_count fl r =
     (case map_of (mr_gauges r) MetricRevokedCertsCount of
        None \<Rightarrow> r
      | Some g \<Rightarrow> r\<lparr>mr_gauges := gm_set MetricRevokedCertsCount
                     (g\<lparr>gg_value := fl_add fl (gg_value g) (fl_of_int fl 1)\<rparr>) (mr_gauges r)\<rparr>)"

definition dec_revoked_certificates_count :: "'v float64_ops \<Rightarrow> 'v registry \<Rightarrow> 'v registry" where
  "dec_revoked_certificates_count fl r =
     (case map_of (mr_gauges r) MetricRevokedCertsCount of
        None \<Rightarrow> r
      | Some g \<Rightarrow>
          if fl_less fl (fl_of_int fl 0) (gg_value g)
          then r\<lparr>mr_gauges := gm_set MetricRevokedCertsCount
                 (g\<lparr>gg_value := fl_sub fl (gg_value g) (fl_of_int fl 1)\<rparr>) (mr_gauges r)\<rparr>
          else r)"

definition inc_certificates_issued :: "'v float64_ops \<Rightarrow> string \<Rightarrow> 'v registry \<Rightarrow> 'v registry" where
  "inc_certificates_issued fl profile r =
     add_counter fl MetricCertsIssuedTotal (fl_of_int fl 1) [(''profile'', profile)] r"

definition inc_certificates_revoked :: "'v float64_ops \<Rightarrow> string \<Rightarrow> 'v registry \<Rightarrow> 'v registry" where
  "inc_certificates_revoked fl reason r =
     inc_revoked_certificates_count fl
       (add_counter fl MetricCertsRevokedTotal (fl_of_int fl 1) [(''reason'', reason)] r)"

definition inc_ocsp_requests :: "'v float64_ops \<Rightarrow> string \<Rightarrow> 'v registry \<Rightarrow> 'v registry" where
  "inc_ocsp_requests fl status r =
     add_counter fl MetricOCSPRequestsTotal (fl_of_int fl 1) [(''status'', status)] r"

definition inc_policy_rejections :: "'v float64_ops \<Rightarrow> string \<Rightarrow> 'v registry \<Rightarrow> 'v registry" where
  "inc_policy_rejections fl reason r =
     add_counter fl MetricPolicyRejectionsTotal (fl_of_int fl 1) [(''reason'', reason)] r"

definition set_signing_queue_depth :: "'v float64_ops \<Rightarrow> 'v \<Rightarrow> 'v registry \<Rightarrow> 'v registry" where
  "set_signing_queue_depth fl depth r = set_gauge fl MetricSigningQueueDepth depth r"

definition set_revoked_certificates_count :: "'v float64_ops \<Rightarrow> 'v \<Rightarrow> 'v registry \<Rightarrow> 'v registry" where
  "set_revoked_certificates_count fl n r = set_gauge fl MetricRevokedCertsCount n r"

definition get_counter :: "'v float64_ops \<Rightarrow> string \<Rightarrow> labels \<Rightarrow> 'v registry \<Rightarrow> 'v" where
  "get_counter fl name ls r =
     (case map_of (mr_counters r) name of
        None \<Rightarrow> fl_of_int fl 0
      | Some c \<Rightarrow>
          (case map_of (cm_entries c) (format_labels ls) of
             None \<Rightarrow> fl_of_int fl 0
           | Some e \<Rightarrow> ctr_value e))"

definition get_gauge :: "'v float64_ops \<Rightarrow> string \<Rightarrow> 'v registry \<Rightarrow> 'v" where
  "get_gauge fl name r = (case map_of (mr_gauges r) name of None \<Rightarrow> fl_of_int fl 0 | Some g \<Rightarrow> gg_value g)"

section \<open>The text format\<close>

definition nl :: string where
  "nl = [CHR 0x0A]"

definition entry_line :: "'v float64_ops \<Rightarrow> 'v counter_metric \<Rightarrow> string \<Rightarrow> string" where
  "entry_line fl c lk =
     (case map_of (cm_entries c) lk of
        None \<Rightarrow> []
      | Some e \<Rightarrow> cm_name c @ lk @ '' '' @ fl_text fl (ctr_value e) @ nl)"

definition counter_section :: "'v float64_ops \<Rightarrow> 'v counter_metric \<Rightarrow> string" where
  "counter_section fl c =
     ''# HELP '' @ cm_name c @ '' '' @ cm_help c @ nl @ ''# TYPE '' @ cm_name c @ '' counter'' @ nl @
     (let label_keys = sort (map fst (cm_entries c)) in
      if length label_keys = 0 then cm_name c @ '' 0'' @ nl
      else concat (map (entry_line fl c) label_keys)) @ nl"

definition gauge_section :: "'v float64_ops \<Rightarrow> 'v gauge_metric \<Rightarrow> string" where
  "gauge_section fl g =
     ''# HELP '' @ gg_name g @ '' '' @ gg_help g @ nl @ ''# TYPE '' @ gg_name g @ '' gauge'' @ nl @
     gg_name g @ '' '' @ fl_text fl (gg_value g) @ nl @ nl"

definition write_prometheus :: "'v float64_ops \<Rightarrow> 'v registry \<Rightarrow> string" where
  "write_prometheus fl r =
     concat (map (\<lambda>name. case map_of (mr_counters r) name of None \<Rightarrow> [] | Some c \<Rightarrow> counter_section fl c)
       (sort (map fst (mr_counters r)))) @
     concat (map (\<lambda>name. case map_of (mr_gauges r) name of None \<Rightarrow> [] | Some g \<Rightarrow> gauge_section fl g)
       (sort (map fst (mr_gauges r))))"

definition metrics_handler :: "'v float64_ops \<Rightarrow> 'v registry \<Rightarrow> request \<Rightarrow> unit response" where
  "metrics_handler fl r req =
     (if rq_method req \<noteq> ''GET'' \<and> rq_method req \<noteq> ''HEAD'' then method_not_allowed ''GET, HEAD''
      else
        let hs = gm_set ''Content-Type'' ''text/plain; version=0.0.4; charset=utf-8'' [] in
        if rq_method req = ''HEAD'' then respond 200 hs NoBody
        else respond 200 hs (Raw (bytes_of (write_prometheus fl r))))"

section \<open>Histories\<close>

datatype 'v metric_op =
    AddCounter string 'v labels
  | SetGauge string 'v
  | IncRevoked
  | DecRevoked

fun metric_step :: "'v float64_ops \<Rightarrow> 'v registry \<Rightarrow> 'v metric_op \<Rightarrow> 'v registry" where
  "metric_step fl r (AddCounter name delta ls) = add_counter fl name delta ls r"
| "metric_step fl r (SetGauge name v) = set_gauge fl name v r"
| "metric_step fl r IncRevoked = inc_revoked_certificates_count fl r"
| "metric_step fl r DecRevoked = dec_revoked_certificates_count fl r"

definition metric_run :: "'v float64_ops \<Rightarrow> 'v registry \<Rightarrow> 'v metric_op list \<Rightarrow> 'v registry" where
  "metric_run fl r ops = foldl (metric_step fl) r ops"

text \<open>The amounts a history adds to one time series.\<close>

fun deltas :: "string \<Rightarrow> labels \<Rightarrow> 'v metric_op list \<Rightarrow> 'v list" where
  "deltas name ls [] = []"
| "deltas name ls (AddCounter n d l # ops) =
     (if n = name \<and> format_labels l = format_labels ls then d # deltas name ls ops else deltas name ls ops)"
| "deltas name ls (_ # ops) = deltas name ls ops"

lemma get_counter_add:
  "get_counter fl name ls (add_counter fl n d l r) =
     (if n = name \<and> format_labels l = format_labels ls then fl_add fl (get_counter fl name ls r) d
      else get_counter fl name ls r)"
  by (simp add: get_counter_def add_counter_def Let_def split: option.split)

lemma get_counter_gauges [simp]:
  "get_counter fl name ls (set_gauge fl' n v r) = get_counter fl name ls r"
  "get_counter fl name ls (inc_revoked_certificates_count fl r) = get_counter fl name ls r"
  "get_counter fl name ls (dec_revoked_certificates_count fl r) = get_counter fl name ls r"
  by (simp_all add: get_counter_def set_gauge_def inc_revoked_certificates_count_def
      dec_revoked_certificates_count_def Let_def split: option.split)

lemma get_counter_run:
  "get_counter fl name ls (metric_run fl r ops) = foldl (fl_add fl) (get_counter fl name ls r) (deltas name ls ops)"
proof (induction ops arbitrary: r)
  case (Cons op ops)
  then show ?case
    by (cases op) (simp_all add: metric_run_def get_counter_add)
qed (simp add: metric_run_def)

text \<open>Where adding one is exact up to a bound, as it is for \<open>float64\<close> below \<open>2\<^sup>5\<^sup>3\<close>.\<close>

definition exact_upto :: "'v float64_ops \<Rightarrow> nat \<Rightarrow> bool" where
  "exact_upto fl n = (\<forall>k < n. fl_add fl (fl_of_int fl (int k)) (fl_of_int fl 1) = fl_of_int fl (int k + 1))"

lemma foldl_ones:
  assumes "exact_upto fl n" and "\<forall>d \<in> set ds. d = fl_of_int fl 1" and "k + length ds \<le> n"
  shows "foldl (fl_add fl) (fl_of_int fl (int k)) ds = fl_of_int fl (int (k + length ds))"
  using assms(2,3)
proof (induction ds arbitrary: k)
  case (Cons d ds)
  have "fl_add fl (fl_of_int fl (int k)) d = fl_of_int fl (int (Suc k))"
    using assms(1) Cons.prems by (simp add: exact_upto_def add.commute)
  then show ?case using Cons.IH [of "Suc k"] Cons.prems by simp
qed simp

lemma get_counter_new: "get_counter fl name ls (new_registry fl) = fl_of_int fl 0"
  by (simp add: get_counter_def new_registry_def register_counter_def register_gauge_def Let_def split: option.split)

section \<open>The text does not depend on the order of the maps\<close>

definition registry_wf :: "'v registry \<Rightarrow> bool" where
  "registry_wf r =
     (gm_wf (mr_counters r) \<and> gm_wf (mr_gauges r) \<and>
      (\<forall>k c. map_of (mr_counters r) k = Some c \<longrightarrow> cm_name c = k \<and> gm_wf (cm_entries c)) \<and>
      (\<forall>k g. map_of (mr_gauges r) k = Some g \<longrightarrow> gg_name g = k))"

lemma registry_wf_new: "registry_wf (new_registry fl)"
  by (auto simp: registry_wf_def new_registry_def register_counter_def register_gauge_def Let_def
      split: if_splits)

lemma registry_wf_step: "registry_wf r \<Longrightarrow> registry_wf (metric_step fl r op)"
  by (cases op) (auto simp: registry_wf_def add_counter_def set_gauge_def inc_revoked_certificates_count_def
      dec_revoked_certificates_count_def Let_def split: option.splits)

lemma registry_wf_run: "registry_wf r \<Longrightarrow> registry_wf (metric_run fl r ops)"
  unfolding metric_run_def by (induction ops arbitrary: r) (simp_all add: registry_wf_step)

text \<open>The same maps visited in another order.\<close>

definition same_map :: "('k, 'v) gomap \<Rightarrow> ('k, 'v) gomap \<Rightarrow> bool" where
  "same_map m m' = (gm_wf m \<and> mset m' = mset m)"

definition same_counter :: "'v counter_metric \<Rightarrow> 'v counter_metric \<Rightarrow> bool" where
  "same_counter c d = (\<exists>es. same_map (cm_entries c) es \<and> d = c\<lparr>cm_entries := es\<rparr>)"

lemma same_map_lookup: "same_map m m' \<Longrightarrow> map_of m' = map_of m"
proof -
  assume a: "same_map m m'"
  then have "set m' = set m" "mset (map fst m') = mset (map fst m)"
    unfolding same_map_def by (metis mset_eq_setD, metis mset_map)
  moreover from this a have "distinct (map fst m')"
    by (metis gm_wf_def mset_eq_imp_distinct_iff same_map_def)
  ultimately show ?thesis using a by (intro map_of_inject_set [THEN iffD2]) (simp_all add: same_map_def gm_wf_def)
qed

lemma same_map_keys: "same_map m m' \<Longrightarrow> sort (map fst m') = sort (map fst (m :: (string, 'v) gomap))"
proof -
  assume "same_map m m'"
  then have "mset (map fst m') = mset (map fst m)" by (simp add: same_map_def)
  then show ?thesis by (metis sorted_list_of_multiset_mset)
qed

lemma counter_section_same:
  assumes "same_counter c d"
  shows "counter_section fl d = counter_section fl c"
proof -
  obtain es where m: "same_map (cm_entries c) es" and d: "d = c\<lparr>cm_entries := es\<rparr>"
    using assms by (auto simp: same_counter_def)
  have "entry_line fl d = entry_line fl c"
    by (auto simp: entry_line_def d same_map_lookup [OF m] fun_eq_iff split: option.split)
  moreover have "sort (map fst (cm_entries d)) = sort (map fst (cm_entries c))"
    by (simp add: d same_map_keys [OF m])
  moreover have "cm_name d = cm_name c" "cm_help d = cm_help c" by (simp_all add: d)
  ultimately show ?thesis by (simp add: counter_section_def Let_def)
qed

text \<open>What a scrape shows of one time series.\<close>

lemma contains_concat: "x \<in> set xs \<Longrightarrow> contains_str x p \<Longrightarrow> contains_str (concat xs) p"
proof -
  assume "x \<in> set xs" "contains_str x p"
  then obtain ys zs a b where "xs = ys @ x # zs" "x = a @ p @ b"
    by (auto simp: contains_str_iff dest: split_list)
  then have "concat xs = (concat ys @ a) @ p @ (b @ concat zs)" by simp
  then show ?thesis unfolding contains_str_iff by blast
qed

lemma contains_append: "contains_str x p \<or> contains_str y p \<Longrightarrow> contains_str (x @ y) p"
  unfolding contains_str_iff by (metis append.assoc)

lemma contains_refl: "contains_str p p"
  unfolding contains_str_iff by (metis append_Nil append_Nil2)

lemma write_prometheus_counter:
  assumes "map_of (mr_counters r) name = Some c" and "cm_name c = name"
    and "map_of (cm_entries c) lk = Some e"
  shows "contains_str (write_prometheus fl r) (name @ lk @ '' '' @ fl_text fl (ctr_value e) @ nl)"
proof -
  have lk: "lk \<in> set (sort (map fst (cm_entries c)))"
    using assms(3) by (force dest: map_of_SomeD)
  then have "length (sort (map fst (cm_entries c))) \<noteq> 0" by auto
  moreover have "contains_str (concat (map (entry_line fl c) (sort (map fst (cm_entries c)))))
      (name @ lk @ '' '' @ fl_text fl (ctr_value e) @ nl)"
    by (rule contains_concat [OF imageI [OF lk, folded set_map]])
      (simp add: entry_line_def assms(2,3) contains_refl del: append_assoc)
  ultimately have s: "contains_str (counter_section fl c) (name @ lk @ '' '' @ fl_text fl (ctr_value e) @ nl)"
    unfolding counter_section_def Let_def by (simp only: if_False contains_append simp_thms)
  have n: "name \<in> set (sort (map fst (mr_counters r)))"
    using assms(1) by (force dest: map_of_SomeD)
  show ?thesis
    unfolding write_prometheus_def
    by (rule contains_append, rule disjI1, rule contains_concat [OF imageI [OF n, folded set_map]])
      (use s in \<open>simp add: assms(1)\<close>)
qed

lemma registry_wf_entries:
  "registry_wf r \<Longrightarrow> map_of (mr_counters r) k = Some c \<Longrightarrow> cm_name c = k \<and> gm_wf (cm_entries c)"
  by (simp add: registry_wf_def)

section \<open>Properties\<close>

text \<open>
  A counter is the sum of what was added to it: after any history of the registry, in which other
  counters and the gauges were changed too, \<open>GetCounter\<close> returns the amounts added under that name and
  an equal label text, summed in order. Where all of them are 1, as in every increment the code makes,
  and adding 1 is exact that far (for \<open>float64\<close> up to \<open>2\<^sup>5\<^sup>3\<close>), this is the number of events.
\<close>

theorem counter_totals:
  "get_counter fl name ls (metric_run fl (new_registry fl) ops) =
     foldl (fl_add fl) (fl_of_int fl 0) (deltas name ls ops) \<and>
   (exact_upto fl n \<and> (\<forall>d \<in> set (deltas name ls ops). d = fl_of_int fl 1) \<and> length (deltas name ls ops) \<le> n
     \<longrightarrow> get_counter fl name ls (metric_run fl (new_registry fl) ops) = fl_of_int fl (int (length (deltas name ls ops))))"
  using foldl_ones [of fl n "deltas name ls ops" 0] by (simp add: get_counter_run get_counter_new)

definition int_float64 :: "int float64_ops" where
  "int_float64 = \<lparr>fl_of_int = id, fl_add = (+), fl_sub = (-), fl_less = (<), fl_text = dec_int\<rparr>"

theorem counter_totals_witness:
  "get_counter int_float64 MetricCertsIssuedTotal [(''profile'', ''tls'')]
     (metric_run int_float64 (new_registry int_float64)
       [AddCounter MetricCertsIssuedTotal 1 [(''profile'', ''tls'')], IncRevoked,
        AddCounter MetricCertsIssuedTotal 1 [(''profile'', ''ca'')],
        AddCounter MetricCertsIssuedTotal 1 [(''profile'', ''tls'')]]) = 2"
proof -
  have "format_labels [(''profile'', ''ca'')] \<noteq> format_labels [(''profile'', ''tls'')]" by code_simp
  moreover have "exact_upto int_float64 5" by (simp add: exact_upto_def int_float64_def)
  ultimately show ?thesis
    using counter_totals [of int_float64 MetricCertsIssuedTotal "[(''profile'', ''tls'')]"
        "[AddCounter MetricCertsIssuedTotal 1 [(''profile'', ''tls'')], IncRevoked,
        AddCounter MetricCertsIssuedTotal 1 [(''profile'', ''ca'')],
        AddCounter MetricCertsIssuedTotal 1 [(''profile'', ''tls'')]]" 5]
    by (simp add: int_float64_def)
qed

text \<open>
  C37. The scrape is deterministic and complete: in whatever order Go visits the registry's maps, those
  of the counters and gauges and that of each counter's label sets, \<open>WritePrometheus\<close> writes the same
  text, and every time series is in it on a line of its own with its current value.
\<close>

theorem exposition_deterministic:
  assumes "r = metric_run fl (new_registry fl) ops" and "mset cs = mset (mr_counters r)"
    and "mset gs = mset (mr_gauges r)" and "\<forall>c. mset (order c) = mset (cm_entries c)"
  shows "write_prometheus fl \<lparr>mr_counters = map (\<lambda>(k, c). (k, c\<lparr>cm_entries := order c\<rparr>)) cs, mr_gauges = gs\<rparr> =
      write_prometheus fl r \<and>
    (\<forall>name c lk e. map_of (mr_counters r) name = Some c \<and> map_of (cm_entries c) lk = Some e \<longrightarrow>
       contains_str (write_prometheus fl r) (name @ lk @ '' '' @ fl_text fl (ctr_value e) @ nl))"
proof -
  have wf: "registry_wf r" using registry_wf_run [OF registry_wf_new] assms(1) by blast
  then have c: "same_map (mr_counters r) cs" and g: "same_map (mr_gauges r) gs"
    using assms(2,3) by (simp_all add: same_map_def registry_wf_def)
  let ?visit = "\<lambda>c. c\<lparr>cm_entries := order c\<rparr>"
  have "map fst (map (\<lambda>(k, c). (k, ?visit c)) cs) = map fst cs" by (induction cs) auto
  then have keys: "sort (map fst (map (\<lambda>(k, c). (k, ?visit c)) cs)) = sort (map fst (mr_counters r))"
    using same_map_keys [OF c] by (simp only:)
  have look: "map_of (map (\<lambda>(k, c). (k, ?visit c)) cs) k = map_option ?visit (map_of (mr_counters r) k)" for k
    using same_map_lookup [OF c] by (simp add: map_of_map)
  have "counter_section fl (?visit m) = counter_section fl m" if "map_of (mr_counters r) k = Some m" for k m
    using registry_wf_entries [OF wf that] assms(4)
    by (intro counter_section_same) (auto simp: same_counter_def same_map_def)
  then have "(case map_of (map (\<lambda>(k, c). (k, ?visit c)) cs) k of None \<Rightarrow> [] | Some c \<Rightarrow> counter_section fl c) =
      (case map_of (mr_counters r) k of None \<Rightarrow> [] | Some c \<Rightarrow> counter_section fl c)" for k
    by (simp add: look split: option.split)
  then have "write_prometheus fl \<lparr>mr_counters = map (\<lambda>(k, c). (k, ?visit c)) cs, mr_gauges = gs\<rparr> = write_prometheus fl r"
    unfolding write_prometheus_def registry.simps keys same_map_keys [OF g] same_map_lookup [OF g] by presburger
  then show ?thesis using write_prometheus_counter registry_wf_entries [OF wf] by blast
qed

theorem exposition_deterministic_witness:
  "write_prometheus int_float64 \<lparr>mr_counters = rev (mr_counters (new_registry int_float64)),
     mr_gauges = rev (mr_gauges (new_registry int_float64))\<rparr> = write_prometheus int_float64 (new_registry int_float64)"
proof -
  have "map (\<lambda>(k, c). (k, c\<lparr>cm_entries := cm_entries c\<rparr>)) m = (m :: (string, int counter_metric) gomap)" for m
    by (auto intro!: map_idI)
  then show ?thesis
    using exposition_deterministic [of _ int_float64 "[]" "rev (mr_counters (new_registry int_float64))"
        "rev (mr_gauges (new_registry int_float64))" cm_entries]
    by (simp add: metric_run_def)
qed

end
