(* ===== verification/Go_Path.thy ===== *)
theory Go_Path
  imports Go_Strings
begin

text \<open>
  \<open>path.Clean\<close> (which \<open>filepath.Clean\<close> is on Unix) and \<open>filepath.Join\<close>, with what the code needs of
  them: joining different file names to one directory gives different paths.
\<close>

fun split_on :: "char \<Rightarrow> string \<Rightarrow> string list" where
  "split_on c [] = [[]]"
| "split_on c (x # xs) =
     (if x = c then [] # split_on c xs
      else (case split_on c xs of [] \<Rightarrow> [[x]] | y # ys \<Rightarrow> (x # y) # ys))"

text \<open>One path element on the stack of those kept, the last one first.\<close>

definition clean_step :: "bool \<Rightarrow> string list \<Rightarrow> string \<Rightarrow> string list" where
  "clean_step rooted st e =
     (if e = [] \<or> e = ''.'' then st
      else if e = ''..'' then
        (case st of
           t # rest \<Rightarrow> if t = ''..'' then e # st else rest
         | [] \<Rightarrow> if rooted then [] else [e])
      else e # st)"

definition path_clean :: "string \<Rightarrow> string" where
  "path_clean p =
     (if p = [] then ''.''
      else
        let rooted = has_prefix p ''/'';
            out = (if rooted then ''/'' else []) @
                  join_with ''/'' (rev (foldl (clean_step rooted) [] (split_on CHR ''/'' p)))
        in if out = [] then ''.'' else out)"

definition filepath_join :: "string \<Rightarrow> string \<Rightarrow> string" where
  "filepath_join dir name =
     (let es = filter (\<lambda>e. e \<noteq> []) [dir, name] in
      if es = [] then [] else path_clean (join_with ''/'' es))"

definition plain_name :: "string \<Rightarrow> bool" where
  "plain_name n = (CHR ''/'' \<notin> set n \<and> n \<notin> {[], ''.'', ''..''})"

lemma split_on_plain: "c \<notin> set n \<Longrightarrow> split_on c n = [n]"
  by (induction n) auto

lemma split_on_not_Nil [simp]: "split_on c s \<noteq> []"
  by (induction s) (auto split: list.splits)

lemma split_on_append: "c \<notin> set n \<Longrightarrow> split_on c (s @ c # n) = split_on c s @ [n]"
  by (induction s) (auto simp: split_on_plain split: list.splits)

lemma clean_step_plain: "plain_name n \<Longrightarrow> clean_step r st n = n # st"
  by (simp add: plain_name_def clean_step_def)

lemma join_with_snoc:
  "join_with sep (xs @ [n]) = (if xs = [] then n else join_with sep xs @ sep @ n)"
proof (induction xs)
  case (Cons x xs)
  then show ?case by (cases xs) simp_all
qed simp

text \<open>A join ends in its file name, after a prefix that does not depend on it.\<close>

lemma filepath_join_plain: "\<exists>pre. \<forall>n. plain_name n \<longrightarrow> filepath_join dir n = pre @ n"
proof (cases "dir = []")
  case True
  have "filepath_join dir n = [] @ n" if "plain_name n" for n
  proof -
    have "\<not> has_prefix n ''/''" using that by (cases n) (auto simp: plain_name_def has_prefix_def)
    moreover have "n \<noteq> []" using that by (simp add: plain_name_def)
    moreover have "split_on CHR ''/'' n = [n]" using that by (simp add: plain_name_def split_on_plain)
    ultimately show ?thesis
      using True that by (simp add: filepath_join_def path_clean_def clean_step_plain)
  qed
  then show ?thesis by blast
next
  case False
  define rooted where "rooted = has_prefix dir ''/''"
  define st where "st = rev (foldl (clean_step rooted) [] (split_on CHR ''/'' dir))"
  define pre where "pre = (if rooted then ''/'' else []) @ (if st = [] then [] else join_with ''/'' st @ ''/'')"
  have "filepath_join dir n = pre @ n" if n: "plain_name n" for n
  proof -
    have c: "CHR ''/'' \<notin> set n" "n \<noteq> []" using n by (simp_all add: plain_name_def)
    have "has_prefix (dir @ CHR ''/'' # n) ''/'' = rooted"
      using False by (cases dir) (simp_all add: rooted_def has_prefix_def)
    moreover have "rev (foldl (clean_step rooted) [] (split_on CHR ''/'' (dir @ CHR ''/'' # n))) = st @ [n]"
      by (simp add: split_on_append [OF c(1)] clean_step_plain [OF n] st_def)
    moreover have "filepath_join dir n = path_clean (dir @ CHR ''/'' # n)"
      using False c by (simp add: filepath_join_def)
    ultimately show ?thesis
      using c False unfolding path_clean_def pre_def by (simp add: Let_def join_with_snoc)
  qed
  then show ?thesis by blast
qed

lemma filepath_join_inj:
  assumes "plain_name m" and "plain_name n"
  shows "filepath_join dir m = filepath_join dir n \<longleftrightarrow> m = n"
  using filepath_join_plain [of dir] assms by auto

end
