(* ===== verification/Key_Store.thy ===== *)
theory Key_Store
  imports Signer_Pool Go_Pem Go_Path
begin

text \<open>
  \<open>pkg/ca/key_store.go\<close>: the CA hierarchy on disk. The file system is a map from paths to files
  (mode and contents); every call of it may fail, and a write may fail before the file is opened or
  after part of the data is in it (\<open>fs_env\<close> says which). File modes are the octal 0600 (0x180) and 0644 (0x1A4) before the umask. The encodings of private keys and the PEM
  decoder are library functions, arguments of the operations.
\<close>

section \<open>Files\<close>

record stored_file =
  f_mode :: nat
  f_data :: "byte list"

type_synonym fs = "(string, stored_file) gomap"

text \<open>A write is done, or fails before the file is opened, or fails with the first bytes written.\<close>

datatype write_outcome = Written | NotOpened string | Torn nat string

record fs_env =
  fe_mkdir :: "string \<Rightarrow> string option"
  fe_stat :: "string \<Rightarrow> string option"
  fe_read :: "string \<Rightarrow> string option"
  fe_write :: "string \<Rightarrow> write_outcome"

definition os_stat :: "fs_env \<Rightarrow> fs \<Rightarrow> string \<Rightarrow> string option" where
  "os_stat fe fs p =
     (case fe_stat fe p of
        Some e \<Rightarrow> Some e
      | None \<Rightarrow> if map_of fs p = None then Some ''no such file or directory'' else None)"

definition os_read_file :: "fs_env \<Rightarrow> fs \<Rightarrow> string \<Rightarrow> string + byte list" where
  "os_read_file fe fs p =
     (case fe_read fe p of
        Some e \<Rightarrow> Inl e
      | None \<Rightarrow> (case map_of fs p of None \<Rightarrow> Inl ''no such file or directory'' | Some f \<Rightarrow> Inr (f_data f)))"

text \<open>\<open>os.WriteFile\<close> truncates an existing file and keeps its mode.\<close>

definition put_file :: "fs \<Rightarrow> string \<Rightarrow> byte list \<Rightarrow> nat \<Rightarrow> fs" where
  "put_file fs p bs mode =
     gm_set p \<lparr>f_mode = (case map_of fs p of Some f \<Rightarrow> f_mode f | None \<Rightarrow> mode), f_data = bs\<rparr> fs"

definition os_write_file :: "fs_env \<Rightarrow> fs \<Rightarrow> string \<Rightarrow> byte list \<Rightarrow> nat \<Rightarrow> string option \<times> fs" where
  "os_write_file fe fs p bs mode =
     (case fe_write fe p of
        Written \<Rightarrow> (None, put_file fs p bs mode)
      | NotOpened e \<Rightarrow> (Some e, fs)
      | Torn n e \<Rightarrow> (Some e, put_file fs p (take n bs) mode))"

section \<open>The operations\<close>

record ca_hierarchy_files =
  chf_root_key_path :: string
  chf_root_cert_path :: string
  chf_intermediate_key_path :: string
  chf_intermediate_cert_path :: string

definition default_ca_hierarchy_files :: "string \<Rightarrow> ca_hierarchy_files" where
  "default_ca_hierarchy_files dir =
     \<lparr>chf_root_key_path = filepath_join dir ''root.key'',
      chf_root_cert_path = filepath_join dir ''root.crt'',
      chf_intermediate_key_path = filepath_join dir ''intermediate.key'',
      chf_intermediate_cert_path = filepath_join dir ''intermediate.crt''\<rparr>"

datatype read_error =
    ReadFailed string
  | InvalidPemCertificate string
  | InvalidPemKey string
  | KeyParseFailed string
  | NotRSA string

datatype key_store_error =
    CreateDirFailed string
  | RootCertRead read_error
  | RootCertParse string
  | IntermediateCertRead read_error
  | IntermediateCertParse string
  | IntermediateKeyRead read_error
  | RootKeyGeneration string
  | RootKeyId string
  | RootCertCreation string
  | NewRootCertParse string
  | IntermediateKeyGeneration string
  | IntermediateKeyId string
  | IntermediateCertCreation string
  | NewIntermediateCertParse string
  | RootKeyWrite string
  | RootCertWrite string
  | IntermediateKeyWrite string
  | IntermediateCertWrite string

text \<open>The libraries. \<open>ParsePKCS8PrivateKey\<close> returns None where the key is not an RSA key.\<close>

record 'k key_codec =
  kc_marshal_pkcs1 :: "'k \<Rightarrow> byte list"
  kc_parse_pkcs1 :: "byte list \<Rightarrow> string + 'k"
  kc_parse_pkcs8 :: "byte list \<Rightarrow> string + 'k option"
  kc_pem :: pem_decoder

text \<open>What one ceremony draws: random bytes for the keys and the signatures, clock readings.\<close>

record ceremony_inputs =
  ci_clock :: "nat \<Rightarrow> go_time"
  ci_add_years :: "go_time \<Rightarrow> int \<Rightarrow> go_time"
  ci_rnd_root_key :: "byte list"
  ci_rnd_root :: "byte list"
  ci_rnd_int_key :: "byte list"
  ci_rnd_int :: "byte list"

definition read_pem_certificate :: "pem_decoder \<Rightarrow> fs_env \<Rightarrow> fs \<Rightarrow> string \<Rightarrow> read_error + byte list" where
  "read_pem_certificate dec fe fs p =
     (case os_read_file fe fs p of
        Inl e \<Rightarrow> Inl (ReadFailed e)
      | Inr bs \<Rightarrow>
          (case dec bs of
             None \<Rightarrow> Inl (InvalidPemCertificate p)
           | Some (t, der) \<Rightarrow> if t \<noteq> ''CERTIFICATE'' then Inl (InvalidPemCertificate p) else Inr der))"

definition read_pem_private_key :: "'k key_codec \<Rightarrow> fs_env \<Rightarrow> fs \<Rightarrow> string \<Rightarrow> read_error + 'k" where
  "read_pem_private_key kc fe fs p =
     (case os_read_file fe fs p of
        Inl e \<Rightarrow> Inl (ReadFailed e)
      | Inr bs \<Rightarrow>
          (case kc_pem kc bs of
             None \<Rightarrow> Inl (InvalidPemKey p)
           | Some (t, der) \<Rightarrow>
               if t = ''RSA PRIVATE KEY''
               then (case kc_parse_pkcs1 kc der of Inl e \<Rightarrow> Inl (KeyParseFailed e) | Inr k \<Rightarrow> Inr k)
               else (case kc_parse_pkcs8 kc der of
                       Inl e \<Rightarrow> Inl (KeyParseFailed e)
                     | Inr None \<Rightarrow> Inl (NotRSA p)
                     | Inr (Some k) \<Rightarrow> Inr k)))"

definition write_pem_private_key :: "'k key_codec \<Rightarrow> fs_env \<Rightarrow> fs \<Rightarrow> string \<Rightarrow> 'k \<Rightarrow> string option \<times> fs" where
  "write_pem_private_key kc fe fs p key =
     os_write_file fe fs p (pem_encode ''RSA PRIVATE KEY'' (kc_marshal_pkcs1 kc key)) 0x180"

definition write_pem_certificate :: "fs_env \<Rightarrow> fs \<Rightarrow> string \<Rightarrow> byte list \<Rightarrow> string option \<times> fs" where
  "write_pem_certificate fe fs p der = os_write_file fe fs p (pem_encode ''CERTIFICATE'' der) 0x1A4"

definition files_exist :: "fs_env \<Rightarrow> fs \<Rightarrow> string list \<Rightarrow> bool" where
  "files_exist fe fs ps = (first_err (os_stat fe fs) ps = None)"

type_synonym 'k loaded = "'k authority \<times> 'k hsm_signer"

definition load_authority ::
  "'k crypto_env \<Rightarrow> 'k key_codec \<Rightarrow> fs_env \<Rightarrow> fs \<Rightarrow> ca_hierarchy_files \<Rightarrow> duration \<Rightarrow> key_store_error + 'k loaded" where
  "load_authority env kc fe fs paths latency =
     (case read_pem_certificate (kc_pem kc) fe fs (chf_root_cert_path paths) of
        Inl e \<Rightarrow> Inl (RootCertRead e)
      | Inr root_der \<Rightarrow>
     (case ce_parse_certificate env root_der of
        Inl e \<Rightarrow> Inl (RootCertParse e)
      | Inr root_cert \<Rightarrow>
     (case read_pem_certificate (kc_pem kc) fe fs (chf_intermediate_cert_path paths) of
        Inl e \<Rightarrow> Inl (IntermediateCertRead e)
      | Inr int_der \<Rightarrow>
     (case ce_parse_certificate env int_der of
        Inl e \<Rightarrow> Inl (IntermediateCertParse e)
      | Inr int_cert \<Rightarrow>
     (case read_pem_private_key kc fe fs (chf_intermediate_key_path paths) of
        Inl e \<Rightarrow> Inl (IntermediateKeyRead e)
      | Inr int_key \<Rightarrow>
          Inr (\<lparr>au_root_cert = root_cert, au_intermediate_cert = int_cert, au_signer = int_key,
                au_policy = Some new_default_policy_engine\<rparr>,
               new_hsm_signer (Some int_key) latency))))))"

text \<open>The ceremony: the keys and certificates of a new hierarchy.\<close>

record 'k hierarchy =
  hy_root_key :: 'k
  hy_root_der :: "byte list"
  hy_root_cert :: certificate
  hy_int_key :: 'k
  hy_int_der :: "byte list"
  hy_int_cert :: certificate

definition generate_hierarchy :: "'k crypto_env \<Rightarrow> ceremony_inputs \<Rightarrow> key_store_error + 'k hierarchy" where
  "generate_hierarchy env ci =
     (case ce_generate_rsa env 4096 (ci_rnd_root_key ci) of
        Inl e \<Rightarrow> Inl (RootKeyGeneration e)
      | Inr root_key \<Rightarrow>
     (case compute_subject_key_id env (ce_public env root_key) of
        Inl e \<Rightarrow> Inl (RootKeyId e)
      | Inr root_skid \<Rightarrow>
        let root_tmpl = root_template (ci_add_years ci) (ci_clock ci 0) (ci_clock ci 1) root_skid in
     (case ce_create_certificate env (ci_rnd_root ci) root_tmpl root_tmpl (ce_public env root_key) root_key of
        Inl e \<Rightarrow> Inl (RootCertCreation e)
      | Inr root_der \<Rightarrow>
     (case ce_parse_certificate env root_der of
        Inl e \<Rightarrow> Inl (NewRootCertParse e)
      | Inr root_cert \<Rightarrow>
     (case ce_generate_rsa env 2048 (ci_rnd_int_key ci) of
        Inl e \<Rightarrow> Inl (IntermediateKeyGeneration e)
      | Inr int_key \<Rightarrow>
     (case compute_subject_key_id env (ce_public env int_key) of
        Inl e \<Rightarrow> Inl (IntermediateKeyId e)
      | Inr int_skid \<Rightarrow>
        let int_tmpl = intermediate_template (ci_add_years ci) (ci_clock ci 2) (ci_clock ci 3) int_skid root_skid in
     (case ce_create_certificate env (ci_rnd_int ci) int_tmpl root_cert (ce_public env int_key) root_key of
        Inl e \<Rightarrow> Inl (IntermediateCertCreation e)
      | Inr int_der \<Rightarrow>
     (case ce_parse_certificate env int_der of
        Inl e \<Rightarrow> Inl (NewIntermediateCertParse e)
      | Inr int_cert \<Rightarrow>
          Inr \<lparr>hy_root_key = root_key, hy_root_der = root_der, hy_root_cert = root_cert,
               hy_int_key = int_key, hy_int_der = int_der, hy_int_cert = int_cert\<rparr>))))))))"

text \<open>The four writes, in their order; the first error ends them.\<close>

definition persist_hierarchy ::
  "'k key_codec \<Rightarrow> fs_env \<Rightarrow> fs \<Rightarrow> ca_hierarchy_files \<Rightarrow> 'k hierarchy \<Rightarrow> key_store_error option \<times> fs" where
  "persist_hierarchy kc fe fs paths h =
     (case write_pem_private_key kc fe fs (chf_root_key_path paths) (hy_root_key h) of
        (Some e, fs) \<Rightarrow> (Some (RootKeyWrite e), fs)
      | (None, fs) \<Rightarrow>
     (case write_pem_certificate fe fs (chf_root_cert_path paths) (hy_root_der h) of
        (Some e, fs) \<Rightarrow> (Some (RootCertWrite e), fs)
      | (None, fs) \<Rightarrow>
     (case write_pem_private_key kc fe fs (chf_intermediate_key_path paths) (hy_int_key h) of
        (Some e, fs) \<Rightarrow> (Some (IntermediateKeyWrite e), fs)
      | (None, fs) \<Rightarrow>
     (case write_pem_certificate fe fs (chf_intermediate_cert_path paths) (hy_int_der h) of
        (Some e, fs) \<Rightarrow> (Some (IntermediateCertWrite e), fs)
      | (None, fs) \<Rightarrow> (None, fs)))))"

definition generate_and_persist_authority ::
  "'k crypto_env \<Rightarrow> 'k key_codec \<Rightarrow> ceremony_inputs \<Rightarrow> fs_env \<Rightarrow> fs \<Rightarrow> ca_hierarchy_files \<Rightarrow> duration \<Rightarrow>
     (key_store_error + 'k loaded) \<times> fs" where
  "generate_and_persist_authority env kc ci fe fs paths latency =
     (case generate_hierarchy env ci of
        Inl e \<Rightarrow> (Inl e, fs)
      | Inr h \<Rightarrow>
          (case persist_hierarchy kc fe fs paths h of
             (Some e, fs) \<Rightarrow> (Inl e, fs)
           | (None, fs) \<Rightarrow>
               (Inr (\<lparr>au_root_cert = hy_root_cert h, au_intermediate_cert = hy_int_cert h,
                      au_signer = hy_int_key h, au_policy = Some new_default_policy_engine\<rparr>,
                     new_hsm_signer (Some (hy_int_key h)) latency), fs)))"

definition load_or_initialize_authority ::
  "'k crypto_env \<Rightarrow> 'k key_codec \<Rightarrow> ceremony_inputs \<Rightarrow> fs_env \<Rightarrow> fs \<Rightarrow> string \<Rightarrow> duration \<Rightarrow>
     (key_store_error + 'k loaded) \<times> fs" where
  "load_or_initialize_authority env kc ci fe fs data_dir latency =
     (let ca_dir = filepath_join data_dir ''ca'' in
      case fe_mkdir fe ca_dir of
        Some e \<Rightarrow> (Inl (CreateDirFailed e), fs)
      | None \<Rightarrow>
          let paths = default_ca_hierarchy_files ca_dir in
          if files_exist fe fs [chf_root_cert_path paths, chf_intermediate_cert_path paths, chf_intermediate_key_path paths]
          then (load_authority env kc fe fs paths latency, fs)
          else generate_and_persist_authority env kc ci fe fs paths latency)"

section \<open>Paths and files\<close>

lemma plain_file_names [simp]:
  "plain_name ''root.key''" "plain_name ''root.crt''" "plain_name ''intermediate.key''" "plain_name ''intermediate.crt''"
  by (simp_all add: plain_name_def)

lemma hierarchy_paths_distinct:
  "distinct [chf_root_key_path (default_ca_hierarchy_files d), chf_root_cert_path (default_ca_hierarchy_files d),
     chf_intermediate_key_path (default_ca_hierarchy_files d), chf_intermediate_cert_path (default_ca_hierarchy_files d)]"
  by (simp add: default_ca_hierarchy_files_def filepath_join_inj)

lemma put_file_lookup [simp]:
  "map_of (put_file fs p bs m) q = (if q = p
     then Some \<lparr>f_mode = (case map_of fs p of Some f \<Rightarrow> f_mode f | None \<Rightarrow> m), f_data = bs\<rparr> else map_of fs q)"
  by (simp add: put_file_def)

lemma os_write_file_ok: "os_write_file fe fs p bs m = (None, fs') \<longleftrightarrow> fe_write fe p = Written \<and> fs' = put_file fs p bs m"
  by (auto simp: os_write_file_def split: write_outcome.splits)

lemma pem_labels [simp]: "pem_label ''CERTIFICATE''" "pem_label ''RSA PRIVATE KEY''"
  by (simp_all add: pem_label_def)

text \<open>A file system that does not fail, and the documented round trip of the key encoding.\<close>

definition fs_readable :: "fs_env \<Rightarrow> bool" where
  "fs_readable fe = (\<forall>p. fe_mkdir fe p = None \<and> fe_stat fe p = None \<and> fe_read fe p = None)"

definition key_codec_ok :: "'k key_codec \<Rightarrow> bool" where
  "key_codec_ok kc = (pem_decode_ok (kc_pem kc) \<and> (\<forall>k. kc_parse_pkcs1 kc (kc_marshal_pkcs1 kc k) = Inr k))"

definition contents :: "fs \<Rightarrow> string \<Rightarrow> byte list option" where
  "contents fs p = map_option f_data (map_of fs p)"

lemma read_back_certificate:
  "fs_readable fe \<Longrightarrow> pem_decode_ok dec \<Longrightarrow> contents fs p = Some (pem_encode ''CERTIFICATE'' der) \<Longrightarrow>
     read_pem_certificate dec fe fs p = Inr der"
  by (auto simp: read_pem_certificate_def os_read_file_def fs_readable_def contents_def pem_decode_ok_def)

lemma read_back_key:
  "fs_readable fe \<Longrightarrow> key_codec_ok kc \<Longrightarrow>
     contents fs p = Some (pem_encode ''RSA PRIVATE KEY'' (kc_marshal_pkcs1 kc k)) \<Longrightarrow>
     read_pem_private_key kc fe fs p = Inr k"
  by (auto simp: read_pem_private_key_def os_read_file_def fs_readable_def contents_def key_codec_ok_def
      pem_decode_ok_def)

lemma files_exist_readable: "fs_readable fe \<Longrightarrow> files_exist fe fs ps \<longleftrightarrow> (\<forall>p \<in> set ps. contents fs p \<noteq> None)"
  by (auto simp: files_exist_def os_stat_def fs_readable_def contents_def)

lemma files_exist_contents: "files_exist fe fs ps \<Longrightarrow> p \<in> set ps \<Longrightarrow> contents fs p \<noteq> None"
  by (auto simp: files_exist_def os_stat_def contents_def split: option.splits if_splits)

text \<open>Reading does not depend on what could fail and did not.\<close>

lemma read_pem_certificate_again:
  "read_pem_certificate dec fe fs p = Inr der \<Longrightarrow> fs_readable fe' \<Longrightarrow> read_pem_certificate dec fe' fs p = Inr der"
  by (auto simp: read_pem_certificate_def os_read_file_def fs_readable_def split: sum.splits option.splits)

lemma read_pem_private_key_again:
  "read_pem_private_key kc fe fs p = Inr k \<Longrightarrow> fs_readable fe' \<Longrightarrow> read_pem_private_key kc fe' fs p = Inr k"
  by (auto simp: read_pem_private_key_def os_read_file_def fs_readable_def split: sum.splits option.splits)

lemma load_authority_again:
  assumes "load_authority env kc fe fs paths l = Inr (a, h)" and "fs_readable fe'"
  shows "load_authority env kc fe' fs paths l' = Inr (a, h\<lparr>hs_latency := l'\<rparr>)"
proof -
  obtain root_der root_cert int_der int_cert k where
    r: "read_pem_certificate (kc_pem kc) fe fs (chf_root_cert_path paths) = Inr root_der"
    "read_pem_certificate (kc_pem kc) fe fs (chf_intermediate_cert_path paths) = Inr int_der"
    "read_pem_private_key kc fe fs (chf_intermediate_key_path paths) = Inr k"
    and p: "ce_parse_certificate env root_der = Inr root_cert"
    "ce_parse_certificate env int_der = Inr int_cert"
    and a: "a = \<lparr>au_root_cert = root_cert, au_intermediate_cert = int_cert, au_signer = k,
       au_policy = Some new_default_policy_engine\<rparr>" "h = new_hsm_signer (Some k) l"
    using assms(1) unfolding load_authority_def by (auto split: sum.splits)
  note again = read_pem_certificate_again [OF r(1) assms(2)] read_pem_certificate_again [OF r(2) assms(2)]
    read_pem_private_key_again [OF r(3) assms(2)]
  show ?thesis by (simp add: load_authority_def again p a new_hsm_signer_def)
qed

text \<open>What a completed ceremony leaves on disk.\<close>

lemma persist_hierarchy_ok:
  assumes "persist_hierarchy kc fe fs (default_ca_hierarchy_files d) h = (None, fs')"
  shows "contents fs' (filepath_join d ''root.crt'') = Some (pem_encode ''CERTIFICATE'' (hy_root_der h))"
    and "contents fs' (filepath_join d ''intermediate.crt'') = Some (pem_encode ''CERTIFICATE'' (hy_int_der h))"
    and "contents fs' (filepath_join d ''intermediate.key'') =
      Some (pem_encode ''RSA PRIVATE KEY'' (kc_marshal_pkcs1 kc (hy_int_key h)))"
    and "contents fs' (filepath_join d ''root.key'') =
      Some (pem_encode ''RSA PRIVATE KEY'' (kc_marshal_pkcs1 kc (hy_root_key h)))"
  using assms
  by (auto simp: persist_hierarchy_def write_pem_private_key_def write_pem_certificate_def os_write_file_ok
      contents_def default_ca_hierarchy_files_def filepath_join_inj split: prod.splits option.splits)

lemma persist_hierarchy_modes:
  assumes "persist_hierarchy kc fe fs (default_ca_hierarchy_files d) h = (None, fs')"
    and "n \<in> {''root.key'', ''intermediate.key''}" and "map_of fs (filepath_join d n) = None"
  shows "map_option f_mode (map_of fs' (filepath_join d n)) = Some 0x180"
  using assms
  by (auto simp: persist_hierarchy_def write_pem_private_key_def write_pem_certificate_def os_write_file_ok
      default_ca_hierarchy_files_def filepath_join_inj split: prod.splits option.splits)

lemma generate_hierarchy_certs:
  assumes "generate_hierarchy env ci = Inr h"
  shows "ce_parse_certificate env (hy_root_der h) = Inr (hy_root_cert h)"
    and "ce_parse_certificate env (hy_int_der h) = Inr (hy_int_cert h)"
  using assms by (auto simp: generate_hierarchy_def Let_def split: sum.splits)

lemma load_authority_stored:
  assumes "fs_readable fe" and "key_codec_ok kc"
    and "contents fs (chf_root_cert_path paths) = Some (pem_encode ''CERTIFICATE'' rd)"
    and "contents fs (chf_intermediate_cert_path paths) = Some (pem_encode ''CERTIFICATE'' idr)"
    and "contents fs (chf_intermediate_key_path paths) = Some (pem_encode ''RSA PRIVATE KEY'' (kc_marshal_pkcs1 kc k))"
    and "ce_parse_certificate env rd = Inr rc" and "ce_parse_certificate env idr = Inr ic"
  shows "load_authority env kc fe fs paths l = Inr (\<lparr>au_root_cert = rc, au_intermediate_cert = ic, au_signer = k,
      au_policy = Some new_default_policy_engine\<rparr>, new_hsm_signer (Some k) l)"
proof -
  have "pem_decode_ok (kc_pem kc)" using assms(2) by (simp add: key_codec_ok_def)
  note c = read_back_certificate [OF assms(1) this]
  show ?thesis
    by (simp add: load_authority_def c [OF assms(3)] c [OF assms(4)] read_back_key [OF assms(1,2,5)] assms(6,7))
qed

end
