(* ===== verification/Key_Store_Properties.thy ===== *)
theory Key_Store_Properties
  imports Key_Store Issuance_Properties
begin

text \<open>
  What the key store promises across restarts of the server, and what an interrupted ceremony does.
\<close>

section \<open>Properties\<close>

text \<open>
  C12. The CA survives restarts: once \<open>LoadOrInitializeAuthority\<close> has returned an authority, whether
  freshly generated or loaded, the next call on the same directory (no read failing) returns the same
  root and intermediate certificates, the same signing key and the same policy, and writes nothing.
  A private key file the ceremony creates has mode 0600.
\<close>

theorem ca_survives_restart:
  assumes "key_codec_ok kc" and "fs_readable fe'"
    and "load_or_initialize_authority env kc ci fe fs data_dir latency = (Inr (a, hsm), fs')"
  shows "load_or_initialize_authority env kc ci' fe' fs' data_dir latency' = (Inr (a, hsm\<lparr>hs_latency := latency'\<rparr>), fs') \<and>
    (\<forall>n \<in> {''root.key'', ''intermediate.key''}. let p = filepath_join (filepath_join data_dir ''ca'') n in
       map_of fs p = None \<and> map_of fs' p \<noteq> None \<longrightarrow> map_option f_mode (map_of fs' p) = Some 0x180)"
proof -
  let ?d = "filepath_join data_dir ''ca''"
  let ?paths = "default_ca_hierarchy_files ?d"
  let ?ps = "[chf_root_cert_path ?paths, chf_intermediate_cert_path ?paths, chf_intermediate_key_path ?paths]"
  have mk: "fe_mkdir fe ?d = None" using assms(3) by (cases "fe_mkdir fe ?d") (simp_all add: load_or_initialize_authority_def)
  have mk': "fe_mkdir fe' ?d = None" using assms(2) by (simp add: fs_readable_def)
  have reload: ?thesis if "load_authority env kc fe' fs' ?paths latency' = Inr (a, hsm\<lparr>hs_latency := latency'\<rparr>)"
    and "\<forall>p \<in> set ?ps. contents fs' p \<noteq> None"
    and "\<And>n. n \<in> {''root.key'', ''intermediate.key''} \<Longrightarrow> map_of fs (filepath_join ?d n) = None \<Longrightarrow>
      map_of fs' (filepath_join ?d n) \<noteq> None \<Longrightarrow> map_option f_mode (map_of fs' (filepath_join ?d n)) = Some 0x180"
    using that files_exist_readable [OF assms(2), of fs' ?ps] mk'
    unfolding load_or_initialize_authority_def Let_def by simp
  show ?thesis
  proof (cases "files_exist fe fs ?ps")
    case True
    then have l: "load_authority env kc fe fs ?paths latency = Inr (a, hsm)" and same: "fs' = fs"
      using assms(3) mk by (auto simp: load_or_initialize_authority_def Let_def)
    show ?thesis
      by (rule reload) (use load_authority_again [OF l assms(2)] files_exist_contents [OF True] in \<open>simp_all add: same\<close>)
  next
    case False
    then have "generate_and_persist_authority env kc ci fe fs ?paths latency = (Inr (a, hsm), fs')"
      using assms(3) mk by (simp add: load_or_initialize_authority_def Let_def)
    then obtain h where h: "generate_hierarchy env ci = Inr h" "persist_hierarchy kc fe fs ?paths h = (None, fs')"
      and a: "a = \<lparr>au_root_cert = hy_root_cert h, au_intermediate_cert = hy_int_cert h,
        au_signer = hy_int_key h, au_policy = Some new_default_policy_engine\<rparr>"
        "hsm = new_hsm_signer (Some (hy_int_key h)) latency"
      by (auto simp: generate_and_persist_authority_def split: sum.splits prod.splits option.splits)
    note c = persist_hierarchy_ok [OF h(2)] and g = generate_hierarchy_certs [OF h(1)]
    have "load_authority env kc fe' fs' ?paths latency' = Inr (a, hsm\<lparr>hs_latency := latency'\<rparr>)"
      using load_authority_stored [OF assms(2,1) _ _ _ g, of fs' ?paths "hy_int_key h" latency'] c a
      by (simp add: default_ca_hierarchy_files_def new_hsm_signer_def)
    then show ?thesis
      using reload persist_hierarchy_modes [OF h(2)] c by (simp add: default_ca_hierarchy_files_def)
  qed
qed

text \<open>One directory, one hierarchy: a key is its number, encoded as that many bytes.\<close>

definition sample_codec :: "nat key_codec" where
  "sample_codec = \<lparr>kc_marshal_pkcs1 = (\<lambda>k. replicate k 1), kc_parse_pkcs1 = (\<lambda>bs. Inr (length bs)),
     kc_parse_pkcs8 = (\<lambda>_. Inl ''pkcs8''), kc_pem = line_decoder\<rparr>"

definition good_fs :: fs_env where
  "good_fs = \<lparr>fe_mkdir = (\<lambda>_. None), fe_stat = (\<lambda>_. None), fe_read = (\<lambda>_. None), fe_write = (\<lambda>_. Written)\<rparr>"

definition sample_issuing :: certificate where
  "sample_issuing = sample_intermediate\<lparr>c_public_key := RSAKey 15 3\<rparr>"

definition sample_ceremony :: ceremony_inputs where
  "sample_ceremony = \<lparr>ci_clock = (\<lambda>_. hour), ci_add_years = years365, ci_rnd_root_key = [], ci_rnd_root = [],
     ci_rnd_int_key = [], ci_rnd_int = []\<rparr>"

definition ceremony_env :: "nat crypto_env" where
  "ceremony_env = table_env [sample_root, sample_issuing]"

definition sample_hierarchy :: "nat hierarchy" where
  "sample_hierarchy = \<lparr>hy_root_key = 0, hy_root_der = [1], hy_root_cert = sample_root, hy_int_key = 0,
     hy_int_der = [2], hy_int_cert = sample_issuing\<rparr>"

lemma sample_codec_ok: "key_codec_ok sample_codec"
  by (simp add: key_codec_ok_def sample_codec_def line_decoder_ok)

lemma good_fs_readable: "fs_readable good_fs"
  by (simp add: fs_readable_def good_fs_def)

lemma sample_ceremony_run: "generate_hierarchy ceremony_env sample_ceremony = Inr sample_hierarchy"
  by code_simp

abbreviation sample_ca :: "nat authority" where
  "sample_ca \<equiv> \<lparr>au_root_cert = sample_root, au_intermediate_cert = sample_issuing, au_signer = 0,
     au_policy = Some new_default_policy_engine\<rparr>"

lemma sample_first_start:
  "\<exists>fs. load_or_initialize_authority ceremony_env sample_codec sample_ceremony good_fs [] ''data'' lat =
     (Inr (sample_ca, new_hsm_signer (Some 0) lat), fs) \<and>
     map_of fs (filepath_join (filepath_join ''data'' ''ca'') ''root.key'') \<noteq> None"
proof -
  have "\<exists>fs. persist_hierarchy sample_codec good_fs [] (default_ca_hierarchy_files d) sample_hierarchy = (None, fs) \<and>
      map_of fs (filepath_join d ''root.key'') \<noteq> None" for d
    by (simp add: persist_hierarchy_def write_pem_private_key_def write_pem_certificate_def os_write_file_def
        good_fs_def default_ca_hierarchy_files_def filepath_join_inj)
  then obtain fs where p: "persist_hierarchy sample_codec good_fs []
        (default_ca_hierarchy_files (filepath_join ''data'' ''ca'')) sample_hierarchy = (None, fs)"
      "map_of fs (filepath_join (filepath_join ''data'' ''ca'') ''root.key'') \<noteq> None"
    by blast
  have "generate_and_persist_authority ceremony_env sample_codec sample_ceremony good_fs []
      (default_ca_hierarchy_files (filepath_join ''data'' ''ca'')) lat = (Inr (sample_ca, new_hsm_signer (Some 0) lat), fs)"
    unfolding generate_and_persist_authority_def sample_ceremony_run sum.case p(1) prod.case option.case
    by (simp add: sample_hierarchy_def)
  moreover have "\<not> files_exist good_fs [] [x, y, z]" for x y z
    by (auto simp: files_exist_readable [OF good_fs_readable] contents_def)
  moreover have "fe_mkdir good_fs d = None" for d by (simp add: good_fs_def)
  ultimately show ?thesis using p(2) by (auto simp: load_or_initialize_authority_def Let_def)
qed

theorem ca_survives_restart_witness:
  "\<exists>fs. load_or_initialize_authority ceremony_env sample_codec sample_ceremony good_fs [] ''data'' 15 =
       (Inr (sample_ca, new_hsm_signer (Some 0) 15), fs) \<and>
     load_or_initialize_authority ceremony_env sample_codec sample_ceremony good_fs fs ''data'' 7 =
       (Inr (sample_ca, new_hsm_signer (Some 0) 7), fs) \<and>
     map_option f_mode (map_of fs (filepath_join (filepath_join ''data'' ''ca'') ''root.key'')) = Some 0x180"
proof -
  obtain fs where fs: "load_or_initialize_authority ceremony_env sample_codec sample_ceremony good_fs [] ''data'' 15 =
      (Inr (sample_ca, new_hsm_signer (Some 0) 15), fs)"
      "map_of fs (filepath_join (filepath_join ''data'' ''ca'') ''root.key'') \<noteq> None"
    using sample_first_start [of 15] by blast
  from ca_survives_restart [OF sample_codec_ok good_fs_readable fs(1), of sample_ceremony 7] fs show ?thesis
    by (auto simp: new_hsm_signer_def Let_def)
qed

text \<open>
  A ceremony interrupted over an existing hierarchy mixes two hierarchies: where the root certificate
  is missing, the other files are there, and the new intermediate key cannot be opened for writing, the
  start fails; but the next start finds all three files, and returns without an error an authority
  with the new root certificate and the old intermediate certificate and key.
\<close>

theorem interrupted_ceremony_mixes:
  assumes "key_codec_ok kc" and "fs_readable fe" and "fs_readable fe'" and "generate_hierarchy env ci = Inr h"
    and "d = filepath_join data_dir ''ca''" and "map_of fs (filepath_join d ''root.crt'') = None"
    and "contents fs (filepath_join d ''intermediate.crt'') = Some (pem_encode ''CERTIFICATE'' old_der)"
    and "contents fs (filepath_join d ''intermediate.key'') =
      Some (pem_encode ''RSA PRIVATE KEY'' (kc_marshal_pkcs1 kc old_key))"
    and "ce_parse_certificate env old_der = Inr old_cert"
    and "\<forall>p. fe_write fe p = (if p = filepath_join d ''intermediate.key'' then NotOpened e else Written)"
  shows "\<exists>fs'. load_or_initialize_authority env kc ci fe fs data_dir latency = (Inl (IntermediateKeyWrite e), fs') \<and>
    load_or_initialize_authority env kc ci' fe' fs' data_dir latency =
      (Inr (\<lparr>au_root_cert = hy_root_cert h, au_intermediate_cert = old_cert, au_signer = old_key,
         au_policy = Some new_default_policy_engine\<rparr>, new_hsm_signer (Some old_key) latency), fs')"
proof -
  let ?paths = "default_ca_hierarchy_files d"
  let ?fs1 = "put_file fs (filepath_join d ''root.key'') (pem_encode ''RSA PRIVATE KEY'' (kc_marshal_pkcs1 kc (hy_root_key h))) 0x180"
  let ?fs2 = "put_file ?fs1 (filepath_join d ''root.crt'') (pem_encode ''CERTIFICATE'' (hy_root_der h)) 0x1A4"
  have w: "os_write_file fe x p bs m = (if p = filepath_join d ''intermediate.key'' then (Some e, x) else (None, put_file x p bs m))"
    for x p bs m using assms(10) by (simp add: os_write_file_def)
  have "persist_hierarchy kc fe fs ?paths h = (Some (IntermediateKeyWrite e), ?fs2)"
    by (simp add: persist_hierarchy_def write_pem_private_key_def write_pem_certificate_def w
        default_ca_hierarchy_files_def filepath_join_inj)
  moreover have "\<not> files_exist fe fs [chf_root_cert_path ?paths, chf_intermediate_cert_path ?paths, chf_intermediate_key_path ?paths]"
    using assms(6) by (simp add: files_exist_readable [OF assms(2)] default_ca_hierarchy_files_def contents_def)
  moreover have "fe_mkdir fe d = None" using assms(2) by (simp add: fs_readable_def)
  ultimately have one: "load_or_initialize_authority env kc ci fe fs data_dir latency = (Inl (IntermediateKeyWrite e), ?fs2)"
    by (simp add: load_or_initialize_authority_def generate_and_persist_authority_def assms(4,5) Let_def)
  have c: "contents ?fs2 (filepath_join d ''root.crt'') = Some (pem_encode ''CERTIFICATE'' (hy_root_der h))"
    "contents ?fs2 (filepath_join d ''intermediate.crt'') = Some (pem_encode ''CERTIFICATE'' old_der)"
    "contents ?fs2 (filepath_join d ''intermediate.key'') = Some (pem_encode ''RSA PRIVATE KEY'' (kc_marshal_pkcs1 kc old_key))"
    using assms(7,8) by (simp_all add: contents_def filepath_join_inj)
  then have "files_exist fe' ?fs2 [chf_root_cert_path ?paths, chf_intermediate_cert_path ?paths, chf_intermediate_key_path ?paths]"
    by (simp add: files_exist_readable [OF assms(3)] default_ca_hierarchy_files_def)
  moreover have "fe_mkdir fe' d = None" using assms(3) by (simp add: fs_readable_def)
  moreover have "load_authority env kc fe' ?fs2 ?paths latency =
      Inr (\<lparr>au_root_cert = hy_root_cert h, au_intermediate_cert = old_cert, au_signer = old_key,
         au_policy = Some new_default_policy_engine\<rparr>, new_hsm_signer (Some old_key) latency)"
    using load_authority_stored [OF assms(3,1) _ _ _ generate_hierarchy_certs(1) [OF assms(4)] assms(9)] c
    by (simp add: default_ca_hierarchy_files_def)
  ultimately have "load_or_initialize_authority env kc ci' fe' ?fs2 data_dir latency =
      (Inr (\<lparr>au_root_cert = hy_root_cert h, au_intermediate_cert = old_cert, au_signer = old_key,
         au_policy = Some new_default_policy_engine\<rparr>, new_hsm_signer (Some old_key) latency), ?fs2)"
    by (simp add: load_or_initialize_authority_def assms(5) Let_def)
  with one show ?thesis by blast
qed

text \<open>The directory of an older hierarchy whose root certificate is gone.\<close>

definition old_files :: fs where
  "old_files =
     [(filepath_join (filepath_join ''data'' ''ca'') ''intermediate.crt'',
       \<lparr>f_mode = 0x1A4, f_data = pem_encode ''CERTIFICATE'' [8]\<rparr>),
      (filepath_join (filepath_join ''data'' ''ca'') ''intermediate.key'',
       \<lparr>f_mode = 0x180, f_data = pem_encode ''RSA PRIVATE KEY'' (replicate 5 1)\<rparr>)]"

definition both_env :: "nat crypto_env" where
  "both_env = ceremony_env\<lparr>ce_parse_certificate :=
     (\<lambda>der. if der = [8] then Inr sample_leaf else ce_parse_certificate ceremony_env der)\<rparr>"

theorem interrupted_ceremony_mixes_witness:
  "\<exists>fs. load_or_initialize_authority both_env sample_codec sample_ceremony good_fs fs ''data'' 15 =
     (Inr (\<lparr>au_root_cert = sample_root, au_intermediate_cert = sample_leaf, au_signer = 5,
        au_policy = Some new_default_policy_engine\<rparr>, new_hsm_signer (Some 5) 15), fs)"
proof -
  let ?d = "filepath_join ''data'' ''ca''"
  let ?fe = "good_fs\<lparr>fe_write := (\<lambda>p. if p = filepath_join ?d ''intermediate.key'' then NotOpened ''busy'' else Written)\<rparr>"
  have g: "generate_hierarchy both_env sample_ceremony = Inr sample_hierarchy" by code_simp
  have r: "fs_readable ?fe" by (simp add: fs_readable_def good_fs_def)
  have f: "map_of old_files (filepath_join ?d ''root.crt'') = None"
    "contents old_files (filepath_join ?d ''intermediate.crt'') = Some (pem_encode ''CERTIFICATE'' [8])"
    "contents old_files (filepath_join ?d ''intermediate.key'') =
      Some (pem_encode ''RSA PRIVATE KEY'' (kc_marshal_pkcs1 sample_codec 5))"
    by (simp_all add: old_files_def filepath_join_inj contents_def sample_codec_def)
  have p: "ce_parse_certificate both_env [8] = Inr sample_leaf" by (simp add: both_env_def)
  have w: "\<forall>p. fe_write ?fe p = (if p = filepath_join ?d ''intermediate.key'' then NotOpened ''busy'' else Written)"
    by simp
  from interrupted_ceremony_mixes [OF sample_codec_ok r good_fs_readable g refl f p w, of 15 sample_ceremony]
  show ?thesis by (auto simp: sample_hierarchy_def)
qed

end
