(* ===== verification/Est.thy ===== *)
theory Est
  imports Signer_Pool Go_Pem Go_Http
begin

text \<open>
  \<open>pkg/protocols/est/handler.go\<close>: the EST handlers. The enrolment hands its request to the worker
  pool and waits for the answer; \<open>answer\<close> is what the pool sends back on the request's channel, None
  where no worker is left to send anything, in which case the handler does not return.
\<close>

datatype est_message =
    EstText string
  | AllocationFailed serial_error
  | EnrollmentFailed authority_error

record ('i, 's, 'e) est_handler =
  eh_pool :: "'i worker_pool"
  eh_cacerts_pem :: "byte list"
  eh_store :: "('s, 'e) storage_iface option"

definition new_est_handler ::
  "'i worker_pool \<Rightarrow> byte list \<Rightarrow> ('s, 'e) storage_iface list \<Rightarrow> ('i, 's, 'e) est_handler" where
  "new_est_handler pool ca_cert_der stores =
     \<lparr>eh_pool = pool, eh_cacerts_pem = pem_encode ''CERTIFICATE'' ca_cert_der,
      eh_store = (if length stores > 0 then Some (hd stores) else None)\<rparr>"

definition est_error :: "est_message \<Rightarrow> nat \<Rightarrow> est_message response" where
  "est_error msg code = (http_error [] [] code)\<lparr>rs_body := Json msg\<rparr>"

definition handle_ca_certs :: "('i, 's, 'e) est_handler \<Rightarrow> est_message response" where
  "handle_ca_certs h =
     respond 200 (gm_set ''Content-Type'' ''application/pkcs7-mime'' []) (Raw (eh_cacerts_pem h))"

text \<open>The libraries: PEM, certificate parsing, and the text of a distinguished name.\<close>

record 'k est_env =
  ee_pem :: pem_decoder
  ee_crypto :: "'k crypto_env"
  ee_name_text :: "pkix_name \<Rightarrow> string"

record 'e est_inputs =
  ei_reserve :: "nat \<Rightarrow> ctx \<times> 'e \<times> go_time"
  ei_save :: 'e
  ei_now :: go_time

text \<open>PEM if there is a block, else base 64 with the line breaks removed.\<close>

definition enroll_csr :: "pem_decoder \<Rightarrow> byte list \<Rightarrow> byte list option" where
  "enroll_csr dec body =
     (case dec body of
        Some (_, der) \<Rightarrow> Some der
      | None \<Rightarrow>
          let clean = filter (\<lambda>c. c \<noteq> CHR 0x0D) (string_of body);
              clean = filter (\<lambda>c. c \<noteq> CHR 0x0A) clean
          in b64_padded_decode b64_std (trim_space clean))"

definition enroll_serial ::
  "('s, 'e) storage_iface option \<Rightarrow> 'e est_inputs \<Rightarrow> 's \<Rightarrow> entropy \<Rightarrow> (serial_error + int) \<times> 's \<times> entropy" where
  "enroll_serial store inp s ent =
     (case store of
        Some ops \<Rightarrow> generate_and_reserve_serial (Some ops) (ei_reserve inp) s ent
      | None \<Rightarrow>
          (case generate_serial ent of
             (Inl _, ent') \<Rightarrow> (Inr (unix_nano (ei_now inp)), s, ent')
           | (Inr n, ent') \<Rightarrow> (Inr n, s, ent')))"

definition enroll_save ::
  "'k est_env \<Rightarrow> ('s, 'e) storage_iface option \<Rightarrow> 'e est_inputs \<Rightarrow> byte list \<Rightarrow> 's \<Rightarrow> 's" where
  "enroll_save env store inp der s =
     (case store of
        None \<Rightarrow> s
      | Some ops \<Rightarrow>
          (case ce_parse_certificate (ee_crypto env) der of
             Inl _ \<Rightarrow> s
           | Inr cert \<Rightarrow>
               snd (save_certificate ops s (ei_save inp) (ei_now inp) (Some
                 \<lparr>cr_serial = format_serial (c_serial_number cert), cr_subject = ee_name_text env (c_subject cert),
                  cr_issuer = ee_name_text env (c_issuer cert), cr_not_before = c_not_before cert,
                  cr_not_after = c_not_after cert, cr_raw_der = Some der,
                  cr_pem = Some (pem_encode ''CERTIFICATE'' der), cr_revoked = False\<rparr>))))"

text \<open>The choice of the format, as the CA certificate endpoints make it too.\<close>

definition wants_pem :: "request \<Rightarrow> bool" where
  "wants_pem r =
     (let format = to_lower (get_header ''format'' (rq_query r));
          accept = to_lower (get_header ''Accept'' (rq_headers r))
      in format = ''pem'' \<or> contains_str accept ''application/x-pem-file'' \<or> contains_str accept ''text/plain'')"

definition enroll_reply :: "request \<Rightarrow> byte list \<Rightarrow> est_message response" where
  "enroll_reply r der =
     (if wants_pem r
      then respond 200 (gm_set ''Content-Type'' ''application/x-pem-file; charset=utf-8'' [])
             (Raw (pem_encode ''CERTIFICATE'' der))
      else respond 200 (gm_set ''Content-Type'' ''application/pkix-cert'' []) (Raw der))"

definition enroll_request :: "byte list \<Rightarrow> int \<Rightarrow> sign_request" where
  "enroll_request csr_der serial =
     \<lparr>sr_csr_der = csr_der, sr_serial_number = Some serial, sr_validity = 90 * 24 * hour,
      sr_dns_names = [], sr_chan = 0\<rparr>"

definition handle_simple_enroll ::
  "'k est_env \<Rightarrow> ('i, 's, 'e) est_handler \<Rightarrow> (sign_request \<Rightarrow> sign_response option) \<Rightarrow> 'e est_inputs \<Rightarrow>
     request \<Rightarrow> 's \<Rightarrow> entropy \<Rightarrow> est_message response option \<times> 's \<times> entropy" where
  "handle_simple_enroll env h answer inp r s ent =
     (if rq_method r \<noteq> ''POST'' then (Some (est_error (EstText ''method not allowed'') 405), s, ent)
      else case rq_body r of
        None \<Rightarrow> (Some (est_error (EstText ''invalid request body'') 400), s, ent)
      | Some body \<Rightarrow>
     (case enroll_csr (ee_pem env) body of
        None \<Rightarrow> (Some (est_error (EstText ''body must be base64 or PEM-encoded PKCS#10 CSR'') 400), s, ent)
      | Some csr_der \<Rightarrow>
     (case enroll_serial (eh_store h) inp s ent of
        (Inl e, s, ent) \<Rightarrow> (Some (est_error (AllocationFailed e) 500), s, ent)
      | (Inr serial, s, ent) \<Rightarrow>
     (case answer (enroll_request csr_der serial) of
        None \<Rightarrow> (None, s, ent)
      | Some (Inl e) \<Rightarrow> (Some (est_error (EnrollmentFailed e) 500), s, ent)
      | Some (Inr der) \<Rightarrow> (Some (enroll_reply r der), enroll_save env (eh_store h) inp der s, ent)))))"

section \<open>The two ways to a certificate\<close>

lemma est_error_status [simp]: "rs_status (est_error m c) = c"
  by (simp add: est_error_def)

lemma enroll_reply_simps [simp]:
  "rs_status (enroll_reply r der) = 200"
  "rs_body (enroll_reply r der) = Raw (if wants_pem r then pem_encode ''CERTIFICATE'' der else der)"
  by (simp_all add: enroll_reply_def)

text \<open>An enrolment that is answered with a certificate went through every step.\<close>

lemma handle_simple_enroll_200:
  assumes "handle_simple_enroll env h answer inp r s ent = (Some resp, s', ent')" and "rs_status resp = 200"
  obtains body csr_der serial s1 der where
    "rq_method r = ''POST''" "rq_body r = Some body" "enroll_csr (ee_pem env) body = Some csr_der"
    "enroll_serial (eh_store h) inp s ent = (Inr serial, s1, ent')"
    "answer (enroll_request csr_der serial) = Some (Inr der)"
    "resp = enroll_reply r der" "s' = enroll_save env (eh_store h) inp der s1"
  using assms
  by (auto simp: handle_simple_enroll_def split: if_splits option.splits sum.splits prod.splits)

text \<open>Any other answer has saved no certificate.\<close>

lemma handle_simple_enroll_other:
  assumes "handle_simple_enroll env h answer inp r s ent = (resp, s', ent')"
    and "\<And>x. resp = Some x \<Longrightarrow> rs_status x \<noteq> 200"
  shows "s' = s \<or> (\<exists>n. enroll_serial (eh_store h) inp s ent = (n, s', ent'))"
  using assms
  by (auto simp: handle_simple_enroll_def split: if_splits option.splits sum.splits prod.splits)

end
