(* ===== verification/Est_Properties.thy ===== *)
theory Est_Properties
  imports Est Issuance_Properties
begin

text \<open>
  What an EST enrolment guarantees when the parts it joins, the handler, the worker pool, the authority
  and the database, work together.
\<close>

text \<open>A record under a serial that was just reserved is saved, and found again.\<close>

lemma saved_after_reserve:
  assumes "storage_run sqlite_ops sql_env_ok init_schema db" and "\<forall>i. sql_env_ok (fst (snd (envs i)))"
    and r: "generate_and_reserve_serial (Some sqlite_ops) envs db ent = (Inr n, db1, ent')"
    and "sql_env_ok env" and "\<And>s. se_fault env s = None" and c: "cr_serial c = format_serial (Some n)"
    and bytes: "cr_raw_der c \<noteq> None" "cr_pem c \<noteq> None"
  shows "\<exists>db2. sqlite_save_certificate db1 env now (Some c) = (None, db2) \<and>
    sqlite_get_certificate db2 calm (format_serial (Some n)) = Inr c"
proof -
  have inv: "sqlite_inv db" using sq.run_preserves [OF assms(1)] by simp
  have ok: "list_all (\<lambda>(_, e, _). sql_env_ok e) (map envs [0..<max_reservation_retries])"
    using assms(2) by (auto simp: list_all_iff case_prod_unfold)
  have "reserve_attempts sqlite_ops default_serial_bits (map envs [0..<max_reservation_retries]) db ent = (Inr n, db1, ent')"
    using r by (simp add: generate_and_reserve_serial_def generate_and_reserve_serial_with_bits_def)
  note res = sq.reserve_attempts_ok [OF this inv ok, unfolded sum.case]
  let ?h = "format_serial (Some n)"
  have n: "0 < n" and inv1: "sqlite_inv db1" and new: "?h \<notin> st_serials (sqlite_view db)"
    and v: "sqlite_view db1 = (sqlite_view db)\<lparr>st_serials := insert ?h (st_serials (sqlite_view db))\<rparr>"
    using res by simp_all
  have "canonical_serial ?h" using n format_serial_canonical [of n] by fastforce
  then have k: "normalize_serial ?h = ?h" "?h \<noteq> []"
    using canonical_serial_facts(1) by simp_all
  have "store_wf (sqlite_view db)" using inv by (simp add: sqlite_inv_def)
  then have "st_certs (sqlite_view db) ?h = None" using new unfolding store_wf_def by (metis not_None_eq)
  then have free: "st_certs (sqlite_view db1) ?h = None" using v by simp
  obtain q db2 where q: "sqlite_save_certificate db1 env now (Some c) = (q, db2)" by fastforce
  have "\<forall>e. q = Some e \<longrightarrow> \<not> infra e"
    using sqlite_no_infra [OF inv1 assms(5), of "CallSave (Some c)" now] q bytes by auto
  then have "(q, sqlite_view db2) = spec_save (sqlite_view db1) (Some c)"
    using sqlite_save_law [OF inv1 assms(4) q] write_ok_spec by blast
  then have qn: "q = None" using free k c by (auto simp: spec_save_def Let_def)
  have "read_ok (Inr (c\<lparr>cr_serial := normalize_serial ?h\<rparr>)) (get_certificate sqlite_ops db2 calm ?h)"
    using sq.save_get [OF inv1 assms(4) calm_ok, unfolded sqlite_ops_simps, OF q [unfolded qn]] c by simp
  moreover have "sqlite_inv db2" using sqlite_save_law [OF inv1 assms(4) q] by blast
  ultimately have "sqlite_get_certificate db2 calm ?h = Inr (c\<lparr>cr_serial := normalize_serial ?h\<rparr>)"
    using sqlite_reads_exact(1) [of calm db2 _ ?h] by simp
  moreover have "c\<lparr>cr_serial := normalize_serial ?h\<rparr> = c" using k c by simp
  ultimately show ?thesis using q qn by simp
qed

text \<open>
  C10. An EST enrolment that is answered with a certificate is sound from end to end (the pool answering
  with the authority's \<open>SignCertificate\<close>, the database not failing on the save): the request in the body
  parses, its proof of possession verifies, its key and names pass the policy; the body of the answer is
  a certificate, in DER or PEM as asked for, for that key and those names under a serial no certificate
  had before; and the certificate is in the database under that serial. The certificate is no CA.
\<close>

theorem est_enroll_sound:
  assumes "create_parse_ok (ee_crypto env)" and "storage_run sqlite_ops sql_env_ok init_schema db"
    and "\<forall>i. sql_env_ok (fst (snd (ei_reserve inp i)))" and "sql_env_ok (ei_save inp)"
    and "\<forall>s. se_fault (ei_save inp) s = None" and "eh_store h = Some sqlite_ops"
    and "\<forall>q. answer q = Some (sign_certificate (ee_crypto env) a (sr_csr_der q) (sr_serial_number q)
      (sr_validity q) (sr_dns_names q) now1 now2 rnd)"
    and "handle_simple_enroll env h answer inp r db ent = (Some resp, db', ent')" and "rs_status resp = 200"
  shows "\<exists>csr_der csr der c n rec. Option.bind (rq_body r) (enroll_csr (ee_pem env)) = Some csr_der \<and>
    ce_parse_csr (ee_crypto env) csr_der = Inr csr \<and> ce_check_csr_signature (ee_crypto env) csr = None \<and>
    validate_public_key (engine_of a) (csr_public_key csr) = None \<and>
    (\<forall>d \<in> set (csr_dns_names csr). validate_dns_name (engine_of a) d = None) \<and>
    rs_body resp = Raw (if wants_pem r then pem_encode ''CERTIFICATE'' der else der) \<and>
    ce_parse_certificate (ee_crypto env) der = Inr c \<and> c_public_key c = csr_public_key csr \<and>
    c_dns_names c = csr_dns_names csr \<and> c_serial_number c = Some n \<and> \<not> c_is_ca c \<and>
    sql_select_certificate (format_serial (Some n)) db = None \<and>
    sqlite_get_certificate db' calm (format_serial (Some n)) = Inr rec \<and> cr_raw_der rec = Some der \<and> \<not> cr_revoked rec"
proof -
  let ?e = "ee_crypto env"
  obtain body csr_der serial s1 der where b: "rq_body r = Some body" "enroll_csr (ee_pem env) body = Some csr_der"
    and ser: "enroll_serial (eh_store h) inp db ent = (Inr serial, s1, ent')"
    and ans: "answer (enroll_request csr_der serial) = Some (Inr der)"
    and resp: "resp = enroll_reply r der" "db' = enroll_save env (eh_store h) inp der s1"
    using handle_simple_enroll_200 [OF assms(8,9)] by metis
  have res: "generate_and_reserve_serial (Some sqlite_ops) (ei_reserve inp) db ent = (Inr serial, s1, ent')"
    using ser assms(6) by (simp add: enroll_serial_def)
  have sign: "sign_certificate_with_profile ?e a csr_der (Some serial) default_server_tls_profile
      empty_extension_config (90 * 24 * hour) [] [] now1 now2 rnd = Inr der"
    using ans assms(7) by (simp add: enroll_request_def sign_certificate_def)
  obtain csr c n where c: "ce_parse_csr ?e csr_der = Inr csr" "ce_check_csr_signature ?e csr = None"
      "ce_parse_certificate ?e der = Inr c" "c_public_key c = csr_public_key csr"
      "validate_public_key (engine_of a) (csr_public_key csr) = None" "c_dns_names c = csr_dns_names csr"
      "\<forall>d \<in> set (c_dns_names c). validate_dns_name (engine_of a) d = None"
      "Some serial = Some n" "c_serial_number c = Some n" "c_is_ca c = pf_is_ca default_server_tls_profile"
    using signed_conforms [OF assms(1) sign] by auto
  let ?rec = "\<lparr>cr_serial = format_serial (c_serial_number c), cr_subject = ee_name_text env (c_subject c),
      cr_issuer = ee_name_text env (c_issuer c), cr_not_before = c_not_before c, cr_not_after = c_not_after c,
      cr_raw_der = Some der, cr_pem = Some (pem_encode ''CERTIFICATE'' der), cr_revoked = False\<rparr>"
  have "db' = snd (sqlite_save_certificate s1 (ei_save inp) (ei_now inp) (Some ?rec))"
    using resp(2) assms(6) c(3) by (simp add: enroll_save_def)
  moreover have "\<And>s. se_fault (ei_save inp) s = None" using assms(5) by simp
  note save = saved_after_reserve [OF assms(2,3) res assms(4) this, of ?rec "ei_now inp"]
  ultimately have "sqlite_get_certificate db' calm (format_serial (Some n)) = Inr ?rec"
    using save c(8,9) by fastforce
  moreover have "sql_select_certificate (format_serial (Some n)) db = None"
    using reserved_fresh [OF assms(2,3) res] c(8) by simp
  moreover have "\<not> c_is_ca c" using c(10) by (simp add: default_server_tls_profile_def)
  ultimately show ?thesis
    by (intro exI [of _ csr_der] exI [of _ csr] exI [of _ der] exI [of _ c] exI [of _ n] exI [of _ ?rec])
      (use b c resp in simp)
qed

text \<open>An enrolment with the request \<open>AQ==\<close>, the base 64 of the sample request.\<close>

definition enrolled_leaf :: certificate where
  "enrolled_leaf = sample_leaf\<lparr>c_serial_number := Some 42, c_not_after := 1000 * second + 90 * 24 * hour\<rparr>"

definition sample_est_env :: "nat est_env" where
  "sample_est_env = \<lparr>ee_pem = line_decoder, ee_crypto = table_env [enrolled_leaf], ee_name_text = nm_common_name\<rparr>"

definition sample_est_inputs :: "sql_env est_inputs" where
  "sample_est_inputs = \<lparr>ei_reserve = (\<lambda>_. (None, calm, 7)), ei_save = calm, ei_now = 7\<rparr>"

definition sample_est_handler :: "(nat authority, sqlite_db, sql_env) est_handler" where
  "sample_est_handler = new_est_handler (new_worker_pool sample_authority 1000 16) [6] [sqlite_ops]"

definition sample_answer :: "sign_request \<Rightarrow> sign_response option" where
  "sample_answer q = Some (sign_certificate (table_env [enrolled_leaf]) sample_authority (sr_csr_der q)
     (sr_serial_number q) (sr_validity q) (sr_dns_names q) (1000 * second) (1000 * second) [])"

definition enroll_post :: request where
  "enroll_post = \<lparr>rq_method = ''POST'', rq_path = ''/.well-known/est/simpleenroll'',
     rq_escaped_path = ''/.well-known/est/simpleenroll'', rq_raw_query = [], rq_query = [], rq_headers = [],
     rq_body = Some (bytes_of ''AQ=='' ), rq_ctx = None\<rparr>"

lemma sample_answer_42: "sample_answer (enroll_request [1] 42) = Some (Inr [8])"
proof -
  have "prepare (table_env [enrolled_leaf]) sample_authority [1] (Some 42) default_server_tls_profile
      empty_extension_config (90 * 24 * hour) [] [] (1000 * second) (1000 * second) =
    Inr (sample_csr, leaf_template (table_env [enrolled_leaf]) sample_authority sample_csr 42 default_server_tls_profile
      empty_extension_config (90 * 24 * hour) [''www.go.dev''] [] (replicate 20 9) (1000 * second) (1000 * second))"
    by code_simp
  moreover have "ce_create_certificate (table_env [enrolled_leaf]) [] (leaf_template (table_env [enrolled_leaf])
      sample_authority sample_csr 42 default_server_tls_profile empty_extension_config (90 * 24 * hour)
      [''www.go.dev''] [] (replicate 20 9) (1000 * second) (1000 * second)) sample_issuer sample_key 1 = Inr [8]"
    by code_simp
  ultimately show ?thesis
    by (simp add: sample_answer_def enroll_request_def sign_certificate_def sign_certificate_with_profile_def sample_csr_def)
qed

lemma sample_enrollment:
  "\<exists>db' ent'. handle_simple_enroll sample_est_env sample_est_handler sample_answer sample_est_inputs enroll_post
     init_schema (replicate 15 0 @ [42]) = (Some (enroll_reply enroll_post [8]), db', ent')"
proof -
  have "enroll_csr line_decoder (bytes_of ''AQ=='') = Some [1]" by code_simp
  then show ?thesis
    by (simp add: handle_simple_enroll_def enroll_post_def sample_est_env_def sample_est_handler_def
        new_est_handler_def sample_est_inputs_def enroll_serial_def sample_allocation sample_answer_42)
qed

theorem est_enroll_sound_witness:
  "\<exists>db' ent' rec. handle_simple_enroll sample_est_env sample_est_handler sample_answer sample_est_inputs enroll_post
     init_schema (replicate 15 0 @ [42]) = (Some (enroll_reply enroll_post [8]), db', ent') \<and>
     sqlite_get_certificate db' calm ''2a'' = Inr rec \<and> cr_raw_der rec = Some [8]"
proof -
  obtain db' ent' where h: "handle_simple_enroll sample_est_env sample_est_handler sample_answer sample_est_inputs
      enroll_post init_schema (replicate 15 0 @ [42]) = (Some (enroll_reply enroll_post [8]), db', ent')"
    using sample_enrollment by blast
  have e: "create_parse_ok (ee_crypto sample_est_env)"
    by (simp add: sample_est_env_def table_env_ok)
  have p: "ce_parse_certificate (ee_crypto sample_est_env) [8] = Inr enrolled_leaf"
    by (simp add: sample_est_env_def table_env_def enrolled_leaf_def sample_leaf_def)
  have i: "\<forall>i. sql_env_ok (fst (snd (ei_reserve sample_est_inputs i)))" "sql_env_ok (ei_save sample_est_inputs)"
    "\<forall>s. se_fault (ei_save sample_est_inputs) s = None" "eh_store sample_est_handler = Some sqlite_ops"
    by (simp_all add: sample_est_inputs_def sample_est_handler_def new_est_handler_def)
  have a: "\<forall>q. sample_answer q = Some (sign_certificate (ee_crypto sample_est_env) sample_authority (sr_csr_der q)
      (sr_serial_number q) (sr_validity q) (sr_dns_names q) (1000 * second) (1000 * second) [])"
    by (simp add: sample_answer_def sample_est_env_def)
  have f: "format_serial (Some 42) = ''2a''" by code_simp
  have w: "\<not> wants_pem enroll_post" by code_simp
  from est_enroll_sound [OF e run_refl i a h] show ?thesis
    using h p by (auto simp: w enrolled_leaf_def f)
qed

end
