(* ===== verification/Swagger.thy ===== *)
theory Swagger
  imports Go_Http
begin

text \<open>
  \<open>pkg/swagger/handler.go\<close>: the routing of the Swagger handler. The page and the OpenAPI document it
  serves are data, arguments of the handler.
\<close>

definition swagger_serve_http :: "byte list \<Rightarrow> byte list \<Rightarrow> request \<Rightarrow> unit response" where
  "swagger_serve_http open_api_spec swagger_ui_html r =
     (let path = rq_path r in
      if has_suffix path ''/doc.json''
      then respond 200 (gm_set ''Cache-Control'' ''public, max-age=3600'' (gm_set ''Content-Type'' ''application/json'' []))
             (Raw open_api_spec)
      else if path = ''/swagger'' \<or> path = ''/swagger/'' \<or> has_suffix path ''/index.html''
      then respond 200 (gm_set ''Content-Type'' ''text/html; charset=utf-8'' []) (Raw swagger_ui_html)
      else not_found [])"

end
