(* ===== verification/Acme_Challenge.thy ===== *)
theory Acme_Challenge
  imports Go_Encoding Go_Http
begin

text \<open>
  \<open>pkg/protocols/acme/challenge.go\<close>: the HTTP-01 validator. The HTTP client is an argument: the
  status and the body (None when reading it fails) it gets for a URL, or its error.
\<close>

datatype challenge_error =
    ConnectionFailed string
  | InvalidStatus nat
  | BodyReadFailed
  | ChallengeMismatch string string

definition compute_key_authorization :: "string \<Rightarrow> string \<Rightarrow> string" where
  "compute_key_authorization token key_thumbprint = token @ ''.'' @ key_thumbprint"

definition validate_http01 ::
  "(string \<Rightarrow> string + nat \<times> byte list option) \<Rightarrow> string \<Rightarrow> string \<Rightarrow> string \<Rightarrow> challenge_error option" where
  "validate_http01 http_get domain token expected_key_auth =
     (let url = ''http://'' @ domain @ ''/.well-known/acme-challenge/'' @ token in
      case http_get url of
        Inl e \<Rightarrow> Some (ConnectionFailed e)
      | Inr (code, body) \<Rightarrow>
          if code \<noteq> 200 then Some (InvalidStatus code)
          else (case body of
            None \<Rightarrow> Some BodyReadFailed
          | Some b \<Rightarrow>
              let actual_key_auth = trim_space (string_of b)
              in if actual_key_auth \<noteq> expected_key_auth
                 then Some (ChallengeMismatch expected_key_auth actual_key_auth) else None))"

text \<open>What the validator promises: the domain serves, at the token's URL, exactly the expected key
  authorization up to surrounding white space, any number of white-space characters on either side.\<close>

definition serves_key_authorization ::
  "(string \<Rightarrow> string + nat \<times> byte list option) \<Rightarrow> string \<Rightarrow> string \<Rightarrow> string \<Rightarrow> bool" where
  "serves_key_authorization http_get domain token key_auth =
     (\<exists>pre suf. http_get (''http://'' @ domain @ ''/.well-known/acme-challenge/'' @ token) =
        Inr (200, Some (bytes_of (concat pre @ key_auth @ concat suf))) \<and>
        set pre \<subseteq> set space_runes \<and> set suf \<subseteq> set space_runes)"

lemma bytes_of_string_of: "bytes_of (string_of b) = b"
proof -
  have "word_of_nat (of_char (char_of (unat c) :: char)) = c" for c :: byte
  proof -
    have "unat c < 256" by (rule unat_byte_less)
    then show ?thesis by (simp add: of_char_of)
  qed
  then show ?thesis by (simp add: bytes_of_def string_of_def comp_def map_idI)
qed

text \<open>
  C36. The HTTP-01 validator is exact: it succeeds precisely when the domain answers the GET for the
  token's URL with status 200 and, as the body, the expected key authorization with at most white space
  around it, any sequence of the characters of \<open>unicode.IsSpace\<close> in UTF-8 (a key authorization has none
  at its ends).
\<close>

theorem http01_exact:
  assumes "trim_space key_auth = key_auth"
  shows "validate_http01 http_get domain token key_auth = None \<longleftrightarrow>
    serves_key_authorization http_get domain token key_auth"
proof -
  have "(\<exists>pre suf. b = bytes_of (concat pre @ key_auth @ concat suf) \<and>
        set pre \<subseteq> set space_runes \<and> set suf \<subseteq> set space_runes) \<longleftrightarrow>
      trim_space (string_of b) = key_auth" for b
  proof
    assume "\<exists>pre suf. b = bytes_of (concat pre @ key_auth @ concat suf) \<and>
      set pre \<subseteq> set space_runes \<and> set suf \<subseteq> set space_runes"
    then obtain pre suf where "string_of b = concat pre @ key_auth @ concat suf"
      "set pre \<subseteq> set space_runes" "set suf \<subseteq> set space_runes"
      by (metis string_of_bytes_of)
    then show "trim_space (string_of b) = key_auth" using trim_space_pad assms by simp
  next
    assume t: "trim_space (string_of b) = key_auth"
    obtain pre suf where "set pre \<subseteq> set space_runes" "set suf \<subseteq> set space_runes"
      "string_of b = concat pre @ trim_space (string_of b) @ concat suf"
      using trim_space_split [of "string_of b"] by blast
    then show "\<exists>pre suf. b = bytes_of (concat pre @ key_auth @ concat suf) \<and>
        set pre \<subseteq> set space_runes \<and> set suf \<subseteq> set space_runes"
      by (metis bytes_of_string_of t)
  qed
  then show ?thesis
    unfolding validate_http01_def serves_key_authorization_def Let_def
    by (auto split: sum.splits option.splits)
qed

text \<open>A body that begins with a space and ends with a no-break space (U+00A0).\<close>

theorem http01_exact_witness:
  "validate_http01 (\<lambda>url. if url = ''http://go.dev/.well-known/acme-challenge/t0''
       then Inr (200, Some (bytes_of ('' t0.k1'' @ [CHR 0xC2, CHR 0xA0]))) else Inl ''refused'') ''go.dev'' ''t0''
     (compute_key_authorization ''t0'' ''k1'') = None"
proof -
  let ?get = "\<lambda>url. if url = ''http://go.dev/.well-known/acme-challenge/t0''
       then Inr (200, Some (bytes_of ('' t0.k1'' @ [CHR 0xC2, CHR 0xA0]))) else Inl ''refused''"
  have "serves_key_authorization ?get ''go.dev'' ''t0'' ''t0.k1''"
    unfolding serves_key_authorization_def
    by (intro exI [of _ "['' '']"] exI [of _ "[[CHR 0xC2, CHR 0xA0]]"]) (simp add: space_runes_def)
  moreover have "trim_space ''t0.k1'' = ''t0.k1''" by code_simp
  ultimately show ?thesis
    using http01_exact [of "''t0.k1''" ?get "''go.dev''" "''t0''"] by (simp add: compute_key_authorization_def)
qed

end
