(* ===== verification/Server_Store.thy ===== *)
theory Server_Store
  imports Storage_Properties Serial Crl Ocsp
begin

text \<open>
  The \<open>storage.Storage\<close> value the server holds: one of the two backends, chosen at start-up, behind
  the interface (\<open>cmd/certa-server/app.go\<close>). Calls go to the backend the value holds; the context
  goes to the memory storage, the driver's behaviour to the database. It satisfies the contract since
  both backends do.
\<close>

datatype server_store = InMemory memory_storage | OnDisk sqlite_db

type_synonym call_env = "ctx \<times> sql_env"

definition writing ::
  "(memory_storage \<Rightarrow> ctx \<Rightarrow> 'r \<times> memory_storage) \<Rightarrow> (sqlite_db \<Rightarrow> sql_env \<Rightarrow> 'r \<times> sqlite_db) \<Rightarrow>
     server_store \<Rightarrow> call_env \<Rightarrow> 'r \<times> server_store" where
  "writing on_mem on_db s e =
     (case s of
        InMemory m \<Rightarrow> map_prod id InMemory (on_mem m (fst e))
      | OnDisk db \<Rightarrow> map_prod id OnDisk (on_db db (snd e)))"

definition reading ::
  "(memory_storage \<Rightarrow> ctx \<Rightarrow> 'r) \<Rightarrow> (sqlite_db \<Rightarrow> sql_env \<Rightarrow> 'r) \<Rightarrow> server_store \<Rightarrow> call_env \<Rightarrow> 'r" where
  "reading on_mem on_db s e = (case s of InMemory m \<Rightarrow> on_mem m (fst e) | OnDisk db \<Rightarrow> on_db db (snd e))"

definition server_ops :: "(server_store, call_env) storage_iface" where
  "server_ops =
     \<lparr>save_certificate = (\<lambda>s e now c. writing (\<lambda>m x. mem_save_certificate m x now c)
        (\<lambda>db x. sqlite_save_certificate db x now c) s e),
      get_certificate = (\<lambda>s e k. reading (\<lambda>m x. mem_get_certificate m x k) (\<lambda>db x. sqlite_get_certificate db x k) s e),
      revoke_certificate = (\<lambda>s e now k n t. writing (\<lambda>m x. mem_revoke_certificate m x now k n t)
        (\<lambda>db x. sqlite_revoke_certificate db x now k n t) s e),
      get_revocation = (\<lambda>s e k. reading (\<lambda>m x. mem_get_revocation m x k) (\<lambda>db x. sqlite_get_revocation db x k) s e),
      list_revoked = (\<lambda>s e. reading mem_list_revoked sqlite_list_revoked s e),
      reserve_serial = (\<lambda>s e now k. writing (\<lambda>m x. mem_reserve_serial m x now k)
        (\<lambda>db x. sqlite_reserve_serial db x now k) s e)\<rparr>"

fun server_view :: "server_store \<Rightarrow> store" where
  "server_view (InMemory m) = mem_view m"
| "server_view (OnDisk db) = sqlite_view db"

fun server_inv :: "server_store \<Rightarrow> bool" where
  "server_inv (InMemory m) = mem_inv m"
| "server_inv (OnDisk db) = sqlite_inv db"

definition server_env_ok :: "call_env \<Rightarrow> bool" where
  "server_env_ok e = sql_env_ok (snd e)"

lemma server_ops_mem [simp]:
  "save_certificate server_ops (InMemory m) e now c = map_prod id InMemory (mem_save_certificate m (fst e) now c)"
  "get_certificate server_ops (InMemory m) e k = mem_get_certificate m (fst e) k"
  "revoke_certificate server_ops (InMemory m) e now k n t =
     map_prod id InMemory (mem_revoke_certificate m (fst e) now k n t)"
  "get_revocation server_ops (InMemory m) e k = mem_get_revocation m (fst e) k"
  "list_revoked server_ops (InMemory m) e = mem_list_revoked m (fst e)"
  "reserve_serial server_ops (InMemory m) e now k = map_prod id InMemory (mem_reserve_serial m (fst e) now k)"
  by (simp_all add: server_ops_def writing_def reading_def)

lemma server_ops_disk [simp]:
  "save_certificate server_ops (OnDisk db) e now c = map_prod id OnDisk (sqlite_save_certificate db (snd e) now c)"
  "get_certificate server_ops (OnDisk db) e k = sqlite_get_certificate db (snd e) k"
  "revoke_certificate server_ops (OnDisk db) e now k n t =
     map_prod id OnDisk (sqlite_revoke_certificate db (snd e) now k n t)"
  "get_revocation server_ops (OnDisk db) e k = sqlite_get_revocation db (snd e) k"
  "list_revoked server_ops (OnDisk db) e = sqlite_list_revoked db (snd e)"
  "reserve_serial server_ops (OnDisk db) e now k = map_prod id OnDisk (sqlite_reserve_serial db (snd e) now k)"
  by (simp_all add: server_ops_def writing_def reading_def)

lemma map_prod_id_eq: "map_prod id f p = (r, s) \<longleftrightarrow> (\<exists>x. p = (r, x) \<and> s = f x)"
  by (cases p) auto

interpretation server: storage_contract server_ops server_view server_inv server_env_ok
proof (unfold_locales, unfold server_env_ok_def)
  fix s e k n t c now r s' rs x
  show "server_inv s \<Longrightarrow> store_wf (server_view s)"
    by (cases s) (simp_all add: mem.inv_wf sq.inv_wf)
  show "server_inv s \<Longrightarrow> sql_env_ok (snd e) \<Longrightarrow> save_certificate server_ops s e now c = (r, s') \<Longrightarrow>
      server_inv s' \<and> write_ok (server_view s) (spec_save (server_view s) c) (r, server_view s')"
    using mem.save_law sq.save_law by (cases s) (fastforce simp: map_prod_id_eq)+
  show "server_inv s \<Longrightarrow> sql_env_ok (snd e) \<Longrightarrow> revoke_certificate server_ops s e now k n t = (r, s') \<Longrightarrow>
      server_inv s' \<and> write_ok (server_view s) (spec_revoke (server_view s) now k n t) (r, server_view s')"
    using mem.revoke_law sq.revoke_law by (cases s) (fastforce simp: map_prod_id_eq)+
  show "server_inv s \<Longrightarrow> sql_env_ok (snd e) \<Longrightarrow> reserve_serial server_ops s e now k = (r, s') \<Longrightarrow>
      server_inv s' \<and> write_ok (server_view s) (spec_reserve (server_view s) k) (r, server_view s')"
    using mem.reserve_law sq.reserve_law by (cases s) (fastforce simp: map_prod_id_eq)+
  show "server_inv s \<Longrightarrow> sql_env_ok (snd e) \<Longrightarrow>
      read_ok (spec_lookup (st_certs (server_view s)) k) (get_certificate server_ops s e k)"
    using mem.get_law sq.get_law by (cases s) fastforce+
  show "server_inv s \<Longrightarrow> sql_env_ok (snd e) \<Longrightarrow>
      read_ok (spec_lookup (st_revs (server_view s)) k) (get_revocation server_ops s e k)"
    using mem.get_revocation_law sq.get_revocation_law by (cases s) fastforce+
  show "server_inv s \<Longrightarrow> sql_env_ok (snd e) \<Longrightarrow> list_revoked server_ops s e = Inr rs \<Longrightarrow> spec_list (server_view s) rs"
    using mem.list_law sq.list_law by (cases s) fastforce+
  show "server_inv s \<Longrightarrow> sql_env_ok (snd e) \<Longrightarrow> list_revoked server_ops s e = Inl x \<Longrightarrow> infra x"
    using mem.list_err sq.list_err by (cases s) fastforce+
qed

end
