(* ===== verification/Go_Mux.thy ===== *)
theory Go_Mux
  imports Go_Http Go_Path Ocsp
begin

text \<open>
  \<open>http.ServeMux\<close>, as far as the server's patterns need it: paths only, a pattern that ends in a slash
  stands for its whole subtree, the longest matching pattern wins, a path is cleaned first and a
  request for an unclean one, or for a subtree without its slash, is redirected. Segments are compared
  unescaped.
\<close>

datatype 'r routed = Dispatch 'r | RedirectTo string | NotRouted

definition clean_url_path :: "string \<Rightarrow> string" where
  "clean_url_path p =
     (if p = [] then ''/''
      else let p = (if has_prefix p ''/'' then p else CHR ''/'' # p); np = path_clean p
           in if has_suffix p ''/'' \<and> np \<noteq> ''/'' then np @ ''/'' else np)"

definition url_segments :: "string \<Rightarrow> string list" where
  "url_segments path =
     map (\<lambda>seg. case url_unescape False seg of Some u \<Rightarrow> u | None \<Rightarrow> seg) (split_on CHR ''/'' path)"

definition pattern_matches :: "string \<Rightarrow> string \<Rightarrow> bool" where
  "pattern_matches pat path =
     (let ps = split_on CHR ''/'' pat; segs = url_segments path in
      if has_suffix pat ''/''
      then length ps \<le> length segs \<and> take (length ps - 1) segs = butlast ps
      else segs = ps)"

fun longest_match :: "(string \<times> 'r) list \<Rightarrow> string \<Rightarrow> (string \<times> 'r) option" where
  "longest_match [] path = None"
| "longest_match ((pat, r) # pats) path =
     (if pattern_matches pat path
      then (case longest_match pats path of
              Some (pat', r') \<Rightarrow> if length pat < length pat' then Some (pat', r') else Some (pat, r)
            | None \<Rightarrow> Some (pat, r))
      else longest_match pats path)"

text \<open>A match without a wildcard part: the whole of a literal pattern, or exactly the root of a subtree.\<close>

definition exact_match :: "(string \<times> 'r) option \<Rightarrow> string \<Rightarrow> bool" where
  "exact_match m path =
     (case m of
        None \<Rightarrow> False
      | Some (pat, _) \<Rightarrow>
          \<not> has_suffix pat ''/'' \<or>
          (has_suffix path ''/'' \<and> length (split_on CHR ''/'' pat) = length (split_on CHR ''/'' path)))"

definition mux_route :: "(string \<times> 'r) list \<Rightarrow> request \<Rightarrow> 'r routed" where
  "mux_route pats r =
     (let escaped = rq_escaped_path r;
          path = (if rq_method r = ''CONNECT'' then escaped else clean_url_path escaped);
          n = longest_match pats path
      in if \<not> exact_match n path \<and> \<not> has_suffix path ''/'' \<and> exact_match (longest_match pats (path @ ''/'')) (path @ ''/'')
         then RedirectTo (clean_url_path (rq_path r) @ ''/'')
         else if path \<noteq> escaped then RedirectTo path
         else (case n of None \<Rightarrow> NotRouted | Some (_, route) \<Rightarrow> Dispatch route))"

section \<open>Where plain paths go\<close>

lemma longest_match_None: "longest_match pats path = None \<longleftrightarrow> (\<forall>(pat, r) \<in> set pats. \<not> pattern_matches pat path)"
  by (induction pats path rule: longest_match.induct) (auto split: option.splits)

lemma longest_match_Some:
  "longest_match pats path = Some (pat, r) \<Longrightarrow> (pat, r) \<in> set pats \<and> pattern_matches pat path"
  by (induction pats path rule: longest_match.induct) (auto split: option.splits if_splits)

lemma mux_dispatch_matches:
  assumes "mux_route pats r = Dispatch route"
  shows "\<exists>pat. (pat, route) \<in> set pats \<and> pattern_matches pat (rq_escaped_path r)"
  using assms
  by (auto simp: mux_route_def Let_def split: if_splits option.splits dest: longest_match_Some)

end
