(* ===== verification/Server_App.thy ===== *)
theory Server_App
  imports Server_Store Go_Mux Key_Store Est Telemetry Swagger Audit_Log Crl Acme_Server
begin

text \<open>
  \<open>cmd/certa-server\<close>: how the server is configured (\<open>main.go\<close>), put together, routed, started and
  stopped (\<open>app.go\<close>). Opening the database and the audit file, the file system, entropy and clock
  are arguments; the components are the ones of the other theories.
\<close>

section \<open>Configuration\<close>

datatype audit_writer = Stdout | CallerWriter nat | MultiWriter audit_writer string

record app_config =
  ac_listen_addr :: string
  ac_base_url :: string
  ac_data_dir :: string
  ac_audit_writer :: "audit_writer option"
  ac_skip_challenge_validation :: bool
  ac_allow_internal_domains :: bool
  ac_enable_swagger :: bool
  ac_crl_interval :: duration
  ac_crl_validity :: duration

definition with_defaults :: "app_config \<Rightarrow> app_config" where
  "with_defaults cfg =
     (let cfg = (if ac_listen_addr cfg = [] then cfg\<lparr>ac_listen_addr := '':8080''\<rparr> else cfg);
          cfg = (if ac_base_url cfg = [] then cfg\<lparr>ac_base_url := ''http://localhost:8080''\<rparr> else cfg);
          cfg = cfg\<lparr>ac_base_url := trim_suffix (ac_base_url cfg) ''/''\<rparr>;
          cfg = (if ac_crl_interval cfg \<le> 0 then cfg\<lparr>ac_crl_interval := 1 * hour\<rparr> else cfg)
      in if ac_crl_validity cfg \<le> 0 then cfg\<lparr>ac_crl_validity := 24 * hour\<rparr> else cfg)"

text \<open>\<open>main\<close>: the environment variables (an unset one is empty) and the arguments after the
  program's name.\<close>

definition main_config :: "(string \<Rightarrow> string) \<Rightarrow> string list \<Rightarrow> app_config" where
  "main_config getenv args =
     (let listen_addr = getenv ''CERTA_LISTEN_ADDR'';
          listen_addr = (if listen_addr = [] then '':8080'' else listen_addr);
          base_url = getenv ''CERTA_BASE_URL'';
          base_url = (if base_url = [] then ''http://localhost:8080'' else base_url);
          data_dir = getenv ''CERTA_DATA_DIR'';
          data_dir = (if data_dir = [] then ''./data'' else data_dir);
          swagger = (getenv ''CERTA_ENABLE_SWAGGER'' = ''true'' \<or> getenv ''CERTA_DEBUG'' = ''true'');
          skip = (getenv ''CERTA_SKIP_CHALLENGE_VALIDATION'' = ''true'');
          allow = (getenv ''CERTA_ALLOW_INTERNAL_DOMAINS'' = ''true'');
          (swagger, skip, allow) = foldl (\<lambda>(swagger, skip, allow) arg.
            (swagger \<or> arg = ''--swagger'' \<or> arg = ''--debug'',
             skip \<or> arg = ''--skip-challenge-validation'',
             allow \<or> arg = ''--allow-internal-domains'')) (swagger, skip, allow) args
      in \<lparr>ac_listen_addr = listen_addr, ac_base_url = base_url, ac_data_dir = data_dir,
          ac_audit_writer = Some Stdout, ac_skip_challenge_validation = skip,
          ac_allow_internal_domains = allow, ac_enable_swagger = swagger,
          ac_crl_interval = 1 * hour, ac_crl_validity = 24 * hour\<rparr>)"

section \<open>Putting the server together\<close>

text \<open>\<open>be_open_db\<close> is \<open>NewSQLiteStorage\<close> on a path (the database it finds or creates there),
  \<open>be_open_audit\<close> whether the audit file opens.\<close>

record ('k, 'v) boot_env =
  be_crypto :: "'k crypto_env"
  be_keys :: "'k key_codec"
  be_ceremony :: ceremony_inputs
  be_fs :: fs_env
  be_open_db :: "string \<Rightarrow> string + sqlite_db"
  be_open_audit :: "string \<Rightarrow> bool"
  be_hash :: hash_env
  be_float :: "'v float64_ops"
  be_audit_ent :: entropy
  be_audit_written :: bool
  be_now :: go_time

datatype boot_error =
    DataDirFailed string
  | SqliteFailed string
  | AuthorityLoadFailed key_store_error
  | IntermediateKeyFailed string
  | AuthorityInitFailed authority_error
  | CrlGeneratorFailed crl_error
  | OcspResponderFailed responder_error
  | AcmeServerFailed server_error

type_synonym 'k server_crl = "('k, server_store, call_env) crl_service"
type_synonym 'k server_ocsp = "('k, server_store, call_env) ocsp_handler"

record ('k, 'v) server_app =
  sa_config :: app_config
  sa_storage :: server_store
  sa_audit :: chain_logger
  sa_audit_writer :: audit_writer
  sa_telemetry :: "'v registry"
  sa_authority :: "'k authority"
  sa_hsm_signer :: "'k hsm_signer"
  sa_worker_pool :: "'k authority worker_pool"
  sa_crl_service :: "'k server_crl"
  sa_crl_max_age :: int
  sa_ocsp_responder :: "'k server_ocsp"
  sa_acme_server :: "'k acme_server"
  sa_est_handler :: "('k authority, server_store, call_env) est_handler"
  sa_audit_closer :: bool

text \<open>Storage, authority and audit writer: on disk, or in memory with a fresh hierarchy.\<close>

definition boot_backend ::
  "('k, 'v) boot_env \<Rightarrow> app_config \<Rightarrow> fs \<Rightarrow>
     (boot_error + server_store \<times> 'k authority \<times> 'k hsm_signer \<times> audit_writer \<times> bool) \<times> fs" where
  "boot_backend env cfg fs =
     (let writer = (case ac_audit_writer cfg of None \<Rightarrow> Stdout | Some w \<Rightarrow> w); dir = ac_data_dir cfg in
      if dir \<noteq> [] \<and> dir \<noteq> '':memory:'' then
        (case fe_mkdir (be_fs env) dir of
           Some e \<Rightarrow> (Inl (DataDirFailed e), fs)
         | None \<Rightarrow>
        (case be_open_db env (filepath_join dir ''certa.db'') of
           Inl e \<Rightarrow> (Inl (SqliteFailed e), fs)
         | Inr db \<Rightarrow>
        (case load_or_initialize_authority (be_crypto env) (be_keys env) (be_ceremony env) (be_fs env) fs dir 15000000 of
           (Inl e, fs) \<Rightarrow> (Inl (AuthorityLoadFailed e), fs)
         | (Inr (auth, hsm), fs) \<Rightarrow>
             let path = filepath_join dir ''audit.log'' in
             if be_open_audit env path
             then (Inr (OnDisk db, auth, hsm, MultiWriter writer path, True), fs)
             else (Inr (OnDisk db, auth, hsm, writer, False), fs))))
      else
        (case ce_generate_rsa (be_crypto env) 2048 (ci_rnd_int_key (be_ceremony env)) of
           Inl e \<Rightarrow> (Inl (IntermediateKeyFailed e), fs)
         | Inr int_key \<Rightarrow>
        (case new_authority (be_crypto env) (ci_add_years (be_ceremony env)) (ci_clock (be_ceremony env))
                (ci_rnd_root_key (be_ceremony env)) (ci_rnd_root (be_ceremony env)) (ci_rnd_int (be_ceremony env)) int_key of
           Inl e \<Rightarrow> (Inl (AuthorityInitFailed e), fs)
         | Inr auth \<Rightarrow>
             (Inr (InMemory new_memory_storage, auth, new_hsm_signer (Some int_key) 15000000, writer, False), fs))))"

definition open_policy :: "app_config \<Rightarrow> 'k authority \<Rightarrow> 'k authority" where
  "open_policy cfg a =
     (if ac_allow_internal_domains cfg \<or> ac_skip_challenge_validation cfg
      then a\<lparr>au_policy := map_option (\<lambda>p. p\<lparr>pe_allow_internal_domains := True\<rparr>) (au_policy a)\<rparr>
      else a)"

text \<open>The intermediate certificate is one object; its address stands for the pointer.\<close>

definition new_server_app ::
  "('k, 'v) boot_env \<Rightarrow> app_config \<Rightarrow> fs \<Rightarrow> (boot_error + ('k, 'v) server_app) \<times> fs" where
  "new_server_app env cfg0 fs0 =
     (let cfg = with_defaults cfg0 in
      case boot_backend env cfg fs0 of
        (Inl e, fs) \<Rightarrow> (Inl e, fs)
      | (Inr (store, auth, hsm, writer, closer), fs) \<Rightarrow>
          let authority = open_policy cfg auth;
              audit = new_chain_logger True;
              metrics = new_registry (be_float env);
              (_, audit, _) = log_event (be_hash env) (be_audit_ent env) (be_now env) (be_audit_written env)
                ''KEY_ACCESS'' ''system'' (nm_common_name (c_subject (au_intermediate_cert authority))) ''SUCCESS''
                [(''root_subject'', nm_common_name (c_subject (au_root_cert authority))), (''algorithm'', ''RSA-2048'')]
                audit;
              pool = new_worker_pool authority 1000 16
          in (case new_crl_generator (Some (au_intermediate_cert authority)) (hs_key hsm) (Some server_ops)
                     (ac_crl_validity cfg) of
                Inl e \<Rightarrow> (Inl (CrlGeneratorFailed e), fs)
              | Inr crl_gen \<Rightarrow>
                let crl = new_crl_service crl_gen (ac_crl_interval cfg); crl_max_age = new_crl_handler [];
                    issuer = \<lparr>ptr_addr = 0, ptr_cert = au_intermediate_cert authority\<rparr> in
             (case new_responder \<lparr>oc_issuer_cert = Some issuer, oc_responder_cert = Some issuer,
                     oc_signer = hs_key hsm, oc_storage = Some server_ops, oc_store = None,
                     oc_cache_max_age = 3600, oc_validity = 24 * hour\<rparr> of
                Inl e \<Rightarrow> (Inl (OcspResponderFailed e), fs)
              | Inr ocsp \<Rightarrow>
             (case new_acme_server (ac_base_url cfg) (Some authority) (Some server_ops) 0
                     (ac_skip_challenge_validation cfg) of
                Inl e \<Rightarrow> (Inl (AcmeServerFailed e), fs)
              | Inr acme \<Rightarrow>
                  (Inr \<lparr>sa_config = cfg, sa_storage = store, sa_audit = audit, sa_audit_writer = writer,
                        sa_telemetry = metrics, sa_authority = authority, sa_hsm_signer = hsm,
                        sa_worker_pool = pool, sa_crl_service = crl, sa_crl_max_age = crl_max_age,
                        sa_ocsp_responder = ocsp, sa_acme_server = acme,
                        sa_est_handler = new_est_handler pool (c_raw (au_intermediate_cert authority)) [server_ops],
                        sa_audit_closer = closer\<rparr>, fs)))))"

section \<open>Routes\<close>

datatype route =
    AcmeRoute | EstCaCertsRoute | EstEnrollRoute | OcspRoute | CrlRoute | RevokeRoute | MetricsRoute
  | IntermediateCrtRoute | IntermediatePemRoute | RootCrtRoute | RootPemRoute | ChainPemRoute | SwaggerRoute

definition mux_patterns :: "app_config \<Rightarrow> (string \<times> route) list" where
  "mux_patterns cfg =
     [(''/.well-known/acme/'', AcmeRoute), (''/acme/'', AcmeRoute),
      (''/.well-known/est/cacerts'', EstCaCertsRoute), (''/.well-known/est/simpleenroll'', EstEnrollRoute),
      (''/ocsp'', OcspRoute), (''/crl/intermediate.crl'', CrlRoute), (''/api/v1/revoke'', RevokeRoute),
      (''/metrics'', MetricsRoute), (''/ca/intermediate.crt'', IntermediateCrtRoute),
      (''/ca/intermediate.pem'', IntermediatePemRoute), (''/ca/root.crt'', RootCrtRoute),
      (''/ca/root.pem'', RootPemRoute), (''/ca/chain.pem'', ChainPemRoute)] @
     (if ac_enable_swagger cfg then [(''/swagger/'', SwaggerRoute), (''/swagger'', SwaggerRoute)] else [])"

text \<open>The CA certificate endpoints.\<close>

definition pem_endpoint :: "byte list \<Rightarrow> request \<Rightarrow> unit response" where
  "pem_endpoint pem r =
     (if rq_method r \<noteq> ''GET'' \<and> rq_method r \<noteq> ''HEAD'' then method_not_allowed ''GET, HEAD''
      else
        let hs = gm_set ''Cache-Control'' ''public, max-age=86400''
                   (gm_set ''Content-Type'' ''application/x-pem-file; charset=utf-8'' [])
        in if rq_method r = ''HEAD'' then respond 200 hs NoBody else respond 200 hs (Raw pem))"

definition crt_endpoint :: "byte list \<Rightarrow> byte list \<Rightarrow> request \<Rightarrow> unit response" where
  "crt_endpoint der pem r =
     (if rq_method r \<noteq> ''GET'' \<and> rq_method r \<noteq> ''HEAD'' then method_not_allowed ''GET, HEAD''
      else if wants_pem r then pem_endpoint pem r
      else
        let hs = gm_set ''Cache-Control'' ''public, max-age=86400'' (gm_set ''Content-Type'' ''application/pkix-cert'' [])
        in if rq_method r = ''HEAD'' then respond 200 hs NoBody else respond 200 hs (Raw der))"

definition cert_pem :: "certificate \<Rightarrow> byte list" where
  "cert_pem c = pem_encode ''CERTIFICATE'' (c_raw c)"

definition ca_endpoint :: "'k authority \<Rightarrow> route \<Rightarrow> request \<Rightarrow> unit response" where
  "ca_endpoint a rt r =
     (let int = au_intermediate_cert a; root = au_root_cert a in
      case rt of
        IntermediateCrtRoute \<Rightarrow> crt_endpoint (c_raw int) (cert_pem int) r
      | IntermediatePemRoute \<Rightarrow> pem_endpoint (cert_pem int) r
      | RootCrtRoute \<Rightarrow> crt_endpoint (c_raw root) (cert_pem root) r
      | RootPemRoute \<Rightarrow> pem_endpoint (cert_pem root) r
      | ChainPemRoute \<Rightarrow> pem_endpoint (cert_pem int @ cert_pem root) r
      | _ \<Rightarrow> not_found [])"

section \<open>Serving\<close>

text \<open>The libraries of all handlers, and the data of one request.\<close>

record ('k, 'v) serve_env =
  sv_acme :: "('k, server_store, call_env) acme_env"
  sv_est :: "'k est_env"
  sv_ocsp :: "'k ocsp_env"
  sv_revoke_json :: "byte list \<Rightarrow> (string \<times> int) option"
  sv_http_time :: "go_time \<Rightarrow> string"
  sv_float :: "'v float64_ops"
  sv_open_api :: "byte list"
  sv_swagger_html :: "byte list"

record serve_inputs =
  si_acme :: "call_env acme_inputs"
  si_est :: "call_env est_inputs"
  si_answer :: "sign_request \<Rightarrow> sign_response option"
  si_call :: call_env
  si_call2 :: call_env
  si_now :: go_time
  si_clock :: go_time

datatype served =
    AcmeServed "acme_json response"
  | EstServed "est_message response option"
  | RevokeServed "revoke_json response"
  | PlainServed "unit response"
  | Redirected string

record ('k, 'v) live =
  lv_app :: "('k, 'v) server_app"
  lv_store :: server_store
  lv_ent :: entropy

definition serve_route ::
  "('k, 'v) serve_env \<Rightarrow> serve_inputs \<Rightarrow> request \<Rightarrow> route \<Rightarrow> ('k, 'v) live \<Rightarrow> served \<times> ('k, 'v) live" where
  "serve_route env inp r rt l =
     (let app = lv_app l; s = lv_store l in
      case rt of
        AcmeRoute \<Rightarrow>
          (let (resp, w) = acme_serve_http (sv_acme env) (si_acme inp) r
                 \<lparr>w_srv = sa_acme_server app, w_store = s, w_ent = lv_ent l, w_hs = []\<rparr>
           in (AcmeServed resp,
               \<lparr>lv_app = app\<lparr>sa_acme_server := w_srv w\<rparr>, lv_store = w_store w, lv_ent = w_ent w\<rparr>))
      | EstCaCertsRoute \<Rightarrow> (EstServed (Some (handle_ca_certs (sa_est_handler app))), l)
      | EstEnrollRoute \<Rightarrow>
          (let (resp, s, ent) = handle_simple_enroll (sv_est env) (sa_est_handler app) (si_answer inp)
                 (si_est inp) r s (lv_ent l)
           in (EstServed resp, l\<lparr>lv_store := s, lv_ent := ent\<rparr>))
      | OcspRoute \<Rightarrow>
          (PlainServed (ocsp_serve_http (sv_ocsp env) (sa_ocsp_responder app) (s, si_call inp) (s, si_call2 inp)
             (si_now inp) r), l)
      | CrlRoute \<Rightarrow>
          (PlainServed (crl_serve_http (sv_http_time env) (sa_crl_max_age app) (latest_crl (sa_crl_service app)) r), l)
      | RevokeRoute \<Rightarrow>
          (let (resp, s) = handle_revoke (sv_revoke_json env) server_ops (si_call inp) (si_now inp) (si_clock inp) r s
           in (RevokeServed resp, l\<lparr>lv_store := s\<rparr>))
      | MetricsRoute \<Rightarrow> (PlainServed (metrics_handler (sv_float env) (sa_telemetry app) r), l)
      | SwaggerRoute \<Rightarrow> (PlainServed (swagger_serve_http (sv_open_api env) (sv_swagger_html env) r), l)
      | _ \<Rightarrow> (PlainServed (ca_endpoint (sa_authority app) rt r), l))"

definition serve_http ::
  "('k, 'v) serve_env \<Rightarrow> serve_inputs \<Rightarrow> request \<Rightarrow> ('k, 'v) live \<Rightarrow> served \<times> ('k, 'v) live" where
  "serve_http env inp r l =
     (case mux_route (mux_patterns (sa_config (lv_app l))) r of
        Dispatch rt \<Rightarrow> serve_route env inp r rt l
      | RedirectTo path \<Rightarrow> (Redirected path, l)
      | NotRouted \<Rightarrow> (PlainServed (not_found []), l))"

fun serve_run ::
  "('k, 'v) serve_env \<Rightarrow> (serve_inputs \<times> request) list \<Rightarrow> ('k, 'v) live \<Rightarrow> served list \<times> ('k, 'v) live" where
  "serve_run env [] l = ([], l)"
| "serve_run env ((inp, r) # rs) l =
     (let (resp, l) = serve_http env inp r l; (resps, l) = serve_run env rs l in (resp # resps, l))"

section \<open>Start and stop\<close>

text \<open>What \<open>Start\<close> and \<open>Stop\<close> do to the background activities; the telemetry loop sets the queue
  depth gauge on each tick until the worker context is cancelled.\<close>

record ('k, 'v) running =
  rn_app :: "('k, 'v) server_app"
  rn_pool_started :: bool
  rn_telemetry_loop :: bool
  rn_cancel_set :: bool
  rn_cancelled :: bool
  rn_http_down :: bool
  rn_storage_closed :: bool
  rn_audit_closed :: bool

definition loaded_app :: "('k, 'v) server_app \<Rightarrow> ('k, 'v) running" where
  "loaded_app app =
     \<lparr>rn_app = app, rn_pool_started = False, rn_telemetry_loop = False, rn_cancel_set = False,
      rn_cancelled = False, rn_http_down = False, rn_storage_closed = False, rn_audit_closed = False\<rparr>"

text \<open>None where the CRL service does not return.\<close>

definition start_app ::
  "'k create_crl \<Rightarrow> server_store \<Rightarrow> call_env \<Rightarrow> go_time \<Rightarrow> go_time \<Rightarrow> ('k, 'v) running \<Rightarrow>
     (crl_error option \<times> ('k, 'v) running) option" where
  "start_app create s e now now2 rn =
     (let rn = rn\<lparr>rn_cancel_set := True, rn_pool_started := True\<rparr> in
      case start_service create (sa_crl_service (rn_app rn)) s e now now2 of
        None \<Rightarrow> None
      | Some (r, crl) \<Rightarrow>
          let rn = rn\<lparr>rn_app := (rn_app rn)\<lparr>sa_crl_service := crl\<rparr>\<rparr> in
          (case r of
             Some err \<Rightarrow> Some (Some err, rn)
           | None \<Rightarrow> Some (None, rn\<lparr>rn_telemetry_loop := True\<rparr>)))"

definition telemetry_tick :: "'v float64_ops \<Rightarrow> ('k, 'v) running \<Rightarrow> ('k, 'v) running" where
  "telemetry_tick fl rn =
     (if rn_telemetry_loop rn \<and> \<not> rn_cancelled rn
      then rn\<lparr>rn_app := (rn_app rn)\<lparr>sa_telemetry :=
             set_signing_queue_depth fl (fl_of_int fl (int (queue_depth (sa_worker_pool (rn_app rn)))))
               (sa_telemetry (rn_app rn))\<rparr>\<rparr>
      else rn)"

text \<open>Errors of the shutdown and of the two \<open>Close\<close> calls; only the database has a \<open>Close\<close>.
  \<open>ErrServerClosed\<close> is no error.\<close>

datatype stop_error = ServerClosed | StopError string

definition keep_first :: "'e option \<Rightarrow> 'e option \<Rightarrow> 'e option" where
  "keep_first a b = (case a of None \<Rightarrow> b | Some _ \<Rightarrow> a)"

definition stop_app ::
  "stop_error option \<Rightarrow> string option \<Rightarrow> string option \<Rightarrow> ('k, 'v) running \<Rightarrow> string option \<times> ('k, 'v) running" where
  "stop_app shutdown close_store close_audit rn =
     (let err = (case shutdown of Some (StopError e) \<Rightarrow> Some e | _ \<Rightarrow> None);
          app = rn_app rn;
          rn = rn\<lparr>rn_http_down := True, rn_app := app\<lparr>sa_crl_service := stop_service (sa_crl_service app)\<rparr>\<rparr>;
          rn = (if rn_cancel_set rn then rn\<lparr>rn_cancelled := True\<rparr> else rn);
          (err, rn) = (case sa_storage app of
             OnDisk _ \<Rightarrow> (keep_first err close_store, rn\<lparr>rn_storage_closed := True\<rparr>)
           | InMemory _ \<Rightarrow> (err, rn));
          (err, rn) = (if sa_audit_closer app then (keep_first err close_audit, rn\<lparr>rn_audit_closed := True\<rparr>)
                       else (err, rn))
      in (err, rn))"

text \<open>What \<open>main\<close> reports of the audit log on the way out.\<close>

definition shutdown_report :: "hash_env \<Rightarrow> ('k, 'v) running \<Rightarrow> chain_error + nat" where
  "shutdown_report h rn =
     (case verify_chain h (sa_audit (rn_app rn)) of
        None \<Rightarrow> Inr (event_count (sa_audit (rn_app rn)))
      | Some e \<Rightarrow> Inl e)"

end
