(* ===== verification/Server_Run.thy ===== *)
theory Server_Run
  imports Server_App Acme_Safety
begin

text \<open>
  Runs of the whole server: what a sequence of HTTP requests, routed to the handlers of all the
  components, does to the shared store and to the ACME state.
\<close>

section \<open>The store changes through the storage interface only\<close>

lemma reserve_attempts_run:
  "reserve_attempts ops bits envs s ent = (r, s', ent') \<Longrightarrow> list_all (\<lambda>(_, e, _). ok e) envs \<Longrightarrow>
     storage_run ops ok s s'"
proof (induction envs arbitrary: s ent)
  case Nil
  then show ?case by (simp add: run_refl)
next
  case (Cons x envs)
  obtain c env now where x: "x = (c, env, now)" by (cases x) auto
  obtain g ent1 where g: "generate_serial_with_bits bits ent = (g, ent1)" by fastforce
  show ?case
  proof (cases "c = None \<and> (\<exists>n. g = Inr n)")
    case False
    then show ?thesis using Cons.prems(1) g by (auto simp: x run_refl split: option.splits sum.splits)
  next
    case True
    then obtain n where n: "c = None" "g = Inr n" by blast
    obtain q s1 where q: "reserve_serial ops s env now (format_serial (Some n)) = (q, s1)" by fastforce
    have ok: "ok env" "list_all (\<lambda>(_, e, _). ok e) envs" using Cons.prems(2) by (auto simp: x)
    have step: "storage_run ops ok s s1" using run_step [OF run_refl step_reserve [where ok = ok, OF ok(1) q]] .
    show ?thesis
    proof (cases "q = Some ErrAlreadyExists")
      case True
      then have rest: "reserve_attempts ops bits envs s1 ent1 = (r, s', ent')"
        using Cons.prems(1) n g q by (simp add: x)
      show ?thesis by (rule storage_run_trans [OF Cons.IH [OF rest ok(2)] step])
    next
      case False
      then have "s' = s1" using Cons.prems(1) n g q by (cases q) (auto simp: x Let_def split: storage_error.splits)
      then show ?thesis using step by simp
    qed
  qed
qed

lemma reserve_run:
  assumes "generate_and_reserve_serial (Some ops) envs s ent = (r, s', ent')" and "\<forall>i. ok (fst (snd (envs i)))"
  shows "storage_run ops ok s s'"
proof -
  have "list_all (\<lambda>(_, e, _). ok e) (map envs [0..<max_reservation_retries])"
    using assms(2) by (auto simp: list_all_iff case_prod_unfold)
  then show ?thesis
    using assms(1) reserve_attempts_run
    by (fastforce simp: generate_and_reserve_serial_def generate_and_reserve_serial_with_bits_def)
qed

lemma save_run: "ok e \<Longrightarrow> storage_run ops ok s (snd (save_certificate ops s e now c))"
  using step_save [of ok e ops s now c "fst (save_certificate ops s e now c)"] run_step [OF run_refl]
  by (metis prod.collapse)

lemma revoke_run: "ok e \<Longrightarrow> storage_run ops ok s (snd (revoke_certificate ops s e now k n t))"
  using step_revoke [of ok e ops s now k n t "fst (revoke_certificate ops s e now k n t)"] run_step [OF run_refl]
  by (metis prod.collapse)

definition acme_inputs_ok :: "('e \<Rightarrow> bool) \<Rightarrow> 'e acme_inputs \<Rightarrow> bool" where
  "acme_inputs_ok ok inp = ((\<forall>i. ok (fst (snd (ai_reserve inp i)))) \<and> ok (ai_save inp))"

lemma issue_run:
  assumes "acme_inputs_ok ok inp" and h: "issue_for_order env inp oid ord csr w = (resp, w')"
  shows "storage_run (ae_storage env) ok (w_store w) (w_store w')"
proof -
  have ok: "\<forall>i. ok (fst (snd (ai_reserve inp i)))" "ok (ai_save inp)"
    using assms(1) by (simp_all add: acme_inputs_ok_def)
  obtain g st ent where g: "generate_and_reserve_serial (Some (ae_storage env)) (ai_reserve inp) (w_store w) (w_ent w) = (g, st, ent)"
    by (cases "generate_and_reserve_serial (Some (ae_storage env)) (ai_reserve inp) (w_store w) (w_ent w)") auto
  have r: "storage_run (ae_storage env) ok (w_store w) st" using reserve_run [OF g ok(1)] .
  have wp: "w_store v = w_store u" if "write_problem now p u = (q, v)" for now p u q v
    using write_problem_simps(2) [of now p u] that by simp
  have "w_store w' = st \<or> (\<exists>rec. w_store w' = snd (save_certificate (ae_storage env) st (ai_save inp) (ai_now inp) rec))"
  proof (cases g)
    case (Inl e)
    then show ?thesis using h g by (auto simp: issue_for_order_def dest!: wp)
  next
    case g': (Inr serial)
    show ?thesis
    proof (cases "sign_certificate_with_profile (ae_crypto env) (as_authority (w_srv w)) csr (Some serial)
        default_server_tls_profile empty_extension_config (30 * 24 * hour)
        (order_dns_names ord) [] (ai_now inp) (ai_now inp) (ai_rnd inp)")
      case (Inl e)
      then show ?thesis using h g g' by (auto simp: issue_for_order_def Let_def dest!: wp)
    next
      case (Inr der)
      obtain cid w1 where c: "random_id ''cert'' (w\<lparr>w_store := st, w_ent := ent\<rparr>) = (cid, w1)" by fastforce
      have st: "w_store w1 = st" using random_id_simps(2) [OF c] by simp
      let ?rec = "\<lparr>cr_serial = format_serial (Some serial), cr_subject = [], cr_issuer = [],
        cr_not_before = ai_now inp, cr_not_after = ai_now inp + 30 * 24 * hour,
        cr_raw_der = Some der, cr_pem = Some (pem_encode ''CERTIFICATE'' der), cr_revoked = False\<rparr>"
      have "w_store w' = snd (save_certificate (ae_storage env) st (ai_save inp) (ai_now inp) (Some ?rec))"
        using h g g' Inr c st by (auto simp: issue_for_order_def Let_def reply_def split: prod.splits)
      then show ?thesis by blast
    qed
  qed
  then show ?thesis using r save_run [of ok, OF ok(2)] storage_run_trans by metis
qed

lemma finalize_run:
  assumes "acme_inputs_ok ok inp" and h: "handle_finalize_order env inp r oid w = (resp, w')"
  shows "storage_run (ae_storage env) ok (w_store w) (w_store w')"
proof -
  obtain res w1 where v: "verify_jws env inp r w = (res, w1)" by fastforce
  have s: "w_store w1 = w_store w" using verify_jws_simps(2) [OF v] .
  have wp: "w_store x = w_store u" if "write_problem now p u = (q, x)" for now p u q x
    using write_problem_simps(2) [of now p u] that by simp
  have "w_store w' = w_store w \<or> (\<exists>ord csr. issue_for_order env inp oid ord csr w1 = (resp, w'))"
  proof (cases "rq_method r = ''POST''")
    case False
    then have "wrong_method ''POST'' w = (resp, w')" using h by (simp add: handle_finalize_order_def)
    then show ?thesis using wrong_method_simps(2) [of "''POST''" w] by simp
  next
    case True
    then show ?thesis using h v s
      by (cases res) (auto simp: handle_finalize_order_def finalize_order_def
          split: option.splits if_splits list.splits dest!: wp)
  qed
  then show ?thesis using issue_run [OF assms(1)] s run_refl by metis
qed

lemma acme_store_run:
  assumes "acme_inv (w_srv w)" and ok: "acme_inputs_ok ok inp" and h: "acme_serve_http env inp r w = (resp, w')"
  shows "storage_run (ae_storage env) ok (w_store w) (w_store w')"
proof (cases "is_finalize r")
  case False
  then have "w_store w' = w_store w"
    using serve_harmless [OF assms(1) False subset_refl, of env inp] by (simp add: h harmless_def)
  then show ?thesis by (simp add: run_refl)
next
  case True
  then have p: "rq_path r \<noteq> ''/.well-known/acme/directory''" "rq_path r \<noteq> ''/acme/new-nonce''"
    "rq_path r \<noteq> ''/acme/new-account''" "rq_path r \<noteq> ''/acme/new-order''"
    by (auto simp: is_finalize_def has_prefix_def)
  let ?w1 = "if rq_method r = ''POST'' then add_nonce_header (ai_now inp) w else w"
  have "handle_finalize_order env inp r (trim_suffix (trim_prefix (rq_path r) ''/acme/order/'') ''/finalize'') ?w1 = (resp, w')"
    using h True p unfolding acme_serve_http_def Let_def is_finalize_def by simp
  from finalize_run [OF ok this] show ?thesis by (simp split: if_splits)
qed

lemma enroll_run:
  assumes "eh_store h = Some ops" and "\<forall>i. ok (fst (snd (ei_reserve inp i)))" and "ok (ei_save inp)"
    and h: "handle_simple_enroll env h answer inp r s ent = (resp, s', ent')"
  shows "storage_run ops ok s s'"
proof -
  have ser: "storage_run ops ok s s1" if "enroll_serial (Some ops) inp s ent = (n, s1, e1)" for n s1 e1
    using reserve_run [OF _ assms(2)] that by (fastforce simp: enroll_serial_def)
  have "s' = s \<or> (\<exists>n s1 e1. enroll_serial (Some ops) inp s ent = (n, s1, e1) \<and>
      (s' = s1 \<or> (\<exists>rec. s' = snd (save_certificate ops s1 (ei_save inp) (ei_now inp) rec))))"
    using h assms(1)
    by (auto simp: handle_simple_enroll_def enroll_save_def
        split: if_splits option.splits sum.splits prod.splits)
  then show ?thesis using ser save_run [of ok, OF assms(3)] storage_run_trans run_refl by metis
qed

lemma handle_revoke_run:
  assumes "ok env" and h: "handle_revoke decode ops env now clk r s = (resp, s')"
  shows "storage_run ops ok s s'"
proof -
  have "s' = s \<or> (\<exists>k n. s' = snd (revoke_certificate ops s env clk k n now))"
    using h by (auto simp: handle_revoke_def Let_def split: if_splits option.splits prod.splits storage_error.splits;
      metis snd_conv)
  then show ?thesis using revoke_run [of ok, OF assms(1)] run_refl by metis
qed

section \<open>The invariant of a running server\<close>

definition serve_env_ok :: "('k, 'v) serve_env \<Rightarrow> bool" where
  "serve_env_ok env = (ae_storage (sv_acme env) = server_ops)"

definition serve_inputs_ok :: "serve_inputs \<Rightarrow> bool" where
  "serve_inputs_ok inp =
     (acme_inputs_ok server_env_ok (si_acme inp) \<and>
      (\<forall>i. server_env_ok (fst (snd (ei_reserve (si_est inp) i)))) \<and> server_env_ok (ei_save (si_est inp)) \<and>
      server_env_ok (si_call inp) \<and> server_env_ok (si_call2 inp))"

definition live_inv :: "('k, 'v) live \<Rightarrow> bool" where
  "live_inv l =
     (server_inv (lv_store l) \<and> acme_inv (sa_acme_server (lv_app l)) \<and>
      eh_store (sa_est_handler (lv_app l)) = Some server_ops \<and>
      oh_storage (sa_ocsp_responder (lv_app l)) = Some server_ops \<and>
      cg_storage (cs_generator (sa_crl_service (lv_app l))) = server_ops)"

text \<open>Of the application a request changes the ACME server only.\<close>

definition same_but_acme :: "('k, 'v) server_app \<Rightarrow> ('k, 'v) server_app \<Rightarrow> bool" where
  "same_but_acme a b = (\<exists>s. b = a\<lparr>sa_acme_server := s\<rparr>)"

lemma same_but_acme_refl [simp]: "same_but_acme a a"
  unfolding same_but_acme_def by (rule exI [of _ "sa_acme_server a"]) simp

lemma same_but_acme_trans: "same_but_acme a b \<Longrightarrow> same_but_acme b c \<Longrightarrow> same_but_acme a c"
  by (auto simp: same_but_acme_def)

lemma serve_route_run:
  assumes "serve_env_ok env" and ok: "serve_inputs_ok inp" and inv: "live_inv l"
    and h: "serve_route env inp r rt l = (resp, l')"
  shows "storage_run server_ops server_env_ok (lv_store l) (lv_store l') \<and> acme_inv (sa_acme_server (lv_app l')) \<and>
    same_but_acme (lv_app l) (lv_app l')"
proof (cases rt)
  case AcmeRoute
  let ?w = "\<lparr>w_srv = sa_acme_server (lv_app l), w_store = lv_store l, w_ent = lv_ent l, w_hs = []\<rparr>"
  obtain q w where w: "acme_serve_http (sv_acme env) (si_acme inp) r ?w = (q, w)" by fastforce
  have i: "acme_inv (w_srv ?w)" using inv by (simp add: live_inv_def)
  have "acme_inv (w_srv w)" using serve_fine [OF i, of "sv_acme env" "si_acme inp" r] w by (simp add: fine_def)
  moreover have "storage_run server_ops server_env_ok (lv_store l) (w_store w)"
    using acme_store_run [OF i _ w, of server_env_ok] ok assms(1) by (simp add: serve_inputs_ok_def serve_env_ok_def)
  ultimately show ?thesis using h AcmeRoute w by (auto simp: serve_route_def Let_def same_but_acme_def)
next
  case EstEnrollRoute
  obtain q s e where s: "handle_simple_enroll (sv_est env) (sa_est_handler (lv_app l)) (si_answer inp) (si_est inp) r
      (lv_store l) (lv_ent l) = (q, s, e)"
    by (cases "handle_simple_enroll (sv_est env) (sa_est_handler (lv_app l)) (si_answer inp) (si_est inp) r
      (lv_store l) (lv_ent l)") auto
  then show ?thesis
    using enroll_run [OF _ _ _ s, of server_ops server_env_ok] h EstEnrollRoute ok inv
    by (auto simp: serve_route_def Let_def serve_inputs_ok_def live_inv_def)
next
  case RevokeRoute
  obtain q s where s: "handle_revoke (sv_revoke_json env) server_ops (si_call inp) (si_now inp) (si_clock inp) r
      (lv_store l) = (q, s)" by fastforce
  then show ?thesis
    using handle_revoke_run [OF _ s, of server_env_ok] h RevokeRoute ok inv
    by (auto simp: serve_route_def Let_def serve_inputs_ok_def live_inv_def)
qed (use h inv in \<open>auto simp: serve_route_def Let_def live_inv_def run_refl\<close>)

lemma live_inv_after:
  assumes "live_inv l" and "storage_run server_ops server_env_ok (lv_store l) (lv_store l')"
    and "acme_inv (sa_acme_server (lv_app l'))" and "same_but_acme (lv_app l) (lv_app l')"
  shows "live_inv l'"
  using assms server.run_preserves [OF assms(2)] by (auto simp: live_inv_def same_but_acme_def)

lemma serve_http_run:
  assumes "serve_env_ok env" and ok: "serve_inputs_ok inp" and inv: "live_inv l" and h: "serve_http env inp r l = (resp, l')"
  shows "storage_run server_ops server_env_ok (lv_store l) (lv_store l') \<and> live_inv l' \<and> same_but_acme (lv_app l) (lv_app l')"
proof (cases "mux_route (mux_patterns (sa_config (lv_app l))) r")
  case (Dispatch rt)
  then have "serve_route env inp r rt l = (resp, l')" using h by (simp add: serve_http_def)
  from serve_route_run [OF assms(1) ok inv this] show ?thesis using live_inv_after [OF inv] by blast
qed (use h inv in \<open>auto simp: serve_http_def run_refl\<close>)

lemma serve_run_run:
  "serve_env_ok env \<Longrightarrow> live_inv l \<Longrightarrow> \<forall>(inp, _) \<in> set rs. serve_inputs_ok inp \<Longrightarrow> serve_run env rs l = (resps, l') \<Longrightarrow>
     storage_run server_ops server_env_ok (lv_store l) (lv_store l') \<and> live_inv l' \<and> same_but_acme (lv_app l) (lv_app l')"
proof (induction rs arbitrary: l resps)
  case Nil
  then show ?case by (simp add: run_refl)
next
  case (Cons x rs)
  obtain inp r where x: "x = (inp, r)" by fastforce
  obtain resp l1 where h: "serve_http env inp r l = (resp, l1)" by fastforce
  obtain resps1 l2 where rest: "serve_run env rs l1 = (resps1, l2)" by fastforce
  have one: "storage_run server_ops server_env_ok (lv_store l) (lv_store l1)" "live_inv l1" "same_but_acme (lv_app l) (lv_app l1)"
    using serve_http_run [OF Cons.prems(1) _ Cons.prems(2) h] Cons.prems(3) by (auto simp: x)
  have l2: "l2 = l'" using Cons.prems(4) h rest by (simp add: x)
  have "storage_run server_ops server_env_ok (lv_store l1) (lv_store l') \<and> live_inv l' \<and> same_but_acme (lv_app l1) (lv_app l')"
    using Cons.IH [OF Cons.prems(1) one(2)] Cons.prems(3) rest l2 by simp
  then show ?case using one storage_run_trans same_but_acme_trans by metis
qed

end
