(* ===== verification/Sample_Acme.thy ===== *)
theory Sample_Acme
  imports Acme_Safety Go_Path Server_Store Issuance_Properties
begin

text \<open>
  A concrete ACME world on which the witnesses evaluate the server: a JWS codec over the compact
  serialization with one header and an RSA key whose signature is a fixed byte, and a server with one
  order.
\<close>

definition sample_jwk :: jwk where
  "sample_jwk = \<lparr>jwk_kty = ''RSA'', jwk_crv = [], jwk_x = [], jwk_y = [], jwk_n = ''Dw'', jwk_e = ''Aw''\<rparr>"

definition sample_header :: jws_header where
  "sample_header = \<lparr>jh_alg = ''RS256'', jh_nonce = ''n0'', jh_url = [], jh_jwk = Some sample_jwk, jh_kid = []\<rparr>"

definition compact :: "jws_message \<Rightarrow> string + byte list" where
  "compact m =
     (if CHR ''.'' \<in> set (jm_protected m @ jm_payload m @ jm_signature m) then Inl ''json''
      else Inr (bytes_of (jm_protected m @ ''.'' @ jm_payload m @ ''.'' @ jm_signature m)))"

definition parse_compact :: "byte list \<Rightarrow> string + jws_message" where
  "parse_compact b =
     (case split_on CHR ''.'' (string_of b) of
        [p, y, s] \<Rightarrow> Inr \<lparr>jm_protected = p, jm_payload = y, jm_signature = s\<rparr>
      | _ \<Rightarrow> Inl ''json'')"

lemma split_on_cons: "c \<notin> set n \<Longrightarrow> split_on c (n @ c # s) = n # split_on c s"
  by (induction n) auto

lemma compact_roundtrip: "parse_compact b = Inr m" if "compact m = Inr b"
proof -
  have d: "CHR ''.'' \<notin> set (jm_protected m)" "CHR ''.'' \<notin> set (jm_payload m)" "CHR ''.'' \<notin> set (jm_signature m)"
    using that unfolding compact_def by (auto split: if_splits)
  have "b = bytes_of (jm_protected m @ ''.'' @ jm_payload m @ ''.'' @ jm_signature m)"
    using that unfolding compact_def by (simp only: sum.inject sum.distinct split: if_splits)
  then have "string_of b = jm_protected m @ CHR ''.'' # jm_payload m @ CHR ''.'' # jm_signature m"
    by (metis string_of_bytes_of append_Cons append_Nil)
  then show ?thesis using d by (simp add: parse_compact_def split_on_cons split_on_plain)
qed

definition sample_jws :: "nat jws_env" where
  "sample_jws =
     \<lparr>je_unmarshal_message = parse_compact,
      je_unmarshal_header = (\<lambda>b. if b = [7] then Inr sample_header else Inl ''json''),
      je_marshal_message = compact,
      je_marshal_header = (\<lambda>h. if h = sample_header then Inr [7] else Inl ''json''),
      je_sha256 = (\<lambda>_. replicate 32 8), je_rsa_verify = (\<lambda>_ _ sig. sig = [1]), je_ecdsa_verify = (\<lambda>_ _ _ _. False),
      je_rsa_sign = (\<lambda>_ _ _. Inr [1]), je_ecdsa_sign = (\<lambda>_ _ _. Inl ''unsupported'')\<rparr>"

lemma sample_jws_codec: "codec_ok sample_jws"
  by (auto simp: codec_ok_def sample_jws_def compact_roundtrip split: if_splits)

text \<open>Signed messages with the empty payload and with the payload \<open>[1]\<close>.\<close>

definition signed_body :: "byte list \<Rightarrow> byte list" where
  "signed_body payload = bytes_of (''Bw.'' @ b64_raw_encode b64_url payload @ ''.AQ'')"

definition sample_parsed :: "byte list \<Rightarrow> parsed_jws" where
  "sample_parsed payload = \<lparr>pj_header = sample_header, pj_payload = payload, pj_public_key = RSAKey 15 3\<rparr>"

lemma sample_decoded:
  "decode_and_verify_jws sample_jws (signed_body []) look = Inr (sample_parsed [])"
  "decode_and_verify_jws sample_jws (signed_body [1]) look = Inr (sample_parsed [1])"
proof -
  have b: "parse_compact (signed_body []) = Inr \<lparr>jm_protected = ''Bw'', jm_payload = [], jm_signature = ''AQ''\<rparr>"
    "parse_compact (signed_body [1]) = Inr \<lparr>jm_protected = ''Bw'', jm_payload = ''AQ'', jm_signature = ''AQ''\<rparr>"
    "b64_raw_decode b64_url ''Bw'' = Some [7]" "b64_raw_decode b64_url ''AQ'' = Some [1]"
    "jwk_to_key (Some sample_jwk) = Inr (RSAKey 15 3)"
    by code_simp+
  show "decode_and_verify_jws sample_jws (signed_body []) look = Inr (sample_parsed [])"
    "decode_and_verify_jws sample_jws (signed_body [1]) look = Inr (sample_parsed [1])"
    by (simp_all add: decode_and_verify_jws_def b sample_jws_def sample_header_def resolve_key_def check_signature_def
        sample_parsed_def)
qed

text \<open>Entropy for two nonces and a serial number, and the certificate with that serial.\<close>

definition sample_ent :: entropy where
  "sample_ent =
     [100, 101, 102, 103, 104, 105, 106, 107, 108, 109, 110, 111, 112, 113, 114, 115,
      116, 117, 118, 119, 120, 121, 122, 123, 124, 125, 126, 127, 128, 129, 130, 131,
      0, 0, 0, 0, 0, 0, 0, 0, 1, 2, 3, 4, 5, 6, 7, 8]"

definition acme_serial :: int where
  "acme_serial = 72623859790382856"

lemma acme_serial_draw: "generate_serial_with_bits 128 (drop 32 sample_ent) = (Inr acme_serial, [])"
  by (simp add: sample_ent_def acme_serial_def generate_serial_with_bits_def min_serial_bits_def max_serial_bits_def
    draw_positive.simps [of 128] rand_int_pow2_def rand_read_def be_val_def)

definition acme_leaf :: certificate where
  "acme_leaf = sample_leaf\<lparr>c_serial_number := Some acme_serial\<rparr>"

lemma acme_serial_range: "0 < acme_serial" "acme_serial < 2 ^ 159"
  by (simp_all add: acme_serial_def)

lemma acme_leaf_prepared:
  "prepare (table_env [acme_leaf]) sample_authority [1] (Some acme_serial) default_server_tls_profile
      empty_extension_config (30 * 24 * hour) [''www.go.dev''] [] (1000 * second) (1000 * second) =
    Inr (sample_csr, leaf_template (table_env [acme_leaf]) sample_authority sample_csr acme_serial default_server_tls_profile
      empty_extension_config (30 * 24 * hour) [''www.go.dev''] [] (replicate 20 9) (1000 * second) (1000 * second))"
proof -
  have p: "get_profile ProfileServerTLS = Some default_server_tls_profile" by code_simp
  have e: "compute_subject_key_id (table_env [acme_leaf]) k = Inr (replicate 20 9)" for k
    by (simp add: compute_subject_key_id_def)
  have "30 * 24 * hour \<le> pf_allowed_max_validity default_server_tls_profile"
    by (simp add: default_server_tls_profile_def)
  moreover have "effective_validity default_server_tls_profile (30 * 24 * hour) = 30 * 24 * hour" by code_simp
  moreover have "csr_public_key sample_csr = sample_key" "csr_dns_names sample_csr = [''www.go.dev'']" "csr_ip_addresses sample_csr = []"
    by (simp_all add: sample_csr_def)
  ultimately show ?thesis
    using conforming_prepared [OF p, of "table_env [acme_leaf]" "[1]" sample_csr "replicate 20 9" sample_authority
        "[''www.go.dev'']" "[''www.go.dev'']" acme_serial "30 * 24 * hour" "1000 * second" "1000 * second" empty_extension_config]
    by (simp add: e validate_public_key_iff sample_key_acceptable sample_name_acceptable acme_serial_range acme_serial_range(2) [simplified])
qed

lemma acme_leaf_issued:
  "sign_certificate_with_profile (table_env [acme_leaf]) sample_authority [1] (Some acme_serial) default_server_tls_profile
     empty_extension_config (30 * 24 * hour) [''www.go.dev''] [] (1000 * second) (1000 * second) [] = Inr [8]"
proof -
  have "ce_create_certificate (table_env [acme_leaf]) [] (leaf_template (table_env [acme_leaf])
      sample_authority sample_csr acme_serial default_server_tls_profile empty_extension_config (30 * 24 * hour)
      [''www.go.dev''] [] (replicate 20 9) (1000 * second) (1000 * second)) sample_issuer sample_key 1 = Inr [8]"
    by code_simp
  moreover have "csr_public_key sample_csr = sample_key" by (simp add: sample_csr_def)
  ultimately show ?thesis
    unfolding sign_certificate_with_profile_def acme_leaf_prepared by simp
qed

lemma acme_reservation:
  "\<exists>st. generate_and_reserve_serial (Some server_ops) (\<lambda>_. (None, (None, calm), 7)) (InMemory new_memory_storage)
     (drop 32 sample_ent) = (Inr acme_serial, st, [])"
proof -
  have "canonical_serial (format_serial (Some acme_serial))"
    using format_serial_canonical [of acme_serial] acme_serial_range by auto
  from normalize_canonical [OF this] canonical_serial_facts(1) [OF this]
  show ?thesis
    by (simp add: generate_and_reserve_serial_def generate_and_reserve_serial_with_bits_def max_reservation_retries_def
        default_serial_bits_def upt_rec acme_serial_draw mem_reserve_serial_def new_memory_storage_def Let_def)
qed

definition sample_acme_env :: "(nat, server_store, call_env) acme_env" where
  "sample_acme_env =
     \<lparr>ae_jws = sample_jws, ae_crypto = table_env [acme_leaf], ae_storage = server_ops,
      ae_new_account_payload = (\<lambda>_. None), ae_new_order_payload = (\<lambda>_. None),
      ae_finalize_payload = (\<lambda>b. if b = [1] then Some ''AQ'' else None), ae_format_rfc3339 = (\<lambda>_. ''t''),
      ae_b64_error_text = (\<lambda>_. [])\<rparr>"

definition sample_acme_inputs :: "call_env acme_inputs" where
  "sample_acme_inputs = \<lparr>ai_now = 1000 * second, ai_reserve = (\<lambda>_. (None, (None, calm), 7)), ai_save = (None, calm), ai_rnd = []\<rparr>"

definition sample_authz :: "string \<Rightarrow> authorization" where
  "sample_authz st = \<lparr>az_id = ''authz_1'', az_account_id = ''acct_1'', az_status = st, az_expires = ''t'',
     az_identifier = \<lparr>id_type = ''dns'', id_value = ''www.go.dev''\<rparr>,
     az_challenges = [\<lparr>ch_type = ''http-01'', ch_url = ''http://ca/acme/challenge/chal_1'', ch_token = ''token_1'',
       ch_status = st, ch_validated = [], ch_error = None\<rparr>]\<rparr>"

definition sample_order :: order where
  "sample_order = \<lparr>od_id = ''order_1'', od_account_id = ''acct_1'', od_status = ''pending'', od_expires = ''t'',
     od_identifiers = [\<lparr>id_type = ''dns'', id_value = ''www.go.dev''\<rparr>],
     od_authorizations = [''http://ca/acme/authz/authz_1''], od_finalize_url = ''http://ca/acme/order/order_1/finalize'',
     od_certificate_url = []\<rparr>"

text \<open>A server with the sample order, its authorization in the given state, and the nonce \<open>n0\<close>.\<close>

definition sample_acme :: "string \<Rightarrow> nat acme_server" where
  "sample_acme st =
     \<lparr>as_base_url = ''http://ca'', as_authority = sample_authority,
      as_nonces = \<lparr>nm_nonces = [(''n0'', 2000 * second)], nm_ttl = 15 * minute\<rparr>,
      as_skip_challenge_validation = False, as_accounts = [], as_accounts_by_thumb = [],
      as_orders = [(''order_1'', sample_order)], as_authorizations = [(''authz_1'', sample_authz st)],
      as_challenges = [(''chal_1'', \<lparr>cf_authz_id = ''authz_1'', cf_index = 0\<rparr>)], as_certificates = [],
      as_order_authz_map = [(''authz_1'', ''order_1'')]\<rparr>"

definition sample_world :: "string \<Rightarrow> entropy \<Rightarrow> (nat, server_store) world" where
  "sample_world st ent = \<lparr>w_srv = sample_acme st, w_store = InMemory new_memory_storage, w_ent = ent, w_hs = []\<rparr>"

lemma sample_acme_inv: "st \<in> {''pending'', ''valid''} \<Longrightarrow> acme_inv (sample_acme st)"
  by (auto simp: acme_inv_def sample_acme_def authz_wf_def sample_authz_def order_wf_def sample_order_def split: if_splits)

definition post :: "string \<Rightarrow> byte list \<Rightarrow> request" where
  "post path payload = \<lparr>rq_method = ''POST'', rq_path = path, rq_escaped_path = path, rq_raw_query = [], rq_query = [],
     rq_headers = [], rq_body = Some (signed_body payload), rq_ctx = None\<rparr>"

text \<open>The signed messages are accepted while the nonce is there.\<close>

lemma sample_verified:
  assumes "map_of (nm_nonces (as_nonces (w_srv w))) ''n0'' = Some (2000 * second)" and "payload \<in> {[], [1]}"
  shows "verify_jws sample_acme_env sample_acme_inputs (post path payload) w =
    (Inr (sample_parsed payload), add_nonce_header (1000 * second)
      (w\<lparr>w_srv := (w_srv w)\<lparr>as_nonces := (as_nonces (w_srv w))\<lparr>nm_nonces := gm_del ''n0'' (nm_nonces (as_nonces (w_srv w)))\<rparr>\<rparr>\<rparr>))"
proof -
  have "decode_and_verify_jws sample_jws (signed_body payload) look = Inr (sample_parsed payload)" for look
    using assms(2) sample_decoded by auto
  then show ?thesis
    by (simp add: verify_jws_def sample_acme_env_def post_def sample_acme_inputs_def sample_parsed_def sample_header_def
        validate_and_consume_nonce_def assms(1))
qed

end
