(* ===== verification/Server_Properties.thy ===== *)
theory Server_Properties
  imports Server_Run Key_Store_Properties Service_Properties Est_Properties Sample_Acme
begin

text \<open>
  Properties of the server as a whole: how it is wired, what a revocation means for everything that
  happens later, and which requests reach the OCSP responder.
\<close>

section \<open>Wiring\<close>

text \<open>The fields the defaults leave alone.\<close>

lemma with_defaults_same [simp]:
  "ac_allow_internal_domains (with_defaults cfg) = ac_allow_internal_domains cfg"
  "ac_skip_challenge_validation (with_defaults cfg) = ac_skip_challenge_validation cfg"
  "ac_data_dir (with_defaults cfg) = ac_data_dir cfg"
  "ac_audit_writer (with_defaults cfg) = ac_audit_writer cfg"
  "ac_enable_swagger (with_defaults cfg) = ac_enable_swagger cfg"
  by (simp_all add: with_defaults_def Let_def)

lemma new_crl_generator_Inr:
  "new_crl_generator ic k st v = Inr g \<Longrightarrow>
     ic = Some (cg_issuer_cert g) \<and> k = Some (cg_signer g) \<and> st = Some (cg_storage g) \<and> cg_crl_number g = 0 \<and>
     cg_validity g = (if v \<le> 0 then 24 * hour else v)"
  by (auto simp: new_crl_generator_def split: option.splits)

lemma new_acme_server_Inr:
  "new_acme_server u a st ttl skip = Inr s \<Longrightarrow>
     a = Some (as_authority s) \<and> as_skip_challenge_validation s = skip \<and> st \<noteq> None"
  by (auto simp: new_acme_server_def Let_def split: option.splits)

lemma new_responder_Inr:
  "new_responder cfg = Inr h \<Longrightarrow>
     oc_issuer_cert cfg = Some (oh_issuer_cert h) \<and> oc_signer cfg = Some (oh_signer h) \<and>
     oh_storage h = oc_storage cfg \<and> (oc_responder_cert cfg \<noteq> None \<longrightarrow> oc_responder_cert cfg = Some (oh_responder_cert h))"
  by (auto simp: new_responder_def split: option.splits)

text \<open>The authority of the backend has the default policy and signs with the module's key.\<close>

lemma boot_backend_facts:
  assumes "boot_backend env cfg fs = (Inr (store, auth, hsm, writer, closer), fs')"
  shows "au_policy auth = Some new_default_policy_engine" and "hs_key hsm = Some (au_signer auth)"
    and "(\<exists>db. store = OnDisk db \<and> be_open_db env (filepath_join (ac_data_dir cfg) ''certa.db'') = Inr db \<and>
            ac_data_dir cfg \<notin> {[], '':memory:''}) \<or>
         (store = InMemory new_memory_storage \<and> ac_data_dir cfg \<in> {[], '':memory:''} \<and> fs' = fs)"
proof -
  have ks: "au_policy a = Some new_default_policy_engine \<and> hs_key h = Some (au_signer a)"
    if "load_or_initialize_authority e kc ci fe f d lat = (Inr (a, h), f')" for e kc ci fe f d lat a h f'
    using that
    by (auto simp: load_or_initialize_authority_def load_authority_def generate_and_persist_authority_def
        new_hsm_signer_def Let_def split: option.splits sum.splits if_splits prod.splits)
  have na: "au_policy a = Some new_default_policy_engine \<and> au_signer a = k"
    if "new_authority e ay ck r1 r2 r3 k = Inr a" for e ay ck r1 r2 r3 a k
    using that by (auto simp: new_authority_def Let_def split: sum.splits)
  show "au_policy auth = Some new_default_policy_engine" "hs_key hsm = Some (au_signer auth)"
    "(\<exists>db. store = OnDisk db \<and> be_open_db env (filepath_join (ac_data_dir cfg) ''certa.db'') = Inr db \<and>
        ac_data_dir cfg \<notin> {[], '':memory:''}) \<or>
     (store = InMemory new_memory_storage \<and> ac_data_dir cfg \<in> {[], '':memory:''} \<and> fs' = fs)"
    using assms
    by (auto simp: boot_backend_def Let_def new_hsm_signer_def split: if_splits option.splits sum.splits prod.splits
        dest!: ks na)
qed

lemma new_server_app_Inr:
  assumes "new_server_app env cfg fs = (Inr app, fs')"
  obtains (built) auth crl_gen where
    "boot_backend env (with_defaults cfg) fs =
       (Inr (sa_storage app, auth, sa_hsm_signer app, sa_audit_writer app, sa_audit_closer app), fs')"
    "sa_config app = with_defaults cfg" "sa_authority app = open_policy (with_defaults cfg) auth"
    "new_crl_generator (Some (au_intermediate_cert (sa_authority app))) (hs_key (sa_hsm_signer app)) (Some server_ops)
       (ac_crl_validity (with_defaults cfg)) = Inr crl_gen"
    "sa_crl_service app = new_crl_service crl_gen (ac_crl_interval (with_defaults cfg))"
    "new_acme_server (ac_base_url (with_defaults cfg)) (Some (sa_authority app)) (Some server_ops) 0
       (ac_skip_challenge_validation (with_defaults cfg)) = Inr (sa_acme_server app)"
    "sa_est_handler app = new_est_handler (sa_worker_pool app) (c_raw (au_intermediate_cert (sa_authority app))) [server_ops]"
    "new_responder \<lparr>oc_issuer_cert = Some \<lparr>ptr_addr = 0, ptr_cert = au_intermediate_cert (sa_authority app)\<rparr>,
       oc_responder_cert = Some \<lparr>ptr_addr = 0, ptr_cert = au_intermediate_cert (sa_authority app)\<rparr>,
       oc_signer = hs_key (sa_hsm_signer app), oc_storage = Some server_ops, oc_store = None,
       oc_cache_max_age = 3600, oc_validity = 24 * hour\<rparr> = Inr (sa_ocsp_responder app)"
    "chain_inv (be_hash env) (sa_audit app)"
    "sa_worker_pool app = new_worker_pool (sa_authority app) 1000 16"
proof -
  let ?cfg = "with_defaults cfg"
  obtain store auth hsm writer closer fs1 where
    b: "boot_backend env ?cfg fs = (Inr (store, auth, hsm, writer, closer), fs1)"
    using assms by (auto simp: new_server_app_def Let_def split: prod.splits sum.splits)
  let ?a = "open_policy ?cfg auth"
  obtain ev audit ent where l: "log_event (be_hash env) (be_audit_ent env) (be_now env) (be_audit_written env)
      ''KEY_ACCESS'' ''system'' (nm_common_name (c_subject (au_intermediate_cert ?a))) ''SUCCESS''
      [(''root_subject'', nm_common_name (c_subject (au_root_cert ?a))), (''algorithm'', ''RSA-2048'')]
      (new_chain_logger True) = (ev, audit, ent)" by (metis prod_cases3)
  have c: "chain_inv (be_hash env) audit" using chain_inv_log [OF chain_inv_new l] .
  show thesis
    using assms b c l
    by (auto simp: new_server_app_def Let_def split: sum.splits intro!: built)
qed

lemma live_inv_new:
  assumes "new_server_app env cfg fs = (Inr app, fs')" and "\<forall>p db. be_open_db env p = Inr db \<longrightarrow> sqlite_inv db"
  shows "live_inv \<lparr>lv_app = app, lv_store = sa_storage app, lv_ent = ent\<rparr>"
proof -
  from assms(1) show ?thesis
  proof (cases rule: new_server_app_Inr)
    case (built auth crl_gen)
    have "server_inv (sa_storage app)"
      using boot_backend_facts(3) [OF built(1)] assms(2) by auto
    then show ?thesis
      using acme_inv_new [OF built(6)] new_responder_Inr [OF built(8)] new_crl_generator_Inr [OF built(4)]
      by (simp add: live_inv_def built(5,7) new_est_handler_def new_crl_service_def)
  qed
qed

text \<open>
  C13. The server is wired as documented: with the defaults filled in, every service acts for the one
  authority that was loaded or made and on the one store that was opened. The ACME server signs with
  that authority, the worker pool issues with it, with its sixteen workers idle and room for a thousand
  requests, and EST submits to that pool and hands out the authority's intermediate certificate; the CRL
  generator and the OCSP responder name that certificate as the issuer and sign with its key; and the policy is the default one,
  opened for internal domains exactly when the configuration allows them or skips challenge validation.
  The store is in memory exactly for an empty data directory or \<open>:memory:\<close>, the audit log verifies, and
  the server is ready to serve.
\<close>

theorem server_wired:
  assumes "new_server_app env cfg fs = (Inr app, fs')" and "\<forall>p db. be_open_db env p = Inr db \<longrightarrow> sqlite_inv db"
  shows "let a = sa_authority app; ic = au_intermediate_cert a; crl = cs_generator (sa_crl_service app);
      ocsp = sa_ocsp_responder app
    in sa_config app = with_defaults cfg \<and>
      as_authority (sa_acme_server app) = a \<and>
      as_skip_challenge_validation (sa_acme_server app) = ac_skip_challenge_validation cfg \<and>
      cg_issuer_cert crl = ic \<and> cg_signer crl = au_signer a \<and> cg_storage crl = server_ops \<and> cg_crl_number crl = 0 \<and>
      ptr_cert (oh_issuer_cert ocsp) = ic \<and> oh_responder_cert ocsp = oh_issuer_cert ocsp \<and>
      oh_signer ocsp = au_signer a \<and> oh_storage ocsp = Some server_ops \<and>
      wp_issuer (sa_worker_pool app) = a \<and> wp_queue_size (sa_worker_pool app) = 1000 \<and>
      wp_workers (sa_worker_pool app) = replicate 16 Idle \<and> queue_depth (sa_worker_pool app) = 0 \<and>
      \<not> wp_cancelled (sa_worker_pool app) \<and> eh_pool (sa_est_handler app) = sa_worker_pool app \<and>
      eh_cacerts_pem (sa_est_handler app) = cert_pem ic \<and> eh_store (sa_est_handler app) = Some server_ops \<and>
      engine_of a = new_default_policy_engine\<lparr>pe_allow_internal_domains :=
        ac_allow_internal_domains cfg \<or> ac_skip_challenge_validation cfg\<rparr> \<and>
      (case sa_storage app of InMemory m \<Rightarrow> m = new_memory_storage | OnDisk db \<Rightarrow> True) \<and>
      ((\<exists>m. sa_storage app = InMemory m) \<longleftrightarrow> ac_data_dir cfg \<in> {[], '':memory:''}) \<and>
      verify_chain (be_hash env) (sa_audit app) = None \<and>
      live_inv \<lparr>lv_app = app, lv_store = sa_storage app, lv_ent = ent\<rparr>"
proof -
  from assms(1) show ?thesis
  proof (cases rule: new_server_app_Inr)
    case (built auth crl_gen)
    note bb = boot_backend_facts [OF built(1)]
    have signer: "hs_key (sa_hsm_signer app) = Some (au_signer (sa_authority app))"
      by (simp add: bb(2) built(3) open_policy_def)
    have engine: "engine_of (sa_authority app) = new_default_policy_engine\<lparr>pe_allow_internal_domains :=
        ac_allow_internal_domains cfg \<or> ac_skip_challenge_validation cfg\<rparr>"
      by (simp add: built(3) open_policy_def engine_of_def bb(1) new_default_policy_engine_def)
    have "oh_issuer_cert (sa_ocsp_responder app) = \<lparr>ptr_addr = 0, ptr_cert = au_intermediate_cert (sa_authority app)\<rparr>"
      using new_responder_Inr [OF built(8)] by simp
    then have issuer: "ptr_cert (oh_issuer_cert (sa_ocsp_responder app)) = au_intermediate_cert (sa_authority app)"
      by simp
    show ?thesis
      unfolding Let_def
      using new_crl_generator_Inr [OF built(4)] new_acme_server_Inr [OF built(6)] new_responder_Inr [OF built(8)]
        built(9,10) signer engine issuer bb(3) live_inv_new [OF assms, of ent]
      by (auto simp: built(2,5,7) new_crl_service_def new_est_handler_def cert_pem_def chain_inv_def
          new_worker_pool_def queue_depth_def)
  qed
qed

text \<open>A server in memory, with the sample hierarchy.\<close>

definition sample_boot :: "(nat, int) boot_env" where
  "sample_boot = \<lparr>be_crypto = ceremony_env, be_keys = sample_codec, be_ceremony = sample_ceremony, be_fs = good_fs,
     be_open_db = (\<lambda>_. Inl ''unable to open database file''), be_open_audit = (\<lambda>_. False), be_hash = length_hash,
     be_float = int_float64, be_audit_ent = replicate 16 7, be_audit_written = True, be_now = 1\<rparr>"

definition sample_config :: app_config where
  "sample_config = \<lparr>ac_listen_addr = [], ac_base_url = ''http://ca.dev/'', ac_data_dir = '':memory:'',
     ac_audit_writer = None, ac_skip_challenge_validation = True, ac_allow_internal_domains = False,
     ac_enable_swagger = False, ac_crl_interval = 0, ac_crl_validity = 0\<rparr>"

lemma sample_boot_ok: "\<forall>p db. be_open_db sample_boot p = Inr db \<longrightarrow> sqlite_inv db"
  by (simp add: sample_boot_def)

lemma sample_boot_backend:
  "boot_backend sample_boot (with_defaults sample_config) [] =
     (Inr (InMemory new_memory_storage, sample_ca, new_hsm_signer (Some 0) 15000000, Stdout, False), [])"
proof -
  have "new_authority ceremony_env years365 (\<lambda>_. hour) [] [] [] 0 = Inr sample_ca" by code_simp
  then show ?thesis
    by (simp add: boot_backend_def sample_boot_def sample_config_def sample_ceremony_def
        ceremony_env_def Let_def)
qed

lemma sample_boot_app: "\<exists>app. new_server_app sample_boot sample_config [] = (Inr app, []) \<and> sa_authority app = open_policy sample_config sample_ca"
proof -
  let ?cfg = "with_defaults sample_config"
  have o: "open_policy ?cfg sample_ca = open_policy sample_config sample_ca"
    by (simp only: open_policy_def with_defaults_same)
  obtain ev audit ent where "log_event (be_hash sample_boot) (be_audit_ent sample_boot) (be_now sample_boot)
      (be_audit_written sample_boot) ''KEY_ACCESS'' ''system''
      (nm_common_name (c_subject (au_intermediate_cert (open_policy sample_config sample_ca)))) ''SUCCESS''
      [(''root_subject'', nm_common_name (c_subject (au_root_cert (open_policy sample_config sample_ca)))),
       (''algorithm'', ''RSA-2048'')] (new_chain_logger True) = (ev, audit, ent)" by (metis prod_cases3)
  then show ?thesis
    by (simp add: new_server_app_def sample_boot_backend o Let_def new_hsm_signer_def new_crl_generator_def
        new_responder_def new_acme_server_def)
qed

theorem server_wired_witness:
  "\<exists>app. new_server_app sample_boot sample_config [] = (Inr app, []) \<and>
     engine_of (sa_authority app) = new_default_policy_engine\<lparr>pe_allow_internal_domains := True\<rparr> \<and>
     as_authority (sa_acme_server app) = sa_authority app \<and> verify_chain length_hash (sa_audit app) = None"
proof -
  obtain app where app: "new_server_app sample_boot sample_config [] = (Inr app, [])" using sample_boot_app by blast
  have c: "ac_skip_challenge_validation sample_config" "be_hash sample_boot = length_hash"
    by (simp_all add: sample_config_def sample_boot_def)
  show ?thesis
    by (intro exI [of _ app]) (use server_wired [OF app sample_boot_ok] app c in \<open>simp add: Let_def\<close>)
qed

section \<open>Which requests reach the OCSP responder\<close>

lemma ocsp_subtree_unmatched:
  assumes "has_prefix path ''/ocsp/''"
  shows "longest_match (mux_patterns cfg) path = None"
proof -
  obtain rest where path: "path = ''/ocsp/'' @ rest"
    using assms by (metis append_take_drop_id has_prefix_def)
  obtain x xs where rest: "split_on CHR ''/'' rest = x # xs" by (cases "split_on CHR ''/'' rest") auto
  have segs: "\<exists>y ys. url_segments path = [] # ''ocsp'' # y # ys"
    using rest by (simp add: path url_segments_def)
  show ?thesis
    using segs by (auto simp: longest_match_None mux_patterns_def pattern_matches_def has_suffix_def has_prefix_def)
qed

text \<open>
  The documented GET form of OCSP (RFC 5019, \<open>/ocsp/{base64 request}\<close>) is not served: the server
  registers the path \<open>/ocsp\<close> only, so every request below \<open>/ocsp/\<close> is answered 404, or redirected to its
  cleaned path, and never reaches the responder or changes anything. What the responder does get has
  the path \<open>/ocsp\<close> itself, so the request of a GET can only come from the query string.
\<close>

theorem ocsp_get_unrouted:
  "(has_prefix (rq_escaped_path r) ''/ocsp/'' \<longrightarrow>
     (\<exists>resp. serve_http env inp r l = (resp, l) \<and>
       (if rq_method r = ''CONNECT'' \<or> clean_url_path (rq_escaped_path r) = rq_escaped_path r
        then resp = PlainServed (not_found []) else \<exists>p. resp = Redirected p))) \<and>
   (mux_route (mux_patterns cfg) r = Dispatch OcspRoute \<longrightarrow> url_segments (rq_escaped_path r) = [[], ''ocsp''])"
proof (intro conjI impI)
  assume p: "has_prefix (rq_escaped_path r) ''/ocsp/''"
  let ?path = "if rq_method r = ''CONNECT'' then rq_escaped_path r else clean_url_path (rq_escaped_path r)"
  have "has_prefix (rq_escaped_path r @ ''/'') ''/ocsp/''"
    using p unfolding has_prefix_iff by force
  then have n: "longest_match (mux_patterns c) (rq_escaped_path r) = None"
      "longest_match (mux_patterns c) (rq_escaped_path r @ ''/'') = None" for c
    using ocsp_subtree_unmatched p by blast+
  show "\<exists>resp. serve_http env inp r l = (resp, l) \<and>
      (if rq_method r = ''CONNECT'' \<or> clean_url_path (rq_escaped_path r) = rq_escaped_path r
       then resp = PlainServed (not_found []) else \<exists>p. resp = Redirected p)"
    using n by (auto simp: serve_http_def mux_route_def Let_def exact_match_def)
next
  assume "mux_route (mux_patterns cfg) r = Dispatch OcspRoute"
  from mux_dispatch_matches [OF this]
  obtain pat where pat: "(pat, OcspRoute) \<in> set (mux_patterns cfg)" "pattern_matches pat (rq_escaped_path r)"
    by (elim exE conjE)
  have "pat = ''/ocsp''" using pat(1) by (simp add: mux_patterns_def split: if_splits)
  then show "url_segments (rq_escaped_path r) = [[], ''ocsp'']"
    using pat(2) by (simp add: pattern_matches_def has_suffix_def has_prefix_def)
qed

definition ocsp_get :: request where
  "ocsp_get = \<lparr>rq_method = ''GET'', rq_path = ''/ocsp/MEMwQTA'', rq_escaped_path = ''/ocsp/MEMwQTA'', rq_raw_query = [],
     rq_query = [], rq_headers = [], rq_body = Some [], rq_ctx = None\<rparr>"

theorem ocsp_get_unrouted_witness:
  "\<forall>env inp l. serve_http env inp ocsp_get l = (PlainServed (not_found []), l)"
proof -
  have "clean_url_path ''/ocsp/MEMwQTA'' = ''/ocsp/MEMwQTA''" by code_simp
  moreover have "has_prefix (rq_escaped_path ocsp_get) ''/ocsp/''" by (simp add: ocsp_get_def has_prefix_def)
  ultimately show ?thesis
    using ocsp_get_unrouted [of ocsp_get] by (auto simp: ocsp_get_def)
qed

section \<open>Revocation reaches everything\<close>

lemma handle_revoke_200:
  assumes "handle_revoke decode ops env now clk r s = (resp, s')" and "rs_status resp = 200"
  obtains ser reason where "Option.bind (rq_body r) decode = Some (ser, reason)" and
    "revoke_certificate ops s env clk (normalize_serial ser) reason now = (None, s')"
  using assms by (auto simp: handle_revoke_def Let_def split: if_splits option.splits prod.splits storage_error.splits)

lemma serve_revoke:
  assumes "serve_http env inp r l = (RevokeServed resp, l')"
  shows "handle_revoke (sv_revoke_json env) server_ops (si_call inp) (si_now inp) (si_clock inp) r (lv_store l) =
     (resp, lv_store l') \<and> lv_app l' = lv_app l"
  using assms
  by (auto simp: serve_http_def serve_route_def Let_def split: routed.splits route.splits prod.splits)

text \<open>
  C4. Revocation is final for the whole server: once the revocation API has answered 200 for a serial,
  then after any sequence of requests to any of the server's endpoints (ACME, EST, OCSP, further
  revocations and the rest, over either storage backend and with whatever failures of the driver) the
  OCSP responder never again answers \<open>good\<close> or \<open>unknown\<close> for that serial: it says \<open>revoked\<close>, with the
  recorded time and reason unless reading them fails, or reports a storage error. Every list of
  revocations read for a CRL has the serial with that reason.
\<close>

theorem revocation_final:
  assumes "serve_env_ok env" and "live_inv l" and "serve_inputs_ok inp" and "\<forall>(i, _) \<in> set rs. serve_inputs_ok i"
    and "serve_http env inp r l = (RevokeServed resp, l1)" and "rs_status resp = 200"
    and "Option.bind (rq_body r) (sv_revoke_json env) = Some (ser, reason)"
    and "normalize_serial (normalize_serial ser) = format_serial (Some serial)" and "0 < serial"
    and "serve_run env rs l1 = (resps, l2)" and "server_env_ok e1" and "server_env_ok e2"
  shows "ocsp_status_of (sa_ocsp_responder (lv_app l2)) (lv_store l2, e1) (lv_store l2, e2) serial \<in>
      {None, Some (Revoked, if si_now inp = 0 then si_clock inp else si_now inp, reason), Some (Revoked, 0, 0)} \<and>
    (\<forall>recs. list_revoked (cg_storage (cs_generator (sa_crl_service (lv_app l2)))) (lv_store l2) e1 = Inr recs \<longrightarrow>
      (\<exists>x \<in> set recs. rr_serial x = format_serial (Some serial) \<and> rr_reason x = reason))"
proof -
  note sr = serve_revoke [OF assms(5)]
  from sr have "revoke_certificate server_ops (lv_store l) (si_call inp) (si_clock inp) (normalize_serial ser) reason
      (si_now inp) = (None, lv_store l1)"
    using assms(6,7) by (auto elim: handle_revoke_200)
  note rv = this
  have i: "server_inv (lv_store l)" "server_env_ok (si_call inp)"
    using assms(2,3) by (simp_all add: live_inv_def serve_inputs_ok_def)
  have l1: "live_inv l1" using serve_http_run [OF assms(1,3,2,5)] by blast
  have run: "storage_run server_ops server_env_ok (lv_store l1) (lv_store l2)" "live_inv l2"
      "same_but_acme (lv_app l1) (lv_app l2)"
    using serve_run_run [OF assms(1) l1 assms(4,10)] by blast+
  then have h: "oh_storage (sa_ocsp_responder (lv_app l2)) = Some server_ops"
      "cg_storage (cs_generator (sa_crl_service (lv_app l2))) = server_ops" by (simp_all add: live_inv_def)
  show ?thesis
  proof (intro conjI allI impI)
    show "ocsp_status_of (sa_ocsp_responder (lv_app l2)) (lv_store l2, e1) (lv_store l2, e2) serial \<in>
      {None, Some (Revoked, if si_now inp = 0 then si_clock inp else si_now inp, reason), Some (Revoked, 0, 0)}"
      using server.revoked_status [OF i assms(11,12) rv assms(8) run(1) run_refl h(1) assms(9)] .
    fix recs assume "list_revoked (cg_storage (cs_generator (sa_crl_service (lv_app l2)))) (lv_store l2) e1 = Inr recs"
    then have "list_revoked server_ops (lv_store l2) e1 = Inr recs" using h(2) by simp
    from server.revoked_forever(4) [OF i assms(11) rv run(1) refl this]
    show "\<exists>x \<in> set recs. rr_serial x = format_serial (Some serial) \<and> rr_reason x = reason"
      by (simp add: assms(8))
  qed
qed

text \<open>The sample server over a database with the certificate \<open>1f\<close>, which is revoked, twice.\<close>

definition sample_serve :: "(nat, int) serve_env" where
  "sample_serve = \<lparr>sv_acme = sample_acme_env, sv_est = sample_est_env,
     sv_ocsp = \<lparr>oe_parse_request = (\<lambda>_. Some 31), oe_create_response = (\<lambda>_ _ _ _. Inr [1]),
       oe_sha256 = (\<lambda>_. []), oe_format_http_time = (\<lambda>_. ''t'')\<rparr>,
     sv_revoke_json = (\<lambda>_. Some (''0x1F'', 1)), sv_http_time = (\<lambda>_. ''t''), sv_float = int_float64,
     sv_open_api = [], sv_swagger_html = []\<rparr>"

definition sample_inputs :: serve_inputs where
  "sample_inputs = \<lparr>si_acme = sample_acme_inputs,
     si_est = \<lparr>ei_reserve = (\<lambda>_. (None, (None, calm), 7)), ei_save = (None, calm), ei_now = 7\<rparr>, si_answer = (\<lambda>_. None),
     si_call = (None, calm), si_call2 = (None, calm), si_now = 0, si_clock = 8\<rparr>"

definition api_revoke :: request where
  "api_revoke = revoke_request\<lparr>rq_path := ''/api/v1/revoke'', rq_escaped_path := ''/api/v1/revoke''\<rparr>"

lemma sample_serve_ok: "serve_env_ok sample_serve" "serve_inputs_ok sample_inputs"
  by (simp_all add: serve_env_ok_def sample_serve_def sample_acme_env_def serve_inputs_ok_def sample_inputs_def
      acme_inputs_ok_def sample_acme_inputs_def server_env_ok_def)

lemma revoke_routed:
  assumes "ac_enable_swagger cfg = False"
  shows "mux_route (mux_patterns cfg) api_revoke = Dispatch RevokeRoute"
proof -
  let ?pats = "mux_patterns sample_config"
  have "mux_patterns cfg = ?pats" using assms by (simp add: mux_patterns_def sample_config_def)
  moreover have "mux_route ?pats api_revoke = Dispatch RevokeRoute" by code_simp
  ultimately show ?thesis by simp
qed

lemma sample_revocation:
  "\<exists>resp. handle_revoke (sv_revoke_json sample_serve) server_ops (si_call sample_inputs) (si_now sample_inputs)
     (si_clock sample_inputs) api_revoke (OnDisk saved_db) = (resp, OnDisk revoked_db) \<and> rs_status resp = 200"
proof -
  have "normalize_serial ''0x1F'' = ''1f''" by code_simp
  then show ?thesis
    by (simp add: handle_revoke_def api_revoke_def revoke_request_def sample_serve_def sample_inputs_def revoked_db_step Let_def)
qed

text \<open>The first request: the certificate \<open>1f\<close> is revoked.\<close>

abbreviation saved_live :: "(nat, int) server_app \<Rightarrow> (nat, int) live" where
  "saved_live app \<equiv> \<lparr>lv_app = app, lv_store = OnDisk saved_db, lv_ent = []\<rparr>"

lemma sample_served:
  "\<exists>app resp. new_server_app sample_boot sample_config [] = (Inr app, []) \<and> live_inv (saved_live app) \<and>
     serve_http sample_serve sample_inputs api_revoke (saved_live app) =
       (RevokeServed resp, (saved_live app)\<lparr>lv_store := OnDisk revoked_db\<rparr>) \<and> rs_status resp = 200"
proof -
  obtain app where app: "new_server_app sample_boot sample_config [] = (Inr app, [])" using sample_boot_app by blast
  have "sqlite_inv saved_db" using sq.run_preserves [OF saved_run] by simp
  then have inv: "live_inv (saved_live app)" using live_inv_new [OF app sample_boot_ok, of "[]"] by (simp add: live_inv_def)
  have "sa_config app = with_defaults sample_config" using app by (cases rule: new_server_app_Inr)
  then have "ac_enable_swagger (sa_config app) = False" by (simp add: sample_config_def)
  note route = revoke_routed [OF this]
  obtain resp where h: "handle_revoke (sv_revoke_json sample_serve) server_ops (si_call sample_inputs) (si_now sample_inputs)
     (si_clock sample_inputs) api_revoke (OnDisk saved_db) = (resp, OnDisk revoked_db)" "rs_status resp = 200"
    using sample_revocation by blast
  have "serve_http sample_serve sample_inputs api_revoke (saved_live app) =
      (RevokeServed resp, (saved_live app)\<lparr>lv_store := OnDisk revoked_db\<rparr>)"
    by (simp add: serve_http_def route serve_route_def h)
  with app inv h(2) show ?thesis by blast
qed

lemma sample_revoked_serial:
  "normalize_serial (normalize_serial ''0x1F'') = format_serial (Some 31)"
  "Option.bind (rq_body api_revoke) (sv_revoke_json sample_serve) = Some (''0x1F'', 1)"
  "server_env_ok (None, calm)" "si_now sample_inputs = 0" "si_clock sample_inputs = 8"
proof -
  show "normalize_serial (normalize_serial ''0x1F'') = format_serial (Some 31)" unfolding format_31 by code_simp
qed (simp_all add: api_revoke_def revoke_request_def sample_serve_def server_env_ok_def sample_inputs_def)

theorem revocation_final_witness:
  "\<exists>app l1 l2 resp resps. new_server_app sample_boot sample_config [] = (Inr app, []) \<and>
     serve_http sample_serve sample_inputs api_revoke (saved_live app) = (RevokeServed resp, l1) \<and>
     serve_run sample_serve [(sample_inputs, ocsp_get), (sample_inputs, api_revoke)] l1 = (resps, l2) \<and>
     ocsp_status_of (sa_ocsp_responder (lv_app l2)) (lv_store l2, (None, calm)) (lv_store l2, (None, calm)) 31 \<in>
       {None, Some (Revoked, 8, 1), Some (Revoked, 0, 0)}"
proof -
  obtain app resp where app: "new_server_app sample_boot sample_config [] = (Inr app, [])" "live_inv (saved_live app)"
    and s: "serve_http sample_serve sample_inputs api_revoke (saved_live app) =
      (RevokeServed resp, (saved_live app)\<lparr>lv_store := OnDisk revoked_db\<rparr>)" "rs_status resp = 200"
    using sample_served by blast
  obtain resps l2 where rn: "serve_run sample_serve [(sample_inputs, ocsp_get), (sample_inputs, api_revoke)]
      ((saved_live app)\<lparr>lv_store := OnDisk revoked_db\<rparr>) = (resps, l2)" by fastforce
  have ok: "\<forall>(i, _) \<in> set [(sample_inputs, ocsp_get), (sample_inputs, api_revoke)]. serve_inputs_ok i"
    using sample_serve_ok(2) by simp
  note k = sample_revoked_serial
  show ?thesis
    using revocation_final [OF sample_serve_ok(1) app(2) sample_serve_ok(2) ok s k(2,1) _ rn k(3,3)] app(1) s(1) rn k(4,5) by auto
qed

end
