(* ===== verification/Server_Main.thy ===== *)
theory Server_Main
  imports Server_Properties
begin

text \<open>
  The life of the process (\<open>main\<close> of \<open>cmd/certa-server/main.go\<close>): boot, start, requests interleaved with
  the two background tickers, stop, and the report of the audit log. The signing pool works behind the
  EST requests, whose inputs carry its answers.
\<close>

section \<open>The process\<close>

record ('k, 'v) process =
  pr_running :: "('k, 'v) running"
  pr_store :: server_store
  pr_ent :: entropy

text \<open>A tick of the CRL service has the outcome of its database call and two readings of the clock.\<close>

datatype process_event =
    Incoming serve_inputs request
  | TelemetryTick
  | CrlTick call_env go_time go_time

fun process_step ::
  "('k, 'v) serve_env \<Rightarrow> 'k create_crl \<Rightarrow> process_event \<Rightarrow> ('k, 'v) process \<Rightarrow> served list \<times> ('k, 'v) process" where
  "process_step env create (Incoming inp r) p =
     (let rn = pr_running p;
          (resp, l) = serve_http env inp r \<lparr>lv_app = rn_app rn, lv_store = pr_store p, lv_ent = pr_ent p\<rparr>
      in ([resp], \<lparr>pr_running = rn\<lparr>rn_app := lv_app l\<rparr>, pr_store = lv_store l, pr_ent = lv_ent l\<rparr>))"
| "process_step env create TelemetryTick p =
     ([], p\<lparr>pr_running := telemetry_tick (sv_float env) (pr_running p)\<rparr>)"
| "process_step env create (CrlTick e now now2) p =
     (let rn = pr_running p; app = rn_app rn
      in ([], p\<lparr>pr_running := rn\<lparr>rn_app := app\<lparr>sa_crl_service :=
                ticker_round create (sa_crl_service app) (pr_store p) e now now2\<rparr>\<rparr>\<rparr>))"

fun process_run ::
  "('k, 'v) serve_env \<Rightarrow> 'k create_crl \<Rightarrow> process_event list \<Rightarrow> ('k, 'v) process \<Rightarrow> served list \<times> ('k, 'v) process" where
  "process_run env create [] p = ([], p)"
| "process_run env create (ev # evs) p =
     (let (resps, p) = process_step env create ev p; (resps', p) = process_run env create evs p
      in (resps @ resps', p))"

text \<open>What the process meets: the outcome of the initial CRL's database call and its clock readings, of
  \<open>ListenAndServe\<close>, of the shutdown and of the two \<open>Close\<close> calls.\<close>

record main_inputs =
  mn_start_call :: call_env
  mn_start_now :: go_time
  mn_start_now2 :: go_time
  mn_entropy :: entropy
  mn_listen :: "string option"
  mn_shutdown :: "stop_error option"
  mn_close_store :: "string option"
  mn_close_audit :: "string option"

text \<open>The ways it ends: a \<open>log.Fatalf\<close>, a start that hangs, or a shutdown with its answers, the error of
  \<open>Stop\<close> and the report.\<close>

datatype main_exit =
    BootFatal boot_error
  | StartFatal crl_error
  | ListenFatal string
  | Hung
  | Stopped "served list" "string option" "chain_error + nat"

definition server_main ::
  "('k, 'v) boot_env \<Rightarrow> ('k, 'v) serve_env \<Rightarrow> 'k create_crl \<Rightarrow> (string \<Rightarrow> string) \<Rightarrow> string list \<Rightarrow> main_inputs \<Rightarrow>
     process_event list \<Rightarrow> fs \<Rightarrow> main_exit \<times> fs" where
  "server_main be env create getenv args inp evs fs0 =
     (case new_server_app be (main_config getenv args) fs0 of
        (Inl e, fs) \<Rightarrow> (BootFatal e, fs)
      | (Inr app, fs) \<Rightarrow>
     (case start_app create (sa_storage app) (mn_start_call inp) (mn_start_now inp) (mn_start_now2 inp) (loaded_app app) of
        None \<Rightarrow> (Hung, fs)
      | Some (Some e, rn) \<Rightarrow> (StartFatal e, fs)
      | Some (None, rn) \<Rightarrow>
     (case mn_listen inp of
        Some e \<Rightarrow> (ListenFatal e, fs)
      | None \<Rightarrow>
          let (resps, p) = process_run env create evs
                \<lparr>pr_running = rn, pr_store = sa_storage app, pr_ent = mn_entropy inp\<rparr>;
              (err, rn) = stop_app (mn_shutdown inp) (mn_close_store inp) (mn_close_audit inp) (pr_running p)
          in (Stopped resps err (shutdown_report (be_hash be) rn), fs))))"

section \<open>What a step leaves alone\<close>

lemma same_but_acme_update [simp]: "same_but_acme a (a\<lparr>sa_acme_server := s\<rparr>)"
  by (auto simp: same_but_acme_def)

lemma serve_http_app: "serve_http env inp r l = (resp, l') \<Longrightarrow> same_but_acme (lv_app l) (lv_app l')"
  by (auto simp: serve_http_def serve_route_def Let_def split: routed.splits route.splits prod.splits)

text \<open>The CRL service has its CRL and, once ticked, hangs.\<close>

definition crl_settled :: "byte list \<Rightarrow> go_time \<Rightarrow> 'k server_crl \<Rightarrow> bool" where
  "crl_settled der t sv =
     (cs_cached_crl sv = der \<and> cs_last_generated sv = t \<and>
      (cs_ticker sv = Waiting \<or> (cs_ticker sv = BlockedOnMutex \<and> cg_locked (cs_generator sv))))"

lemma crl_settled_tick: "crl_settled der t sv \<Longrightarrow> crl_settled der t (ticker_round create sv s e now now2)"
proof (cases "cs_ticker sv = Waiting")
  case True
  then show "crl_settled der t sv \<Longrightarrow> ?thesis" by (simp add: ticker_round_first crl_settled_def)
next
  case False
  then show "crl_settled der t sv \<Longrightarrow> ?thesis" by (simp add: ticker_round_def)
qed

definition counters_at_zero :: "'v float64_ops \<Rightarrow> 'v registry \<Rightarrow> bool" where
  "counters_at_zero fl reg = (\<forall>name ls. get_counter fl name ls reg = fl_of_int fl 0)"

lemma counters_queue_depth: "counters_at_zero fl reg \<Longrightarrow> counters_at_zero fl (set_signing_queue_depth fl d reg)"
  by (simp add: counters_at_zero_def get_counter_def set_signing_queue_depth_def set_gauge_def Let_def)

text \<open>What holds of the running application whatever happens.\<close>

definition settled :: "'v float64_ops \<Rightarrow> byte list \<Rightarrow> go_time \<Rightarrow> ('k, 'v) server_app \<Rightarrow> ('k, 'v) server_app \<Rightarrow> bool" where
  "settled fl der t app0 app =
     (crl_settled der t (sa_crl_service app) \<and> sa_audit app = sa_audit app0 \<and> sa_config app = sa_config app0 \<and>
      sa_crl_max_age app = sa_crl_max_age app0 \<and> counters_at_zero fl (sa_telemetry app))"

lemma settled_step:
  assumes "settled (sv_float env) der t app0 (rn_app (pr_running p))" and "process_step env create ev p = (resps, q)"
  shows "settled (sv_float env) der t app0 (rn_app (pr_running q))"
proof (cases ev)
  case (Incoming inp r)
  let ?l = "\<lparr>lv_app = rn_app (pr_running p), lv_store = pr_store p, lv_ent = pr_ent p\<rparr>"
  obtain resp l where l: "serve_http env inp r ?l = (resp, l)" by fastforce
  have "same_but_acme (rn_app (pr_running p)) (lv_app l)" using serve_http_app [OF l] by simp
  then show ?thesis using assms Incoming l by (auto simp: settled_def same_but_acme_def)
next
  case TelemetryTick
  then show ?thesis using assms counters_queue_depth by (auto simp: settled_def telemetry_tick_def split: if_splits)
next
  case (CrlTick e now now2)
  have "crl_settled der t (sa_crl_service (rn_app (pr_running p)))" using assms(1) by (simp add: settled_def)
  from crl_settled_tick [OF this, of create "pr_store p" e now now2] show ?thesis using assms CrlTick by (auto simp: settled_def Let_def)
qed

lemma settled_run:
  "settled (sv_float env) der t app0 (rn_app (pr_running p)) \<Longrightarrow> process_run env create evs p = (resps, q) \<Longrightarrow>
     settled (sv_float env) der t app0 (rn_app (pr_running q))"
proof (induction evs arbitrary: p resps)
  case (Cons ev evs)
  obtain rs1 p1 where s: "process_step env create ev p = (rs1, p1)" by fastforce
  obtain rs2 p2 where r: "process_run env create evs p1 = (rs2, p2)" by fastforce
  have "p2 = q" using Cons.prems(2) s r by simp
  then show ?case using Cons.IH [OF settled_step [OF Cons.prems(1) s]] r by blast
qed simp

section \<open>From boot to serving\<close>

lemma new_crl_generator_unlocked: "new_crl_generator ic k st v = Inr g \<Longrightarrow> \<not> cg_locked g"
  by (auto simp: new_crl_generator_def split: option.splits)

text \<open>The audit log has the event of the boot, unless there was no randomness for its identifier.\<close>

lemma new_server_app_audit:
  assumes "new_server_app be cfg fs = (Inr app, fs')"
  shows "event_count (sa_audit app) = (if length (be_audit_ent be) < 16 then 0 else 1)"
    and "sa_telemetry app = new_registry (be_float be)"
  using assms
  by (auto simp: new_server_app_def Let_def log_event_def new_chain_logger_def event_count_def rand_read_def
      split: sum.splits prod.splits if_splits)

lemma started:
  assumes "new_server_app be cfg fs = (Inr app, fs')"
    and "start_app create (sa_storage app) e now now2 (loaded_app app) = Some (None, rn)"
  obtains recs entries der where
    "list_revoked server_ops (sa_storage app) e = Inr recs" "convert_records recs = Inr entries"
    "create \<lparr>rl_number = 1, rl_this_update = now - minute, rl_next_update = now + cg_validity (cs_generator (sa_crl_service app)),
       rl_entries = entries\<rparr> (au_intermediate_cert (sa_authority app)) (au_signer (sa_authority app)) = Inr der"
    "settled (be_float be) der now2 app (rn_app rn)" "rn_cancel_set rn"
proof -
  from assms(1) show thesis
  proof (cases rule: new_server_app_Inr)
    case (built auth crl_gen)
    let ?sv = "new_crl_service crl_gen (ac_crl_interval (with_defaults cfg))"
    let ?tmpl = "\<lambda>es. \<lparr>rl_number = 1, rl_this_update = now - minute, rl_next_update = now + cg_validity crl_gen, rl_entries = es\<rparr>"
    note g = new_crl_generator_Inr [OF built(4)] new_crl_generator_unlocked [OF built(4)]
    obtain recs entries der g' where
      l: "list_revoked server_ops (sa_storage app) e = Inr recs" "convert_records recs = Inr entries"
        "create (?tmpl entries) (cg_issuer_cert crl_gen) (cg_signer crl_gen) = Inr der"
      and rn: "rn_app rn = app\<lparr>sa_crl_service := ?sv\<lparr>cs_running := True, cs_stopped := False, cs_generator := g',
        cs_cached_crl := der, cs_last_generated := now2, cs_ticker := Waiting\<rparr>\<rparr>" "rn_cancel_set rn"
      using assms(2) g
      by (auto simp: start_app_def loaded_app_def built(5) start_service_def new_crl_service_def regenerate_def
          generate_crl_def generate_crl_locked_def Let_def split: option.splits sum.splits prod.splits if_splits)
    have "counters_at_zero (be_float be) (sa_telemetry app)"
      by (simp add: counters_at_zero_def new_server_app_audit(2) [OF assms(1)] get_counter_new)
    then have "settled (be_float be) der now2 app (rn_app rn)" by (simp add: settled_def rn crl_settled_def)
    moreover have "hs_key (sa_hsm_signer app) = Some (au_signer (sa_authority app))"
      using boot_backend_facts(2) [OF built(1)] by (simp add: built(3) open_policy_def)
    then have "cg_signer crl_gen = au_signer (sa_authority app)" "cg_issuer_cert crl_gen = au_intermediate_cert (sa_authority app)"
      using g by simp_all
    ultimately show thesis using that l rn(2) by (simp add: built(5) new_crl_service_def)
  qed
qed

lemma stop_app_audit: "sa_audit (rn_app (snd (stop_app a b c rn))) = sa_audit (rn_app rn)"
  by (simp add: stop_app_def Let_def split: server_store.splits prod.splits)

section \<open>What the process publishes\<close>

text \<open>
  C14. The CRL of a running server is never refreshed. Whatever requests and ticks follow a start, the
  CRL endpoint answers every GET with the list generated at the start: number 1, with the revocations
  the store had then and no others, so nothing revoked through the API while the server runs is on
  the list it publishes.
\<close>

theorem served_crl_frozen:
  assumes "new_server_app be cfg fs = (Inr app, fs')"
    and "start_app create (sa_storage app) e now now2 (loaded_app app) = Some (None, rn)"
    and "process_run env create evs \<lparr>pr_running = rn, pr_store = sa_storage app, pr_ent = ent\<rparr> = (resps, p)"
    and "sv_float env = be_float be"
  shows "\<exists>recs entries der. list_revoked server_ops (sa_storage app) e = Inr recs \<and> convert_records recs = Inr entries \<and>
    create \<lparr>rl_number = 1, rl_this_update = now - minute, rl_next_update = now + cg_validity (cs_generator (sa_crl_service app)),
      rl_entries = entries\<rparr> (au_intermediate_cert (sa_authority app)) (au_signer (sa_authority app)) = Inr der \<and>
    (\<forall>inp r resp q. mux_route (mux_patterns (sa_config app)) r = Dispatch CrlRoute \<and> rq_method r = ''GET'' \<and> der \<noteq> [] \<and>
       process_step env create (Incoming inp r) p = (resp, q) \<longrightarrow>
       (\<exists>reply. resp = [PlainServed reply] \<and> rs_status reply = 200 \<and> rs_body reply = Raw der))"
proof -
  obtain recs entries der where d: "list_revoked server_ops (sa_storage app) e = Inr recs" "convert_records recs = Inr entries"
    "create \<lparr>rl_number = 1, rl_this_update = now - minute, rl_next_update = now + cg_validity (cs_generator (sa_crl_service app)),
       rl_entries = entries\<rparr> (au_intermediate_cert (sa_authority app)) (au_signer (sa_authority app)) = Inr der"
    "settled (sv_float env) der now2 app (rn_app rn)"
    using started [OF assms(1,2)] unfolding assms(4) by metis
  have "settled (sv_float env) der now2 app (rn_app (pr_running p))" using settled_run [OF _ assms(3)] d(4) by simp
  then have s: "cs_cached_crl (sa_crl_service (rn_app (pr_running p))) = der" "sa_config (rn_app (pr_running p)) = sa_config app"
    by (simp_all add: settled_def crl_settled_def)
  have "\<exists>reply. resp = [PlainServed reply] \<and> rs_status reply = 200 \<and> rs_body reply = Raw der"
    if "mux_route (mux_patterns (sa_config app)) r = Dispatch CrlRoute" "rq_method r = ''GET''" "der \<noteq> []"
      "process_step env create (Incoming inp r) p = (resp, q)" for inp r resp q
    using that s by (auto simp: serve_http_def serve_route_def latest_crl_def crl_serve_http_def Let_def)
  with d show ?thesis by blast
qed

text \<open>
  C40. What the process reports. Whenever it ends by a shutdown, the audit chain verifies, but with a
  single event (that of the boot; none where its identifier could not be drawn): no request that was
  served, issuance and revocation included, left an event. In the same way every counter of the
  telemetry is still zero.
\<close>

theorem main_report:
  assumes "server_main be env create getenv args inp evs fs = (Stopped resps err report, fs')" and "sv_float env = be_float be"
  shows "report = Inr (if length (be_audit_ent be) < 16 then 0 else 1) \<and>
    (\<exists>app rn p. new_server_app be (main_config getenv args) fs = (Inr app, fs') \<and>
       start_app create (sa_storage app) (mn_start_call inp) (mn_start_now inp) (mn_start_now2 inp) (loaded_app app) = Some (None, rn) \<and>
       process_run env create evs \<lparr>pr_running = rn, pr_store = sa_storage app, pr_ent = mn_entropy inp\<rparr> = (resps, p) \<and>
       (\<forall>name ls. get_counter (be_float be) name ls (sa_telemetry (rn_app (pr_running p))) = fl_of_int (be_float be) 0))"
proof -
  obtain app fs1 where a: "new_server_app be (main_config getenv args) fs = (Inr app, fs1)"
    using assms(1) by (auto simp: server_main_def split: prod.splits sum.splits)
  obtain rn where r: "start_app create (sa_storage app) (mn_start_call inp) (mn_start_now inp) (mn_start_now2 inp) (loaded_app app)
      = Some (None, rn)"
    using assms(1) by (auto simp: server_main_def a split: prod.splits option.splits)
  obtain resps' p where p: "process_run env create evs \<lparr>pr_running = rn, pr_store = sa_storage app, pr_ent = mn_entropy inp\<rparr> = (resps', p)"
    by fastforce
  have fs: "fs1 = fs'" and rep: "report = shutdown_report (be_hash be)
      (snd (stop_app (mn_shutdown inp) (mn_close_store inp) (mn_close_audit inp) (pr_running p)))" and "resps' = resps"
    using assms(1) by (auto simp: server_main_def a r p Let_def split: option.splits prod.splits)
  obtain der where "settled (sv_float env) der (mn_start_now2 inp) app (rn_app rn)"
    using started [OF a r] unfolding assms(2) by metis
  from settled_run [OF _ p] this have s: "settled (sv_float env) der (mn_start_now2 inp) app (rn_app (pr_running p))" by simp
  have "chain_inv (be_hash be) (sa_audit app)" using a by (cases rule: new_server_app_Inr)
  then have "report = Inr (event_count (sa_audit app))"
    using s by (simp add: rep shutdown_report_def stop_app_audit settled_def chain_inv_def)
  then have rp: "report = Inr (if length (be_audit_ent be) < 16 then 0 else 1)"
    by (simp add: new_server_app_audit(1) [OF a])
  have z: "\<forall>name ls. get_counter (be_float be) name ls (sa_telemetry (rn_app (pr_running p))) = fl_of_int (be_float be) 0"
    using s by (simp add: settled_def counters_at_zero_def assms(2))
  show ?thesis using rp z a r p fs \<open>resps' = resps\<close> by blast
qed

section \<open>A process in memory\<close>

lemma memory_boot:
  assumes "ac_data_dir cfg = '':memory:''"
  shows "\<exists>app. new_server_app sample_boot cfg [] = (Inr app, []) \<and> sa_storage app = InMemory new_memory_storage"
proof -
  let ?cfg = "with_defaults cfg"
  have "new_authority ceremony_env years365 (\<lambda>_. hour) [] [] [] 0 = Inr sample_ca" by code_simp
  then obtain w where b: "boot_backend sample_boot ?cfg [] =
      (Inr (InMemory new_memory_storage, sample_ca, new_hsm_signer (Some 0) 15000000, w, False), [])"
    by (simp add: boot_backend_def sample_boot_def assms sample_ceremony_def ceremony_env_def Let_def)
  let ?a = "open_policy ?cfg sample_ca"
  obtain ev audit ent where "log_event (be_hash sample_boot) (be_audit_ent sample_boot) (be_now sample_boot)
      (be_audit_written sample_boot) ''KEY_ACCESS'' ''system'' (nm_common_name (c_subject (au_intermediate_cert ?a))) ''SUCCESS''
      [(''root_subject'', nm_common_name (c_subject (au_root_cert ?a))), (''algorithm'', ''RSA-2048'')]
      (new_chain_logger True) = (ev, audit, ent)" by (metis prod_cases3)
  then show ?thesis
    by (simp add: new_server_app_def b Let_def new_hsm_signer_def new_crl_generator_def new_responder_def new_acme_server_def)
qed

lemma memory_started:
  assumes "new_server_app sample_boot cfg [] = (Inr app, [])" and "sa_storage app = InMemory new_memory_storage"
  shows "\<exists>rn. start_app (\<lambda>t c k. Inr [1]) (sa_storage app) (None, calm) 5 6 (loaded_app app) = Some (None, rn)"
  using assms(1)
proof (cases rule: new_server_app_Inr)
  case (built auth crl_gen)
  have "list_revoked server_ops (InMemory new_memory_storage) (None, calm) = Inr []" by code_simp
  then show ?thesis
    using new_crl_generator_Inr [OF built(4)] new_crl_generator_unlocked [OF built(4)] assms(2)
    by (auto simp: start_app_def loaded_app_def built(5) start_service_def new_crl_service_def regenerate_def
        generate_crl_def generate_crl_locked_def Let_def split: prod.splits)
qed

definition crl_get :: request where
  "crl_get = ocsp_get\<lparr>rq_path := ''/crl/intermediate.crl'', rq_escaped_path := ''/crl/intermediate.crl''\<rparr>"

lemma sample_float: "sv_float sample_serve = be_float sample_boot"
  by (simp add: sample_serve_def sample_boot_def)

theorem served_crl_frozen_witness:
  "\<exists>app rn resps p reply q. new_server_app sample_boot sample_config [] = (Inr app, []) \<and>
     start_app (\<lambda>t c k. Inr [1]) (sa_storage app) (None, calm) 5 6 (loaded_app app) = Some (None, rn) \<and>
     process_run sample_serve (\<lambda>t c k. Inr [1]) [Incoming sample_inputs api_revoke, CrlTick (None, calm) 7 8]
       \<lparr>pr_running = rn, pr_store = sa_storage app, pr_ent = []\<rparr> = (resps, p) \<and>
     process_step sample_serve (\<lambda>t c k. Inr [1]) (Incoming sample_inputs crl_get) p = ([PlainServed reply], q) \<and>
     rs_body reply = Raw [1]"
proof -
  have "ac_data_dir sample_config = '':memory:''" by (simp add: sample_config_def)
  from memory_boot [OF this] obtain app where app: "new_server_app sample_boot sample_config [] = (Inr app, [])"
    "sa_storage app = InMemory new_memory_storage" by blast
  from memory_started [OF app] obtain rn where rn:
    "start_app (\<lambda>t c k. Inr [1]) (sa_storage app) (None, calm) 5 6 (loaded_app app) = Some (None, rn)" by blast
  obtain resps p where p: "process_run sample_serve (\<lambda>t c k. Inr [1]) [Incoming sample_inputs api_revoke, CrlTick (None, calm) 7 8]
       \<lparr>pr_running = rn, pr_store = sa_storage app, pr_ent = []\<rparr> = (resps, p)" by fastforce
  obtain resp q where q: "process_step sample_serve (\<lambda>t c k. Inr [1]) (Incoming sample_inputs crl_get) p = (resp, q)" by fastforce
  have "sa_config app = with_defaults sample_config" using app(1) by (cases rule: new_server_app_Inr)
  then have "mux_patterns (sa_config app) = mux_patterns sample_config"
    by (simp add: mux_patterns_def)
  moreover have "mux_route (mux_patterns sample_config) crl_get = Dispatch CrlRoute" by code_simp
  ultimately have m: "mux_route (mux_patterns (sa_config app)) crl_get = Dispatch CrlRoute" "rq_method crl_get = ''GET''"
    by (simp_all add: crl_get_def ocsp_get_def)
  obtain reply where "resp = [PlainServed reply]" "rs_body reply = Raw [1]"
    using served_crl_frozen [OF app(1) rn p sample_float] m q by fastforce
  then show ?thesis using app(1) rn p q by metis
qed

definition memory_env :: "string \<Rightarrow> string" where
  "memory_env k = (if k = ''CERTA_DATA_DIR'' then '':memory:'' else [])"

definition sample_main :: main_inputs where
  "sample_main = \<lparr>mn_start_call = (None, calm), mn_start_now = 5, mn_start_now2 = 6, mn_entropy = [], mn_listen = None,
     mn_shutdown = Some ServerClosed, mn_close_store = None, mn_close_audit = None\<rparr>"

theorem main_report_witness:
  "\<exists>resps err. server_main sample_boot sample_serve (\<lambda>t c k. Inr [1]) memory_env [''--skip-challenge-validation''] sample_main
     [Incoming sample_inputs api_revoke, TelemetryTick] [] = (Stopped resps err (Inr 1), [])"
proof -
  let ?cfg = "main_config memory_env [''--skip-challenge-validation'']"
  have "ac_data_dir ?cfg = '':memory:''" by (simp add: main_config_def memory_env_def Let_def)
  from memory_boot [OF this] obtain app where app: "new_server_app sample_boot ?cfg [] = (Inr app, [])"
    "sa_storage app = InMemory new_memory_storage" by blast
  from memory_started [OF app] obtain rn where rn:
    "start_app (\<lambda>t c k. Inr [1]) (sa_storage app) (None, calm) 5 6 (loaded_app app) = Some (None, rn)" by blast
  have i: "mn_start_call sample_main = (None, calm)" "mn_start_now sample_main = 5" "mn_start_now2 sample_main = 6"
    "mn_listen sample_main = None" by (simp_all add: sample_main_def)
  let ?evs = "[Incoming sample_inputs api_revoke, TelemetryTick]"
  obtain resps p where p: "process_run sample_serve (\<lambda>t c k. Inr [1]) ?evs
      \<lparr>pr_running = rn, pr_store = sa_storage app, pr_ent = mn_entropy sample_main\<rparr> = (resps, p)" by fastforce
  obtain err rn' where st: "stop_app (mn_shutdown sample_main) (mn_close_store sample_main) (mn_close_audit sample_main)
      (pr_running p) = (err, rn')" by fastforce
  have m: "server_main sample_boot sample_serve (\<lambda>t c k. Inr [1]) memory_env
      [''--skip-challenge-validation''] sample_main ?evs [] = (Stopped resps err (shutdown_report (be_hash sample_boot) rn'), [])"
    by (simp only: server_main_def app(1) rn i p st prod.case sum.case option.case Let_def)
  have "length (be_audit_ent sample_boot) = 16" by (simp add: sample_boot_def)
  then show ?thesis using main_report [OF m sample_float] m by (auto simp del: process_run.simps)
qed

end
