(* ===== verification/Server_Restart.thy ===== *)
theory Server_Restart
  imports Server_Main
begin

text \<open>
  The server on disk across a restart: the database file carries the revocations, so a new process, with
  whatever configuration, answers for them.
\<close>

text \<open>A server booted on a directory has the database of its file.\<close>

lemma booted_store:
  assumes "new_server_app be cfg fs = (Inr app, fs')" and "ac_data_dir cfg \<notin> {[], '':memory:''}"
    and "\<forall>path. be_open_db be path = new_sqlite_storage (open_failed path) (exec_failed path) (Some db)"
  shows "sa_storage app = OnDisk db"
  using assms(1)
proof (cases rule: new_server_app_Inr)
  case (built auth crl_gen)
  show ?thesis
    using boot_backend_facts(3) [OF built(1)] assms(2,3)
    by (auto simp: new_sqlite_storage_def split: option.splits)
qed

text \<open>
  C11. A revocation survives a restart. Once the revocation API of a server on disk has answered 200 for a
  serial, and after any further requests, any new process on that database file (with whatever
  configuration, environment and requests of its own) never answers \<open>good\<close> or \<open>unknown\<close> for the serial by
  OCSP, and the list of revocations it reads for its first CRL has it with the recorded reason.
\<close>

theorem revocation_survives_restart:
  assumes "serve_env_ok env" and "live_inv l" and "serve_inputs_ok inp" and "\<forall>(i, _) \<in> set rs. serve_inputs_ok i"
    and "serve_http env inp r l = (RevokeServed resp, l1)" and "rs_status resp = 200"
    and "Option.bind (rq_body r) (sv_revoke_json env) = Some (ser, reason)"
    and "normalize_serial (normalize_serial ser) = format_serial (Some serial)" and "0 < serial"
    and "serve_run env rs l1 = (resps, l2)" and "lv_store l2 = OnDisk db"
    and "\<forall>path. be_open_db be path = new_sqlite_storage (open_failed path) (exec_failed path) (Some db)"
    and "new_server_app be cfg fs = (Inr app, fs')" and "ac_data_dir cfg \<notin> {[], '':memory:''}"
    and "serve_env_ok env'" and "\<forall>(i, _) \<in> set rs'. serve_inputs_ok i"
    and "serve_run env' rs' \<lparr>lv_app = app, lv_store = sa_storage app, lv_ent = ent\<rparr> = (resps', l3)"
    and "server_env_ok e1" and "server_env_ok e2"
  shows "ocsp_status_of (sa_ocsp_responder (lv_app l3)) (lv_store l3, e1) (lv_store l3, e2) serial \<in>
      {None, Some (Revoked, if si_now inp = 0 then si_clock inp else si_now inp, reason), Some (Revoked, 0, 0)} \<and>
    (\<forall>recs. list_revoked server_ops (sa_storage app) e1 = Inr recs \<longrightarrow>
      (\<exists>x \<in> set recs. rr_serial x = format_serial (Some serial) \<and> rr_reason x = reason))"
proof -
  note sr = serve_revoke [OF assms(5)]
  from sr have rv: "revoke_certificate server_ops (lv_store l) (si_call inp) (si_clock inp) (normalize_serial ser) reason
      (si_now inp) = (None, lv_store l1)"
    using assms(6,7) by (auto elim: handle_revoke_200)
  have i: "server_inv (lv_store l)" "server_env_ok (si_call inp)"
    using assms(2,3) by (simp_all add: live_inv_def serve_inputs_ok_def)
  have l1: "live_inv l1" using serve_http_run [OF assms(1,3,2,5)] by blast
  have run1: "storage_run server_ops server_env_ok (lv_store l1) (OnDisk db)" "live_inv l2"
    using serve_run_run [OF assms(1) l1 assms(4,10)] assms(11) by simp_all
  note st = booted_store [OF assms(13,14,12)]
  have "sqlite_inv db" using run1(2) assms(11) by (simp add: live_inv_def)
  then have "\<forall>p d. be_open_db be p = Inr d \<longrightarrow> sqlite_inv d"
    using assms(12) by (auto simp: new_sqlite_storage_def split: option.splits)
  from live_inv_new [OF assms(13) this] have new: "live_inv \<lparr>lv_app = app, lv_store = sa_storage app, lv_ent = ent\<rparr>" .
  have run2: "storage_run server_ops server_env_ok (OnDisk db) (lv_store l3)" "live_inv l3"
    using serve_run_run [OF assms(15) new assms(16,17)] st by simp_all
  then have h: "oh_storage (sa_ocsp_responder (lv_app l3)) = Some server_ops" by (simp add: live_inv_def)
  show ?thesis
  proof (intro conjI allI impI)
    show "ocsp_status_of (sa_ocsp_responder (lv_app l3)) (lv_store l3, e1) (lv_store l3, e2) serial \<in>
      {None, Some (Revoked, if si_now inp = 0 then si_clock inp else si_now inp, reason), Some (Revoked, 0, 0)}"
      using server.revoked_status [OF i assms(18,19) rv assms(8) storage_run_trans [OF run2(1) run1(1)] run_refl h assms(9)] .
    fix recs assume "list_revoked server_ops (sa_storage app) e1 = Inr recs"
    from server.revoked_forever(4) [OF i assms(18) rv run1(1) refl this [unfolded st]]
    show "\<exists>x \<in> set recs. rr_serial x = format_serial (Some serial) \<and> rr_reason x = reason"
      by (simp add: assms(8))
  qed
qed

text \<open>The sample database after its revocation, under a server started on the directory \<open>data\<close>.\<close>

definition disk_boot :: "(nat, int) boot_env" where
  "disk_boot = sample_boot\<lparr>be_open_db := (\<lambda>_. new_sqlite_storage None None (Some revoked_db))\<rparr>"

definition disk_config :: app_config where
  "disk_config = sample_config\<lparr>ac_data_dir := ''data''\<rparr>"

lemma disk_booted: "\<exists>app fs. new_server_app disk_boot disk_config [] = (Inr app, fs)"
proof -
  let ?cfg = "with_defaults disk_config"
  have dir: "ac_data_dir disk_config = ''data''" "ac_audit_writer disk_config = None"
    by (simp_all add: disk_config_def sample_config_def)
  have e: "be_crypto disk_boot = ceremony_env" "be_keys disk_boot = sample_codec" "be_ceremony disk_boot = sample_ceremony"
    "be_fs disk_boot = good_fs" "be_open_db disk_boot p = Inr revoked_db" "fe_mkdir good_fs d = None"
    "be_open_audit disk_boot p = False" for p d
    by (simp_all add: disk_boot_def sample_boot_def new_sqlite_storage_def good_fs_def)
  obtain fs where fs: "load_or_initialize_authority ceremony_env sample_codec sample_ceremony good_fs [] ''data'' 15000000 =
      (Inr (sample_ca, new_hsm_signer (Some 0) 15000000), fs)"
    using sample_first_start [of 15000000] by blast
  have b: "boot_backend disk_boot ?cfg [] = (Inr (OnDisk revoked_db, sample_ca, new_hsm_signer (Some 0) 15000000, Stdout, False), fs)"
    by (simp add: boot_backend_def dir e fs Let_def)
  let ?a = "open_policy ?cfg sample_ca"
  obtain ev audit ent where "log_event (be_hash disk_boot) (be_audit_ent disk_boot) (be_now disk_boot)
      (be_audit_written disk_boot) ''KEY_ACCESS'' ''system'' (nm_common_name (c_subject (au_intermediate_cert ?a))) ''SUCCESS''
      [(''root_subject'', nm_common_name (c_subject (au_root_cert ?a))), (''algorithm'', ''RSA-2048'')]
      (new_chain_logger True) = (ev, audit, ent)" by (metis prod_cases3)
  then show ?thesis
    by (simp add: new_server_app_def b Let_def new_hsm_signer_def new_crl_generator_def new_responder_def new_acme_server_def)
qed

theorem revocation_survives_restart_witness:
  "\<exists>app fs resps l3. new_server_app disk_boot disk_config [] = (Inr app, fs) \<and>
     serve_run sample_serve [(sample_inputs, ocsp_get)] \<lparr>lv_app = app, lv_store = sa_storage app, lv_ent = []\<rparr> = (resps, l3) \<and>
     ocsp_status_of (sa_ocsp_responder (lv_app l3)) (lv_store l3, (None, calm)) (lv_store l3, (None, calm)) 31 \<in>
       {None, Some (Revoked, 8, 1), Some (Revoked, 0, 0)}"
proof -
  obtain app resp where app: "live_inv (saved_live app)"
    and s: "serve_http sample_serve sample_inputs api_revoke (saved_live app) =
      (RevokeServed resp, (saved_live app)\<lparr>lv_store := OnDisk revoked_db\<rparr>)" "rs_status resp = 200"
    using sample_served by blast
  let ?l = "(saved_live app)\<lparr>lv_store := OnDisk revoked_db\<rparr>"
  have none: "\<forall>(i, _) \<in> set []. serve_inputs_ok i" "serve_run sample_serve [] ?l = ([], ?l)" "lv_store ?l = OnDisk revoked_db"
    by simp_all
  have db: "\<forall>path. be_open_db disk_boot path = new_sqlite_storage ((\<lambda>_. None) path) ((\<lambda>_. None) path) (Some revoked_db)"
    by (simp add: disk_boot_def)
  obtain app2 fs where app2: "new_server_app disk_boot disk_config [] = (Inr app2, fs)" using disk_booted by blast
  have dir: "ac_data_dir disk_config \<notin> {[], '':memory:''}" by (simp add: disk_config_def)
  obtain resps l3 where rn: "serve_run sample_serve [(sample_inputs, ocsp_get)]
      \<lparr>lv_app = app2, lv_store = sa_storage app2, lv_ent = []\<rparr> = (resps, l3)" by fastforce
  have ok: "\<forall>(i, _) \<in> set [(sample_inputs, ocsp_get)]. serve_inputs_ok i" using sample_serve_ok(2) by simp
  note k = sample_revoked_serial
  show ?thesis
    using revocation_survives_restart [OF sample_serve_ok(1) app sample_serve_ok(2) none(1) s k(2,1) _ none(2,3) db app2 dir
        sample_serve_ok(1) ok rn k(3,3)] app2 rn k(4,5) by auto
qed

end
