(* ===== verification/Acme_Replay.thy ===== *)
theory Acme_Replay
  imports Acme_Safety
begin

text \<open>
  Where the nonces of the ACME server come from: after any sequence of requests the outstanding nonces
  are old ones or were drawn from the entropy the server consumed. So a nonce that was used up stays
  used up, and a signed request cannot be replayed, as long as the entropy does not repeat itself.
\<close>

text \<open>The nonces that can be drawn from a stretch of entropy.\<close>

definition drawable :: "entropy \<Rightarrow> string set" where
  "drawable ent = {b64_raw_encode b64_url (take 16 (drop k ent)) | k. k + 16 \<le> length ent}"

lemma drawable_drop: "drawable (drop k ent) \<subseteq> drawable ent"
proof
  fix n assume "n \<in> drawable (drop k ent)"
  then obtain j where "n = b64_raw_encode b64_url (take 16 (drop j (drop k ent)))" "j + 16 \<le> length (drop k ent)"
    by (auto simp: drawable_def)
  then show "n \<in> drawable ent" unfolding drawable_def by (intro CollectI exI [of _ "j + k"]) auto
qed

definition suffix_of :: "entropy \<Rightarrow> entropy \<Rightarrow> bool" where
  "suffix_of e' e = (\<exists>k. e' = drop k e)"

lemma suffix_of_refl [simp]: "suffix_of e e"
  unfolding suffix_of_def by (rule exI [of _ 0]) simp

lemma suffix_of_trans: "suffix_of c b \<Longrightarrow> suffix_of b a \<Longrightarrow> suffix_of c a"
  unfolding suffix_of_def by (metis drop_drop)

lemma suffix_of_drawable: "suffix_of e' e \<Longrightarrow> drawable e' \<subseteq> drawable e"
  using drawable_drop by (auto simp: suffix_of_def)

lemma rand_read_suffix: "rand_read n e = Some (b, e') \<Longrightarrow> suffix_of e' e"
  by (auto simp: rand_read_def suffix_of_def split: if_splits)

section \<open>Serial numbers consume entropy\<close>

lemma draw_positive_suffix: "draw_positive bits ent = (r, ent') \<Longrightarrow> suffix_of ent' ent"
proof (induction bits ent arbitrary: r ent' rule: draw_positive.induct)
  case (1 bits ent)
  show ?case
  proof (cases "rand_int_pow2 bits ent")
    case None
    then show ?thesis using "1.prems" by (auto simp: draw_positive.simps [of bits ent] split: if_splits)
  next
    case (Some p)
    obtain m e1 where p: "p = (m, e1)" by fastforce
    have s: "suffix_of e1 ent"
      using Some by (auto simp: p rand_int_pow2_def Let_def split: option.splits dest: rand_read_suffix)
    show ?thesis
    proof (cases "bits \<noteq> 0 \<and> \<not> 0 < m")
      case True
      then have "draw_positive bits e1 = (r, ent')"
        using "1.prems" Some p by (auto simp: draw_positive.simps [of bits ent])
      then have "suffix_of ent' e1" using "1.IH" [OF _ Some [unfolded p] refl] True by blast
      then show ?thesis using s suffix_of_trans by blast
    next
      case False
      then show ?thesis using "1.prems" Some p s by (auto simp: draw_positive.simps [of bits ent] split: if_splits)
    qed
  qed
qed

lemma reserve_attempts_suffix: "reserve_attempts ops bits envs s ent = (r, s', ent') \<Longrightarrow> suffix_of ent' ent"
proof (induction envs arbitrary: s ent)
  case (Cons x envs)
  obtain c env now where x: "x = (c, env, now)" by (cases x) auto
  obtain g ent1 where g: "generate_serial_with_bits bits ent = (g, ent1)" by fastforce
  have s: "suffix_of ent1 ent"
    using g draw_positive_suffix by (auto simp: generate_serial_with_bits_def split: if_splits)
  have "ent' = ent \<or> ent' = ent1 \<or> (\<exists>t. reserve_attempts ops bits envs t ent1 = (r, s', ent'))"
    using Cons.prems g
    by (auto simp: x Let_def split: option.splits sum.splits prod.splits storage_error.splits)
  then show ?case using s Cons.IH suffix_of_trans suffix_of_refl by metis
qed simp

lemma reserve_suffix: "generate_and_reserve_serial st envs s ent = (r, s', ent') \<Longrightarrow> suffix_of ent' ent"
  using reserve_attempts_suffix
  by (fastforce simp: generate_and_reserve_serial_def generate_and_reserve_serial_with_bits_def
      split: option.splits)

section \<open>What a handler does to the nonces\<close>

definition drew :: "('k, 's) world \<Rightarrow> ('k, 's) world \<Rightarrow> bool" where
  "drew w w' =
     (suffix_of (w_ent w') (w_ent w) \<and>
      known (as_nonces (w_srv w')) \<subseteq> known (as_nonces (w_srv w)) \<union> drawable (w_ent w))"

lemma drew_trans: "drew a b \<Longrightarrow> drew b c \<Longrightarrow> drew a c"
  unfolding drew_def using suffix_of_trans suffix_of_drawable by blast

text \<open>Neither nonces nor entropy touched.\<close>

lemma drew_same: "as_nonces (w_srv w') = as_nonces (w_srv w) \<Longrightarrow> w_ent w' = w_ent w \<Longrightarrow> drew w w'"
  by (simp add: drew_def)

lemma drew_refl [simp]: "drew w w"
  by (simp add: drew_same)

lemma drew_add_nonce: "drew w (add_nonce_header now w)"
proof (cases "rand_read 16 (w_ent w)")
  case (Some p)
  then have "b64_raw_encode b64_url (fst p) \<in> drawable (w_ent w)"
    by (auto simp: rand_read_def drawable_def split: if_splits intro!: exI [of _ 0])
  then show ?thesis
    using Some rand_read_suffix
    by (cases p) (auto simp: drew_def add_nonce_header_def generate_nonce_def known_iff set_hdr_def Let_def
        split: if_splits)
qed (simp add: drew_def add_nonce_header_def generate_nonce_def)

lemma drew_set_hdr: "drew w (set_hdr k v w)"
  by (simp add: drew_same)

lemma drew_write_problem: "drew w (snd (write_problem now p w))"
  using drew_trans [OF drew_set_hdr drew_add_nonce] by (simp add: write_problem_def)

lemma drew_plain: "drew w (snd (plain_error m c w))" "drew w (snd (wrong_method a w))"
  by (simp_all add: wrong_method_def drew_set_hdr)

lemma drew_random_id: "random_id pre w = (i, w') \<Longrightarrow> drew w w'"
  using rand_read_suffix
  by (auto simp: random_id_def drew_def split: option.splits prod.splits)

lemma drew_reply: "drew w w' \<Longrightarrow> drew w (snd (reply c b w'))"
  by simp

text \<open>A verified request's nonce was outstanding; consuming it adds none.\<close>

lemma drew_verify: "verify_jws env inp r w = (res, w') \<Longrightarrow> drew w w'"
proof -
  have wp: "drew u v" if "write_problem now p u = (q, v)" for now p u q v
    using drew_write_problem [of u now p] that by simp
  have cons: "drew w (w\<lparr>w_srv := (w_srv w)\<lparr>as_nonces := snd (validate_and_consume_nonce now n (as_nonces (w_srv w)))\<rparr>\<rparr>)"
    for now n
    by (auto simp: drew_def validate_and_consume_nonce_def known_iff split: option.splits if_splits)
  have "drew w (add_nonce_header now' (w\<lparr>w_srv := (w_srv w)\<lparr>as_nonces := snd (validate_and_consume_nonce now n (as_nonces (w_srv w)))\<rparr>\<rparr>))"
    for now now' n
    using drew_trans [OF cons drew_add_nonce] .
  then show "verify_jws env inp r w = (res, w') \<Longrightarrow> drew w w'"
    unfolding verify_jws_def Let_def
    by (auto split: option.splits sum.splits prod.splits if_splits dest!: wp) (metis drew_trans snd_conv)+
qed

section \<open>Every handler\<close>

lemma drew_verified:
  assumes "\<And>jws w1. verify_jws env inp r w = (Inr jws, w1) \<Longrightarrow> drew w1 (snd (k jws w1))"
  shows "drew w (snd (case verify_jws env inp r w of (Inl resp, w) \<Rightarrow> (resp, w) | (Inr jws, w) \<Rightarrow> k jws w))"
proof -
  obtain res w1 where v: "verify_jws env inp r w = (res, w1)" by fastforce
  have d: "drew w w1" using drew_verify [OF v] .
  show ?thesis
  proof (cases res)
    case (Inr jws)
    then have "drew w1 (snd (k jws w1))" using assms v by simp
    then show ?thesis using v Inr d drew_trans by auto
  qed (use v d in simp)
qed

lemma drew_authenticated:
  assumes "\<And>w. drew w (snd (k w))"
  shows "drew w (snd (authenticated env inp r w k))"
  using drew_verified [of env inp r w "\<lambda>_. k"] assms by (simp add: authenticated_def)

lemma drew_directory: "drew w (snd (handle_directory r w))"
  by (simp add: handle_directory_def Let_def drew_plain drew_set_hdr)

lemma drew_new_nonce: "drew w (snd (handle_new_nonce inp r w))"
  by (simp add: handle_new_nonce_def drew_plain drew_trans [OF drew_set_hdr drew_add_nonce])

text \<open>An answer after changes to the server's other maps.\<close>

lemma drew_answer:
  "drew w w1 \<Longrightarrow> as_nonces s = as_nonces (w_srv w1) \<Longrightarrow> drew w (w1\<lparr>w_srv := s\<rparr>)"
  using drew_trans [of w w1] drew_same [of "w1\<lparr>w_srv := s\<rparr>" w1] by simp

lemma drew_then_hdr: "drew w w1 \<Longrightarrow> drew w (set_hdr k v w1)"
  using drew_trans drew_set_hdr by blast

lemma drew_store_account:
  assumes "random_id p w = (i, w1)"
  shows "drew w (w1\<lparr>w_srv := (w_srv w1)\<lparr>as_accounts := x, as_accounts_by_thumb := y\<rparr>\<rparr>)"
  by (rule drew_answer [OF drew_random_id [OF assms]]) simp

lemma drew_new_account: "drew w (snd (handle_new_account env inp r w))"
proof (cases "rq_method r = ''POST''")
  case True
  then show ?thesis
    unfolding handle_new_account_def
    by (simp only: not_True_eq_False simp_thms if_False) (rule drew_verified;
      auto simp: Let_def reply_account_def panicked_def drew_write_problem
        intro!: drew_then_hdr drew_store_account split: option.splits sum.splits prod.splits go_call.splits)
qed (simp add: handle_new_account_def drew_plain)

lemma drew_account: "drew w (snd (handle_account env inp r i w))"
  unfolding handle_account_def
  by (rule drew_authenticated) (auto simp: drew_write_problem intro!: drew_then_hdr split: option.splits)

lemma drew_create_authzs: "create_authzs env now a o_id ids w = (urls, w') \<Longrightarrow> drew w w'"
proof (induction ids arbitrary: w urls w')
  case (Cons ident ids)
  obtain ai w1 where r1: "random_id ''authz'' w = (ai, w1)" by fastforce
  obtain ci w2 where r2: "random_id ''chal'' w1 = (ci, w2)" by fastforce
  obtain ti w3 where r3: "random_id ''token'' w2 = (ti, w3)" by fastforce
  have d: "drew w w3" using drew_random_id [OF r1] drew_random_id [OF r2] drew_random_id [OF r3] drew_trans by blast
  obtain s us where s: "create_authzs env now a o_id ids (w3\<lparr>w_srv := s\<rparr>) = (us, w')" "as_nonces s = as_nonces (w_srv w3)"
    using Cons.prems by (auto simp: r1 r2 r3 Let_def split: prod.splits)
  show ?case using drew_trans [OF drew_answer [OF d s(2)] Cons.IH [OF s(1)]] .
qed simp

lemma drew_new_order: "drew w (snd (handle_new_order env inp r w))"
proof (cases "rq_method r = ''POST''")
  case True
  have "drew w1 (snd (place_order env inp h ids w1))" for w1 :: "('a, 'b) world" and h ids
  proof -
    obtain oid w2 where r: "random_id ''order'' w1 = (oid, w2)" by fastforce
    let ?a = "trim_prefix (jh_kid h) (as_base_url (w_srv w1) @ ''/acme/acct/'')"
    obtain urls w3 where c: "create_authzs env (ai_now inp) ?a oid ids w2 = (urls, w3)" by fastforce
    have d: "drew w1 w3" using drew_trans [OF drew_random_id [OF r] drew_create_authzs [OF c]] .
    show ?thesis by (simp add: place_order_def Let_def r c) (intro drew_then_hdr drew_answer [OF d], simp)
  qed
  then show ?thesis
    unfolding handle_new_order_def using True
    by simp (rule drew_verified; auto simp: drew_write_problem split: option.splits list.splits)
qed (simp add: handle_new_order_def drew_plain)

lemma drew_get_order: "drew w (snd (handle_get_order env inp r i w))"
  unfolding handle_get_order_def
  by (rule drew_authenticated)
    (auto simp: Let_def drew_write_problem intro!: drew_then_hdr drew_answer split: option.splits)

lemma drew_get_authz: "drew w (snd (handle_get_authz env inp r i w))"
  unfolding handle_get_authz_def
  by (rule drew_authenticated) (auto simp: drew_write_problem intro!: drew_then_hdr split: option.splits)

lemma accept_challenge_nonces [simp]: "as_nonces (accept_challenge fmt now ref authz chal s) = as_nonces s"
  by (simp add: accept_challenge_def Let_def split: option.splits)

lemma drew_challenge: "drew w (snd (handle_challenge env inp r i w))"
proof -
  have "drew w (snd (answer_challenge env inp r i w))" for w :: "('a, 'b) world"
    by (auto simp: answer_challenge_def Let_def drew_write_problem panicked_def intro!: drew_then_hdr drew_answer
        split: option.splits)
  then show ?thesis by (simp add: handle_challenge_def drew_plain drew_authenticated)
qed

lemma drew_get_certificate: "drew w (snd (handle_get_certificate env inp r i w))"
  unfolding handle_get_certificate_def
  by (rule drew_authenticated) (auto intro!: drew_then_hdr split: option.splits)

lemma drew_issue: "drew w (snd (issue_for_order env inp oid ord csr w))"
proof -
  obtain g st ent where g: "generate_and_reserve_serial (Some (ae_storage env)) (ai_reserve inp) (w_store w) (w_ent w) = (g, st, ent)"
    by (metis prod_cases3)
  let ?w = "w\<lparr>w_store := st, w_ent := ent\<rparr>"
  have d: "drew w ?w" using reserve_suffix [OF g] by (simp add: drew_def)
  have p: "drew w (snd (write_problem now q ?w))" for now q using drew_trans [OF d drew_write_problem] .
  obtain cid w1 where r: "random_id ''cert'' ?w = (cid, w1)" by fastforce
  have d1: "drew w w1" using drew_trans [OF d drew_random_id [OF r]] .
  have d2: "drew w (w1\<lparr>w_srv := s, w_store := t\<rparr>)" if "as_nonces s = as_nonces (w_srv w1)" for s t
    using drew_trans [OF d1, of "w1\<lparr>w_srv := s, w_store := t\<rparr>"] drew_same [of "w1\<lparr>w_srv := s, w_store := t\<rparr>" w1] that by simp
  show ?thesis
    by (auto simp: issue_for_order_def g r Let_def p split: sum.splits prod.splits intro!: drew_then_hdr d2)
qed

lemma drew_finalize: "drew w (snd (handle_finalize_order env inp r oid w))"
proof -
  have "drew w (snd (finalize_order env inp pl oid w))" for pl and w :: "('a, 'b) world"
    by (auto simp: finalize_order_def drew_write_problem drew_issue split: option.splits list.splits)
  then show ?thesis
    unfolding handle_finalize_order_def by (simp add: drew_plain) (intro impI drew_verified, simp)
qed

lemma drew_serve: "drew w (snd (acme_serve_http env inp r w))"
proof -
  define v where "v = (if rq_method r = ''POST'' then add_nonce_header (ai_now inp) w else w)"
  have "drew v (snd (acme_serve_http env inp r w))"
    unfolding acme_serve_http_def Let_def v_def [symmetric]
    by (simp add: drew_directory drew_new_nonce drew_new_account drew_new_order drew_finalize drew_get_order
        drew_get_authz drew_challenge drew_get_certificate drew_account)
  moreover have "drew w v" by (simp add: v_def drew_add_nonce)
  ultimately show ?thesis using drew_trans by blast
qed

lemma drew_run: "acme_run env rs w = (resps, w') \<Longrightarrow> drew w w'"
proof (induction rs arbitrary: w resps)
  case (Cons x rs)
  obtain inp r where x: "x = (inp, r)" by fastforce
  obtain resp w1 where h: "acme_serve_http env inp r (w\<lparr>w_hs := []\<rparr>) = (resp, w1)" by fastforce
  obtain resps1 where "acme_run env rs w1 = (resps1, w')"
    using Cons.prems h by (auto simp: x split: prod.splits)
  from Cons.IH [OF this] have "drew w1 w'" .
  moreover have "drew w (w\<lparr>w_hs := []\<rparr>)" by (simp add: drew_same)
  moreover have "drew (w\<lparr>w_hs := []\<rparr>) w1" using drew_serve [of "w\<lparr>w_hs := []\<rparr>" env inp r] h by simp
  ultimately show ?case using drew_trans by blast
qed simp

section \<open>No replay\<close>

text \<open>What was accepted once, and is not drawn again, is refused after any further requests.\<close>

lemma consumed_stays:
  assumes "verify_jws env inp r w = (Inr jws, w1)" and "jh_nonce (pj_header jws) \<notin> drawable (w_ent w)"
    and "acme_run env rs w1 = (resps, w2)"
  shows "jh_nonce (pj_header jws) \<notin> known (as_nonces (w_srv w2))"
proof -
  let ?n = "jh_nonce (pj_header jws)" and ?t = "ai_now inp"
  let ?m = "snd (validate_and_consume_nonce ?t ?n (as_nonces (w_srv w)))"
  have t: "fst (validate_and_consume_nonce ?t ?n (as_nonces (w_srv w)))"
    and w1: "w1 = add_nonce_header ?t (w\<lparr>w_srv := (w_srv w)\<lparr>as_nonces := ?m\<rparr>\<rparr>)"
    using assms(1)
    by (auto simp: verify_jws_def Let_def split: option.splits sum.splits prod.splits if_splits)
  have "?n \<noteq> []" using t by (auto simp: validate_and_consume_nonce_def)
  then have n: "?n \<notin> known ?m" using validate_consumes by blast
  let ?w = "w\<lparr>w_srv := (w_srv w)\<lparr>as_nonces := ?m\<rparr>\<rparr>"
  have "drew ?w w2" using drew_trans [OF drew_add_nonce [of ?w ?t, folded w1] drew_run [OF assms(3)]] .
  then show ?thesis using n assms(2) by (auto simp: drew_def)
qed

lemma unknown_nonce_refused:
  assumes "decode_and_verify_jws (ae_jws env) b (Some (lookup_key (w_srv w))) = Inr jws" and "rq_body r = Some b"
    and "jh_nonce (pj_header jws) \<notin> known (as_nonces (w_srv w))"
  shows "\<exists>resp w'. verify_jws env inp r w = (Inl resp, w') \<and> rs_status resp = 400 \<and>
    rs_body resp = Json (ProblemJson (problem ProblemBadNonce (Detail ''replay nonce invalid or expired'') 400))"
proof -
  obtain ok m where v: "validate_and_consume_nonce (ai_now inp) (jh_nonce (pj_header jws)) (as_nonces (w_srv w)) = (ok, m)"
    by fastforce
  then have "\<not> ok" using validate_unknown [OF assms(3), of "ai_now inp"] by simp
  then show ?thesis
    using assms(1,2) v by (simp add: verify_jws_def Let_def write_problem_def reply_def split: prod.split)
qed

end
