(* ===== verification/Acme_Identifiers.thy ===== *)
theory Acme_Identifiers
  imports Acme_Replay
begin

text \<open>
  Which names the authorizations of an order stand for. The authorizations are found by their random
  ids, so the link from an order to its authorizations holds as long as the randomness does not repeat
  itself: then, in every state the server reaches, the authorizations of an order are for exactly the
  order's identifiers, in their order.
\<close>

section \<open>Randomness that does not repeat\<close>

definition tags :: "entropy \<Rightarrow> string set" where
  "tags ent = {hex_encode (take 8 (drop k ent)) | k. k + 8 \<le> length ent}"

definition never_repeats :: "entropy \<Rightarrow> bool" where
  "never_repeats ent =
     (\<forall>i j. i < j \<and> j + 8 \<le> length ent \<longrightarrow> take 8 (drop i ent) \<noteq> take 8 (drop j ent))"

lemma never_repeatsI:
  assumes "distinct (map (\<lambda>k. take 8 (drop k ent)) [0..<length ent - 7])"
  shows "never_repeats ent"
  unfolding never_repeats_def
proof (intro allI impI)
  fix i j assume ij: "i < j \<and> j + 8 \<le> length ent"
  then have "i < length (map (\<lambda>k. take 8 (drop k ent)) [0..<length ent - 7])"
    "j < length (map (\<lambda>k. take 8 (drop k ent)) [0..<length ent - 7])" by auto
  then show "take 8 (drop i ent) \<noteq> take 8 (drop j ent)"
    using assms ij nth_eq_iff_index_eq [OF assms, of i j] by simp
qed

lemma never_repeats_suffix: "suffix_of e' e \<Longrightarrow> never_repeats e \<Longrightarrow> never_repeats e'"
proof -
  assume "suffix_of e' e" and n: "never_repeats e"
  then obtain k where k: "e' = drop k e" by (auto simp: suffix_of_def)
  show "never_repeats e'"
    unfolding never_repeats_def
  proof (intro allI impI)
    fix i j assume ij: "i < j \<and> j + 8 \<le> length e'"
    then have "i + k < j + k \<and> j + k + 8 \<le> length e" by (auto simp: k)
    with n have "take 8 (drop (i + k) e) \<noteq> take 8 (drop (j + k) e)" unfolding never_repeats_def by blast
    then show "take 8 (drop i e') \<noteq> take 8 (drop j e')" by (simp add: k)
  qed
qed

lemma tags_suffix: "suffix_of e' e \<Longrightarrow> tags e' \<subseteq> tags e"
proof
  fix t assume "suffix_of e' e" "t \<in> tags e'"
  then obtain k j where "e' = drop k e" "t = hex_encode (take 8 (drop j e'))" "j + 8 \<le> length e'"
    by (auto simp: suffix_of_def tags_def)
  then show "t \<in> tags e" unfolding tags_def by (intro CollectI exI [of _ "j + k"]) auto
qed

lemma first_tag_new:
  assumes "never_repeats e" and "8 \<le> length e"
  shows "hex_encode (take 8 e) \<in> tags e" and "hex_encode (take 8 e) \<notin> tags (drop 8 e)"
proof -
  show "hex_encode (take 8 e) \<in> tags e"
    unfolding tags_def using assms(2) by (intro CollectI exI [of _ 0]) simp
  show "hex_encode (take 8 e) \<notin> tags (drop 8 e)"
  proof
    assume "hex_encode (take 8 e) \<in> tags (drop 8 e)"
    then obtain j where j: "hex_encode (take 8 e) = hex_encode (take 8 (drop j (drop 8 e)))" "j + 8 \<le> length (drop 8 e)"
      by (auto simp: tags_def)
    then have "take 8 (drop 0 e) = take 8 (drop (j + 8) e)"
      using hex_encode_inj by (simp add: add.commute)
    moreover have "0 < j + 8 \<and> j + 8 + 8 \<le> length e" using j(2) by auto
    ultimately show False using assms(1) unfolding never_repeats_def by blast
  qed
qed

section \<open>The link\<close>

text \<open>What the links are about: identifiers of authorizations, and lists of the orders.\<close>

definition authz_ident :: "'k acme_server \<Rightarrow> string \<Rightarrow> acme_identifier option" where
  "authz_ident s i = map_option az_identifier (map_of (as_authorizations s) i)"

definition order_links :: "'k acme_server \<Rightarrow> string \<Rightarrow> (string list \<times> acme_identifier list) option" where
  "order_links s i = map_option (\<lambda>ord. (od_authorizations ord, od_identifiers ord)) (map_of (as_orders s) i)"

definition linked :: "'k acme_server \<Rightarrow> bool" where
  "linked s =
     (\<forall>i urls idents. order_links s i = Some (urls, idents) \<longrightarrow>
        list_all2 (\<lambda>url ident. authz_ident s (trim_prefix url (as_base_url s @ ''/acme/authz/'')) = Some ident) urls idents)"

text \<open>No authorization has an id that could still be drawn.\<close>

definition unused_tags :: "('k, 's) world \<Rightarrow> bool" where
  "unused_tags w =
     (never_repeats (w_ent w) \<and> (\<forall>t \<in> tags (w_ent w). authz_ident (w_srv w) (''authz_'' @ t) = None))"

definition link_inv :: "('k, 's) world \<Rightarrow> bool" where
  "link_inv w = (linked (w_srv w) \<and> unused_tags w)"

text \<open>Requests that leave all this alone.\<close>

definition keeps :: "('k, 's) world \<Rightarrow> ('k, 's) world \<Rightarrow> bool" where
  "keeps w w' =
     (authz_ident (w_srv w') = authz_ident (w_srv w) \<and> order_links (w_srv w') = order_links (w_srv w) \<and>
      as_base_url (w_srv w') = as_base_url (w_srv w))"

lemma keeps_refl [simp]: "keeps w w"
  by (simp add: keeps_def)

lemma keeps_trans: "keeps a b \<Longrightarrow> keeps b c \<Longrightarrow> keeps a c"
  by (simp add: keeps_def)

lemma keeps_core: "core (w_srv w') = core (w_srv w) \<Longrightarrow> keeps w w'"
  using core_fields [of "w_srv w'" "w_srv w"] by (simp add: keeps_def authz_ident_def order_links_def fun_eq_iff)

lemma keeps_linked: "keeps w w' \<Longrightarrow> linked (w_srv w') = linked (w_srv w)"
  by (simp add: keeps_def linked_def)

lemma keeps_inv:
  assumes "keeps w w'" and "drew w w'" and "link_inv w"
  shows "link_inv w'"
proof -
  have "suffix_of (w_ent w') (w_ent w)" using assms(2) by (simp add: drew_def)
  then have "tags (w_ent w') \<subseteq> tags (w_ent w)" "never_repeats (w_ent w) \<Longrightarrow> never_repeats (w_ent w')"
    using never_repeats_suffix tags_suffix by blast+
  moreover have "authz_ident (w_srv w') = authz_ident (w_srv w)" using assms(1) by (simp add: keeps_def)
  ultimately show ?thesis
    using assms(3) unfolding link_inv_def unused_tags_def keeps_linked [OF assms(1)] by auto
qed

lemma authz_ident_set [simp]:
  "authz_ident (s\<lparr>as_authorizations := gm_set i a m\<rparr>) = (authz_ident (s\<lparr>as_authorizations := m\<rparr>))(i \<mapsto> az_identifier a)"
  by (auto simp: authz_ident_def fun_eq_iff)

lemma order_links_set [simp]:
  "order_links (s\<lparr>as_orders := gm_set i ord m\<rparr>) =
     (order_links (s\<lparr>as_orders := m\<rparr>))(i \<mapsto> (od_authorizations ord, od_identifiers ord))"
  by (auto simp: order_links_def fun_eq_iff)

lemma links_other [simp]:
  "authz_ident (s\<lparr>as_orders := x\<rparr>) = authz_ident s" "order_links (s\<lparr>as_authorizations := y\<rparr>) = order_links s"
  "authz_ident (s\<lparr>as_accounts := a, as_accounts_by_thumb := b\<rparr>) = authz_ident s"
  "order_links (s\<lparr>as_accounts := a, as_accounts_by_thumb := b\<rparr>) = order_links s"
  "authz_ident (s\<lparr>as_certificates := c\<rparr>) = authz_ident s" "order_links (s\<lparr>as_certificates := c\<rparr>) = order_links s"
  by (simp_all add: authz_ident_def order_links_def fun_eq_iff)

text \<open>An order put back with its lists unchanged.\<close>

lemma keeps_order:
  assumes "map_of (as_orders (w_srv w)) i = Some ord"
    and "od_authorizations ord' = od_authorizations ord" "od_identifiers ord' = od_identifiers ord"
  shows "order_links ((w_srv w)\<lparr>as_orders := gm_set i ord' (as_orders (w_srv w))\<rparr>) = order_links (w_srv w)"
  using assms by (auto simp: order_links_def fun_eq_iff)

lemma keeps_accept:
  assumes "map_of (as_authorizations s) (cf_authz_id ref) = Some authz"
  shows "authz_ident (accept_challenge fmt now ref authz chal s) = authz_ident s"
    and "order_links (accept_challenge fmt now ref authz chal s) = order_links s"
    and "as_base_url (accept_challenge fmt now ref authz chal s) = as_base_url s"
  using assms
  by (auto simp: accept_challenge_def Let_def authz_ident_def order_links_def fun_eq_iff split: option.splits)

section \<open>Every request but a new order\<close>

lemma keeps_write_problem: "keeps w (snd (write_problem now p w))"
  by (rule keeps_core) simp

lemma keeps_hdr: "keeps w w1 \<Longrightarrow> keeps w (set_hdr k v w1)"
  by (simp add: keeps_def)

lemma keeps_plain: "keeps w (snd (plain_error m c w))" "keeps w (snd (wrong_method a w))"
  by (simp_all add: keeps_core)

lemma keeps_verified:
  assumes "\<And>jws w1. verify_jws env inp r w = (Inr jws, w1) \<Longrightarrow> keeps w1 (snd (k jws w1))"
  shows "keeps w (snd (case verify_jws env inp r w of (Inl resp, w) \<Rightarrow> (resp, w) | (Inr jws, w) \<Rightarrow> k jws w))"
proof -
  obtain res w1 where v: "verify_jws env inp r w = (res, w1)" by fastforce
  have d: "keeps w w1" using verify_jws_simps(1) [OF v] by (rule keeps_core)
  show ?thesis
  proof (cases res)
    case (Inr jws)
    then have "keeps w1 (snd (k jws w1))" using assms v by simp
    then show ?thesis using v Inr d keeps_trans by auto
  qed (use v d in simp)
qed

lemma keeps_authenticated:
  assumes "\<And>w. keeps w (snd (k w))"
  shows "keeps w (snd (authenticated env inp r w k))"
  using keeps_verified [of env inp r w "\<lambda>_. k"] assms by (simp add: authenticated_def)

lemma keeps_store_account:
  assumes "random_id p w = (i, w1)"
  shows "keeps w (w1\<lparr>w_srv := (w_srv w1)\<lparr>as_accounts := x, as_accounts_by_thumb := y\<rparr>\<rparr>)"
  using random_id_simps(1) [OF assms] by (simp add: keeps_def)

lemma keeps_directory: "keeps w (snd (handle_directory r w))"
  by (simp add: handle_directory_def Let_def keeps_plain keeps_hdr)

lemma keeps_new_nonce: "keeps w (snd (handle_new_nonce inp r w))"
  by (simp add: handle_new_nonce_def keeps_plain keeps_core)

lemma keeps_new_account: "keeps w (snd (handle_new_account env inp r w))"
proof (cases "rq_method r = ''POST''")
  case True
  then show ?thesis
    unfolding handle_new_account_def
    by (simp only: not_True_eq_False simp_thms if_False) (rule keeps_verified;
      auto simp: Let_def reply_account_def panicked_def keeps_write_problem
        intro!: keeps_hdr keeps_store_account split: option.splits sum.splits prod.splits go_call.splits)
qed (simp add: handle_new_account_def keeps_plain)

lemma keeps_account: "keeps w (snd (handle_account env inp r i w))"
  unfolding handle_account_def
  by (rule keeps_authenticated) (auto simp: keeps_write_problem intro!: keeps_hdr split: option.splits)

lemma keeps_get_authz: "keeps w (snd (handle_get_authz env inp r i w))"
  unfolding handle_get_authz_def
  by (rule keeps_authenticated) (auto simp: keeps_write_problem intro!: keeps_hdr split: option.splits)

lemma keeps_get_certificate: "keeps w (snd (handle_get_certificate env inp r i w))"
  unfolding handle_get_certificate_def
  by (rule keeps_authenticated) (auto intro!: keeps_hdr split: option.splits)

lemma keeps_get_order: "keeps w (snd (handle_get_order env inp r i w))"
proof -
  have "keeps w (w\<lparr>w_srv := (w_srv w)\<lparr>as_orders := gm_set i (refresh_order (w_srv w) ord) (as_orders (w_srv w))\<rparr>\<rparr>)"
    if "map_of (as_orders (w_srv w)) i = Some ord" for ord and w :: "('a, 'b) world"
    using keeps_order [OF that, of "refresh_order (w_srv w) ord"] by (simp add: keeps_def refresh_order_def)
  then show ?thesis
    unfolding handle_get_order_def
    by (intro keeps_authenticated)
      (auto simp: Let_def keeps_write_problem intro!: keeps_hdr split: option.splits)
qed

lemma keeps_challenge: "keeps w (snd (handle_challenge env inp r i w))"
proof -
  have "keeps w (snd (answer_challenge env inp r i w))" for w :: "('a, 'b) world"
  proof -
    have acc: "keeps w (w\<lparr>w_srv := accept_challenge fmt now ref authz chal (w_srv w)\<rparr>)"
      if "map_of (as_authorizations (w_srv w)) (cf_authz_id ref) = Some authz" for fmt now ref authz chal
      using keeps_accept [OF that] by (simp add: keeps_def)
    show ?thesis
      by (auto simp: answer_challenge_def Let_def keeps_write_problem panicked_def intro!: keeps_hdr acc
          split: option.splits)
  qed
  then show ?thesis by (simp add: handle_challenge_def keeps_plain keeps_authenticated)
qed

lemma keeps_finalize: "keeps w (snd (handle_finalize_order env inp r oid w))"
proof -
  have "keeps w (snd (finalize_order env inp pl oid w))" for pl and w :: "('a, 'b) world"
  proof -
    obtain resp w' where h: "finalize_order env inp pl oid w = (resp, w')" by fastforce
    then show ?thesis
    proof (cases rule: finalize_order_cases)
      case refused
      then show ?thesis using h keeps_core by auto
    next
      case (issue ord csr)
      from issue(3) show ?thesis
      proof (cases rule: issue_for_order_cases)
        case failed
        then show ?thesis using h keeps_core by auto
      next
        case (issued serial der cid)
        let ?ord = "ord\<lparr>od_status := ''valid'', od_certificate_url := as_base_url (w_srv w) @ ''/acme/cert/'' @ cid\<rparr>"
        have "order_links ((w_srv w)\<lparr>as_certificates := x, as_orders := gm_set oid ?ord (as_orders (w_srv w))\<rparr>) =
            order_links (w_srv w)" for x
          using keeps_order [OF issue(1), of ?ord] by (simp add: order_links_def)
        then show ?thesis using h issued(3) by (simp add: keeps_def)
      qed
    qed
  qed
  then show ?thesis
    unfolding handle_finalize_order_def by (simp add: keeps_plain) (intro impI keeps_verified, simp)
qed

lemma keeps_serve:
  assumes "rq_path r \<noteq> ''/acme/new-order''"
  shows "keeps w (snd (acme_serve_http env inp r w))"
proof -
  define v where "v = (if rq_method r = ''POST'' then add_nonce_header (ai_now inp) w else w)"
  have "keeps v (snd (acme_serve_http env inp r w))"
    unfolding acme_serve_http_def Let_def v_def [symmetric] using assms
    by (simp add: keeps_directory keeps_new_nonce keeps_new_account keeps_finalize keeps_get_order
        keeps_get_authz keeps_challenge keeps_get_certificate keeps_account)
  moreover have "keeps w v" by (simp add: v_def keeps_core)
  ultimately show ?thesis using keeps_trans by blast
qed

section \<open>A new order\<close>

lemma suffix_of_length: "suffix_of e' e \<Longrightarrow> length e' \<le> length e"
  by (auto simp: suffix_of_def)

lemma random_id_drawn:
  assumes "random_id pre w = (i, w')" and "8 \<le> length (w_ent w')"
  shows "i = pre @ ''_'' @ hex_encode (take 8 (w_ent w)) \<and> w_ent w' = drop 8 (w_ent w) \<and> 8 \<le> length (w_ent w)"
  using assms by (auto simp: random_id_def rand_read_def split: if_splits)

lemma random_id_suffix: "random_id pre w = (i, w') \<Longrightarrow> suffix_of (w_ent w') (w_ent w)"
  using drew_random_id by (auto simp: drew_def)

text \<open>The loop makes an authorization for each identifier, under ids nobody has.\<close>

lemma create_authzs_links:
  "create_authzs env now a o_id idents w = (urls, w') \<Longrightarrow> unused_tags w \<Longrightarrow> 8 \<le> length (w_ent w') \<Longrightarrow>
     suffix_of (w_ent w') (w_ent w) \<and> unused_tags w' \<and>
     order_links (w_srv w') = order_links (w_srv w) \<and> as_base_url (w_srv w') = as_base_url (w_srv w) \<and>
     authz_ident (w_srv w) \<subseteq>\<^sub>m authz_ident (w_srv w') \<and>
     list_all2 (\<lambda>url ident. authz_ident (w_srv w') (trim_prefix url (as_base_url (w_srv w) @ ''/acme/authz/'')) = Some ident)
       urls idents"
proof (induction idents arbitrary: w urls)
  case (Cons ident idents)
  obtain ai w1 where r1: "random_id ''authz'' w = (ai, w1)" by fastforce
  obtain ci w2 where r2: "random_id ''chal'' w1 = (ci, w2)" by fastforce
  obtain ti w3 where r3: "random_id ''token'' w2 = (ti, w3)" by fastforce
  note srv = random_id_simps(1) [OF r1] random_id_simps(1) [OF r2] random_id_simps(1) [OF r3]
  obtain authz us x y where az: "az_identifier authz = ident"
    and rec: "create_authzs env now a o_id idents (w3\<lparr>w_srv := (w_srv w)\<lparr>
        as_authorizations := gm_set ai authz (as_authorizations (w_srv w)), as_challenges := x, as_order_authz_map := y\<rparr>\<rparr>)
      = (us, w')"
    and urls: "urls = (as_base_url (w_srv w) @ ''/acme/authz/'' @ ai) # us"
  proof -
    let ?z = "\<lparr>az_id = ai, az_account_id = a, az_status = ''pending'',
      az_expires = ae_format_rfc3339 env (now + 24 * hour), az_identifier = ident,
      az_challenges = [\<lparr>ch_type = ''http-01'', ch_url = as_base_url (w_srv w) @ ''/acme/challenge/'' @ ci,
        ch_token = ti, ch_status = ''pending'', ch_validated = [], ch_error = None\<rparr>]\<rparr>"
    have "az_identifier ?z = ident" by simp
    with Cons.prems(1) show thesis
      by (auto simp: r1 r2 r3 srv Let_def split: prod.splits intro: that [of ?z])
  qed
  let ?s = "(w_srv w)\<lparr>as_authorizations := gm_set ai authz (as_authorizations (w_srv w)), as_challenges := x, as_order_authz_map := y\<rparr>"
  let ?w = "w3\<lparr>w_srv := ?s\<rparr>"
  have id: "authz_ident ?s = (authz_ident (w_srv w))(ai \<mapsto> ident)" and other: "order_links ?s = order_links (w_srv w)"
    "as_base_url ?s = as_base_url (w_srv w)"
    by (auto simp: authz_ident_def order_links_def fun_eq_iff az)
  have "suffix_of (w_ent w') (w_ent w3)" using drew_create_authzs [OF rec] by (simp add: drew_def)
  then have "8 \<le> length (w_ent w3)" using suffix_of_length Cons.prems(3) by fastforce
  note d3 = random_id_drawn [OF r3 this]
  then have "8 \<le> length (w_ent w2)" by simp
  note d2 = random_id_drawn [OF r2 this]
  then have "8 \<le> length (w_ent w1)" by simp
  note d1 = random_id_drawn [OF r1 this]
  have suf: "suffix_of (w_ent w3) (w_ent w1)" "suffix_of (w_ent w1) (w_ent w)"
    using random_id_suffix [OF r3] random_id_suffix [OF r2] random_id_suffix [OF r1] suffix_of_trans by blast+
  have nr: "never_repeats (w_ent w)" and un: "\<forall>t \<in> tags (w_ent w). authz_ident (w_srv w) (''authz_'' @ t) = None"
    using Cons.prems(2) by (simp_all add: unused_tags_def)
  let ?t = "hex_encode (take 8 (w_ent w))"
  have ai: "ai = ''authz_'' @ ?t" using d1 by simp
  have t: "?t \<in> tags (w_ent w)" "?t \<notin> tags (w_ent w1)"
    using first_tag_new [OF nr] d1 by simp_all
  have sub: "tags (w_ent w3) \<subseteq> tags (w_ent w1)" "tags (w_ent w1) \<subseteq> tags (w_ent w)"
    using tags_suffix suf by blast+
  have u3: "unused_tags ?w"
    unfolding unused_tags_def
  proof (intro conjI ballI)
    show "never_repeats (w_ent ?w)" using never_repeats_suffix [OF suffix_of_trans [OF suf] nr] by simp
    fix t' assume "t' \<in> tags (w_ent ?w)"
    then have "t' \<in> tags (w_ent w1)" "t' \<in> tags (w_ent w)" using sub by auto
    then show "authz_ident (w_srv ?w) (''authz_'' @ t') = None" using un t id ai by auto
  qed
  have IH: "suffix_of (w_ent w') (w_ent ?w) \<and> unused_tags w' \<and>
     order_links (w_srv w') = order_links (w_srv ?w) \<and> as_base_url (w_srv w') = as_base_url (w_srv ?w) \<and>
     authz_ident (w_srv ?w) \<subseteq>\<^sub>m authz_ident (w_srv w') \<and>
     list_all2 (\<lambda>url ident. authz_ident (w_srv w') (trim_prefix url (as_base_url (w_srv ?w) @ ''/acme/authz/'')) = Some ident)
       us idents"
    using Cons.IH [OF rec u3 Cons.prems(3)] .
  have new: "authz_ident (w_srv w) ai = None" using un t(1) ai by simp
  then have "authz_ident (w_srv w) \<subseteq>\<^sub>m authz_ident ?s" by (auto simp: id map_le_def)
  then have le: "authz_ident (w_srv w) \<subseteq>\<^sub>m authz_ident (w_srv w')" using IH map_le_trans by fastforce
  have "authz_ident (w_srv w') ai = Some ident" using IH id by (auto simp: map_le_def)
  then show ?case
    using IH le suffix_of_trans [OF _ suffix_of_trans [OF suf]] other urls
    by (simp add: trim_prefix_def has_prefix_def)
qed simp

lemma linked_more:
  assumes "linked s" and "authz_ident s \<subseteq>\<^sub>m authz_ident t" and "order_links t = order_links s" and "as_base_url t = as_base_url s"
  shows "linked t"
  unfolding linked_def
proof (intro allI impI)
  fix i urls idents assume "order_links t i = Some (urls, idents)"
  then have "list_all2 (\<lambda>url ident. authz_ident s (trim_prefix url (as_base_url s @ ''/acme/authz/'')) = Some ident) urls idents"
    using assms(1,3) by (simp add: linked_def)
  then show "list_all2 (\<lambda>url ident. authz_ident t (trim_prefix url (as_base_url t @ ''/acme/authz/'')) = Some ident) urls idents"
  proof (rule list_all2_mono)
    fix url ident
    assume a: "authz_ident s (trim_prefix url (as_base_url s @ ''/acme/authz/'')) = Some ident"
    then have "trim_prefix url (as_base_url s @ ''/acme/authz/'') \<in> dom (authz_ident s)" by (rule domI)
    with a show "authz_ident t (trim_prefix url (as_base_url t @ ''/acme/authz/'')) = Some ident"
      using assms(2) unfolding map_le_def assms(4) by simp
  qed
qed

lemma place_order_link:
  assumes "place_order env inp h idents w = (resp, w')" and "link_inv w" and "8 \<le> length (w_ent w')"
  shows "link_inv w'"
proof -
  obtain oid w1 where r: "random_id ''order'' w = (oid, w1)" by fastforce
  let ?a = "trim_prefix (jh_kid h) (as_base_url (w_srv w) @ ''/acme/acct/'')"
  obtain urls w2 where c: "create_authzs env (ai_now inp) ?a oid idents w1 = (urls, w2)" by fastforce
  obtain ord where ord: "od_authorizations ord = urls" "od_identifiers ord = idents" and ent: "w_ent w' = w_ent w2"
    and w': "w_srv w' = (w_srv w2)\<lparr>as_orders := gm_set oid ord (as_orders (w_srv w2))\<rparr>"
  proof -
    let ?o = "\<lparr>od_id = oid, od_account_id = ?a, od_status = ''pending'',
      od_expires = ae_format_rfc3339 env (ai_now inp + 24 * hour), od_identifiers = idents, od_authorizations = urls,
      od_finalize_url = as_base_url (w_srv w) @ ''/acme/order/'' @ oid @ ''/finalize'', od_certificate_url = []\<rparr>"
    show thesis using assms(1) by (intro that [of ?o]) (auto simp: place_order_def Let_def r c reply_def)
  qed
  have srv: "w_srv w1 = w_srv w" using random_id_simps(1) [OF r] .
  have "keeps w w1" by (rule keeps_core) (simp add: srv)
  from keeps_inv [OF this drew_random_id [OF r] assms(2)] have l1: "linked (w_srv w1)" "unused_tags w1"
    by (simp_all add: link_inv_def)
  have "8 \<le> length (w_ent w2)" using assms(3) ent by simp
  note cl = create_authzs_links [OF c l1(2) this]
  have l2: "linked (w_srv w2)" using linked_more [OF l1(1)] cl by blast
  have ai: "authz_ident (w_srv w') = authz_ident (w_srv w2)" and base: "as_base_url (w_srv w') = as_base_url (w_srv w2)"
    by (simp_all add: w')
  have "linked (w_srv w')"
    unfolding linked_def
  proof (intro allI impI)
    fix i us ids assume o: "order_links (w_srv w') i = Some (us, ids)"
    show "list_all2 (\<lambda>url ident. authz_ident (w_srv w') (trim_prefix url (as_base_url (w_srv w') @ ''/acme/authz/'')) = Some ident) us ids"
    proof (cases "i = oid")
      case True
      then have "us = urls" "ids = idents" using o by (simp_all add: w' ord)
      then show ?thesis using cl by (simp add: ai base)
    next
      case False
      then have "order_links (w_srv w2) i = Some (us, ids)" using o by (simp add: w')
      then show ?thesis using l2 by (simp add: linked_def ai base)
    qed
  qed
  moreover have "unused_tags w'" using cl by (simp add: unused_tags_def ent ai)
  ultimately show ?thesis by (simp add: link_inv_def)
qed

section \<open>Every state the server reaches\<close>

lemma keeps_verify: "verify_jws env inp r w = (res, w') \<Longrightarrow> keeps w w'"
  using verify_jws_simps(1) by (rule keeps_core)

lemma new_order_link:
  assumes h: "handle_new_order env inp r w = (resp, w')" and "link_inv w" and "8 \<le> length (w_ent w')"
  shows "link_inv w'"
proof (cases "rq_method r = ''POST''")
  case False
  then have "w' = snd (wrong_method ''POST'' w)" using h by (auto simp: handle_new_order_def)
  then show ?thesis using keeps_inv [OF keeps_plain(2) drew_plain(2) assms(2), of "''POST''"] by simp
next
  case True
  obtain res w1 where v: "verify_jws env inp r w = (res, w1)" by fastforce
  have l1: "link_inv w1" using keeps_inv [OF keeps_verify [OF v] drew_verify [OF v] assms(2)] .
  have wp: "link_inv (snd (write_problem (ai_now inp) p w1))" for p
    using keeps_inv [OF keeps_write_problem drew_write_problem l1] .
  show ?thesis
  proof (cases res)
    case (Inl q)
    then show ?thesis using h v True l1 by (simp add: handle_new_order_def)
  next
    case (Inr jws)
    let ?wp = "write_problem (ai_now inp) (problem ProblemMalformed (Detail ''identifiers list cannot be empty'') 400) w1"
    have "(resp, w') = ?wp \<or> (\<exists>idents. place_order env inp (pj_header jws) idents w1 = (resp, w'))"
      using h v True Inr by (simp add: handle_new_order_def split: option.splits list.splits) metis
    then show ?thesis
    proof
      assume "(resp, w') = ?wp"
      then have "w' = snd ?wp" by (metis snd_conv)
      then show ?thesis using wp by simp
    next
      assume "\<exists>idents. place_order env inp (pj_header jws) idents w1 = (resp, w')"
      then show ?thesis using place_order_link [OF _ l1 assms(3)] by blast
    qed
  qed
qed

lemma serve_link:
  assumes h: "acme_serve_http env inp r w = (resp, w')" and l: "link_inv w" and "8 \<le> length (w_ent w')"
  shows "link_inv w'"
proof (cases "rq_path r = ''/acme/new-order''")
  case False
  then show ?thesis using keeps_inv [OF keeps_serve drew_serve l] h by (metis snd_conv)
next
  case True
  define v where "v = (if rq_method r = ''POST'' then add_nonce_header (ai_now inp) w else w)"
  have "keeps w v" "drew w v" by (simp_all add: v_def keeps_core drew_add_nonce)
  then have "link_inv v" using keeps_inv l by blast
  moreover have "handle_new_order env inp r v = (resp, w')"
    using h True by (simp add: acme_serve_http_def v_def Let_def)
  ultimately show ?thesis using new_order_link assms(3) by blast
qed

lemma run_link:
  "acme_run env rs w = (resps, w') \<Longrightarrow> link_inv w \<Longrightarrow> 8 \<le> length (w_ent w') \<Longrightarrow> link_inv w'"
proof (induction rs arbitrary: w resps)
  case (Cons x rs)
  obtain inp r where x: "x = (inp, r)" by fastforce
  obtain resp w1 where h: "acme_serve_http env inp r (w\<lparr>w_hs := []\<rparr>) = (resp, w1)" by fastforce
  obtain resps1 where rn: "acme_run env rs w1 = (resps1, w')"
    using Cons.prems(1) h by (auto simp: x split: prod.splits)
  have "suffix_of (w_ent w') (w_ent w1)" using drew_run [OF rn] by (simp add: drew_def)
  then have "8 \<le> length (w_ent w1)" using suffix_of_length Cons.prems(3) by fastforce
  moreover have "link_inv (w\<lparr>w_hs := []\<rparr>)" using Cons.prems(2) by (simp add: link_inv_def unused_tags_def)
  ultimately have "link_inv w1" using serve_link [OF h] by blast
  then show ?case using Cons.IH [OF rn _ Cons.prems(3)] by blast
qed simp

lemma link_inv_new:
  assumes "new_acme_server base a st ttl skip = Inr (w_srv w)" and "never_repeats (w_ent w)"
  shows "link_inv w"
  using assms
  by (auto simp: link_inv_def linked_def unused_tags_def new_acme_server_def order_links_def authz_ident_def Let_def
      dest!: sym [of _ "w_srv w"] split: option.splits)

section \<open>Orders and their authorizations, whatever the randomness\<close>

text \<open>Even where ids repeat, an order has one URL of an authorization for each of its identifiers, and
  the authorization of each URL exists; only its identifier could then be another's.\<close>

definition covered :: "'k acme_server \<Rightarrow> bool" where
  "covered s =
     (\<forall>i urls idents. order_links s i = Some (urls, idents) \<longrightarrow>
        idents \<noteq> [] \<and> length urls = length idents \<and>
        (\<forall>url \<in> set urls. trim_prefix url (as_base_url s @ ''/acme/authz/'') \<in> dom (authz_ident s)))"

lemma keeps_covered: "keeps w w' \<Longrightarrow> covered (w_srv w') = covered (w_srv w)"
  by (simp add: keeps_def covered_def)

lemma create_authzs_cover:
  "create_authzs env now a o_id idents w = (urls, w') \<Longrightarrow>
     order_links (w_srv w') = order_links (w_srv w) \<and> as_base_url (w_srv w') = as_base_url (w_srv w) \<and>
     dom (authz_ident (w_srv w)) \<subseteq> dom (authz_ident (w_srv w')) \<and> length urls = length idents \<and>
     (\<forall>url \<in> set urls. trim_prefix url (as_base_url (w_srv w) @ ''/acme/authz/'') \<in> dom (authz_ident (w_srv w')))"
proof (induction idents arbitrary: w urls)
  case (Cons ident idents)
  obtain ai w1 where r1: "random_id ''authz'' w = (ai, w1)" by fastforce
  obtain ci w2 where r2: "random_id ''chal'' w1 = (ci, w2)" by fastforce
  obtain ti w3 where r3: "random_id ''token'' w2 = (ti, w3)" by fastforce
  note srv = random_id_simps(1) [OF r1] random_id_simps(1) [OF r2] random_id_simps(1) [OF r3]
  obtain authz us x y where
    rec: "create_authzs env now a o_id idents (w3\<lparr>w_srv := (w_srv w)\<lparr>
        as_authorizations := gm_set ai authz (as_authorizations (w_srv w)), as_challenges := x, as_order_authz_map := y\<rparr>\<rparr>)
      = (us, w')"
    and urls: "urls = (as_base_url (w_srv w) @ ''/acme/authz/'' @ ai) # us"
    using Cons.prems by (auto simp: r1 r2 r3 srv Let_def split: prod.splits)
  let ?s = "(w_srv w)\<lparr>as_authorizations := gm_set ai authz (as_authorizations (w_srv w)), as_challenges := x, as_order_authz_map := y\<rparr>"
  have id: "authz_ident ?s = (authz_ident (w_srv w))(ai \<mapsto> az_identifier authz)"
    and other: "order_links ?s = order_links (w_srv w)" "as_base_url ?s = as_base_url (w_srv w)"
    by (auto simp: authz_ident_def order_links_def fun_eq_iff)
  have "trim_prefix (as_base_url (w_srv w) @ ''/acme/authz/'' @ ai) (as_base_url (w_srv w) @ ''/acme/authz/'') = ai"
    by (simp add: trim_prefix_def has_prefix_def)
  moreover have "dom (authz_ident ?s) = insert ai (dom (authz_ident (w_srv w)))" by (simp add: id)
  moreover have "dom (authz_ident ?s) \<subseteq> dom (authz_ident (w_srv w'))" using Cons.IH [OF rec] by simp
  ultimately show ?case using Cons.IH [OF rec] other urls by simp
qed simp

lemma place_order_cover:
  assumes "place_order env inp h idents w = (resp, w')" and "covered (w_srv w)" and "idents \<noteq> []"
  shows "covered (w_srv w')"
proof -
  obtain oid w1 where r: "random_id ''order'' w = (oid, w1)" by fastforce
  let ?a = "trim_prefix (jh_kid h) (as_base_url (w_srv w) @ ''/acme/acct/'')"
  obtain urls w2 where c: "create_authzs env (ai_now inp) ?a oid idents w1 = (urls, w2)" by fastforce
  have srv: "w_srv w1 = w_srv w" using random_id_simps(1) [OF r] .
  note cl = create_authzs_cover [OF c, unfolded srv]
  have "order_links (w_srv w') = (order_links (w_srv w))(oid \<mapsto> (urls, idents))"
    "as_base_url (w_srv w') = as_base_url (w_srv w)" "authz_ident (w_srv w') = authz_ident (w_srv w2)"
    using assms(1) cl by (auto simp: place_order_def Let_def r c reply_def)
  then show ?thesis using cl assms(2,3) unfolding covered_def by (auto split: if_splits) blast
qed

lemma new_order_cover:
  assumes h: "handle_new_order env inp r w = (resp, w')" and l: "covered (w_srv w)"
  shows "covered (w_srv w')"
proof (cases "rq_method r = ''POST''")
  case False
  then have "w' = snd (wrong_method ''POST'' w)" using h by (auto simp: handle_new_order_def)
  then show ?thesis using keeps_covered [OF keeps_plain(2) [of w "''POST''"]] l by simp
next
  case True
  obtain res w1 where v: "verify_jws env inp r w = (res, w1)" by fastforce
  have l1: "covered (w_srv w1)" using keeps_covered [OF keeps_verify [OF v]] l by simp
  have wp: "covered (w_srv (snd (write_problem (ai_now inp) p w1)))" for p
    using keeps_covered [OF keeps_write_problem [of w1 "ai_now inp" p]] l1 by simp
  show ?thesis
  proof (cases res)
    case (Inl q)
    then show ?thesis using h v True l1 by (simp add: handle_new_order_def)
  next
    case (Inr jws)
    show ?thesis
    proof (cases "\<exists>i ids. ae_new_order_payload env (pj_payload jws) = Some (i # ids)")
      case True': True
      then obtain i ids where "place_order env inp (pj_header jws) (i # ids) w1 = (resp, w')"
        using h v True Inr by (auto simp: handle_new_order_def)
      then show ?thesis by (rule place_order_cover [OF _ l1]) simp
    next
      case False
      then have "(resp, w') = write_problem (ai_now inp)
          (problem ProblemMalformed (Detail ''identifiers list cannot be empty'') 400) w1"
        using h v True Inr by (auto simp: handle_new_order_def split: option.splits list.splits)
      then show ?thesis using wp by (metis snd_conv)
    qed
  qed
qed

lemma run_covered:
  "acme_run env rs w = (resps, w') \<Longrightarrow> covered (w_srv w) \<Longrightarrow> covered (w_srv w')"
proof (induction rs arbitrary: w resps)
  case (Cons x rs)
  obtain inp r where x: "x = (inp, r)" by fastforce
  obtain resp w1 where h: "acme_serve_http env inp r (w\<lparr>w_hs := []\<rparr>) = (resp, w1)" by fastforce
  obtain resps1 where rn: "acme_run env rs w1 = (resps1, w')"
    using Cons.prems(1) h by (auto simp: x split: prod.splits)
  define v where "v = (if rq_method r = ''POST'' then add_nonce_header (ai_now inp) (w\<lparr>w_hs := []\<rparr>) else w\<lparr>w_hs := []\<rparr>)"
  have "covered (w_srv w1)"
  proof (cases "rq_path r = ''/acme/new-order''")
    case True
    have "keeps (w\<lparr>w_hs := []\<rparr>) v" by (simp add: v_def keeps_core)
    then have "covered (w_srv v)" using keeps_covered Cons.prems(2) by fastforce
    moreover have "handle_new_order env inp r v = (resp, w1)"
      using h True by (simp add: acme_serve_http_def v_def Let_def)
    ultimately show ?thesis using new_order_cover by blast
  next
    case False
    then show ?thesis using keeps_covered [OF keeps_serve [OF False, of "w\<lparr>w_hs := []\<rparr>" env inp]] Cons.prems(2) h by simp
  qed
  then show ?case using Cons.IH [OF rn] by blast
qed simp

lemma covered_new: "new_acme_server base a st ttl skip = Inr s \<Longrightarrow> covered s"
  by (auto simp: covered_def new_acme_server_def order_links_def Let_def split: option.splits)

text \<open>What an order whose authorizations are all valid entitles to.\<close>

lemma linked_valid:
  assumes "linked s" and "map_of (as_orders s) oid = Some ord" and "all_authz_valid s ord" and "d \<in> set (od_identifiers ord)"
  shows "\<exists>i a. map_of (as_authorizations s) i = Some a \<and> az_identifier a = d \<and> az_status a = ''valid''"
proof -
  have la: "list_all2 (\<lambda>url ident. authz_ident s (trim_prefix url (as_base_url s @ ''/acme/authz/'')) = Some ident)
      (od_authorizations ord) (od_identifiers ord)"
    using assms(1) unfolding linked_def by (rule allE [of _ oid]) (simp add: order_links_def assms(2))
  obtain k where k: "k < length (od_identifiers ord)" "od_identifiers ord ! k = d"
    using assms(4) by (auto simp: in_set_conv_nth)
  let ?url = "od_authorizations ord ! k"
  have "authz_ident s (trim_prefix ?url (as_base_url s @ ''/acme/authz/'')) = Some d"
    using list_all2_nthD2 [OF la k(1)] k(2) by simp
  moreover have "?url \<in> set (od_authorizations ord)" using k(1) list_all2_lengthD [OF la] by simp
  then have "authz_valid s ?url" using assms(3) by (simp add: all_authz_valid_def list_all_iff)
  ultimately show ?thesis by (auto simp: authz_ident_def authz_valid_def split: option.splits)
qed

end
