(* ===== verification/Acme_Properties.thy ===== *)
theory Acme_Properties
  imports Acme_Identifiers Server_Run Sample_Acme
begin

text \<open>
  What the ACME server promises, over every sequence of requests: it always answers and keeps its
  objects well formed, no signed request counts twice, an authorization becomes valid only through a
  signed request for its own challenge, and a certificate is issued only for an order all of whose
  authorizations are valid.
\<close>

section \<open>The server keeps going\<close>

text \<open>
  C21. From a new server, any sequence of requests is answered one by one, no handler panics (neither for a
  missing object nor in the padding of the coordinates of a key, where only the curve check of \<open>JWKToKey\<close>
  stands before a slice out of range), and the objects stay well formed: an order is pending, ready or
  valid, has identifiers and as many authorization URLs, each leading to an authorization that exists, and
  has a certificate URL exactly when it is valid; where the random ids did not repeat, the authorizations of
  an order are for its identifiers, one for each in their order. An authorization has one challenge, with
  its own status, pending or valid; every challenge leads to an authorization that exists.
\<close>

theorem acme_always_answers:
  assumes "new_acme_server base authority storage ttl skip = Inr s" and "w_srv w = s" and "acme_run env rs w = (resps, w')"
  shows "length resps = length rs \<and> (\<forall>resp \<in> set resps. rs_status resp \<noteq> 0) \<and>
    (\<forall>i ord. map_of (as_orders (w_srv w')) i = Some ord \<longrightarrow>
       od_identifiers ord \<noteq> [] \<and> length (od_authorizations ord) = length (od_identifiers ord) \<and>
       (\<forall>url \<in> set (od_authorizations ord).
          \<exists>a. map_of (as_authorizations (w_srv w')) (trim_prefix url (as_base_url (w_srv w') @ ''/acme/authz/'')) = Some a) \<and>
       ((od_status ord \<in> {''pending'', ''ready''} \<and> od_certificate_url ord = []) \<or>
        (od_status ord = ''valid'' \<and> od_certificate_url ord \<noteq> [])) \<and>
       (never_repeats (w_ent w) \<and> 8 \<le> length (w_ent w') \<longrightarrow>
          list_all2 (\<lambda>url ident. \<exists>a. map_of (as_authorizations (w_srv w'))
              (trim_prefix url (as_base_url (w_srv w') @ ''/acme/authz/'')) = Some a \<and> az_identifier a = ident)
            (od_authorizations ord) (od_identifiers ord))) \<and>
    (\<forall>i a. map_of (as_authorizations (w_srv w')) i = Some a \<longrightarrow>
       az_status a \<in> {''pending'', ''valid''} \<and> map ch_status (az_challenges a) = [az_status a]) \<and>
    (\<forall>i c. map_of (as_challenges (w_srv w')) i = Some c \<longrightarrow>
       (\<exists>a. map_of (as_authorizations (w_srv w')) (cf_authz_id c) = Some a \<and> cf_index c < length (az_challenges a)))"
proof -
  let ?id = "\<lambda>url. trim_prefix url (as_base_url (w_srv w') @ ''/acme/authz/'')"
  have "length resps = length rs"
    using assms(3) by (induction rs arbitrary: w resps) (auto split: prod.splits)
  moreover have "acme_inv (w_srv w)" using acme_inv_new [OF assms(1)] assms(2) by simp
  note inv = acme_run_inv [OF this assms(3)]
  moreover have "covered (w_srv w')" using run_covered [OF assms(3)] covered_new [OF assms(1)] assms(2) by simp
  then have cov: "od_identifiers ord \<noteq> [] \<and> length (od_authorizations ord) = length (od_identifiers ord) \<and>
      (\<forall>url \<in> set (od_authorizations ord). \<exists>a. map_of (as_authorizations (w_srv w')) (?id url) = Some a)"
    if "map_of (as_orders (w_srv w')) i = Some ord" for i ord
    using that by (fastforce simp: covered_def order_links_def authz_ident_def)
  have link: "list_all2 (\<lambda>url ident. \<exists>a. map_of (as_authorizations (w_srv w')) (?id url) = Some a \<and> az_identifier a = ident)
      (od_authorizations ord) (od_identifiers ord)"
    if "map_of (as_orders (w_srv w')) i = Some ord" "never_repeats (w_ent w) \<and> 8 \<le> length (w_ent w')" for i ord
  proof -
    have "link_inv w" using link_inv_new assms(1,2) that(2) by blast
    then have "linked (w_srv w')" using run_link [OF assms(3)] that(2) by (simp add: link_inv_def)
    then have "list_all2 (\<lambda>url ident. authz_ident (w_srv w') (?id url) = Some ident) (od_authorizations ord) (od_identifiers ord)"
      unfolding linked_def by (rule allE [of _ i]) (simp add: order_links_def that(1))
    then show ?thesis by (rule list_all2_mono) (auto simp: authz_ident_def)
  qed
  have wf: "(od_status ord \<in> {''pending'', ''ready''} \<and> od_certificate_url ord = []) \<or>
      (od_status ord = ''valid'' \<and> od_certificate_url ord \<noteq> [])"
    if "map_of (as_orders (w_srv w')) i = Some ord" for i ord
    using inv that unfolding acme_inv_def by (fastforce simp: order_wf_def)
  have az: "az_status a \<in> {''pending'', ''valid''} \<and> map ch_status (az_challenges a) = [az_status a]"
    if "map_of (as_authorizations (w_srv w')) i = Some a" for i a
    using inv that unfolding acme_inv_def by (fastforce simp: authz_wf_def)
  have ch: "\<exists>a. map_of (as_authorizations (w_srv w')) (cf_authz_id c) = Some a \<and> cf_index c < length (az_challenges a)"
    if "map_of (as_challenges (w_srv w')) i = Some c" for i c
    using inv that unfolding acme_inv_def by (fastforce simp: authz_wf_def)
  ultimately show ?thesis using cov link wf az ch by (intro conjI allI impI ballI) blast+
qed

theorem acme_always_answers_witness:
  "\<exists>s resp w'. new_acme_server ''http://ca'' (Some sample_authority) (Some server_ops) 0 False = Inr s \<and>
     acme_run sample_acme_env [(sample_acme_inputs, post ''/acme/new-order'' [1])]
       \<lparr>w_srv = s, w_store = InMemory new_memory_storage, w_ent = [], w_hs = []\<rparr> = ([resp], w') \<and> rs_status resp \<noteq> 0"
proof -
  obtain s :: "nat acme_server" where
    s: "new_acme_server ''http://ca'' (Some sample_authority) (Some server_ops) 0 False = Inr s"
    by (simp add: new_acme_server_def Let_def)
  let ?w = "\<lparr>w_srv = s, w_store = InMemory new_memory_storage, w_ent = [], w_hs = []\<rparr>"
  obtain resps w' where r: "acme_run sample_acme_env [(sample_acme_inputs, post ''/acme/new-order'' [1])] ?w = (resps, w')"
    by fastforce
  have "length resps = 1" "\<forall>resp \<in> set resps. rs_status resp \<noteq> 0"
    using acme_always_answers [OF s _ r] by simp_all
  then obtain resp where "resps = [resp]" "rs_status resp \<noteq> 0" by (cases resps) auto
  then show ?thesis using s r by blast
qed

section \<open>Authorizations are earned\<close>

lemma newly_valid_verified:
  assumes i: "acme_inv (w_srv w)" and h: "acme_serve_http env inp r w = (resp, w')"
    and new: "a \<in> valid_authzs (w_srv w')" "a \<notin> valid_authzs (w_srv w)"
  shows "rq_method r = ''POST'' \<and> has_prefix (rq_path r) ''/acme/challenge/'' \<and>
    a \<in> challenge_targets (w_srv w) (trim_prefix (rq_path r) ''/acme/challenge/'') \<and>
    (\<exists>jws u. verify_jws env inp r (add_nonce_header (ai_now inp) w) = (Inr jws, u))"
proof -
  have "a \<in> request_targets (w_srv w) r" using newly_valid [OF i h] new by blast
  then have p: "rq_method r = ''POST''" "has_prefix (rq_path r) ''/acme/challenge/''"
      "a \<in> challenge_targets (w_srv w) (trim_prefix (rq_path r) ''/acme/challenge/'')"
    by (simp_all add: request_targets_def split: if_splits)
  obtain rest where path: "rq_path r = ''/acme/challenge/'' @ rest"
    using p(2) by (metis append_take_drop_id has_prefix_def)
  have "acme_serve_http env inp r w =
      handle_challenge env inp r (trim_prefix (rq_path r) ''/acme/challenge/'') (add_nonce_header (ai_now inp) w)"
    using p(1) by (simp add: acme_serve_http_def path has_prefix_def)
  then have c: "authenticated env inp r (add_nonce_header (ai_now inp) w)
      (answer_challenge env inp r (trim_prefix (rq_path r) ''/acme/challenge/'')) = (resp, w')"
    using h p(1) by (simp add: handle_challenge_def)
  obtain res u where v: "verify_jws env inp r (add_nonce_header (ai_now inp) w) = (res, u)" by fastforce
  have "\<exists>jws. res = Inr jws"
  proof (rule ccontr)
    assume "\<not> ?thesis"
    then have "w' = u" using c v p(1) by (cases res) (auto simp: authenticated_def)
    then have "core (w_srv w') = core (w_srv w)" using verify_jws_simps(1) [OF v] by simp
    then show False using new valid_authzs_core by blast
  qed
  then show ?thesis using p v by blast
qed

text \<open>
  C8. An authorization becomes valid only through its own challenge: whenever an authorization is valid
  at the end of a run of requests and was not at its beginning, the run has a POST to the URL of a
  challenge that belonged to that authorization when the request came, and the request passed the
  verification of signature and nonce.
\<close>

theorem authorization_earned:
  assumes "acme_inv (w_srv w)" and "acme_run env rs w = (resps, w')"
    and "map_of (as_authorizations (w_srv w')) a = Some authz" and "az_status authz = ''valid''"
    and "\<forall>az. map_of (as_authorizations (w_srv w)) a = Some az \<longrightarrow> az_status az \<noteq> ''valid''"
  shows "\<exists>rs1 inp r rs2 ref jws u.
    rs = rs1 @ (inp, r) # rs2 \<and> rq_method r = ''POST'' \<and> has_prefix (rq_path r) ''/acme/challenge/'' \<and>
    (let v = (snd (acme_run env rs1 w))\<lparr>w_hs := []\<rparr> in
       map_of (as_challenges (w_srv v)) (trim_prefix (rq_path r) ''/acme/challenge/'') = Some ref \<and> cf_authz_id ref = a \<and>
       verify_jws env inp r (add_nonce_header (ai_now inp) v) = (Inr jws, u))"
proof -
  have new: "a \<in> valid_authzs (w_srv w')" "a \<notin> valid_authzs (w_srv w)"
    using assms(3-5) by (auto simp: valid_authzs_def)
  show ?thesis
    using assms(1,2) new
  proof (induction rs arbitrary: w resps)
    case (Cons x rs)
    obtain inp r where x: "x = (inp, r)" by fastforce
    let ?w = "w\<lparr>w_hs := []\<rparr>"
    obtain resp w1 where h: "acme_serve_http env inp r ?w = (resp, w1)" by fastforce
    obtain resps1 where rn: "acme_run env rs w1 = (resps1, w')"
      using Cons.prems(2) h by (auto simp: x split: prod.splits)
    have inv: "acme_inv (w_srv ?w)" using Cons.prems(1) by simp
    show ?case
    proof (cases "a \<in> valid_authzs (w_srv w1)")
      case True
      have "a \<notin> valid_authzs (w_srv ?w)" using Cons.prems(4) by simp
      from newly_valid_verified [OF inv h True this]
      obtain jws u ref where "rq_method r = ''POST''" "has_prefix (rq_path r) ''/acme/challenge/''"
        "map_of (as_challenges (w_srv ?w)) (trim_prefix (rq_path r) ''/acme/challenge/'') = Some ref" "cf_authz_id ref = a"
        "verify_jws env inp r (add_nonce_header (ai_now inp) ?w) = (Inr jws, u)"
        by (auto simp: challenge_targets_def)
      then show ?thesis
        by (intro exI [of _ "[]"] exI [of _ inp] exI [of _ r] exI [of _ rs] exI [of _ ref] exI [of _ jws] exI [of _ u])
          (simp add: x)
    next
      case False
      have "acme_inv (w_srv w1)" using serve_fine [OF inv, of env inp r] h by (simp add: fine_def)
      from Cons.IH [OF this rn Cons.prems(3) False]
      obtain rs1 inp' r' rs2 ref jws u where s: "rs = rs1 @ (inp', r') # rs2" "rq_method r' = ''POST''"
        "has_prefix (rq_path r') ''/acme/challenge/''"
        and t: "let v = (snd (acme_run env rs1 w1))\<lparr>w_hs := []\<rparr> in
          map_of (as_challenges (w_srv v)) (trim_prefix (rq_path r') ''/acme/challenge/'') = Some ref \<and> cf_authz_id ref = a \<and>
          verify_jws env inp' r' (add_nonce_header (ai_now inp') v) = (Inr jws, u)"
        by blast
      have "snd (acme_run env (x # rs1) w) = snd (acme_run env rs1 w1)" by (simp add: x h split: prod.split)
      then show ?thesis
        by (intro exI [of _ "x # rs1"] exI [of _ inp'] exI [of _ r'] exI [of _ rs2] exI [of _ ref] exI [of _ jws] exI [of _ u])
          (use s t in simp)
    qed
  qed simp
qed

lemma add_nonce_header_empty: "w_ent w = [] \<Longrightarrow> add_nonce_header now w = w"
  by (simp add: add_nonce_header_def generate_nonce_def rand_read_def)

lemma sample_challenge_run:
  "snd (acme_run sample_acme_env [(sample_acme_inputs, post ''/acme/challenge/chal_1'' [])] (sample_world ''pending'' [])) =
     snd (answer_challenge sample_acme_env sample_acme_inputs (post ''/acme/challenge/chal_1'' []) ''chal_1''
       ((sample_world ''pending'' [])\<lparr>w_srv := (sample_acme ''pending'')\<lparr>as_nonces := \<lparr>nm_nonces = [], nm_ttl = 15 * minute\<rparr>\<rparr>\<rparr>))"
proof -
  let ?w = "sample_world ''pending'' []" and ?r = "post ''/acme/challenge/chal_1'' []"
  have p: "rq_method ?r = ''POST''" "rq_path ?r = ''/acme/challenge/chal_1''" by (simp_all add: post_def)
  have w: "w_ent ?w = []" "?w\<lparr>w_hs := []\<rparr> = ?w" "w_srv ?w = sample_acme ''pending''" by (simp_all add: sample_world_def)
  have n: "as_nonces (sample_acme ''pending'') = \<lparr>nm_nonces = [(''n0'', 2000 * second)], nm_ttl = 15 * minute\<rparr>"
    by (simp add: sample_acme_def)
  have v: "verify_jws sample_acme_env sample_acme_inputs ?r ?w = (Inr (sample_parsed []),
      ?w\<lparr>w_srv := (sample_acme ''pending'')\<lparr>as_nonces := \<lparr>nm_nonces = [], nm_ttl = 15 * minute\<rparr>\<rparr>\<rparr>)"
    using sample_verified [of ?w "[]" "''/acme/challenge/chal_1''"]
    by (simp add: w n add_nonce_header_empty) (simp add: gm_del_def)
  have "acme_serve_http sample_acme_env sample_acme_inputs ?r ?w =
      handle_challenge sample_acme_env sample_acme_inputs ?r ''chal_1'' ?w"
    by (simp add: acme_serve_http_def p has_prefix_def trim_prefix_def add_nonce_header_empty w)
  then show ?thesis by (simp add: w handle_challenge_def p authenticated_def v split: prod.split)
qed

theorem authorization_earned_witness:
  "\<exists>ref jws u. map_of (as_challenges (sample_acme ''pending'')) ''chal_1'' = Some ref \<and> cf_authz_id ref = ''authz_1'' \<and>
     verify_jws sample_acme_env sample_acme_inputs (post ''/acme/challenge/chal_1'' []) (sample_world ''pending'' []) = (Inr jws, u)"
proof -
  let ?w = "sample_world ''pending'' []" and ?r = "post ''/acme/challenge/chal_1'' []"
  let ?rs = "[(sample_acme_inputs, ?r)]"
  obtain resps w' where r: "acme_run sample_acme_env ?rs ?w = (resps, w')" by fastforce
  have "''authz_1'' \<in> valid_authzs (w_srv w')"
    using challenge_accepted_unseen [of "(?w\<lparr>w_srv := (sample_acme ''pending'')\<lparr>as_nonces := \<lparr>nm_nonces = [], nm_ttl = 15 * minute\<rparr>\<rparr>\<rparr>)"
        "''chal_1''" "\<lparr>cf_authz_id = ''authz_1'', cf_index = 0\<rparr>" "sample_authz ''pending''" _ ?r sample_acme_env sample_acme_inputs]
      sample_challenge_run r
    by (simp add: sample_acme_def sample_authz_def post_def)
  then obtain z where z: "map_of (as_authorizations (w_srv w')) ''authz_1'' = Some z" "az_status z = ''valid''"
    by (auto simp: valid_authzs_def)
  have "acme_inv (w_srv ?w)" "\<forall>az. map_of (as_authorizations (w_srv ?w)) ''authz_1'' = Some az \<longrightarrow> az_status az \<noteq> ''valid''"
    using sample_acme_inv [of "''pending''"] by (simp_all add: sample_world_def) (simp add: sample_acme_def sample_authz_def)
  from authorization_earned [OF this(1) r z this(2)]
  obtain rs1 inp q rs2 ref jws u where s: "?rs = rs1 @ (inp, q) # rs2"
    and t: "let v = (snd (acme_run sample_acme_env rs1 ?w))\<lparr>w_hs := []\<rparr> in
       map_of (as_challenges (w_srv v)) (trim_prefix (rq_path q) ''/acme/challenge/'') = Some ref \<and> cf_authz_id ref = ''authz_1'' \<and>
       verify_jws sample_acme_env inp q (add_nonce_header (ai_now inp) v) = (Inr jws, u)"
    by blast
  have "rs1 = []" "inp = sample_acme_inputs" "q = ?r" using s by (auto simp: Cons_eq_append_conv)
  moreover have "trim_prefix (rq_path ?r) ''/acme/challenge/'' = ''chal_1''"
    by (simp add: post_def trim_prefix_def has_prefix_def)
  ultimately show ?thesis
    using t by (auto simp: sample_world_def add_nonce_header_empty)
qed

section \<open>No replay\<close>

text \<open>
  C5. A signed request counts once: when the server has verified a JWS, then after any further requests
  no JWS with the same nonce is verified again, the answer being 400 with \<open>badNonce\<close>, provided the
  nonce is not among the 16-byte strings the remaining entropy can draw. In particular the same request
  sent again is refused.
\<close>

theorem no_request_replay:
  assumes "verify_jws env inp r w = (Inr jws, w1)" and "jh_nonce (pj_header jws) \<notin> drawable (w_ent w)"
    and "acme_run env rs w1 = (resps, w2)"
    and "rq_body r' = Some b" and "decode_and_verify_jws (ae_jws env) b (Some (lookup_key (w_srv w2))) = Inr jws'"
    and "jh_nonce (pj_header jws') = jh_nonce (pj_header jws)"
  shows "\<exists>resp w3. verify_jws env inp' r' w2 = (Inl resp, w3) \<and> rs_status resp = 400 \<and>
    (\<exists>p. rs_body resp = Json (ProblemJson p) \<and> pd_type p = ProblemBadNonce)"
  using unknown_nonce_refused [OF assms(5,4), of inp'] consumed_stays [OF assms(1-3)] assms(6) by fastforce

theorem no_request_replay_witness:
  "\<exists>jws w1 resp w3. verify_jws sample_acme_env sample_acme_inputs (post ''/acme/new-order'' []) (sample_world ''valid'' []) = (Inr jws, w1) \<and>
     verify_jws sample_acme_env sample_acme_inputs (post ''/acme/new-order'' []) w1 = (Inl resp, w3) \<and> rs_status resp = 400"
proof -
  let ?r = "post ''/acme/new-order'' []"
  have n: "map_of (nm_nonces (as_nonces (w_srv (sample_world ''valid'' [])))) ''n0'' = Some (2000 * second)"
    by (simp add: sample_world_def sample_acme_def)
  obtain w1 where v: "verify_jws sample_acme_env sample_acme_inputs ?r (sample_world ''valid'' []) = (Inr (sample_parsed []), w1)"
    using sample_verified [OF n, of "[]" "''/acme/new-order''"] by simp
  have fresh: "jh_nonce (pj_header (sample_parsed [])) \<notin> drawable (w_ent (sample_world ''valid'' []))"
    by (simp add: drawable_def sample_world_def)
  have b: "rq_body ?r = Some (signed_body [])" by (simp add: post_def)
  have d: "decode_and_verify_jws (ae_jws sample_acme_env) (signed_body []) (Some (lookup_key (w_srv w1))) = Inr (sample_parsed [])"
    by (simp add: sample_acme_env_def sample_decoded)
  have run: "acme_run sample_acme_env [] w1 = ([], w1)" by simp
  from no_request_replay [OF v fresh run b d refl, of sample_acme_inputs] v show ?thesis by blast
qed

section \<open>JWS\<close>

text \<open>
  C6. Signing and verification fit together: what \<open>SignJWS\<close> makes with an RSA or ECDSA key is accepted by
  \<open>DecodeAndVerifyJWS\<close> whenever the header leads to that key, embedded or by its key identifier, and
  gives back the payload, the key and the header with the algorithm filled in.
\<close>

theorem jws_sign_verify:
  assumes "codec_ok env" and "signer_ok env sgnr" and "sign_jws env rnd sgnr header payload = Returns (Inr body)"
    and "\<forall>alg. resolve_key look (header\<lparr>jh_alg := alg\<rparr>) = Inr (signer_public sgnr)"
  shows "\<exists>alg \<in> {''RS256'', ''ES256''}. decode_and_verify_jws env body look =
    Inr \<lparr>pj_header = header\<lparr>jh_alg := alg\<rparr>, pj_payload = payload, pj_public_key = signer_public sgnr\<rparr>"
proof -
  obtain alg where d: "decode_and_verify_jws env body look =
      Inr \<lparr>pj_header = header\<lparr>jh_alg := alg\<rparr>, pj_payload = payload, pj_public_key = signer_public sgnr\<rparr>"
    using sign_verify [OF assms(1-3)] assms(4) by blast
  have "\<exists>hash sig. check_signature env alg (signer_public sgnr) hash sig = None"
    by (rule verified_jws [OF d]) auto
  then obtain hash sig where "check_signature env alg (signer_public sgnr) hash sig = None" by blast
  from check_signature_kinds [OF this] d show ?thesis by blast
qed

theorem jws_sign_verify_witness:
  "\<exists>body. sign_jws sample_jws [] (RSAPrivate 1 (RSAKey 15 3)) sample_header [1] = Returns (Inr body) \<and>
     (\<exists>p. decode_and_verify_jws sample_jws body None = Inr p \<and> pj_payload p = [1])"
proof -
  have k: "resolve_key None (sample_header\<lparr>jh_alg := alg\<rparr>) = Inr (signer_public (RSAPrivate (1::nat) (RSAKey 15 3)))" for alg
  proof -
    have "jwk_to_key (Some sample_jwk) = Inr (RSAKey 15 3)" by code_simp
    then show ?thesis by (simp add: resolve_key_def sample_header_def)
  qed
  have s: "signer_ok sample_jws (RSAPrivate 1 (RSAKey 15 3))" by (simp add: signer_ok_def sample_jws_def)
  obtain body where b: "sign_jws sample_jws [] (RSAPrivate 1 (RSAKey 15 3)) sample_header [1] = Returns (Inr body)"
  proof -
    have "b64_raw_encode b64_url [7] = ''Bw''" "b64_raw_encode b64_url [1] = ''AQ''" by code_simp+
    then show thesis by (intro that) (simp add: sign_jws_def sample_jws_def sample_header_def compact_def raw_signature_def Let_def)
  qed
  from jws_sign_verify [OF sample_jws_codec s b, of None] k b show ?thesis by auto
qed

section \<open>Issuance\<close>

lemma server_reserved_fresh:
  assumes "server_inv s" and "\<forall>i. server_env_ok (fst (snd (envs i)))"
    and "generate_and_reserve_serial (Some server_ops) envs s ent = (Inr n, s', ent')"
  shows "0 < n \<and> n < 2 ^ 128 \<and> st_certs (server_view s) (format_serial (Some n)) = None"
proof -
  let ?envs = "map envs [0..<max_reservation_retries]"
  have ok: "list_all (\<lambda>(_, e, _). server_env_ok e) ?envs"
    using assms(2) by (auto simp: list_all_iff case_prod_unfold)
  have "reserve_attempts server_ops default_serial_bits ?envs s ent = (Inr n, s', ent')"
    using assms(3) by (simp add: generate_and_reserve_serial_def generate_and_reserve_serial_with_bits_def)
  note r = server.reserve_attempts_ok [OF this assms(1) ok, unfolded sum.case]
  then have "format_serial (Some n) \<notin> st_serials (server_view s)" by blast
  moreover have "store_wf (server_view s)" using server.inv_wf [OF assms(1)] .
  ultimately have "st_certs (server_view s) (format_serial (Some n)) = None"
    unfolding store_wf_def by (metis not_None_eq)
  then show ?thesis using r by (simp add: default_serial_bits_def)
qed

text \<open>What the request that adds a certificate went through, and what it leaves.\<close>

lemma issued_certificate:
  assumes "create_parse_ok (ae_crypto env)" and "acme_inv (w_srv w)"
    and "acme_serve_http env inp r w = (resp, w')" and "as_certificates (w_srv w') \<noteq> as_certificates (w_srv w)"
  obtains ord jws w1 w2 csr_der csr c n der cid st ent where
    "rq_method r = ''POST''" "is_finalize r"
    "map_of (as_orders (w_srv w)) (trim_suffix (trim_prefix (rq_path r) ''/acme/order/'') ''/finalize'') = Some ord"
    "core (w_srv w1) = core (w_srv w)" "verify_jws env inp r w1 = (Inr jws, w2)" "all_authz_valid (w_srv w) ord"
    "generate_and_reserve_serial (Some (ae_storage env)) (ai_reserve inp) (w_store w) (w_ent w2) = (Inr n, st, ent)"
    "ce_parse_csr (ae_crypto env) csr_der = Inr csr" "ce_check_csr_signature (ae_crypto env) csr = None"
    "ce_parse_certificate (ae_crypto env) der = Inr c" "c_public_key c = csr_public_key csr"
    "validate_public_key (engine_of (as_authority (w_srv w))) (csr_public_key csr) = None"
    "c_dns_names c = (if order_dns_names ord = [] then csr_dns_names csr else order_dns_names ord)"
    "\<forall>d \<in> set (c_dns_names c). validate_dns_name (engine_of (as_authority (w_srv w))) d = None"
    "c_serial_number c = Some n" "c_issuer c = c_subject (au_intermediate_cert (as_authority (w_srv w)))" "\<not> c_is_ca c"
    "as_certificates (w_srv w') = gm_set cid (pem_encode ''CERTIFICATE'' der @
      pem_encode ''CERTIFICATE'' (c_raw (au_intermediate_cert (as_authority (w_srv w))))) (as_certificates (w_srv w))"
proof -
  from gate [OF assms(2-4)] obtain oid ord jws w1 w2 csr_der serial der cid where
    g: "rq_method r = ''POST''" "is_finalize r" "oid = trim_suffix (trim_prefix (rq_path r) ''/acme/order/'') ''/finalize''"
      "core (w_srv w1) = core (w_srv w)" "verify_jws env inp r w1 = (Inr jws, w2)" "w_store w2 = w_store w"
      "as_authority (w_srv w2) = as_authority (w_srv w)" "map_of (as_orders (w_srv w)) oid = Some ord"
      "all_authz_valid (w_srv w) ord" "issued_for env inp ord csr_der w2 serial der"
      "as_certificates (w_srv w') = gm_set cid (pem_encode ''CERTIFICATE'' der @
        pem_encode ''CERTIFICATE'' (c_raw (au_intermediate_cert (as_authority (w_srv w))))) (as_certificates (w_srv w))"
    by blast
  from g(10) obtain st ent where res: "generate_and_reserve_serial (Some (ae_storage env)) (ai_reserve inp) (w_store w)
        (w_ent w2) = (Inr serial, st, ent)"
    and sign: "sign_certificate_with_profile (ae_crypto env) (as_authority (w_srv w)) csr_der (Some serial)
        default_server_tls_profile empty_extension_config (30 * 24 * hour) (order_dns_names ord) [] (ai_now inp)
        (ai_now inp) (ai_rnd inp) = Inr der"
    by (auto simp: issued_for_def g(6,7))
  obtain csr c n where c: "ce_parse_csr (ae_crypto env) csr_der = Inr csr" "ce_check_csr_signature (ae_crypto env) csr = None"
      "ce_parse_certificate (ae_crypto env) der = Inr c" "c_public_key c = csr_public_key csr"
      "validate_public_key (engine_of (as_authority (w_srv w))) (csr_public_key csr) = None"
      "c_dns_names c = (if order_dns_names ord = [] then csr_dns_names csr else order_dns_names ord)"
      "\<forall>d \<in> set (c_dns_names c). validate_dns_name (engine_of (as_authority (w_srv w))) d = None"
      "Some serial = Some n" "c_serial_number c = Some n" "c_issuer c = c_subject (au_intermediate_cert (as_authority (w_srv w)))"
      "c_is_ca c = pf_is_ca default_server_tls_profile"
    using signed_conforms [OF assms(1) sign] by blast
  have "\<not> c_is_ca c" using c(11) by (simp add: default_server_tls_profile_def)
  moreover have "c_serial_number c = Some serial" using c(8,9) by simp
  ultimately show thesis using that g c res by metis
qed

text \<open>
  C1. ACME issues nothing without a validated order: whenever a request changes the certificates of the
  ACME server, it is a POST to the finalize URL of an existing order, verified by signature and nonce,
  all of whose authorizations are valid; what is added is one chain, of the new certificate and the
  intermediate's. That certificate is for the key of a request whose proof of possession verified, its
  names are the order's DNS names (those of the request where the order has none) and pass the policy,
  as does the key; it is no CA, names the intermediate as issuer and has a serial under which no
  certificate was stored.
\<close>

theorem acme_issuance_sound:
  assumes "create_parse_ok (ae_crypto env)" and "ae_storage env = server_ops" and "acme_inputs_ok server_env_ok inp"
    and "acme_inv (w_srv w)" and "server_inv (w_store w)"
    and "acme_serve_http env inp r w = (resp, w')" and "as_certificates (w_srv w') \<noteq> as_certificates (w_srv w)"
  shows "let s = w_srv w; engine = engine_of (as_authority s); int = au_intermediate_cert (as_authority s);
      oid = trim_suffix (trim_prefix (rq_path r) ''/acme/order/'') ''/finalize''
    in \<exists>ord jws w1 w2 csr_der csr c n der cid.
    rq_method r = ''POST'' \<and> is_finalize r \<and> core (w_srv w1) = core s \<and> verify_jws env inp r w1 = (Inr jws, w2) \<and>
    map_of (as_orders s) oid = Some ord \<and>
    (\<forall>url \<in> set (od_authorizations ord). \<exists>a. map_of (as_authorizations s)
       (trim_prefix url (as_base_url s @ ''/acme/authz/'')) = Some a \<and> az_status a = ''valid'') \<and>
    ce_parse_csr (ae_crypto env) csr_der = Inr csr \<and> ce_check_csr_signature (ae_crypto env) csr = None \<and>
    ce_parse_certificate (ae_crypto env) der = Inr c \<and> c_public_key c = csr_public_key csr \<and>
    validate_public_key engine (csr_public_key csr) = None \<and>
    c_dns_names c = (if order_dns_names ord = [] then csr_dns_names csr else order_dns_names ord) \<and>
    (\<forall>d \<in> set (c_dns_names c). validate_dns_name engine d = None) \<and>
    \<not> c_is_ca c \<and> c_issuer c = c_subject int \<and> c_serial_number c = Some n \<and> 0 < n \<and> n < 2 ^ 128 \<and>
    st_certs (server_view (w_store w)) (format_serial (Some n)) = None \<and>
    as_certificates (w_srv w') =
      gm_set cid (pem_encode ''CERTIFICATE'' der @ pem_encode ''CERTIFICATE'' (c_raw int)) (as_certificates s)"
proof (rule issued_certificate [OF assms(1,4,6,7)], goal_cases)
  case (1 ord jws w1 w2 csr_der csr c n der cid st ent)
  have "\<forall>i. server_env_ok (fst (snd (ai_reserve inp i)))" using assms(3) by (simp add: acme_inputs_ok_def)
  note fresh = server_reserved_fresh [OF assms(5) this 1(7) [unfolded assms(2)]]
  have az: "\<forall>url \<in> set (od_authorizations ord). \<exists>a. map_of (as_authorizations (w_srv w))
      (trim_prefix url (as_base_url (w_srv w) @ ''/acme/authz/'')) = Some a \<and> az_status a = ''valid''"
    using 1(6) by (auto simp: all_authz_valid_def authz_valid_def list_all_iff split: option.splits)
  show ?case
    unfolding Let_def
    by (intro exI [of _ ord] exI [of _ jws] exI [of _ w1] exI [of _ w2] exI [of _ csr_der] exI [of _ csr] exI [of _ c]
        exI [of _ n] exI [of _ der] exI [of _ cid] conjI az) (use 1 fresh in blast)+
qed

text \<open>Finalizing the sample order: three draws of 16 bytes, two for nonces and one for the serial.\<close>

lemma add_nonce_header_drawn:
  assumes "16 \<le> length (w_ent w)"
  shows "\<exists>n. n \<noteq> ''n0'' \<and> add_nonce_header now w = set_hdr ''Replay-Nonce'' n
    (w\<lparr>w_srv := (w_srv w)\<lparr>as_nonces := (as_nonces (w_srv w))\<lparr>nm_nonces :=
       gm_set n (now + nm_ttl (as_nonces (w_srv w))) (nm_nonces (as_nonces (w_srv w)))\<rparr>\<rparr>, w_ent := drop 16 (w_ent w)\<rparr>)"
proof -
  have "rand_read 16 (w_ent w) = Some (take 16 (w_ent w), drop 16 (w_ent w))" using assms by (simp add: rand_read_def)
  moreover have "length (b64_raw_encode b64_url (take 16 (w_ent w))) = 22"
    using assms by (simp add: b64_raw_encode_def length_sextets)
  then have "b64_raw_encode b64_url (take 16 (w_ent w)) \<noteq> ''n0''" by auto
  ultimately show ?thesis
    by (intro exI [of _ "b64_raw_encode b64_url (take 16 (w_ent w))"])
      (simp add: add_nonce_header_def generate_nonce_def Let_def)
qed

lemma sample_finalize:
  "as_certificates (w_srv (snd (acme_serve_http sample_acme_env sample_acme_inputs
     (post ''/acme/order/order_1/finalize'' [1])
     (sample_world ''valid'' sample_ent)))) \<noteq> []"
proof -
  let ?r = "post ''/acme/order/order_1/finalize'' [1]"
  let ?w = "sample_world ''valid'' sample_ent"
  let ?now = "1000 * second"
  have p: "rq_method ?r = ''POST''" "rq_path ?r = ''/acme/order/order_1/finalize''" by (simp_all add: post_def)
  have len: "length sample_ent = 48" by (simp add: sample_ent_def)
  then have e: "16 \<le> length (w_ent ?w)" by (simp add: sample_world_def)
  from add_nonce_header_drawn [OF e, of ?now] obtain n1 w1 where w1: "add_nonce_header ?now ?w = w1" "n1 \<noteq> ''n0''"
    "w_srv w1 = (sample_acme ''valid'')\<lparr>as_nonces := \<lparr>nm_nonces = gm_set n1 (?now + 15 * minute) [(''n0'', 2000 * second)],
       nm_ttl = 15 * minute\<rparr>\<rparr>" "w_ent w1 = drop 16 sample_ent" "w_store w1 = InMemory new_memory_storage"
    by (fastforce simp: sample_world_def sample_acme_def)
  let ?v = "w1\<lparr>w_srv := (w_srv w1)\<lparr>as_nonces := (as_nonces (w_srv w1))\<lparr>nm_nonces := gm_del ''n0'' (nm_nonces (as_nonces (w_srv w1)))\<rparr>\<rparr>\<rparr>"
  have ev: "16 \<le> length (w_ent ?v)" using w1(4) len by simp
  from add_nonce_header_drawn [OF ev, of ?now] obtain w2 where w2: "add_nonce_header ?now ?v = w2"
    "core (w_srv w2) = core (sample_acme ''valid'')" "w_ent w2 = drop 32 sample_ent" "w_store w2 = InMemory new_memory_storage"
    using w1(3-5) by fastforce
  have v: "verify_jws sample_acme_env sample_acme_inputs ?r w1 = (Inr (sample_parsed [1]), w2)"
    using sample_verified [of w1 "[1]" "''/acme/order/order_1/finalize''"] w1(2,3) w2(1) by simp
  note c = core_fields [OF w2(2)]
  have now: "ai_now sample_acme_inputs = ?now" by (simp add: sample_acme_inputs_def)
  have nw: "add_nonce_header (ai_now sample_acme_inputs) ?w = w1" using w1(1) by (simp only: now)
  have serve: "acme_serve_http sample_acme_env sample_acme_inputs ?r ?w =
      finalize_order sample_acme_env sample_acme_inputs [1] ''order_1'' w2"
    by (simp add: acme_serve_http_def p has_prefix_def has_suffix_def trim_prefix_def trim_suffix_def nw
        handle_finalize_order_def v) (simp add: sample_parsed_def)
  obtain st where st: "generate_and_reserve_serial (Some server_ops) (\<lambda>_. (None, (None, calm), 7)) (InMemory new_memory_storage)
     (drop 32 sample_ent) = (Inr acme_serial, st, [])" using acme_reservation by blast
  have d: "decode_csr ''AQ'' = Some [1]" by code_simp
  have o: "map_of (as_orders (w_srv w2)) ''order_1'' = Some sample_order" by (simp add: c sample_acme_def)
  have az: "all_authz_valid (w_srv w2) sample_order"
    by (simp add: all_authz_valid_def authz_valid_def c sample_acme_def sample_order_def sample_authz_def
        trim_prefix_def has_prefix_def)
  have names: "order_dns_names sample_order = [''www.go.dev'']" by (simp add: order_dns_names_def sample_order_def)
  have auth: "as_authority (w_srv w2) = sample_authority" by (simp add: c sample_acme_def)
  obtain resp w' where i: "issue_for_order sample_acme_env sample_acme_inputs ''order_1'' sample_order [1] w2 = (resp, w')"
    by fastforce
  have "finalize_order sample_acme_env sample_acme_inputs [1] ''order_1'' w2 = (resp, w')"
    by (simp add: finalize_order_def o az i d sample_acme_env_def [THEN arg_cong, of ae_finalize_payload, simplified])
  moreover have "rs_status resp = 200"
    using i acme_leaf_issued
    by (auto simp: issue_for_order_def sample_acme_env_def sample_acme_inputs_def w2(3,4) st auth names Let_def
        reply_def split: prod.splits)
  moreover from i have "as_certificates (w_srv w') \<noteq> [] \<or> rs_status resp = 500"
    by (cases rule: issue_for_order_cases) (auto simp: gm_set_def)
  ultimately show ?thesis by (simp add: serve)
qed

theorem acme_issuance_sound_witness:
  "\<exists>resp w' cid der. acme_serve_http sample_acme_env sample_acme_inputs (post ''/acme/order/order_1/finalize'' [1])
      (sample_world ''valid'' sample_ent) = (resp, w') \<and>
    as_certificates (w_srv w') = gm_set cid (pem_encode ''CERTIFICATE'' der @ pem_encode ''CERTIFICATE'' [6]) []"
proof -
  let ?w = "sample_world ''valid'' sample_ent"
  obtain resp w' where h: "acme_serve_http sample_acme_env sample_acme_inputs (post ''/acme/order/order_1/finalize'' [1]) ?w = (resp, w')"
    by fastforce
  have t: "create_parse_ok (ae_crypto sample_acme_env)"
    using table_env_ok [of "[acme_leaf]"] by (simp add: sample_acme_env_def)
  have w: "as_certificates (w_srv ?w) = []" "acme_inv (w_srv ?w)" "server_inv (w_store ?w)" "ae_storage sample_acme_env = server_ops"
    "acme_inputs_ok server_env_ok sample_acme_inputs" "c_raw (au_intermediate_cert (as_authority (w_srv ?w))) = [6]"
    using sample_acme_inv [of "''valid''"]
    by (simp_all add: sample_world_def sample_acme_env_def sample_acme_inputs_def acme_inputs_ok_def server_env_ok_def)
      (simp_all add: sample_acme_def sample_issuer_def)
  have "as_certificates (w_srv w') \<noteq> as_certificates (w_srv ?w)" using sample_finalize h w(1) by simp
  from acme_issuance_sound [OF t w(4,5,2,3) h this] h show ?thesis
    unfolding Let_def w(1,6) by blast
qed

text \<open>
  C2. The names were authorized. As long as the randomness repeats no 8-byte string, the link from every
  order to its authorizations holds: it does for a new server and after any sequence of requests. So a
  certificate issued for an order with DNS names, in whatever state the requests have led to, carries
  only names for each of which the server holds a valid authorization, for exactly that name.
\<close>

theorem acme_names_authorized:
  fixes w :: "('k, 's) world"
  assumes "create_parse_ok (ae_crypto env)" and "acme_inv (w_srv w)" and "link_inv w" and "acme_run env rs w = (resps, w1)" and "8 \<le> length (w_ent w1)"
    and "acme_serve_http env inp r (w1\<lparr>w_hs := []\<rparr>) = (resp, w2)"
    and "as_certificates (w_srv w2) \<noteq> as_certificates (w_srv w1)"
  shows "(\<exists>ord der c cid rest. map_of (as_orders (w_srv w1))
      (trim_suffix (trim_prefix (rq_path r) ''/acme/order/'') ''/finalize'') = Some ord \<and>
    ce_parse_certificate (ae_crypto env) der = Inr c \<and>
    as_certificates (w_srv w2) = gm_set cid (pem_encode ''CERTIFICATE'' der @ rest) (as_certificates (w_srv w1)) \<and>
    (order_dns_names ord \<noteq> [] \<longrightarrow>
      (\<forall>d \<in> set (c_dns_names c). \<exists>i a. map_of (as_authorizations (w_srv w1)) i = Some a \<and>
        az_status a = ''valid'' \<and> az_identifier a = \<lparr>id_type = ''dns'', id_value = d\<rparr>))) \<and>
    link_inv w1 \<and>
    (\<forall>v base authority storage ttl skip. new_acme_server base authority storage ttl skip = Inr (w_srv v) \<and>
       never_repeats (w_ent v) \<longrightarrow> acme_inv (w_srv v) \<and> link_inv (v :: ('k, 's) world))"
proof -
  have inv: "acme_inv (w_srv (w1\<lparr>w_hs := []\<rparr>))" using acme_run_inv [OF assms(2,4)] by simp
  have l1: "link_inv w1" using run_link [OF assms(4,3,5)] .
  then have l: "linked (w_srv w1)" by (simp add: link_inv_def)
  have new: "\<forall>v base authority storage ttl skip. new_acme_server base authority storage ttl skip = Inr (w_srv v) \<and>
      never_repeats (w_ent v) \<longrightarrow> acme_inv (w_srv v) \<and> link_inv (v :: ('k, 's) world)"
    using acme_inv_new link_inv_new by blast
  have ch: "as_certificates (w_srv w2) \<noteq> as_certificates (w_srv (w1\<lparr>w_hs := []\<rparr>))" using assms(7) by simp
  have "\<exists>ord der c cid rest. map_of (as_orders (w_srv w1))
      (trim_suffix (trim_prefix (rq_path r) ''/acme/order/'') ''/finalize'') = Some ord \<and>
    ce_parse_certificate (ae_crypto env) der = Inr c \<and>
    as_certificates (w_srv w2) = gm_set cid (pem_encode ''CERTIFICATE'' der @ rest) (as_certificates (w_srv w1)) \<and>
    (order_dns_names ord \<noteq> [] \<longrightarrow>
      (\<forall>d \<in> set (c_dns_names c). \<exists>i a. map_of (as_authorizations (w_srv w1)) i = Some a \<and>
        az_status a = ''valid'' \<and> az_identifier a = \<lparr>id_type = ''dns'', id_value = d\<rparr>))"
  proof (rule issued_certificate [OF assms(1) inv assms(6) ch], goal_cases)
    case (1 ord jws u v csr_der csr c n der cid st ent)
    have "\<exists>i a. map_of (as_authorizations (w_srv w1)) i = Some a \<and> az_status a = ''valid'' \<and>
        az_identifier a = \<lparr>id_type = ''dns'', id_value = d\<rparr>" if "d \<in> set (order_dns_names ord)" for d
    proof -
      from that obtain x where x: "x \<in> set (od_identifiers ord)" "id_type x = ''dns''" "id_value x = d"
        by (auto simp: order_dns_names_def)
      from x(2,3) have "x = \<lparr>id_type = ''dns'', id_value = d\<rparr>" by (cases x) simp
      then show ?thesis using linked_valid [OF l _ _ x(1)] 1(3,6) by fastforce
    qed
    then show ?case
      using 1(3,10,13,18)
      by (intro exI [of _ ord] exI [of _ der] exI [of _ c] exI [of _ cid]
          exI [of _ "pem_encode ''CERTIFICATE'' (c_raw (au_intermediate_cert (as_authority (w_srv w1))))"]) simp
  qed
  then show ?thesis using l1 new by blast
qed

theorem acme_names_authorized_witness:
  "\<exists>cid der c rest. as_certificates (w_srv (snd (acme_serve_http sample_acme_env sample_acme_inputs
       (post ''/acme/order/order_1/finalize'' [1]) (sample_world ''valid'' sample_ent)))) =
         gm_set cid (pem_encode ''CERTIFICATE'' der @ rest) [] \<and>
     ce_parse_certificate (ae_crypto sample_acme_env) der = Inr c \<and>
     (\<forall>d \<in> set (c_dns_names c). \<exists>i a. map_of (as_authorizations (sample_acme ''valid'')) i = Some a \<and>
        az_status a = ''valid'' \<and> az_identifier a = \<lparr>id_type = ''dns'', id_value = d\<rparr>)"
proof -
  let ?w = "sample_world ''valid'' sample_ent" and ?r = "post ''/acme/order/order_1/finalize'' [1]"
  obtain resp w' where h: "acme_serve_http sample_acme_env sample_acme_inputs ?r (?w\<lparr>w_hs := []\<rparr>) = (resp, w')"
    by fastforce
  have t: "create_parse_ok (ae_crypto sample_acme_env)"
    using table_env_ok [of "[acme_leaf]"] by (simp add: sample_acme_env_def)
  have w: "?w\<lparr>w_hs := []\<rparr> = ?w" "as_certificates (w_srv ?w) = []" "acme_inv (w_srv ?w)" "w_srv ?w = sample_acme ''valid''"
    using sample_acme_inv [of "''valid''"] by (simp_all add: sample_world_def) (simp_all add: sample_acme_def)
  have nr: "never_repeats sample_ent" by (rule never_repeatsI) code_simp
  have "\<forall>t \<in> tags sample_ent. length t = 16" by (auto simp: tags_def)
  then have "\<forall>t \<in> tags sample_ent. t \<noteq> ''1''" by auto
  then have l: "link_inv ?w"
    using nr
    by (auto simp: link_inv_def linked_def unused_tags_def sample_world_def sample_acme_def order_links_def authz_ident_def
        sample_order_def sample_authz_def trim_prefix_def has_prefix_def split: if_splits)
  have run: "acme_run sample_acme_env [] ?w = ([], ?w)" and len: "8 \<le> length (w_ent ?w)"
    by (simp_all add: sample_world_def sample_ent_def)
  have ch: "as_certificates (w_srv w') \<noteq> as_certificates (w_srv ?w)"
    using sample_finalize h w(1,2) by simp
  have o: "ord = sample_order" if "map_of (as_orders (sample_acme ''valid'')) x = Some ord" for x ord
    using that by (simp add: sample_acme_def split: if_splits)
  have n: "order_dns_names sample_order \<noteq> []" by (simp add: order_dns_names_def sample_order_def)
  from acme_names_authorized [OF t w(3) l run len h ch, unfolded w, THEN conjunct1]
  obtain x ord der c cid rest where r: "map_of (as_orders (sample_acme ''valid'')) x = Some ord"
    "ce_parse_certificate (ae_crypto sample_acme_env) der = Inr c"
    "as_certificates (w_srv w') = gm_set cid (pem_encode ''CERTIFICATE'' der @ rest) (as_certificates (sample_acme ''valid''))"
    "order_dns_names ord \<noteq> [] \<longrightarrow> (\<forall>d \<in> set (c_dns_names c). \<exists>i a.
      map_of (as_authorizations (sample_acme ''valid'')) i = Some a \<and> az_status a = ''valid'' \<and>
      az_identifier a = \<lparr>id_type = ''dns'', id_value = d\<rparr>)"
    by (elim exE conjE)
  have "as_certificates (sample_acme ''valid'') = []" by (simp add: sample_acme_def)
  then show ?thesis
    using r(2-4) o [OF r(1)] n h unfolding w
    by (intro exI [of _ cid] exI [of _ der] exI [of _ c] exI [of _ rest]) simp
qed

end
