(* ===== verification/Mtls_Pem.thy ===== *)
theory Mtls_Pem
  imports Go_Pem
begin

text \<open>
  The hand-written base-64 and PEM encoders of \<open>examples/mtls/main.go\<close>, and their agreement with the
  encoders of the standard library that the server uses. The buffer is filled by index, three bytes
  at a time through a 32-bit word, as in the code.
\<close>

section \<open>Base 64\<close>

definition sextet_char :: "32 word \<Rightarrow> nat \<Rightarrow> char" where
  "sextet_char val n = b64_std ! unat (drop_bit n val AND 0x3F)"

text \<open>The loop over whole groups: \<open>si\<close> and \<open>di\<close> are the positions in the bytes and in the buffer.\<close>

function b64_groups :: "byte list \<Rightarrow> nat \<Rightarrow> string \<Rightarrow> nat \<Rightarrow> nat \<Rightarrow> string \<times> nat \<times> nat" where
  "b64_groups b n buf di si =
     (if si < n
      then let val = push_bit 16 (ucast (b ! si)) OR push_bit 8 (ucast (b ! (si + 1))) OR (ucast (b ! (si + 2)) :: 32 word);
               buf = buf[di := sextet_char val 18];
               buf = buf[di + 1 := sextet_char val 12];
               buf = buf[di + 2 := sextet_char val 6];
               buf = buf[di + 3 := sextet_char val 0]
           in b64_groups b n buf (di + 4) (si + 3)
      else (buf, di, si))"
  by auto
termination by (relation "measure (\<lambda>(b, n, buf, di, si). n - si)") auto

declare b64_groups.simps [simp del]

text \<open>The one or two bytes left, and the padding.\<close>

definition b64_tail :: "byte list \<Rightarrow> string \<times> nat \<times> nat \<Rightarrow> string" where
  "b64_tail b = (\<lambda>(buf, di, si).
     let remain = length b - si in
     if remain = 1 then
       let val = push_bit 16 (ucast (b ! si)) :: 32 word
       in buf[di := sextet_char val 18, di + 1 := sextet_char val 12, di + 2 := CHR ''='', di + 3 := CHR ''='']
     else if remain = 2 then
       let val = push_bit 16 (ucast (b ! si)) OR push_bit 8 (ucast (b ! (si + 1))) :: 32 word
       in buf[di := sextet_char val 18, di + 1 := sextet_char val 12, di + 2 := sextet_char val 6, di + 3 := CHR ''='']
     else buf)"

definition base64_encode :: "byte list \<Rightarrow> string" where
  "base64_encode b =
     (let nb = length b; buf = replicate ((nb + 2) div 3 * 4) (CHR 0x00)
      in b64_tail b (b64_groups b (nb div 3 * 3) buf 0 0))"

section \<open>PEM\<close>

fun pem_wrap :: "string \<Rightarrow> nat \<Rightarrow> string \<Rightarrow> string" where
  "pem_wrap acc i [] = acc"
| "pem_wrap acc i (c # cs) = pem_wrap (acc @ [c] @ (if (i + 1) mod 64 = 0 then [CHR 0x0A] else [])) (i + 1) cs"

text \<open>None is the panic of \<open>base64Str[len(base64Str)-1]\<close> on an empty string.\<close>

definition encode_pem :: "string \<Rightarrow> byte list \<Rightarrow> byte list option" where
  "encode_pem pem_type b =
     (let block = ''-----BEGIN '' @ pem_type @ ''-----'' @ [CHR 0x0A];
          base64_str = pem_wrap [] 0 (base64_encode b)
      in if base64_str = [] then None
         else let base64_str = (if last base64_str \<noteq> CHR 0x0A then base64_str @ [CHR 0x0A] else base64_str)
              in Some (bytes_of (block @ base64_str @ ''-----END '' @ pem_type @ ''-----'' @ [CHR 0x0A])))"

section \<open>Words of three bytes\<close>

definition be24 :: "nat \<Rightarrow> nat \<Rightarrow> nat \<Rightarrow> nat" where
  "be24 a b c = a * 65536 + b * 256 + c"

lemma unat_bounded: "unat (w :: 'a :: len word) < 2 ^ LENGTH('a)"
  by transfer simp

lemma unat_be24:
  "unat (push_bit 16 (ucast (a :: byte)) OR push_bit 8 (ucast (b :: byte)) OR (ucast (c :: byte) :: 32 word))
     = be24 (unat a) (unat b) (unat c)"
proof -
  let ?a = "push_bit 16 (ucast a) :: 32 word" and ?b = "push_bit 8 (ucast b) :: 32 word" and ?c = "ucast c :: 32 word"
  have l: "unat x < 256" "take_bit 32 (unat x) = unat x"
    "unat x * 65536 mod 4294967296 = unat x * 65536" "unat x * 256 mod 4294967296 = unat x * 256" for x :: byte
  proof -
    show b: "unat x < 256" by (rule unat_byte_less)
    then have "unat x < 2 ^ 32" by (rule less_trans) simp
    then show "take_bit 32 (unat x) = unat x" by (simp only: take_bit_nat_eq_self_iff)
    show "unat x * 65536 mod 4294967296 = unat x * 65536" "unat x * 256 mod 4294967296 = unat x * 256"
      using b by (intro mod_less; linarith)+
  qed
  have u: "unat ?a = unat a * 65536" "unat ?b = unat b * 256" "unat ?c = unat c"
    by (simp_all add: push_bit_eq_mult unat_word_ariths unsigned_ucast_eq l del: unat_byte_less)
  have d: "?a AND (?b OR ?c) = 0" "?b AND ?c = 0"
    by (rule bit_eqI; auto simp: bit_simps dest: bit_imp_le_length)+
  have s1: "unat (?b OR ?c) = unat ?b + unat ?c"
    using l(1) [of b] l(1) [of c] by (simp only: disjunctive_add_eq_or [OF d(2), symmetric] unat_word_ariths u) (rule mod_less, simp del: unat_byte_less)
  show ?thesis
    unfolding disjunctive_add_eq_or [OF d(1), symmetric] unat_word_ariths(1) s1 u be24_def add.assoc
    using l(1) [of a] l(1) [of b] l(1) [of c] by (intro mod_less) (simp del: unat_byte_less)
qed

lemma sextet_char_unat: "sextet_char val n = b64_std ! (unat val div 2 ^ n mod 64)"
proof -
  have "drop_bit n val AND 0x3F = take_bit 6 (drop_bit n val)" by (simp add: take_bit_eq_mask mask_eq_exp_minus_1)
  then show ?thesis by (simp only: sextet_char_def unsigned_take_bit_eq unsigned_drop_bit_eq) (use unat_bounded [of val] in \<open>simp add: take_bit_eq_mod drop_bit_eq_div\<close>)
qed

lemma quotient: "r < m \<Longrightarrow> (q * m + r) div m = (q :: nat)"
  by simp

lemma remainder: "r < m \<Longrightarrow> (q * m + r) mod m = (r :: nat)"
  by simp

lemma be24_sextets:
  assumes "a < 256" and "b < 256" and "c < 256"
  shows "be24 a b c div 2 ^ 18 mod 64 = a div 4" and "be24 a b c div 2 ^ 12 mod 64 = a mod 4 * 16 + b div 16"
    and "be24 a b c div 2 ^ 6 mod 64 = b mod 16 * 4 + c div 64" and "be24 a b c div 2 ^ 0 mod 64 = c mod 64"
proof -
  define a1 a0 b1 b0 c1 c0 where "a1 = a div 4" "a0 = a mod 4" "b1 = b div 16" "b0 = b mod 16" "c1 = c div 64" "c0 = c mod 64"
  note parts = this
  have e: "a = a1 * 4 + a0" "b = b1 * 16 + b0" "c = c1 * 64 + c0" by (simp_all add: parts)
  have l: "a1 < 64" "a0 < 4" "b1 < 16" "b0 < 16" "c1 < 4" "c0 < 64"
    using assms by (simp_all add: parts less_mult_imp_div_less)
  have "be24 a b c = a1 * 2 ^ 18 + (a0 * 65536 + b * 256 + c)" by (simp add: be24_def e)
  then have "be24 a b c div 2 ^ 18 = a1" using quotient [of "a0 * 65536 + b * 256 + c" "2 ^ 18" a1] l assms by simp
  then show "be24 a b c div 2 ^ 18 mod 64 = a div 4" using l(1) by (simp add: parts)
  have "be24 a b c = (a1 * 64 + (a0 * 16 + b1)) * 2 ^ 12 + (b0 * 256 + c)" by (simp add: be24_def e)
  then have "be24 a b c div 2 ^ 12 = a1 * 64 + (a0 * 16 + b1)"
    using quotient [of "b0 * 256 + c" "2 ^ 12" "a1 * 64 + (a0 * 16 + b1)"] l assms by simp
  then show "be24 a b c div 2 ^ 12 mod 64 = a mod 4 * 16 + b div 16" using l by (simp add: parts [symmetric])
  have "be24 a b c = ((a * 16 + b1) * 64 + (b0 * 4 + c1)) * 2 ^ 6 + c0" by (simp add: be24_def e)
  then have "be24 a b c div 2 ^ 6 = (a * 16 + b1) * 64 + (b0 * 4 + c1)"
    using quotient [of c0 "2 ^ 6" "(a * 16 + b1) * 64 + (b0 * 4 + c1)"] l by simp
  moreover have "((a * 16 + b1) * 64 + (b0 * 4 + c1)) mod 64 = b0 * 4 + c1" using l by (intro remainder) simp
  ultimately show "be24 a b c div 2 ^ 6 mod 64 = b mod 16 * 4 + c div 64" by (simp only: parts)
  have "be24 a b c = (a * 1024 + b * 4 + c1) * 64 + c0" by (simp add: be24_def e)
  then show "be24 a b c div 2 ^ 0 mod 64 = c mod 64" using remainder [OF l(6), of "a * 1024 + b * 4 + c1"] by (simp only: parts) simp
qed

section \<open>Agreement with the library encoders\<close>

lemma sextet_chars:
  fixes a b c :: byte
  defines "val \<equiv> push_bit 16 (ucast a) OR push_bit 8 (ucast b) OR (ucast c :: 32 word)"
  shows "sextet_char val 18 = b64_std ! (unat a div 4)"
    and "sextet_char val 12 = b64_std ! (unat a mod 4 * 16 + unat b div 16)"
    and "sextet_char val 6 = b64_std ! (unat b mod 16 * 4 + unat c div 64)"
    and "sextet_char val 0 = b64_std ! (unat c mod 64)"
  unfolding sextet_char_unat val_def unat_be24 by (simp_all only: be24_sextets unat_byte_less)

lemma sextet_chars2:
  fixes a b :: byte
  defines "val \<equiv> push_bit 16 (ucast a) OR push_bit 8 (ucast b) :: 32 word"
  shows "sextet_char val 18 = b64_std ! (unat a div 4)"
    and "sextet_char val 12 = b64_std ! (unat a mod 4 * 16 + unat b div 16)"
    and "sextet_char val 6 = b64_std ! (unat b mod 16 * 4)"
  using sextet_chars [of a b 0] by (simp_all add: val_def)

lemma sextet_chars1:
  fixes a :: byte
  defines "val \<equiv> push_bit 16 (ucast a) :: 32 word"
  shows "sextet_char val 18 = b64_std ! (unat a div 4)" and "sextet_char val 12 = b64_std ! (unat a mod 4 * 16)"
  using sextet_chars [of a 0 0] by (simp_all add: val_def)

lemma update_block:
  "(pre @ replicate 4 x @ r)[length pre := a, length pre + 1 := b, length pre + 2 := c, length pre + 3 := d]
     = pre @ a # b # c # d # r"
  by (simp add: list_update_append numeral_eq_Suc)

lemma b64_groups_stop: "n \<le> si \<Longrightarrow> b64_groups b n buf di si = (buf, di, si)"
  by (simp add: b64_groups.simps)

lemma b64_groups_next:
  assumes "length b0 < n"
  shows "b64_groups (b0 @ a # b # c # r) n (pre @ replicate 4 x @ buf) (length pre) (length b0) =
    b64_groups ((b0 @ [a, b, c]) @ r) n ((pre @ map ((!) b64_std) [unat a div 4, unat a mod 4 * 16 + unat b div 16,
       unat b mod 16 * 4 + unat c div 64, unat c mod 64]) @ buf) (length pre + 4) (length b0 + 3)"
proof -
  have "(b0 @ a # b # c # r) ! length b0 = a" "(b0 @ a # b # c # r) ! (length b0 + 1) = b"
    "(b0 @ a # b # c # r) ! (length b0 + 2) = c" by (simp_all add: nth_append)
  then show ?thesis
    using assms by (subst b64_groups.simps) (simp only: if_True Let_def sextet_chars update_block, simp)
qed

lemma length_group: "length (a # b # c # r) = 3 + length r"
  by simp

lemma third: "(3 + m) div 3 = Suc (m div 3 :: nat)"
  by simp

lemma b64_padded_group:
  "b64_padded_encode b64_std (a # b # c # r) = map ((!) b64_std) [unat a div 4, unat a mod 4 * 16 + unat b div 16,
     unat b mod 16 * 4 + unat c div 64, unat c mod 64] @ b64_padded_encode b64_std r"
proof -
  have "length (a # b # c # r) mod 3 = length r mod 3" by (simp only: length_group mod_add_self1)
  then show ?thesis by (simp only: b64_padded_encode_def b64_raw_encode_def sextets.simps list.map append_Cons append_Nil)
qed

text \<open>What the encoder does to the rest of the bytes, the groups before it being encoded.\<close>

lemma b64_from:
  "b64_tail (b0 @ r) (b64_groups (b0 @ r) (length b0 + length r div 3 * 3)
     (pre @ replicate ((length r + 2) div 3 * 4) x) (length pre) (length b0)) = pre @ b64_padded_encode b64_std r"
proof (induction r arbitrary: b0 pre rule: sextets.induct)
  case 1
  then show ?case by (simp add: b64_groups_stop b64_tail_def b64_padded_encode_def b64_raw_encode_def)
next
  case (2 a)
  have "b64_tail (b0 @ [a]) (pre @ replicate 4 x, length pre, length b0) = pre @ b64_padded_encode b64_std [a]"
    using update_block [of pre x "[]"]
    by (simp add: b64_tail_def Let_def nth_append sextet_chars1 b64_padded_encode_def b64_raw_encode_def
        numeral_2_eq_2)
  then show ?case by (simp add: b64_groups_stop)
next
  case (3 a b)
  have "b64_tail (b0 @ [a, b]) (pre @ replicate 4 x, length pre, length b0) = pre @ b64_padded_encode b64_std [a, b]"
    using update_block [of pre x "[]"]
    by (simp add: b64_tail_def Let_def nth_append sextet_chars2 b64_padded_encode_def b64_raw_encode_def)
  then show ?case by (simp add: b64_groups_stop)
next
  case (4 a b c r)
  let ?b0 = "b0 @ [a, b, c]" and ?m = "(length r + 2) div 3 * 4" and ?k = "length r div 3 * 3"
  let ?pre = "pre @ map ((!) b64_std) [unat a div 4, unat a mod 4 * 16 + unat b div 16,
       unat b mod 16 * 4 + unat c div 64, unat c mod 64]"
  have len: "(length (a # b # c # r) + 2) div 3 * 4 = 4 + ?m" "length (a # b # c # r) div 3 * 3 = 3 + ?k"
    using third [of "length r + 2"] third [of "length r"] by (simp_all only: length_group add.assoc) simp_all
  have lens: "length ?b0 = length b0 + 3" "length ?pre = length pre + 4" by simp_all
  have "b64_groups (b0 @ a # b # c # r) (length b0 + (3 + ?k)) (pre @ replicate (4 + ?m) x) (length pre) (length b0)
      = b64_groups (?b0 @ r) (length ?b0 + ?k) (?pre @ replicate ?m x) (length ?pre) (length ?b0)"
    using b64_groups_next [of b0 "length b0 + (3 + ?k)" a b c r pre x "replicate ?m x"]
    by (simp only: replicate_add add.assoc lens append_assoc append_Cons append_Nil less_add_same_cancel1)
  then have "b64_tail (b0 @ a # b # c # r) (b64_groups (b0 @ a # b # c # r) (length b0 + (3 + ?k))
      (pre @ replicate (4 + ?m) x) (length pre) (length b0)) = ?pre @ b64_padded_encode b64_std r"
    using 4 [of ?b0 ?pre] by (simp only: append_assoc append_Cons append_Nil)
  then show ?case unfolding len by (simp only: b64_padded_group append_assoc)
qed

text \<open>The encoder is \<open>base64.StdEncoding\<close>.\<close>

lemma base64_encode_std: "base64_encode b = b64_padded_encode b64_std b"
  using b64_from [of "[]" b "[]" "CHR 0x00"] by (simp add: base64_encode_def Let_def)

lemma pem_wrap_acc: "pem_wrap acc i s = acc @ pem_wrap [] i s"
proof (induction s arbitrary: acc i)
  case (Cons c s)
  show ?case
    using Cons.IH [of "acc @ [c] @ (if (i + 1) mod 64 = 0 then [CHR 0x0A] else [])" "i + 1"]
      Cons.IH [of "[c] @ (if (i + 1) mod 64 = 0 then [CHR 0x0A] else [])" "i + 1"]
    by (simp only: pem_wrap.simps append_assoc append_Nil)
qed simp

text \<open>Within a line nothing is inserted; at its end the newline is.\<close>

lemma pem_wrap_line:
  "i mod 64 + length l < 64 \<Longrightarrow> pem_wrap [] i (l @ s) = l @ pem_wrap [] (i + length l) s"
proof (induction l arbitrary: i)
  case (Cons c l)
  then have "(i + 1) mod 64 = i mod 64 + 1" by (simp add: mod_Suc)
  then show ?case
    using Cons.IH [of "i + 1"] Cons.prems pem_wrap_acc [of "[c]" "i + 1" "l @ s"] by simp
qed simp

lemma pem_wrap_full:
  assumes "i mod 64 = 0" and "length l = 64"
  shows "pem_wrap [] i (l @ s) = l @ CHR 0x0A # pem_wrap [] (i + 64) s"
proof -
  obtain l' c where l: "l = l' @ [c]" "length l' = 63" using assms(2) by (cases l rule: rev_cases) auto
  have "(i + 63 + 1) mod 64 = 0" using assms(1) by presburger
  then show ?thesis
    using pem_wrap_line [of i l' "c # s"] assms(1) pem_wrap_acc [of "[c, CHR 0x0A]" "i + 64" s]
    by (simp add: l add.commute)
qed

lemma pem_wrap_lines:
  "s \<noteq> [] \<Longrightarrow> CHR 0x0A \<notin> set s \<Longrightarrow> i mod 64 = 0 \<Longrightarrow>
     pem_wrap [] i s \<noteq> [] \<and>
     (if last (pem_wrap [] i s) \<noteq> CHR 0x0A then pem_wrap [] i s @ [CHR 0x0A] else pem_wrap [] i s) = break_lines s"
proof (induction s arbitrary: i rule: break_lines.induct)
  case (1 s)
  show ?case
  proof (cases "length s < 64")
    case True
    then have "pem_wrap [] i s = s" using pem_wrap_line [of i s "[]"] 1(4) by simp
    moreover have "last s \<noteq> CHR 0x0A" using 1(2,3) last_in_set by metis
    ultimately show ?thesis using True 1(2) by (simp add: break_lines_short)
  next
    case False
    define l where "l = take 64 s"
    have s: "s = l @ drop 64 s" and len: "length l = 64" using False by (simp_all add: l_def)
    have w: "pem_wrap [] i s = l @ CHR 0x0A # pem_wrap [] (i + 64) (drop 64 s)"
      using pem_wrap_full [OF 1(4) len, of "drop 64 s"] s by metis
    show ?thesis
    proof (cases "length s = 64")
      case True
      then show ?thesis using 1(2) w by (simp add: break_lines_short l_def)
    next
      case no: False
      then have long: "\<not> length s \<le> 64" using False by simp
      have "(i + 64) mod 64 = 0" using 1(4) by presburger
      moreover have "CHR 0x0A \<notin> set (drop 64 s)" using 1(3) by (auto dest: in_set_dropD)
      moreover have "drop 64 s \<noteq> []" using long by simp
      ultimately have ih: "pem_wrap [] (i + 64) (drop 64 s) \<noteq> [] \<and>
          (if last (pem_wrap [] (i + 64) (drop 64 s)) \<noteq> CHR 0x0A then pem_wrap [] (i + 64) (drop 64 s) @ [CHR 0x0A]
           else pem_wrap [] (i + 64) (drop 64 s)) = break_lines (drop 64 s)"
        by (intro 1(1) [OF long])
      then show ?thesis unfolding w break_lines_long [OF long] l_def by (simp split: if_splits)
    qed
  qed
qed

lemma encode_pem_library: "encode_pem t b = (if b = [] then None else Some (pem_encode t b))"
proof (cases "b = []")
  case True
  then show ?thesis
    by (simp add: encode_pem_def base64_encode_std b64_padded_encode_def b64_raw_encode_def)
next
  case False
  then have "b64_padded_encode b64_std b \<noteq> []"
    by (cases b rule: sextets.cases) (simp_all add: b64_padded_encode_def b64_raw_encode_def)
  moreover have "CHR 0x0A \<notin> set (b64_padded_encode b64_std b)"
    using set_b64_raw_encode [OF b64_alphabets(2), of b] b64_alphabets(6) by (auto simp: b64_padded_encode_def)
  ultimately show ?thesis
    using pem_wrap_lines [of "b64_padded_encode b64_std b" 0, OF _ _ mod_0] False
    by (simp only: encode_pem_def base64_encode_std pem_encode_def Let_def if_False append_assoc simp_thms)
qed

text \<open>
  C38. The example's own PEM encoder is the library's: for any bytes but none, \<open>encodePEM\<close> gives exactly
  what \<open>pem.EncodeToMemory\<close> gives for a block without headers (the 32-bit arithmetic and the index
  loops of \<open>base64Encode\<close> give standard padded base 64, and the lines break at 64 characters), so any
  PEM decoder gives the type and the bytes back. On no bytes it panics.
\<close>

theorem encode_pem_exact:
  "base64_encode b = b64_padded_encode b64_std b \<and>
   encode_pem t b = (if b = [] then None else Some (pem_encode t b)) \<and>
   (\<forall>dec. pem_decode_ok dec \<and> pem_label t \<and> b \<noteq> [] \<longrightarrow> Option.bind (encode_pem t b) dec = Some (t, b))"
proof (intro conjI allI impI)
  show std: "base64_encode b = b64_padded_encode b64_std b" by (rule base64_encode_std)
  show enc: "encode_pem t b = (if b = [] then None else Some (pem_encode t b))" by (rule encode_pem_library)
  fix dec assume "pem_decode_ok dec \<and> pem_label t \<and> b \<noteq> []"
  then show "Option.bind (encode_pem t b) dec = Some (t, b)" unfolding enc by (simp add: pem_decode_ok_def)
qed

theorem encode_pem_exact_witness:
  "base64_encode [77, 97] = ''TWE='' \<and> Option.bind (encode_pem ''CERTIFICATE'' [77, 97]) line_decoder = Some (''CERTIFICATE'', [77, 97])"
proof -
  have "b64_padded_encode b64_std [77, 97] = ''TWE=''" by code_simp
  moreover have "pem_label ''CERTIFICATE''" by (simp add: pem_label_def)
  ultimately show ?thesis
    using encode_pem_exact [of "[77, 97]" "''CERTIFICATE''"] line_decoder_ok by (metis list.discI)
qed

end
