(* ===== verification/Mtls_Example.thy ===== *)
theory Mtls_Example
  imports Mtls_Pem Key_Store
begin

text \<open>
  \<open>examples/mtls/main.go\<close>: a root, a server and a client certificate made on the spot, and one request
  over mutual TLS. What \<open>crypto/tls\<close> and \<open>crypto/x509\<close> check is written out (the chain to a root of the
  pool, validity, extended key usage, the server's name, possession of the key); the signature check
  itself is an argument.
\<close>

section \<open>Chain verification\<close>

record tls_env =
  te_signed_by :: "certificate \<Rightarrow> certificate \<Rightarrow> bool"

definition valid_at :: "go_time \<Rightarrow> certificate \<Rightarrow> bool" where
  "valid_at now c = (c_not_before c \<le> now \<and> now \<le> c_not_after c)"

text \<open>A certificate without extended key usages allows all. The server's name is compared exactly, which is
  what the library does for a lower-case name and no wildcard.\<close>

definition eku_allows :: "ext_key_usage \<Rightarrow> certificate \<Rightarrow> bool" where
  "eku_allows u c = (c_ext_key_usage c = [] \<or> EkuAny \<in> set (c_ext_key_usage c) \<or> u \<in> set (c_ext_key_usage c))"

definition may_sign :: "certificate \<Rightarrow> bool" where
  "may_sign r = (c_basic_constraints_valid r \<and> c_is_ca r \<and> (c_key_usage r = 0 \<or> c_key_usage r AND KeyUsageCertSign \<noteq> 0))"

definition x509_verify :: "tls_env \<Rightarrow> certificate list \<Rightarrow> go_time \<Rightarrow> ext_key_usage \<Rightarrow> string option \<Rightarrow> certificate \<Rightarrow> bool" where
  "x509_verify te roots now usage name c =
     (valid_at now c \<and> eku_allows usage c \<and>
      (case name of None \<Rightarrow> True | Some n \<Rightarrow> n \<in> set (c_dns_names c)) \<and>
      (c \<in> set roots \<or>
       (\<exists>r \<in> set roots. c_subject r = c_issuer c \<and> may_sign r \<and> valid_at now r \<and> eku_allows usage r \<and> te_signed_by te r c)))"

section \<open>Key pairs and the handshake\<close>

record 'k key_pair =
  kp_leaf :: certificate
  kp_key :: 'k

text \<open>\<open>tls.X509KeyPair\<close>: the key is tried as PKCS #1, then as PKCS #8, and must be the certificate's.\<close>

definition x509_key_pair :: "'k crypto_env \<Rightarrow> 'k key_codec \<Rightarrow> byte list \<Rightarrow> byte list \<Rightarrow> string + 'k key_pair" where
  "x509_key_pair env kc cert_pem key_pem =
     (case kc_pem kc cert_pem of
        None \<Rightarrow> Inl ''tls: failed to find any PEM data in certificate input''
      | Some (t, der) \<Rightarrow>
          if t \<noteq> ''CERTIFICATE'' then Inl ''tls: failed to find certificate PEM data in certificate input''
          else (case kc_pem kc key_pem of
            None \<Rightarrow> Inl ''tls: failed to find any PEM data in key input''
          | Some (t, key_der) \<Rightarrow>
              if \<not> (t = ''PRIVATE KEY'' \<or> has_suffix t '' PRIVATE KEY'')
              then Inl ''tls: failed to find PEM block with type ending in PRIVATE KEY in key input''
              else (case ce_parse_certificate env der of
                Inl e \<Rightarrow> Inl e
              | Inr c \<Rightarrow>
                  (case (case kc_parse_pkcs1 kc key_der of
                           Inr k \<Rightarrow> Some k
                         | Inl _ \<Rightarrow> (case kc_parse_pkcs8 kc key_der of Inr (Some k) \<Rightarrow> Some k | _ \<Rightarrow> None)) of
                     None \<Rightarrow> Inl ''tls: failed to parse private key''
                   | Some k \<Rightarrow>
                       if ce_public env k \<noteq> c_public_key c then Inl ''tls: private key does not match public key''
                       else Inr \<lparr>kp_leaf = c, kp_key = k\<rparr>))))"

definition proves_possession :: "'k crypto_env \<Rightarrow> 'k key_pair \<Rightarrow> bool" where
  "proves_possession env kp = (ce_public env (kp_key kp) = c_public_key (kp_leaf kp))"

text \<open>\<open>RequireAndVerifyClientCert\<close> on one side, \<open>RootCAs\<close> and \<open>ServerName\<close> on the other; the certificates
  the server's handler sees.\<close>

definition tls_handshake ::
  "'k crypto_env \<Rightarrow> tls_env \<Rightarrow> certificate list \<Rightarrow> string \<Rightarrow> 'k key_pair \<Rightarrow> 'k key_pair option \<Rightarrow> go_time \<Rightarrow> go_time \<Rightarrow>
     string + certificate list" where
  "tls_handshake env te pool server_name server client now1 now2 =
     (if \<not> (x509_verify te pool now1 EkuServerAuth (Some server_name) (kp_leaf server) \<and> proves_possession env server)
      then Inl ''tls: failed to verify certificate''
      else case client of
        None \<Rightarrow> Inl ''remote error: tls: certificate required''
      | Some kp \<Rightarrow>
          if x509_verify te pool now2 EkuClientAuth None (kp_leaf kp) \<and> proves_possession env kp
          then Inr [kp_leaf kp] else Inl ''remote error: tls: bad certificate'')"

definition mtls_handler :: "certificate list \<Rightarrow> string" where
  "mtls_handler peers =
     (case peers of
        c # _ \<Rightarrow> ''Hello '' @ nm_common_name (c_subject c) @ '', mutual authentication successful!''
      | [] \<Rightarrow> ''client certificate missing'' @ [CHR 0x0A])"

section \<open>The program\<close>

datatype mtls_exit = Fatal string | Panicked

definition ca_template :: "(go_time \<Rightarrow> int \<Rightarrow> go_time) \<Rightarrow> go_time \<Rightarrow> go_time \<Rightarrow> certificate" where
  "ca_template add_years now1 now2 =
     zero_certificate\<lparr>c_serial_number := Some 1,
       c_subject := \<lparr>nm_organization = [], nm_common_name = ''Local mTLS Root CA''\<rparr>,
       c_not_before := now1 - hour, c_not_after := add_years now2 1, c_is_ca := True,
       c_key_usage := KeyUsageCertSign OR KeyUsageCRLSign, c_basic_constraints_valid := True\<rparr>"

definition generate_ca ::
  "'k crypto_env \<Rightarrow> (go_time \<Rightarrow> int \<Rightarrow> go_time) \<Rightarrow> byte list \<times> byte list \<Rightarrow> go_time \<Rightarrow> go_time \<Rightarrow> mtls_exit + 'k \<times> byte list" where
  "generate_ca env add_years rnd now1 now2 =
     (case ce_generate_rsa env 2048 (fst rnd) of
        Inl e \<Rightarrow> Inl (Fatal (''failed to generate key: '' @ e))
      | Inr key \<Rightarrow>
          let tmpl = ca_template add_years now1 now2 in
          (case ce_create_certificate env (snd rnd) tmpl tmpl (ce_public env key) key of
             Inl e \<Rightarrow> Inl (Fatal (''failed to create CA certificate: '' @ e))
           | Inr der \<Rightarrow> Inr (key, der)))"

definition cert_template :: "string \<Rightarrow> bool \<Rightarrow> go_time \<Rightarrow> go_time \<Rightarrow> go_time \<Rightarrow> certificate" where
  "cert_template cn is_server now1 now2 now3 =
     (let tmpl = zero_certificate\<lparr>c_serial_number := Some (unix_nano now1),
            c_subject := \<lparr>nm_organization = [], nm_common_name = cn\<rparr>,
            c_not_before := now2 - 5 * minute, c_not_after := now3 + 24 * hour,
            c_key_usage := KeyUsageDigitalSignature OR KeyUsageKeyEncipherment, c_basic_constraints_valid := True\<rparr>
      in if is_server then tmpl\<lparr>c_ext_key_usage := [EkuServerAuth], c_dns_names := [cn]\<rparr>
         else tmpl\<lparr>c_ext_key_usage := [EkuClientAuth]\<rparr>)"

definition generate_cert ::
  "'k crypto_env \<Rightarrow> 'k key_codec \<Rightarrow> byte list \<times> byte list \<Rightarrow> (nat \<Rightarrow> go_time) \<Rightarrow> certificate \<Rightarrow> 'k \<Rightarrow> string \<Rightarrow> bool \<Rightarrow>
     mtls_exit + byte list \<times> byte list" where
  "generate_cert env kc rnd clock parent parent_key cn is_server =
     (case ce_generate_rsa env 2048 (fst rnd) of
        Inl e \<Rightarrow> Inl (Fatal (''failed to generate key: '' @ e))
      | Inr key \<Rightarrow>
     (case ce_create_certificate env (snd rnd) (cert_template cn is_server (clock 0) (clock 1) (clock 2)) parent
             (ce_public env key) parent_key of
        Inl e \<Rightarrow> Inl (Fatal (''failed to create certificate: '' @ e))
      | Inr der \<Rightarrow>
     (case (encode_pem ''RSA PRIVATE KEY'' (kc_marshal_pkcs1 kc key), encode_pem ''CERTIFICATE'' der) of
        (Some pem_key, Some pem_cert) \<Rightarrow> Inr (pem_key, pem_cert)
      | _ \<Rightarrow> Inl Panicked)))"

text \<open>What the run draws and what the network does: random bytes for the three certificates, the
  clock's readings, errors of listening, connecting and reading.\<close>

record mtls_inputs =
  mi_clock :: "nat \<Rightarrow> go_time"
  mi_add_years :: "go_time \<Rightarrow> int \<Rightarrow> go_time"
  mi_rnd_ca :: "byte list \<times> byte list"
  mi_rnd_server :: "byte list \<times> byte list"
  mi_rnd_client :: "byte list \<times> byte list"
  mi_listen :: "string option"
  mi_connect :: "string option"
  mi_read :: "string option"

definition mtls_get ::
  "'k crypto_env \<Rightarrow> tls_env \<Rightarrow> mtls_inputs \<Rightarrow> certificate \<Rightarrow> 'k key_pair \<Rightarrow> 'k key_pair \<Rightarrow> mtls_exit + string" where
  "mtls_get env te inp ca_cert server client =
     (case (case mi_connect inp of
              Some e \<Rightarrow> Inl e
            | None \<Rightarrow> tls_handshake env te [ca_cert] ''localhost'' server (Some client) (mi_clock inp 8) (mi_clock inp 9)) of
        Inl e \<Rightarrow> Inl (Fatal (''client request failed: '' @ e))
      | Inr peers \<Rightarrow>
          (case mi_read inp of
             Some e \<Rightarrow> Inl (Fatal (''failed to read response body: '' @ e))
           | None \<Rightarrow> Inr (''Server Response: '' @ mtls_handler peers @ [CHR 0x0A])))"

definition mtls_main :: "'k crypto_env \<Rightarrow> 'k key_codec \<Rightarrow> tls_env \<Rightarrow> mtls_inputs \<Rightarrow> mtls_exit + string" where
  "mtls_main env kc te inp =
     (case generate_ca env (mi_add_years inp) (mi_rnd_ca inp) (mi_clock inp 0) (mi_clock inp 1) of
        Inl x \<Rightarrow> Inl x
      | Inr (ca_key, ca_der) \<Rightarrow>
     (case ce_parse_certificate env ca_der of
        Inl e \<Rightarrow> Inl (Fatal (''failed to parse CA certificate: '' @ e))
      | Inr ca_cert \<Rightarrow>
     (case generate_cert env kc (mi_rnd_server inp) (\<lambda>i. mi_clock inp (i + 2)) ca_cert ca_key ''localhost'' True of
        Inl x \<Rightarrow> Inl x
      | Inr (server_key, server_pem) \<Rightarrow>
     (case generate_cert env kc (mi_rnd_client inp) (\<lambda>i. mi_clock inp (i + 5)) ca_cert ca_key ''test-client'' False of
        Inl x \<Rightarrow> Inl x
      | Inr (client_key, client_pem) \<Rightarrow>
     (case x509_key_pair env kc server_pem server_key of
        Inl e \<Rightarrow> Inl (Fatal (''failed to load server key pair: '' @ e))
      | Inr server \<Rightarrow>
     (case mi_listen inp of
        Some e \<Rightarrow> Inl (Fatal (''failed to start listener: '' @ e))
      | None \<Rightarrow>
     (case x509_key_pair env kc client_pem client_key of
        Inl e \<Rightarrow> Inl (Fatal (''failed to load client key pair: '' @ e))
      | Inr client \<Rightarrow> mtls_get env te inp ca_cert server client)))))))"

end
