(* ===== verification/Mtls_Properties.thy ===== *)
theory Mtls_Properties
  imports Mtls_Example Sample_Crypto Issuance_Properties
begin

text \<open>
  The mutual TLS example runs through: the certificates it makes are accepted in the roles they were
  made for, and in no other.
\<close>

section \<open>What the library keeps\<close>

text \<open>The fields of a template that a created certificate parses back with, besides those of
  \<^const>\<open>create_parse_ok\<close>: the nine key usages there are, the named extended key usages.\<close>

definition usages_kept :: "'k crypto_env \<Rightarrow> bool" where
  "usages_kept env =
     (\<forall>rnd t p pub k der c. plain_extras t \<longrightarrow> c_key_usage t < 512 \<longrightarrow> (\<forall>n. EkuUnknown n \<notin> set (c_ext_key_usage t)) \<longrightarrow>
        ce_create_certificate env rnd t p pub k = Inr der \<longrightarrow> ce_parse_certificate env der = Inr c \<longrightarrow>
        c_key_usage c = c_key_usage t \<and> c_ext_key_usage c = c_ext_key_usage t \<and>
        c_basic_constraints_valid c = c_basic_constraints_valid t)"

text \<open>What is signed with a key verifies under its public key.\<close>

definition signatures_verify :: "'k crypto_env \<Rightarrow> tls_env \<Rightarrow> bool" where
  "signatures_verify env te =
     (\<forall>rnd t p pub k der c r. ce_create_certificate env rnd t p pub k = Inr der \<longrightarrow> ce_parse_certificate env der = Inr c \<longrightarrow>
        c_public_key r = ce_public env k \<longrightarrow> te_signed_by te r c)"

definition encodings_nonempty :: "'k crypto_env \<Rightarrow> 'k key_codec \<Rightarrow> bool" where
  "encodings_nonempty env kc =
     ((\<forall>k. kc_marshal_pkcs1 kc k \<noteq> []) \<and> (\<forall>rnd t p pub k. ce_create_certificate env rnd t p pub k \<noteq> Inr []))"

definition mtls_libs_ok :: "'k crypto_env \<Rightarrow> 'k key_codec \<Rightarrow> tls_env \<Rightarrow> bool" where
  "mtls_libs_ok env kc te =
     (create_parse_ok env \<and> usages_kept env \<and> signatures_verify env te \<and> key_codec_ok kc \<and> encodings_nonempty env kc)"

section \<open>Certificates and key pairs\<close>

lemma created_cert:
  assumes "mtls_libs_ok env kc te" and "ce_create_certificate env rnd t p pub k = Inr der"
    and "plain_extras t" and "c_key_usage t < 512" and "\<forall>n. EkuUnknown n \<notin> set (c_ext_key_usage t)"
    and "c_basic_constraints_valid t"
  obtains c where "ce_parse_certificate env der = Inr c" "same_tbs t c" "c_issuer c = c_subject p" "c_public_key c = pub"
    "c_key_usage c = c_key_usage t" "c_ext_key_usage c = c_ext_key_usage t" "c_basic_constraints_valid c"
    "\<And>r. c_public_key r = ce_public env k \<Longrightarrow> te_signed_by te r c" "der \<noteq> []"
proof -
  have l: "create_parse_ok env" "usages_kept env" "signatures_verify env te" "encodings_nonempty env kc"
    using assms(1) by (simp_all add: mtls_libs_ok_def)
  obtain c where c: "ce_parse_certificate env der = Inr c" "same_tbs t c" "c_issuer c = c_subject p" "c_public_key c = pub"
    using l(1) assms(2,3) unfolding create_parse_ok_def by meson
  moreover have "c_key_usage c = c_key_usage t" "c_ext_key_usage c = c_ext_key_usage t" "c_basic_constraints_valid c"
    using l(2) assms(2-6) c(1) unfolding usages_kept_def by metis+
  moreover have "te_signed_by te r c" if "c_public_key r = ce_public env k" for r
    using l(3) assms(2) c(1) that unfolding signatures_verify_def by metis
  moreover have "der \<noteq> []" using l(4) assms(2) unfolding encodings_nonempty_def by metis
  ultimately show thesis using that by blast
qed

lemma template_fields [simp]:
  "plain_extras (cert_template cn s t1 t2 t3)" "c_key_usage (cert_template cn s t1 t2 t3) < 512"
  "EkuUnknown n \<notin> set (c_ext_key_usage (cert_template cn s t1 t2 t3))" "c_basic_constraints_valid (cert_template cn s t1 t2 t3)"
  "plain_extras (ca_template ay t1 t2)" "c_key_usage (ca_template ay t1 t2) < 512"
  "EkuUnknown n \<notin> set (c_ext_key_usage (ca_template ay t1 t2))" "c_basic_constraints_valid (ca_template ay t1 t2)"
  by (simp_all add: cert_template_def ca_template_def plain_extras_def zero_certificate_def key_usage_defs Let_def)

lemma key_pair_of_pem:
  assumes "key_codec_ok kc" and "ce_parse_certificate env der = Inr c" and "c_public_key c = ce_public env key"
  shows "x509_key_pair env kc (pem_encode ''CERTIFICATE'' der) (pem_encode ''RSA PRIVATE KEY'' (kc_marshal_pkcs1 kc key)) =
    Inr \<lparr>kp_leaf = c, kp_key = key\<rparr>"
proof -
  have "pem_label ''CERTIFICATE''" "pem_label ''RSA PRIVATE KEY''" by (simp_all add: pem_label_def)
  then have "kc_pem kc (pem_encode ''CERTIFICATE'' der) = Some (''CERTIFICATE'', der)"
    "kc_pem kc (pem_encode ''RSA PRIVATE KEY'' (kc_marshal_pkcs1 kc key)) = Some (''RSA PRIVATE KEY'', kc_marshal_pkcs1 kc key)"
    using assms(1) by (simp_all add: key_codec_ok_def pem_decode_ok_def)
  then show ?thesis
    using assms by (simp add: x509_key_pair_def key_codec_ok_def has_suffix_def has_prefix_def)
qed

text \<open>The two encodings of a generated certificate load as the key pair that was made.\<close>

lemma generated_key_pair:
  assumes "mtls_libs_ok env kc te" and "generate_cert env kc rnd clk parent parent_key cn s = Inr (pk, pc)"
  obtains c key where "x509_key_pair env kc pc pk = Inr \<lparr>kp_leaf = c, kp_key = key\<rparr>"
    "ce_public env key = c_public_key c" "same_tbs (cert_template cn s (clk 0) (clk 1) (clk 2)) c"
    "c_issuer c = c_subject parent" "c_ext_key_usage c = (if s then [EkuServerAuth] else [EkuClientAuth])"
    "\<forall>r. c_public_key r = ce_public env parent_key \<longrightarrow> te_signed_by te r c"
proof -
  let ?t = "cert_template cn s (clk 0) (clk 1) (clk 2)"
  obtain key der where k: "ce_create_certificate env (snd rnd) ?t parent (ce_public env key) parent_key = Inr der"
    "encode_pem ''RSA PRIVATE KEY'' (kc_marshal_pkcs1 kc key) = Some pk" "encode_pem ''CERTIFICATE'' der = Some pc"
    using assms(2) by (auto simp: generate_cert_def split: sum.splits option.splits)
  obtain c where c: "ce_parse_certificate env der = Inr c" "same_tbs ?t c" "c_issuer c = c_subject parent"
    "c_public_key c = ce_public env key" "c_ext_key_usage c = c_ext_key_usage ?t"
    "\<And>r. c_public_key r = ce_public env parent_key \<Longrightarrow> te_signed_by te r c"
    by (rule created_cert [OF assms(1) k(1)]) auto
  have "pk = pem_encode ''RSA PRIVATE KEY'' (kc_marshal_pkcs1 kc key)" "pc = pem_encode ''CERTIFICATE'' der"
    using k(2,3) by (simp_all add: encode_pem_library split: if_splits)
  then have "x509_key_pair env kc pc pk = Inr \<lparr>kp_leaf = c, kp_key = key\<rparr>"
    using key_pair_of_pem [OF _ c(1,4)] assms(1) by (simp add: mtls_libs_ok_def)
  then show thesis using that c by (simp add: cert_template_def)
qed

section \<open>The run\<close>

lemma trunc_second_le: "trunc_second t \<le> t" "t - second < trunc_second t"
  using trunc_second_bounds [of t] by linarith+

lemma leaf_valid_at:
  assumes "same_tbs (cert_template cn s t1 t2 t3) c" and "t2 \<le> now" and "now \<le> t3 + 24 * hour - second"
  shows "valid_at now c"
  using assms trunc_second_le(1) [of "t2 - 5 * minute"] trunc_second_le(2) [of "t3 + 24 * hour"]
  by (simp add: valid_at_def same_tbs_def cert_template_def Let_def split: if_splits)

lemma ca_valid_at:
  assumes "same_tbs (ca_template ay t1 t2) c" and "t1 \<le> now" and "now \<le> ay t2 1 - second"
  shows "valid_at now c"
  using assms trunc_second_le(1) [of "t1 - hour"] trunc_second_le(2) [of "ay t2 1"]
  by (simp add: valid_at_def same_tbs_def ca_template_def)

text \<open>The certificate of the generated authority signs in any role.\<close>

lemma generated_ca:
  assumes "mtls_libs_ok env kc te" and "generate_ca env ay rnd t1 t2 = Inr (key, der)"
  obtains ca where "ce_parse_certificate env der = Inr ca" "same_tbs (ca_template ay t1 t2) ca" "may_sign ca"
    "c_public_key ca = ce_public env key" "\<forall>u. eku_allows u ca"
proof -
  let ?t = "ca_template ay t1 t2"
  have c: "ce_create_certificate env (snd rnd) ?t ?t (ce_public env key) key = Inr der"
    using assms(2) by (auto simp: generate_ca_def Let_def split: sum.splits)
  obtain ca where ca: "ce_parse_certificate env der = Inr ca" "same_tbs ?t ca" "c_public_key ca = ce_public env key"
    "c_key_usage ca = c_key_usage ?t" "c_ext_key_usage ca = c_ext_key_usage ?t" "c_basic_constraints_valid ca"
    by (rule created_cert [OF assms(1) c]) auto
  have "c_is_ca ca" using ca(2) by (simp add: same_tbs_def ca_template_def)
  then have "may_sign ca" "\<forall>u. eku_allows u ca"
    using ca(4-6) by (simp_all add: may_sign_def eku_allows_def ca_template_def key_usage_defs zero_certificate_def)
  then show thesis using that ca by blast
qed

lemma handshake_ok:
  assumes "mtls_libs_ok env kc te" and "generate_ca env ay rnd t0 t1 = Inr (ca_key, ca_der)"
    and "ce_parse_certificate env ca_der = Inr ca"
    and "generate_cert env kc r clk ca ca_key cn s = Inr (pk, pc)" and "x509_key_pair env kc pc pk = Inr kp"
    and "t0 \<le> now" and "now \<le> ay t1 1 - second" and "clk 1 \<le> now" and "now \<le> clk 2 + 24 * hour - second"
  shows "x509_verify te [ca] now (if s then EkuServerAuth else EkuClientAuth) (if s then Some cn else None) (kp_leaf kp)"
    and "proves_possession env kp" and "nm_common_name (c_subject (kp_leaf kp)) = cn"
proof -
  obtain ca' where "ce_parse_certificate env ca_der = Inr ca'" "same_tbs (ca_template ay t0 t1) ca'" "may_sign ca'"
    "c_public_key ca' = ce_public env ca_key" "\<forall>u. eku_allows u ca'"
    by (rule generated_ca [OF assms(1,2)])
  then have ca: "same_tbs (ca_template ay t0 t1) ca" "may_sign ca" "c_public_key ca = ce_public env ca_key" "\<forall>u. eku_allows u ca"
    using assms(3) by simp_all
  obtain c key where c: "x509_key_pair env kc pc pk = Inr \<lparr>kp_leaf = c, kp_key = key\<rparr>"
    "ce_public env key = c_public_key c" "same_tbs (cert_template cn s (clk 0) (clk 1) (clk 2)) c"
    "c_issuer c = c_subject ca" "c_ext_key_usage c = (if s then [EkuServerAuth] else [EkuClientAuth])"
    "\<forall>r. c_public_key r = ce_public env ca_key \<longrightarrow> te_signed_by te r c"
    by (rule generated_key_pair [OF assms(1,4)])
  have kp: "kp = \<lparr>kp_leaf = c, kp_key = key\<rparr>" using c(1) assms(5) by simp
  have f: "s \<Longrightarrow> c_dns_names c = [cn]" "nm_common_name (c_subject c) = cn"
    using c(3) by (simp_all add: same_tbs_def cert_template_def Let_def split: if_splits)
  have eku: "eku_allows (if s then EkuServerAuth else EkuClientAuth) c" using c(5) by (simp add: eku_allows_def)
  show "x509_verify te [ca] now (if s then EkuServerAuth else EkuClientAuth) (if s then Some cn else None) (kp_leaf kp)"
    using leaf_valid_at [OF c(3) assms(8,9)] ca_valid_at [OF ca(1) assms(6,7)] ca(2-4) c(4,6) f(1) eku
    by (simp add: kp x509_verify_def split: if_splits)
  show "proves_possession env kp" "nm_common_name (c_subject (kp_leaf kp)) = cn"
    using c(2) f(2) by (simp_all add: kp proves_possession_def)
qed

lemma ordered_clock: "(\<forall>i < 9. clk i \<le> clk (Suc i)) \<Longrightarrow> i \<le> j \<Longrightarrow> j \<le> 9 \<Longrightarrow> (clk i :: int) \<le> clk j"
proof (induction j)
  case (Suc j)
  then show ?case by (cases "i = Suc j") (auto intro: order_trans)
qed simp

definition library_failure :: "'k crypto_env \<Rightarrow> mtls_exit \<Rightarrow> bool" where
  "library_failure env x =
     ((\<exists>rnd e. ce_generate_rsa env 2048 rnd = Inl e \<and> x = Fatal (''failed to generate key: '' @ e)) \<or>
      (\<exists>rnd t p pub k e. ce_create_certificate env rnd t p pub k = Inl e \<and>
         x \<in> {Fatal (''failed to create CA certificate: '' @ e), Fatal (''failed to create certificate: '' @ e)}))"

lemma generate_ca_fails: "generate_ca env ay rnd t1 t2 = Inl x \<Longrightarrow> library_failure env x"
  unfolding library_failure_def generate_ca_def by (auto simp: Let_def split: sum.splits)

lemma generate_cert_fails:
  "mtls_libs_ok env kc te \<Longrightarrow> generate_cert env kc r clk p pk cn s = Inl x \<Longrightarrow> library_failure env x"
  unfolding library_failure_def generate_cert_def
  by (auto simp: encode_pem_library mtls_libs_ok_def encodings_nonempty_def split: sum.splits option.splits if_splits)

lemma mtls_main_outcome:
  assumes l: "mtls_libs_ok env kc te" and clk: "\<forall>i < 9. mi_clock inp i \<le> mi_clock inp (Suc i)"
    and "mi_clock inp 9 \<le> mi_clock inp 0 + 24 * hour - second" and "\<forall>t. t + 24 * hour \<le> mi_add_years inp t 1"
    and net: "mi_listen inp = None" "mi_connect inp = None" "mi_read inp = None"
  shows "mtls_main env kc te inp = Inr (''Server Response: Hello test-client, mutual authentication successful!'' @ [CHR 0x0A]) \<or>
    (\<exists>x. library_failure env x \<and> mtls_main env kc te inp = Inl x)"
proof -
  note o = ordered_clock [OF clk]
  have ay: "mi_clock inp 1 + 24 * hour \<le> mi_add_years inp (mi_clock inp 1) 1" using assms(4) by blast
  have now: "mi_clock inp 0 \<le> mi_clock inp n" "mi_clock inp n \<le> mi_add_years inp (mi_clock inp 1) 1 - second"
    "mi_clock inp n \<le> mi_clock inp j + 24 * hour - second" if "n \<le> 9" "j \<le> 9" for n j
    using o [of 0 n] o [of n 9] o [of 0 j] o [of 0 1] ay assms(3) that by linarith+
  show ?thesis
  proof (cases "generate_ca env (mi_add_years inp) (mi_rnd_ca inp) (mi_clock inp 0) (mi_clock inp 1)")
    case (Inl x)
    then show ?thesis using generate_ca_fails [OF Inl] by (simp only: mtls_main_def sum.case) blast
  next
    case (Inr a)
    then obtain ca_key ca_der where ca: "generate_ca env (mi_add_years inp) (mi_rnd_ca inp) (mi_clock inp 0) (mi_clock inp 1)
        = Inr (ca_key, ca_der)" by (cases a) simp
    obtain ca_cert where cert: "ce_parse_certificate env ca_der = Inr ca_cert" by (rule generated_ca [OF l ca])
    let ?gs = "generate_cert env kc (mi_rnd_server inp) (\<lambda>i. mi_clock inp (i + 2)) ca_cert ca_key ''localhost'' True"
    let ?gc = "generate_cert env kc (mi_rnd_client inp) (\<lambda>i. mi_clock inp (i + 5)) ca_cert ca_key ''test-client'' False"
    consider (server) x where "?gs = Inl x" | (client) x where "?gc = Inl x" "\<exists>y. ?gs = Inr y"
      | (both) sk sp ck cp where "?gs = Inr (sk, sp)" "?gc = Inr (ck, cp)"
      by (metis sum.exhaust surj_pair)
    then show ?thesis
    proof cases
      case server
      then show ?thesis using generate_cert_fails [OF l server] by (simp only: mtls_main_def ca cert sum.case prod.case) blast
    next
      case client
      then obtain sk sp where "?gs = Inr (sk, sp)" by auto
      with client show ?thesis
        using generate_cert_fails [OF l client(1)] by (simp only: mtls_main_def ca cert sum.case prod.case) blast
    next
      case both
      obtain s where s: "x509_key_pair env kc sp sk = Inr s" by (rule generated_key_pair [OF l both(1)]) blast
      obtain c where c: "x509_key_pair env kc cp ck = Inr c" by (rule generated_key_pair [OF l both(2)]) blast
      have hs: "x509_verify te [ca_cert] (mi_clock inp 8) EkuServerAuth (Some ''localhost'') (kp_leaf s)" "proves_possession env s"
        using handshake_ok [OF l ca cert both(1) s, of "mi_clock inp 8"] now [of 8 4] o [of "Suc (Suc (Suc 0))" 8] by simp_all
      have hc: "x509_verify te [ca_cert] (mi_clock inp 9) EkuClientAuth None (kp_leaf c)" "proves_possession env c"
        "nm_common_name (c_subject (kp_leaf c)) = ''test-client''"
        using handshake_ok [OF l ca cert both(2) c, of "mi_clock inp 9"] now [of 9 7] o [of 6 9] by simp_all
      show ?thesis
        by (simp only: mtls_main_def ca cert both s c net sum.case prod.case option.case)
          (simp add: mtls_get_def tls_handshake_def hs hc net mtls_handler_def)
    qed
  qed
qed

text \<open>
  C39. The mutual TLS demonstration works: with a working network and a clock that does not run
  backwards or past the certificates, \<open>go run ./examples/mtls\<close> prints the greeting to \<open>test-client\<close> that
  the documentation promises, unless a key or a certificate cannot be made; no other failure is
  possible. The roles do not mix: a key pair made for the server is not accepted as a client's, nor
  the reverse, by any peer that does not trust the certificate itself.
\<close>

theorem mtls_demo:
  assumes "mtls_libs_ok env kc te" and "\<forall>i < 9. mi_clock inp i \<le> mi_clock inp (Suc i)"
    and "mi_clock inp 9 \<le> mi_clock inp 0 + 24 * hour - second" and "\<forall>t. t + 24 * hour \<le> mi_add_years inp t 1"
    and "mi_listen inp = None" and "mi_connect inp = None" and "mi_read inp = None"
  shows "(mtls_main env kc te inp = Inr (''Server Response: Hello test-client, mutual authentication successful!'' @ [CHR 0x0A]) \<or>
      (\<exists>rnd e. ce_generate_rsa env 2048 rnd = Inl e \<and> mtls_main env kc te inp = Inl (Fatal (''failed to generate key: '' @ e))) \<or>
      (\<exists>rnd t p pub k e. ce_create_certificate env rnd t p pub k = Inl e \<and> mtls_main env kc te inp \<in>
         {Inl (Fatal (''failed to create CA certificate: '' @ e)), Inl (Fatal (''failed to create certificate: '' @ e))})) \<and>
    (\<forall>rnd clk parent parent_key cn s pk pc kp roots now name.
       generate_cert env kc rnd clk parent parent_key cn s = Inr (pk, pc) \<and> x509_key_pair env kc pc pk = Inr kp \<and>
       kp_leaf kp \<notin> set roots \<longrightarrow>
       \<not> x509_verify te roots now (if s then EkuClientAuth else EkuServerAuth) name (kp_leaf kp))"
proof (intro conjI allI impI, goal_cases)
  case 1
  show ?case using mtls_main_outcome [OF assms] unfolding library_failure_def by blast
next
  case (2 rnd clk parent parent_key cn s pk pc kp roots now name)
  then have g: "generate_cert env kc rnd clk parent parent_key cn s = Inr (pk, pc)" by blast
  obtain c key where "x509_key_pair env kc pc pk = Inr \<lparr>kp_leaf = c, kp_key = key\<rparr>"
    "c_ext_key_usage c = (if s then [EkuServerAuth] else [EkuClientAuth])"
    by (rule generated_key_pair [OF assms(1) g])
  then show ?case using 2 by (auto simp: x509_verify_def eku_allows_def)
qed

text \<open>A run with one key for everything; the library signs the three certificates of the run.\<close>

definition demo_clock :: "nat \<Rightarrow> go_time" where
  "demo_clock = (\<lambda>i. 62135596800 * second + hour + int i)"

definition demo_ca :: certificate where
  "demo_ca = (let t = ca_template years365 (demo_clock 0) (demo_clock 1) in
     t\<lparr>c_issuer := c_subject t, c_public_key := RSAKey 15 3, c_not_before := trunc_second (c_not_before t),
       c_not_after := trunc_second (c_not_after t), c_raw := [1]\<rparr>)"

definition demo_leaf :: "string \<Rightarrow> bool \<Rightarrow> nat \<Rightarrow> certificate" where
  "demo_leaf cn s i = (let t = cert_template cn s (demo_clock i) (demo_clock (i + 1)) (demo_clock (i + 2)) in
     t\<lparr>c_issuer := c_subject demo_ca, c_public_key := RSAKey 15 3, c_not_before := trunc_second (c_not_before t),
       c_not_after := trunc_second (c_not_after t), c_raw := [word_of_nat i]\<rparr>)"

definition demo_table :: "certificate list" where
  "demo_table = [demo_ca, demo_leaf ''localhost'' True 2, demo_leaf ''test-client'' False 5]"

definition demo_create :: "certificate \<Rightarrow> certificate \<Rightarrow> public_key \<Rightarrow> nat \<Rightarrow> string + byte list" where
  "demo_create t p pub k =
     (case List.find (\<lambda>c. k = 0 \<and> same_tbs t c \<and> c_issuer c = c_subject p \<and> c_public_key c = pub \<and>
        c_key_usage c = c_key_usage t \<and> c_ext_key_usage c = c_ext_key_usage t \<and>
        c_basic_constraints_valid c = c_basic_constraints_valid t) demo_table of
        None \<Rightarrow> Inl ''unsupported template''
      | Some c \<Rightarrow> Inr (c_raw c))"

definition demo_env :: "nat crypto_env" where
  "demo_env = (table_env demo_table)\<lparr>ce_create_certificate := (\<lambda>_. demo_create)\<rparr>"

definition demo_codec :: "nat key_codec" where
  "demo_codec = \<lparr>kc_marshal_pkcs1 = (\<lambda>k. replicate (Suc k) 1), kc_parse_pkcs1 = (\<lambda>bs. Inr (length bs - 1)),
     kc_parse_pkcs8 = (\<lambda>_. Inl ''pkcs8''), kc_pem = line_decoder\<rparr>"

definition demo_tls :: tls_env where
  "demo_tls = \<lparr>te_signed_by = (\<lambda>r c. c_public_key r = RSAKey 15 3)\<rparr>"

definition demo_inputs :: mtls_inputs where
  "demo_inputs = \<lparr>mi_clock = demo_clock, mi_add_years = years365, mi_rnd_ca = ([], []), mi_rnd_server = ([], []),
     mi_rnd_client = ([], []), mi_listen = None, mi_connect = None, mi_read = None\<rparr>"

lemma demo_parse:
  assumes "demo_create t p pub k = Inr der"
  shows "k = 0 \<and> der \<noteq> [] \<and> (\<exists>c. ce_parse_certificate demo_env der = Inr c \<and> same_tbs t c \<and> c_issuer c = c_subject p \<and>
    c_public_key c = pub \<and> c_raw c = der \<and> c_key_usage c = c_key_usage t \<and> c_ext_key_usage c = c_ext_key_usage t \<and>
    c_basic_constraints_valid c = c_basic_constraints_valid t)"
proof -
  have d: "map c_raw demo_table = [[1], [2], [5]]" by (simp add: demo_table_def demo_ca_def demo_leaf_def Let_def)
  obtain c where c: "List.find (\<lambda>c. k = 0 \<and> same_tbs t c \<and> c_issuer c = c_subject p \<and> c_public_key c = pub \<and>
        c_key_usage c = c_key_usage t \<and> c_ext_key_usage c = c_ext_key_usage t \<and>
        c_basic_constraints_valid c = c_basic_constraints_valid t) demo_table = Some c" "c_raw c = der"
    using assms by (auto simp: demo_create_def split: option.splits)
  then have m: "c \<in> set demo_table" by (auto simp: find_Some_iff)
  have "List.find (\<lambda>x. c_raw x = c_raw c) demo_table = Some c"
    using find_key_mem [OF _ m, of c_raw] d by simp
  then have "ce_parse_certificate demo_env der = Inr c" using c(2) by (simp add: demo_env_def table_env_def)
  moreover have "der \<in> set (map c_raw demo_table)" using m c(2) by auto
  then have "der \<noteq> []" by (auto simp: d)
  ultimately show ?thesis using c by (auto simp: find_Some_iff)
qed

lemma demo_libs: "mtls_libs_ok demo_env demo_codec demo_tls"
proof -
  have c: "ce_create_certificate demo_env rnd = demo_create" for rnd by (simp add: demo_env_def)
  have "create_parse_ok demo_env" unfolding create_parse_ok_def c using demo_parse by blast
  moreover have "usages_kept demo_env" unfolding usages_kept_def c
    by (metis demo_parse sum.inject(2))
  moreover have "ce_public demo_env 0 = RSAKey 15 3" by (simp add: demo_env_def)
  then have "signatures_verify demo_env demo_tls"
    unfolding signatures_verify_def c using demo_parse by (fastforce simp: demo_tls_def)
  moreover have "key_codec_ok demo_codec" by (simp add: key_codec_ok_def demo_codec_def line_decoder_ok)
  moreover have "encodings_nonempty demo_env demo_codec"
    unfolding encodings_nonempty_def c using demo_parse by (fastforce simp: demo_codec_def)
  ultimately show ?thesis by (simp add: mtls_libs_ok_def)
qed

text \<open>Nothing fails in this run: key generation never does, and the three templates are in the table.\<close>

lemma demo_created:
  "demo_create (ca_template years365 (demo_clock 0) (demo_clock 1)) (ca_template years365 (demo_clock 0) (demo_clock 1)) (RSAKey 15 3) 0 = Inr [1]"
  "demo_create (cert_template ''localhost'' True (demo_clock 2) (demo_clock 3) (demo_clock 4)) demo_ca (RSAKey 15 3) 0 = Inr [2]"
  "demo_create (cert_template ''test-client'' False (demo_clock 5) (demo_clock 6) (demo_clock 7)) demo_ca (RSAKey 15 3) 0 = Inr [5]"
  by code_simp+

lemma demo_generated:
  "generate_ca demo_env years365 ([], []) (demo_clock 0) (demo_clock 1) = Inr (0, [1])"
  "ce_parse_certificate demo_env [1] = Inr demo_ca"
  "\<exists>a b. generate_cert demo_env demo_codec ([], []) (\<lambda>i. demo_clock (i + 2)) demo_ca 0 ''localhost'' True = Inr (a, b)"
  "\<exists>a b. generate_cert demo_env demo_codec ([], []) (\<lambda>i. demo_clock (i + 5)) demo_ca 0 ''test-client'' False = Inr (a, b)"
proof -
  have g: "ce_generate_rsa demo_env n rnd = Inr 0" "ce_create_certificate demo_env rnd = demo_create"
    "ce_public demo_env 0 = RSAKey 15 3" for n rnd by (simp_all add: demo_env_def)
  have m: "kc_marshal_pkcs1 demo_codec 0 = [1]" by (simp add: demo_codec_def)
  show "generate_ca demo_env years365 ([], []) (demo_clock 0) (demo_clock 1) = Inr (0, [1])"
    unfolding generate_ca_def g sum.case Let_def demo_created by simp
  show "ce_parse_certificate demo_env [1] = Inr demo_ca"
    by (simp add: demo_env_def table_env_def demo_table_def demo_ca_def Let_def)
  have i: "0 + 2 = (2 :: nat)" "1 + 2 = (3 :: nat)" "2 + 2 = (4 :: nat)" "0 + 5 = (5 :: nat)" "1 + 5 = (6 :: nat)" "2 + 5 = (7 :: nat)"
    by simp_all
  show "\<exists>a b. generate_cert demo_env demo_codec ([], []) (\<lambda>i. demo_clock (i + 2)) demo_ca 0 ''localhost'' True = Inr (a, b)"
    unfolding generate_cert_def g sum.case i demo_created m encode_pem_library by simp
  show "\<exists>a b. generate_cert demo_env demo_codec ([], []) (\<lambda>i. demo_clock (i + 5)) demo_ca 0 ''test-client'' False = Inr (a, b)"
    unfolding generate_cert_def g sum.case i demo_created m encode_pem_library by simp
qed

lemma demo_no_library_failure:
  "mtls_main demo_env demo_codec demo_tls demo_inputs \<noteq> Inl (Fatal (''failed to create CA certificate: '' @ e))"
  "mtls_main demo_env demo_codec demo_tls demo_inputs \<noteq> Inl (Fatal (''failed to create certificate: '' @ e))"
proof -
  obtain sk sp ck cp where
    "generate_cert demo_env demo_codec ([], []) (\<lambda>i. demo_clock (i + 2)) demo_ca 0 ''localhost'' True = Inr (sk, sp)"
    "generate_cert demo_env demo_codec ([], []) (\<lambda>i. demo_clock (i + 5)) demo_ca 0 ''test-client'' False = Inr (ck, cp)"
    using demo_generated(3,4) by metis
  moreover have "mi_clock demo_inputs = demo_clock" "mi_add_years demo_inputs = years365" "mi_rnd_ca demo_inputs = ([], [])"
    "mi_rnd_server demo_inputs = ([], [])" "mi_rnd_client demo_inputs = ([], [])" "mi_listen demo_inputs = None"
    by (simp_all add: demo_inputs_def fun_eq_iff)
  ultimately have m: "mtls_main demo_env demo_codec demo_tls demo_inputs =
      (case x509_key_pair demo_env demo_codec sp sk of
         Inl e \<Rightarrow> Inl (Fatal (''failed to load server key pair: '' @ e))
       | Inr server \<Rightarrow> (case x509_key_pair demo_env demo_codec cp ck of
           Inl e \<Rightarrow> Inl (Fatal (''failed to load client key pair: '' @ e))
         | Inr client \<Rightarrow> mtls_get demo_env demo_tls demo_inputs demo_ca server client))"
    by (simp only: mtls_main_def demo_generated(1,2) sum.case prod.case option.case)
  show "mtls_main demo_env demo_codec demo_tls demo_inputs \<noteq> Inl (Fatal (''failed to create CA certificate: '' @ e))"
    "mtls_main demo_env demo_codec demo_tls demo_inputs \<noteq> Inl (Fatal (''failed to create certificate: '' @ e))"
    unfolding m mtls_get_def by (auto split: sum.splits option.splits)
qed

theorem mtls_demo_witness:
  "mtls_main demo_env demo_codec demo_tls demo_inputs =
     Inr (''Server Response: Hello test-client, mutual authentication successful!'' @ [CHR 0x0A])"
proof -
  have clk: "\<forall>i < 9. mi_clock demo_inputs i \<le> mi_clock demo_inputs (Suc i)"
    "mi_clock demo_inputs 9 \<le> mi_clock demo_inputs 0 + 24 * hour - second"
    "\<forall>t. t + 24 * hour \<le> mi_add_years demo_inputs t 1"
    "mi_listen demo_inputs = None" "mi_connect demo_inputs = None" "mi_read demo_inputs = None"
    by (simp_all add: demo_inputs_def demo_clock_def years365_def)
  have "ce_generate_rsa demo_env n rnd = Inr 0" for n rnd by (simp add: demo_env_def)
  then show ?thesis
    using mtls_demo [OF demo_libs clk] demo_no_library_failure by (elim conjE disjE exE) auto
qed

end
