(* ===== verification/Pool_Shutdown.thy ===== *)
theory Pool_Shutdown
  imports Signer_Pool
begin

text \<open>
  How \<open>WorkerPool.Start\<close> comes to an end: the steps of the workers as a relation, the work that is left
  as a measure of it, and where a cancelled pool stops.
\<close>

section \<open>The work left\<close>

text \<open>A step of a worker (or the cancellation itself), nothing being submitted.\<close>

definition serving :: "('i \<Rightarrow> sign_request \<Rightarrow> sign_response) \<Rightarrow> 'i worker_pool \<Rightarrow> 'i worker_pool \<Rightarrow> bool" where
  "serving sign p q = (pool_step sign p q \<and> q \<noteq> p \<and> wp_submitted q = wp_submitted p)"

fun worker_work :: "worker \<Rightarrow> nat" where
  "worker_work Idle = 1"
| "worker_work (Busy r) = 2"
| "worker_work Exited = 0"

definition pool_work :: "'i worker_pool \<Rightarrow> nat" where
  "pool_work p = 3 * length (wp_jobs p) + sum_list (map worker_work (wp_workers p)) + (if wp_cancelled p then 0 else 1)"

lemma work_update:
  "i < length ws \<Longrightarrow> sum_list (map worker_work (ws[i := w])) + worker_work (ws ! i) = sum_list (map worker_work ws) + worker_work w"
proof (induction ws arbitrary: i)
  case (Cons v ws)
  then show ?case by (cases i) (auto simp: add.commute add.left_commute)
qed simp

text \<open>Every such step leaves less work; so the pool cannot go on for ever by itself.\<close>

lemma serving_work: "serving sign p q \<Longrightarrow> pool_work q < pool_work p"
proof -
  assume s: "serving sign p q"
  then have "pool_step sign p q" by (simp add: serving_def)
  then show ?thesis
  proof (cases rule: pool_step.cases)
    case (pool_take i req rest)
    then show ?thesis using work_update [of i "wp_workers p" "Busy req"] by (simp add: pool_work_def)
  next
    case (pool_answer i req)
    then show ?thesis using work_update [of i "wp_workers p" Idle] by (simp add: pool_work_def)
  next
    case (pool_exit i)
    then show ?thesis using work_update [of i "wp_workers p" Exited] by (simp add: pool_work_def)
  next
    case pool_cancel
    then show ?thesis using s by (cases "wp_cancelled p") (auto simp: pool_work_def serving_def)
  qed (use s in \<open>simp add: serving_def\<close>)
qed

lemma serving_steps: "(serving sign ^^ k) p q \<Longrightarrow> k + pool_work q \<le> pool_work p"
proof (induction k arbitrary: q)
  case (Suc k)
  then obtain r where "(serving sign ^^ k) p r" "serving sign r q" by (auto elim: relpowp_Suc_E)
  then show ?case using Suc.IH [of r] serving_work [of sign r q] by simp
qed simp

lemma serving_steps_run:
  "(serving sign ^^ k) p q \<Longrightarrow> pool_run sign o1 p \<Longrightarrow> wp_cancelled p \<Longrightarrow>
     pool_run sign o1 q \<and> wp_cancelled q \<and> wp_submitted q = wp_submitted p"
proof (induction k arbitrary: q)
  case (Suc k)
  then obtain r where r: "(serving sign ^^ k) p r" "serving sign r q" by (auto elim: relpowp_Suc_E)
  have ih: "pool_run sign o1 r" "wp_cancelled r" "wp_submitted r = wp_submitted p" using Suc.IH [OF r(1) Suc.prems(2,3)] by blast+
  have st: "pool_step sign r q" "wp_submitted q = wp_submitted r" using r(2) by (simp_all add: serving_def)
  from st(1) have "wp_cancelled q" using ih(2) by (cases rule: pool_step.cases) simp_all
  then show ?case using pool_next [OF ih(1) st(1)] st(2) ih(3) by simp
qed simp

text \<open>A cancelled pool stops only when every worker is gone.\<close>

lemma serving_stuck:
  assumes "wp_cancelled p" and "\<nexists>q. serving sign p q"
  shows "set (wp_workers p) \<subseteq> {Exited}"
proof
  fix w assume "w \<in> set (wp_workers p)"
  then obtain i where i: "i < length (wp_workers p)" "wp_workers p ! i = w" by (auto simp: in_set_conv_nth)
  have changed: "(wp_workers p)[i := v] \<noteq> wp_workers p" if "v \<noteq> w" for v
    using i that by (metis nth_list_update_eq)
  show "w \<in> {Exited}"
  proof (cases w)
    case Idle
    let ?q = "p\<lparr>wp_workers := (wp_workers p)[i := Exited]\<rparr>"
    have "pool_step sign p ?q" using i Idle assms(1) by (intro pool_exit) simp_all
    moreover have "wp_workers ?q \<noteq> wp_workers p" using changed Idle by simp
    then have "?q \<noteq> p" by metis
    ultimately have "serving sign p ?q" by (simp add: serving_def)
    then show ?thesis using assms(2) by blast
  next
    case (Busy r)
    let ?q = "p\<lparr>wp_workers := (wp_workers p)[i := Idle], wp_answers := wp_answers p @ [(r, sign (wp_issuer p) r)]\<rparr>"
    have "pool_step sign p ?q" using i Busy by (intro pool_answer) simp_all
    moreover have "wp_workers ?q \<noteq> wp_workers p" using changed Busy by simp
    then have "?q \<noteq> p" by metis
    ultimately have "serving sign p ?q" by (simp add: serving_def)
    then show ?thesis using assms(2) by blast
  qed simp
qed

lemma serving_ends: "\<exists>k q. (serving sign ^^ k) p q \<and> (\<nexists>r. serving sign q r)"
proof (induction "pool_work p" arbitrary: p rule: less_induct)
  case less
  show ?case
  proof (cases "\<exists>r. serving sign p r")
    case True
    then obtain r where r: "serving sign p r" by blast
    obtain k q where "(serving sign ^^ k) r q" "\<nexists>s. serving sign q s" using less [OF serving_work [OF r]] by blast
    then show ?thesis using relpowp_Suc_I2 [of "serving sign" p r k q] r by blast
  next
    case False
    then show ?thesis by (intro exI [of _ 0] exI [of _ p]) simp
  qed
qed

lemma worker_work_bound: "sum_list (map worker_work ws) \<le> 2 * length ws"
proof (induction ws)
  case (Cons w ws)
  then show ?case by (cases w) auto
qed simp

section \<open>Start returns\<close>

text \<open>
  C25. \<open>WorkerPool.Start\<close> returns after its context is cancelled. Whatever the pool has been through, once
  cancelled and with nothing more submitted its workers take at most \<open>3 * queued + 2 * workers\<close> further
  steps, in any interleaving; where none is possible all workers have exited, every request that left
  the queue has its answer and the others are still queued; and such an end is always reached.
\<close>

theorem pool_shutdown:
  assumes "pool_run sign (new_worker_pool issuer queue_size workers) p" and "wp_cancelled p"
  shows "(\<forall>k q. (serving sign ^^ k) p q \<longrightarrow>
      k \<le> 3 * queue_depth p + 2 * length (wp_workers p) \<and>
      ((\<nexists>r. serving sign q r) \<longrightarrow>
         set (wp_workers q) \<subseteq> {Exited} \<and>
         mset (wp_submitted p) = mset (wp_jobs q) + mset (map fst (wp_answers q)) \<and>
         (\<forall>(req, resp) \<in> set (wp_answers q). resp = sign issuer req))) \<and>
    (\<exists>k q. (serving sign ^^ k) p q \<and> (\<nexists>r. serving sign q r))"
proof (intro conjI allI impI)
  fix k q assume k: "(serving sign ^^ k) p q"
  show "k \<le> 3 * queue_depth p + 2 * length (wp_workers p)"
    using serving_steps [OF k] worker_work_bound [of "wp_workers p"] assms(2) by (simp add: pool_work_def queue_depth_def)
  assume stuck: "\<nexists>r. serving sign q r"
  note q = serving_steps_run [OF k assms]
  have inv: "pool_inv sign q" by (rule pool_inv_run [OF q [THEN conjunct1] pool_inv_new])
  have i: "wp_issuer q = issuer"
    using pool_run_issuer [OF q [THEN conjunct1]] by (simp add: new_worker_pool_def)
  show gone: "set (wp_workers q) \<subseteq> {Exited}" using serving_stuck stuck q by blast
  have "busy_requests q = {#}" using gone by (subst busy_requests_sum) (rule busy_none, auto)
  then show "mset (wp_submitted p) = mset (wp_jobs q) + mset (map fst (wp_answers q))"
    using inv q by (simp add: pool_inv_def)
  show "\<forall>(req, resp) \<in> set (wp_answers q). resp = sign issuer req" using inv i by (simp add: pool_inv_def)
qed (rule serving_ends)

text \<open>One worker, one request queued, the context cancelled: at most five steps.\<close>

theorem pool_shutdown_witness:
  "\<exists>p. pool_run (\<lambda>_ _. Inr [1]) (new_worker_pool () 2 1) p \<and> wp_cancelled p \<and> queue_depth p = 1 \<and>
     (\<forall>k q. (serving (\<lambda>_ _. Inr [1]) ^^ k) p q \<longrightarrow> k \<le> 5)"
proof -
  let ?req = "\<lparr>sr_csr_der = [1], sr_serial_number = Some 7, sr_validity = hour, sr_dns_names = [], sr_chan = 0\<rparr>"
  let ?o = "new_worker_pool () 2 1"
  let ?p = "?o\<lparr>wp_jobs := wp_jobs ?o @ [?req], wp_submitted := wp_submitted ?o @ [?req]\<rparr>"
  let ?q = "?p\<lparr>wp_cancelled := True\<rparr>"
  have "pool_step (\<lambda>_ _. Inr [1]) ?o ?p" by (rule pool_submit) (simp_all add: new_worker_pool_def)
  with pool_refl have "pool_run (\<lambda>_ _. Inr [1]) ?o ?p" by (rule pool_next)
  then have r: "pool_run (\<lambda>_ _. Inr [1]) ?o ?q" using pool_cancel [of "\<lambda>_ _. Inr [1]" ?p] by (rule pool_next)
  have d: "queue_depth ?q = 1" "length (wp_workers ?q) = 1" by (simp_all add: new_worker_pool_def queue_depth_def)
  then have "\<forall>k q. (serving (\<lambda>_ _. Inr [1]) ^^ k) ?q q \<longrightarrow> k \<le> 5"
    using pool_shutdown [OF r] by simp
  then show ?thesis using r d(1) by (intro exI [of _ ?q]) simp
qed

end
