(* ===== verification/Spec2Isabelle.thy ===== *)
theory Spec2Isabelle
  imports Service_Properties Issuance_Properties Acme_Safety Signer_Pool Crl Ocsp Audit_Log Go_Pem
    Telemetry Key_Store_Properties Est_Properties Swagger Acme_Challenge Server_Restart Acme_Properties
    Mtls_Properties Pool_Shutdown
begin

text \<open>
  A verified model of go-certa, a certificate authority in Go.

  \<^bold>\<open>The program.\<close> \<open>cmd/certa-server\<close> opens a store (\<open>pkg/storage\<close>: SQLite, or maps in memory), loads or
  creates a root and an intermediate CA (\<open>pkg/ca/key_store.go\<close>, \<open>authority.go\<close>), and serves on one mux:
  ACME (\<open>pkg/protocols/acme\<close>), EST (\<open>est\<close>, signing through the worker pool of \<open>pkg/signer\<close>), OCSP and the
  revocation API (\<open>ocsp\<close>), CRLs (\<open>crl\<close>), metrics (\<open>pkg/telemetry\<close>), the CA certificates and Swagger
  pages. Both issuing protocols reserve a serial in the store (\<open>pkg/ca/serial.go\<close>), have the authority
  check the request against profile, policy and linter (\<open>profile.go\<close>, \<open>policy.go\<close>) and sign, and save the
  certificate in the store; OCSP, the CRL generator and the revocation API read and write the same
  store. \<open>pkg/ctlog\<close> submits pre-certificates to transparency logs, \<open>pkg/audit\<close> keeps the hash-chained
  audit log, \<open>examples/mtls\<close> is a program of its own.

  \<^bold>\<open>How it is modelled.\<close> Structs are records, maps are association lists (\<open>Prelude\<close>, \<open>gm_set\<close>, \<open>gm_del\<close>;
  where a loop visits a map, the visiting order is an argument), errors are sums, options or statuses,
  big integers are \<open>int\<close>, bytes 8-bit words, times and durations nanoseconds. A stateful operation
  takes and returns the state. Clock readings, random bytes, the context's error and the outcomes of
  database and file calls are arguments, one per call in the order of the calls, so that every failure
  is covered. Pointers are values, except where aliasing matters (audit events, OCSP issuer). Strings
  are byte strings: trimming removes the white space of \<open>unicode.IsSpace\<close> in its UTF-8 encoding, changes of
  case are exact for ASCII. A call that can panic where the program relies on it not to returns a
  \<open>go_call\<close> (\<open>KeyToJWK\<close> and \<open>SignJWS\<close>, which slice by the length of a coordinate), or has an answer of its
  own (the status 0 of a handler, \<open>panicked\<close>). What is not in the
  repository is an argument: cryptography and ASN.1 (\<open>crypto_env\<close>, \<open>jws_env\<close>, \<open>hash_env\<close>, \<open>key_codec\<close>), JSON,
  PEM decoding, float64 arithmetic. The documented behaviour a property relies on is a named predicate
  (\<open>create_parse_ok\<close>, \<open>create_signed_ok\<close>, \<open>codec_ok\<close>, \<open>key_codec_ok\<close>, \<open>pem_decode_ok\<close>, \<open>mtls_libs_ok\<close>, ...), and each
  witness gives an instance that meets it.

  \<^bold>\<open>Theories of the Go library\<close>: \<open>Prelude\<close>, \<open>Go_Strings\<close>, \<open>Go_Encoding\<close> (base 16, big-endian), \<open>Go_Base64\<close>,
  \<open>Go_Pem\<close>, \<open>Go_Http\<close>, \<open>Go_Path\<close> (path cleaning), \<open>Go_Mux\<close> (the routing of \<open>ServeMux\<close>), \<open>X509_Model\<close>; the round
  trips are proved there.

  \<^bold>\<open>Theories of the components.\<close>
  \<^item> \<open>Storage_Model\<close>, \<open>Storage_Contract\<close>: the \<open>Storage\<close> interface and what it promises, as the locale
    \<open>storage_contract\<close> over an abstract view (certificates, revocations, reservations); the consequences
    a client may use are proved once in it. \<open>Memory_Storage\<close>, \<open>Sqlite_Storage\<close>: the two backends, each an
    interpretation; the database also refuses a null in the columns its schema declares NOT NULL. \<open>Sqlite_Race\<close>: the two database steps of \<open>ReserveSerial\<close> under every schedule.
    \<open>Storage_Properties\<close>: the backends agree call by call on all six methods, the invariant of the tables, permanence.
    \<open>Server_Store\<close>: the store of the server, one of the two, again an interpretation.
  \<^item> \<open>Serial\<close>, \<open>Profile\<close>, \<open>Policy\<close>, \<open>Authority\<close>, \<open>Sct\<close>, \<open>Ct_Client\<close>: serials, profiles, policy engine and
    linter, the issuing authority, transparency. \<open>prepare\<close> is the half that \<open>SignCertificateWithProfile\<close>
    and \<open>SignCertificateWithCT\<close> have in common. \<open>Issuance_Properties\<close>: what an issued certificate is.
  \<^item> \<open>Key_Store\<close>, \<open>Key_Store_Properties\<close>: the hierarchy on disk, restarts and interrupted ceremonies.
  \<^item> \<open>Signer_Pool\<close>, \<open>Pool_Shutdown\<close>: the HSM and the pool, tied to its issuer, as the step relation \<open>pool_step\<close>;
    the issuer's answer is a function of the request, and sending it never waits, as each request has a
    buffered channel of its own. Its invariant by rule induction, its progress, and the measure by which it ends.
  \<^item> \<open>Crl\<close>, \<open>Ocsp\<close>, \<open>Audit_Log\<close>, \<open>Telemetry\<close>, \<open>Swagger\<close>, \<open>Est\<close> with \<open>Service_Properties\<close> and \<open>Est_Properties\<close>.
    The CRL generator's mutex is part of the state and an operation that waits for ever is None.
  \<^item> \<open>Acme_Nonce\<close>, \<open>Acme_Jws\<close>, \<open>Acme_Server\<close>, \<open>Acme_Challenge\<close>: nonces, signed requests, all handlers over one
    state \<open>world\<close> (server, store, entropy, response headers), the HTTP-01 validator. \<open>Acme_Safety\<close> has the
    invariant of the objects and what a request may change; \<open>Acme_Replay\<close> the life of a nonce;
    \<open>Acme_Identifiers\<close> the link from orders to authorizations; \<open>Acme_Properties\<close> the theorems.
  \<^item> \<open>Server_App\<close>, \<open>Server_Run\<close>, \<open>Server_Properties\<close>, \<open>Server_Main\<close>, \<open>Server_Restart\<close>: configuration, wiring, routing, start and
    stop, the invariant of a running server, the life of the process with its background tickers, and
    the properties that span components: final revocation, also across restarts, the frozen CRL, the report at shutdown.
  \<^item> \<open>Mtls_Pem\<close>, \<open>Mtls_Example\<close>, \<open>Mtls_Properties\<close>: the mutual TLS example with its own base-64 and PEM
    encoders and the certificate checks of a handshake.
  \<^item> \<open>Sample_Crypto\<close>, \<open>Sample_Acme\<close>: concrete environments for the witnesses.

  \<^bold>\<open>Loops and bounds.\<close> Loops are total functions: structural recursion, or \<open>function\<close> with a measure (base 64,
  PEM lines, hexadecimal text). The rejection loop of serials recurses on what is left
  of the byte source (a read that finds too little fails); the reservation loop takes one set of
  outcomes for each of its five attempts. No fuel is used. The pool, the reservation race and the CRL ticker, whose
  steps interleave, are relations or run over every event list.

  \<^bold>\<open>What the lemmas show.\<close> Each component theory proves its operations' invariants and their behaviour on
  each branch; the properties rest on these and on the interpretations. Some theorems state what the
  code does where that is not what it promises: the CRL refresh that locks itself out
  (\<open>crl_refresh_deadlock\<close>, \<open>served_crl_frozen\<close>), the audit log with a single event (\<open>main_report\<close>), challenges
  accepted unseen, ambiguous audit fields and an unprotected tail, mixed hierarchies, the unrouted OCSP
  GET, the loser of a reservation race.

  \<^bold>\<open>Not modelled.\<close> Log output, the JSON of the streamed audit records, TLS and HTTP framing, the SQL
  driver's own work (files, pragmas), and the data embedded in the program (the
  Swagger page, the OpenAPI document): none has a decision of the program in it. Concurrent requests
  are modelled one after the other, except where interleaving is the point (the pool, the reservation
  race, OCSP's two reads, the tickers); the handlers guard their maps by mutexes, but an ACME
  finalization releases its mutex while it signs, and two finalizations of one order that overlap
  there are outside the model.
\<close>

end
